(* ===== verification/Bridge_Prelude.thy ===== *)
theory Bridge_Prelude
  imports Main "HOL-Library.Finite_Map" "HOL-Library.Sublist"
begin

text \<open>
  What every component of the development shares: the types the Go code uses throughout
  (byte strings, instants, durations), finite maps read as Go maps with \<open>len\<close> and the
  delete-while-ranging loop, the contract of a framed byte stream, and the collections of
  simplification rules the components declare their facts into.

  A Go \<open>string\<close> or \<open>[]byte\<close> is a \<^typ>\<open>string\<close>, one \<^typ>\<open>char\<close> per byte, so \<open>length\<close>
  is Go's \<open>len\<close>.  A Go map is a finite map.  An instant and a duration are integers
  (nanoseconds); the code only adds lifetimes of minutes to days to the wall clock, far inside
  the 64-bit range of \<open>time.Duration\<close>.
\<close>

type_synonym instant = int
type_synonym duration = int

text \<open>\<open>time.Second\<close>\<close>

definition second :: duration where "second = 1000000000"

definition minute :: duration where "minute = 60 * 1000000000"

named_theorems go_map "how len and lookup of a Go map react to its updates"
named_theorems framing_simps "how the readers of a byte stream consume a written frame"

subsection \<open>Go maps\<close>

text \<open>\<open>len(m)\<close> of a Go map.\<close>

definition fmsize :: "('k, 'v) fmap \<Rightarrow> nat" where
  "fmsize m = fcard (fmdom m)"

text \<open>\<open>for k, v := range m { if p(k, v) { delete(m, k) } }\<close>\<close>

definition fmdelete_if :: "('k \<Rightarrow> 'v \<Rightarrow> bool) \<Rightarrow> ('k, 'v) fmap \<Rightarrow> ('k, 'v) fmap" where
  "fmdelete_if p m = fmfilter (\<lambda>k. \<not> (case fmlookup m k of None \<Rightarrow> False | Some v \<Rightarrow> p k v)) m"

lemma fmsize_empty [simp, go_map]: "fmsize fmempty = 0"
  by (simp add: fmsize_def)

lemma fmsize_upd [go_map]:
  "fmsize (fmupd k v m) = (if fmlookup m k = None then Suc (fmsize m) else fmsize m)"
proof (cases "k |\<in>| fmdom m")
  case True
  then have "finsert k (fmdom m) = fmdom m" by blast
  then show ?thesis using True by (auto simp: fmsize_def fmlookup_dom_iff)
next
  case False
  then show ?thesis by (auto simp: fmsize_def fcard_finsert_disjoint fmdom_notD)
qed

lemma fmsize_drop [go_map]:
  "fmsize (fmdrop k m) = (if fmlookup m k = None then fmsize m else fmsize m - 1)"
proof (cases "fmlookup m k")
  case None
  then have "fmdrop k m = m" by (intro fmap_ext) simp
  then show ?thesis using None by simp
next
  case (Some v)
  then have "k |\<in>| fmdom m" by (rule fmdomI)
  then show ?thesis using Some by (simp add: fmsize_def fcard_fminus_fsingleton)
qed

lemma fmsize_drop_le [simp]: "fmsize (fmdrop k m) \<le> fmsize m"
  by (simp add: fmsize_drop)

lemma fmsize_pos: "fmlookup m k = Some v \<Longrightarrow> 0 < fmsize m"
  unfolding fmsize_def by (metis fcard_0_eq fempty_iff fmdomI gr0I)

lemma fmlookup_delete_if [simp, go_map]:
  "fmlookup (fmdelete_if p m) k =
     (case fmlookup m k of None \<Rightarrow> None | Some v \<Rightarrow> if p k v then None else Some v)"
  by (auto simp: fmdelete_if_def split: option.splits)

lemma fmsize_delete_if_le [simp]: "fmsize (fmdelete_if p m) \<le> fmsize m"
  unfolding fmsize_def fmdelete_if_def by (auto intro!: fcard_mono)

lemma fmsize_le_subset: "fmdom m |\<subseteq>| fmdom m' \<Longrightarrow> fmsize m \<le> fmsize m'"
  unfolding fmsize_def by (rule fcard_mono)

lemma fmdrop_upd_same [simp, go_map]: "fmdrop k (fmupd k v m) = fmdrop k m"
  by (rule fmap_ext) simp

text \<open>An entry found after an update was written by it or was there before.\<close>

lemma fmupd_Some_cases:
  assumes "fmlookup (fmupd k v m) k' = Some v'"
  obtains (new) "k' = k" "v' = v" | (old) "k' \<noteq> k" "fmlookup m k' = Some v'"
  using assms by (auto split: if_splits)

lemma fmdrop_SomeD: "fmlookup (fmdrop k m) k' = Some v \<Longrightarrow> k' \<noteq> k \<and> fmlookup m k' = Some v"
  by (auto split: if_splits)

subsection \<open>Framed byte streams\<close>

text \<open>
  Every transport of the bridge writes messages as frames of a byte stream and reads them back
  one by one: newline-delimited JSON on the pipes of the subprocess, server-sent events over
  HTTP.  \<open>read_frames\<close> is the reader's loop, at most \<open>n\<close> frames.
\<close>

fun read_frames :: "(string \<Rightarrow> ('m \<times> string) option) \<Rightarrow> nat \<Rightarrow> string \<Rightarrow> 'm list \<times> string" where
  "read_frames dec 0 s = ([], s)"
| "read_frames dec (Suc n) s =
     (case dec s of None \<Rightarrow> ([], s)
      | Some (m, s') \<Rightarrow> (let (ms, s'') = read_frames dec n s' in (m # ms, s'')))"

text \<open>
  The contract of a transport: reading a written frame gives the message back and leaves
  exactly the bytes that follow it, for the messages \<open>ok\<close> the format can carry.
\<close>

locale framing =
  fixes enc :: "'m \<Rightarrow> string"
    and dec :: "string \<Rightarrow> ('m \<times> string) option"
    and ok :: "'m \<Rightarrow> bool"
  assumes dec_enc: "ok m \<Longrightarrow> dec (enc m @ rest) = Some (m, rest)"
begin

lemma frames_roundtrip:
  "list_all ok ms \<Longrightarrow> read_frames dec (length ms) (concat (map enc ms) @ rest) = (ms, rest)"
  by (induction ms) (simp_all add: dec_enc)

lemma enc_injective: "ok m \<Longrightarrow> ok m' \<Longrightarrow> enc m = enc m' \<Longrightarrow> m = m'"
  by (metis dec_enc option.inject prod.inject)

lemma frames_prefix:
  assumes "list_all ok (ms @ ms')"
  shows "read_frames dec (length ms) (concat (map enc (ms @ ms')) @ rest) =
    (ms, concat (map enc ms') @ rest)"
  using assms frames_roundtrip [of ms "concat (map enc ms') @ rest"] by simp

end

subsection \<open>Checks one after the other\<close>

text \<open>\<open>if err := check(); err != nil { return err }\<close>, a list of them: the first error there is.\<close>

fun first_error :: "'e option list \<Rightarrow> 'e option" where
  "first_error [] = None"
| "first_error (None # cs) = first_error cs"
| "first_error (Some e # cs) = Some e"

lemma first_error_None_iff [simp]: "first_error cs = None \<longleftrightarrow> list_all (\<lambda>c. c = None) cs"
  by (induction cs rule: first_error.induct) simp_all

abbreviation check :: "bool \<Rightarrow> 'e \<Rightarrow> 'e option" where
  "check bad e \<equiv> (if bad then Some e else None)"

subsection \<open>Lists\<close>

lemma list_all_map_iff [simp]: "list_all p (map f xs) = list_all (\<lambda>x. p (f x)) xs"
  by (induction xs) simp_all

lemma filter_append_single: "filter p (xs @ [x]) = filter p xs @ (if p x then [x] else [])"
  by simp

end
