(* ===== verification/Go_Strings.thy ===== *)
theory Go_Strings
  imports Bridge_Prelude
begin

text \<open>
  The functions of Go's \<open>strings\<close>, \<open>bytes\<close> and \<open>strconv\<close> packages that the bridge calls, on
  byte strings, with the lemmas the components use.
\<close>

abbreviation LF :: char where "LF \<equiv> CHR 0x0A"
abbreviation CR :: char where "CR \<equiv> CHR 0x0D"

subsection \<open>Prefixes and suffixes\<close>

text \<open>\<open>strings.HasPrefix\<close>, \<open>strings.HasSuffix\<close>, \<open>strings.TrimSuffix\<close>, \<open>strings.TrimPrefix\<close>\<close>

definition has_prefix :: "string \<Rightarrow> string \<Rightarrow> bool" where
  "has_prefix s p \<longleftrightarrow> take (length p) s = p"

definition has_suffix :: "string \<Rightarrow> string \<Rightarrow> bool" where
  "has_suffix s p \<longleftrightarrow> length p \<le> length s \<and> drop (length s - length p) s = p"

definition trim_suffix :: "string \<Rightarrow> string \<Rightarrow> string" where
  "trim_suffix s p = (if has_suffix s p then take (length s - length p) s else s)"

lemma has_suffix_append [simp]: "has_suffix (s @ p) p"
  by (simp add: has_suffix_def)

lemma trim_suffix_append [simp]: "trim_suffix (s @ p) p = s"
  by (simp add: trim_suffix_def)

lemma has_prefix_append [simp]: "has_prefix (p @ s) p"
  by (simp add: has_prefix_def)

lemma has_suffix_single: "has_suffix s [c] \<longleftrightarrow> s \<noteq> [] \<and> last s = c"
proof (cases s rule: rev_cases)
  case Nil
  then show ?thesis by (simp add: has_suffix_def)
next
  case (snoc ys y)
  then show ?thesis by (simp add: has_suffix_def)
qed

lemma trim_suffix_single:
  "trim_suffix s [c] = (if s \<noteq> [] \<and> last s = c then butlast s else s)"
  by (simp add: trim_suffix_def has_suffix_single butlast_conv_take)

subsection \<open>Splitting and joining\<close>

text \<open>\<open>strings.Split(s, c)\<close> for a one-byte separator: always at least one piece.\<close>

fun split_on :: "char \<Rightarrow> string \<Rightarrow> string list" where
  "split_on c [] = [[]]"
| "split_on c (x # xs) =
     (if x = c then [] # split_on c xs
      else case split_on c xs of [] \<Rightarrow> [[x]] | p # ps \<Rightarrow> (x # p) # ps)"

text \<open>\<open>strings.Join(parts, sep)\<close>\<close>

fun join_with :: "string \<Rightarrow> string list \<Rightarrow> string" where
  "join_with sep [] = []"
| "join_with sep [p] = p"
| "join_with sep (p # q # ps) = p @ sep @ join_with sep (q # ps)"

lemma split_on_not_Nil [simp]: "split_on c s \<noteq> []"
  by (induction s) (auto split: list.splits)

lemma join_with_Cons: "ps \<noteq> [] \<Longrightarrow> join_with sep (p # ps) = p @ sep @ join_with sep ps"
  by (cases ps) simp_all

lemma join_split [simp]: "join_with [c] (split_on c s) = s"
proof (induction s)
  case Nil
  then show ?case by simp
next
  case (Cons x xs)
  obtain p ps where ps: "split_on c xs = p # ps" by (cases "split_on c xs") simp_all
  then show ?case using Cons by (cases ps) auto
qed

lemma split_on_pieces: "l \<in> set (split_on c s) \<Longrightarrow> c \<notin> set l"
proof (induction s arbitrary: l)
  case Nil
  then show ?case by simp
next
  case (Cons x xs)
  then show ?case by (cases "split_on c xs") (auto split: if_splits)
qed

lemma split_on_no_sep: "c \<notin> set s \<Longrightarrow> split_on c s = [s]"
  by (induction s) auto

lemma split_on_append_sep: "c \<notin> set p \<Longrightarrow> split_on c (p @ c # s) = p # split_on c s"
  by (induction p) auto

lemma split_join:
  "ps \<noteq> [] \<Longrightarrow> list_all (\<lambda>p. c \<notin> set p) ps \<Longrightarrow> split_on c (join_with [c] ps) = ps"
proof (induction ps rule: list_nonempty_induct)
  case (single p)
  then show ?case by (simp add: split_on_no_sep)
next
  case (cons p ps)
  then show ?case by (simp add: join_with_Cons split_on_append_sep)
qed

lemma length_split_on: "length (split_on c s) = Suc (count_list s c)"
proof (induction s)
  case Nil
  then show ?case by simp
next
  case (Cons x xs)
  then show ?case by (cases "split_on c xs") auto
qed

text \<open>Each piece followed by the separator: the joined text and one trailing separator.\<close>

lemma concat_terminated:
  "ps \<noteq> [] \<Longrightarrow> concat (map (\<lambda>p. p @ [c]) ps) = join_with [c] ps @ [c]"
  by (induction ps rule: list_nonempty_induct) (simp_all add: join_with_Cons)

subsection \<open>Reading a line\<close>

text \<open>
  \<open>bufio.Reader.ReadBytes\<close> for the newline, on the bytes still to come: the line with its
  terminator and the rest, or \<open>None\<close> when the input ends before a newline.
\<close>

fun cut_line :: "string \<Rightarrow> (string \<times> string) option" where
  "cut_line [] = None"
| "cut_line (x # xs) =
     (if x = LF then Some ([LF], xs)
      else map_option (\<lambda>(l, r). (x # l, r)) (cut_line xs))"

lemma cut_line_append [simp]: "LF \<notin> set l \<Longrightarrow> cut_line (l @ LF # rest) = Some (l @ [LF], rest)"
  by (induction l) auto

lemma cut_line_none: "cut_line s = None \<longleftrightarrow> LF \<notin> set s"
  by (induction s) auto

lemma cut_line_Some:
  "cut_line s = Some (l, r) \<Longrightarrow> \<exists>l'. l = l' @ [LF] \<and> LF \<notin> set l' \<and> s = l @ r"
proof (induction s arbitrary: l)
  case Nil
  then show ?case by simp
next
  case (Cons x xs)
  show ?case
  proof (cases "x = LF")
    case True
    then show ?thesis using Cons.prems by auto
  next
    case False
    then obtain l1 where "cut_line xs = Some (l1, r)" and "l = x # l1"
      using Cons.prems by auto
    with Cons.IH [of l1] False show ?thesis by (metis append_Cons set_ConsD)
  qed
qed

lemma cut_line_shorter: "cut_line s = Some (l, r) \<Longrightarrow> length r < length s"
  by (auto dest!: cut_line_Some)

subsection \<open>Decimal numbers\<close>

text \<open>\<open>%d\<close> of \<open>fmt.Sprintf\<close>.\<close>

definition digit_char :: "nat \<Rightarrow> char" where
  "digit_char d = char_of (48 + d)"

fun show_nat :: "nat \<Rightarrow> string" where
  "show_nat n = (if n < 10 then [digit_char n] else show_nat (n div 10) @ [digit_char (n mod 10)])"

declare show_nat.simps [simp del]

definition show_int :: "int \<Rightarrow> string" where
  "show_int i = (if i < 0 then CHR ''-'' # show_nat (nat (- i)) else show_nat (nat i))"

definition digit_val :: "char \<Rightarrow> nat" where
  "digit_val c = of_char c - 48"

definition read_nat :: "string \<Rightarrow> nat" where
  "read_nat s = foldl (\<lambda>n c. 10 * n + digit_val c) 0 s"

lemma digit_val_char [simp]: "d < 10 \<Longrightarrow> digit_val (digit_char d) = d"
  by (simp add: digit_val_def digit_char_def of_char_of)

lemma read_show_nat [simp]: "read_nat (show_nat n) = n"
proof (induction n rule: show_nat.induct)
  case (1 n)
  then show ?case
    by (cases "n < 10") (simp_all add: show_nat.simps [of n] read_nat_def)
qed

lemma show_nat_inject [simp]: "show_nat m = show_nat n \<longleftrightarrow> m = n"
  by (metis read_show_nat)

lemma show_nat_not_Nil [simp]: "show_nat n \<noteq> []"
  by (subst show_nat.simps) simp

lemma set_show_nat: "c \<in> set (show_nat n) \<Longrightarrow> 48 \<le> (of_char c :: nat) \<and> of_char c < (58 :: nat)"
proof (induction n rule: show_nat.induct)
  case (1 n)
  then show ?case
    by (cases "n < 10") (auto simp: show_nat.simps [of n] digit_char_def)
qed

lemma minus_not_in_show_nat: "CHR ''-'' \<notin> set (show_nat n)"
  using set_show_nat [of "CHR ''-''" n] by auto

lemma LF_not_in_show_nat: "LF \<notin> set (show_nat n)"
  using set_show_nat [of LF n] by auto

lemma last_show_nat: "last (show_nat n) \<noteq> CR"
proof
  assume "last (show_nat n) = CR"
  then have "CR \<in> set (show_nat n)" by (metis last_in_set show_nat_not_Nil)
  then show False using set_show_nat [of CR n] by auto
qed

lemma hd_show_nat: "hd (show_nat n) \<noteq> CHR ''-''"
  using minus_not_in_show_nat [of n] by (metis hd_in_set show_nat_not_Nil)

lemma show_int_inject [simp]: "show_int i = show_int j \<longleftrightarrow> i = j"
proof -
  have "show_nat (nat k) \<noteq> CHR ''-'' # cs" for k cs
    using hd_show_nat [of "nat k"] by auto
  moreover have "CHR ''-'' # cs \<noteq> show_nat (nat k)" for k cs
    using hd_show_nat [of "nat k"] by (metis list.sel(1))
  ultimately show ?thesis by (auto simp: show_int_def)
qed

subsection \<open>White space\<close>

text \<open>
  The UTF-8 encodings of the code points \<open>unicode.IsSpace\<close> accepts.  No encoding is a prefix of
  another and a continuation byte starts none, so looking for them byte by byte finds exactly
  the runes Go's decoder finds.
\<close>

definition unicode_spaces :: "string list" where
  "unicode_spaces =
     [[CHR 0x09], [CHR 0x0A], [CHR 0x0B], [CHR 0x0C], [CHR 0x0D], [CHR 0x20],
      [CHR 0xC2, CHR 0x85], [CHR 0xC2, CHR 0xA0], [CHR 0xE1, CHR 0x9A, CHR 0x80],
      [CHR 0xE2, CHR 0x80, CHR 0x80], [CHR 0xE2, CHR 0x80, CHR 0x81],
      [CHR 0xE2, CHR 0x80, CHR 0x82], [CHR 0xE2, CHR 0x80, CHR 0x83],
      [CHR 0xE2, CHR 0x80, CHR 0x84], [CHR 0xE2, CHR 0x80, CHR 0x85],
      [CHR 0xE2, CHR 0x80, CHR 0x86], [CHR 0xE2, CHR 0x80, CHR 0x87],
      [CHR 0xE2, CHR 0x80, CHR 0x88], [CHR 0xE2, CHR 0x80, CHR 0x89],
      [CHR 0xE2, CHR 0x80, CHR 0x8A], [CHR 0xE2, CHR 0x80, CHR 0xA8],
      [CHR 0xE2, CHR 0x80, CHR 0xA9], [CHR 0xE2, CHR 0x80, CHR 0xAF],
      [CHR 0xE2, CHR 0x81, CHR 0x9F], [CHR 0xE3, CHR 0x80, CHR 0x80]]"

definition lead_space :: "string \<Rightarrow> string option" where
  "lead_space s = find (has_prefix s) unicode_spaces"

definition trail_space :: "string \<Rightarrow> string option" where
  "trail_space s = find (has_suffix s) unicode_spaces"

lemma unicode_spaces_nonempty: "w \<in> set unicode_spaces \<Longrightarrow> w \<noteq> []"
  by (auto simp: unicode_spaces_def)

lemma lead_space_shorter: "lead_space s = Some w \<Longrightarrow> length (drop (length w) s) < length s"
proof -
  assume "lead_space s = Some w"
  then have "has_prefix s w" and "w \<noteq> []"
    by (auto simp: lead_space_def find_Some_iff dest: unicode_spaces_nonempty nth_mem)
  then show ?thesis by (cases s) (auto simp: has_prefix_def)
qed

lemma trail_space_shorter: "trail_space s = Some w \<Longrightarrow> length s - length w < length s"
proof -
  assume "trail_space s = Some w"
  then have "has_suffix s w" and "w \<noteq> []"
    by (auto simp: trail_space_def find_Some_iff dest: unicode_spaces_nonempty nth_mem)
  then show ?thesis by (cases s) (auto simp: has_suffix_def)
qed

text \<open>\<open>strings.TrimSpace\<close> and \<open>bytes.TrimSpace\<close>\<close>

function trim_left :: "string \<Rightarrow> string" where
  "trim_left s = (case lead_space s of None \<Rightarrow> s | Some w \<Rightarrow> trim_left (drop (length w) s))"
  by pat_completeness auto
termination
  by (relation "measure length") (auto dest: lead_space_shorter)

function trim_right :: "string \<Rightarrow> string" where
  "trim_right s =
     (case trail_space s of None \<Rightarrow> s | Some w \<Rightarrow> trim_right (take (length s - length w) s))"
  by pat_completeness auto
termination
  by (relation "measure length") (auto dest: trail_space_shorter simp: min_def)

declare trim_left.simps [simp del] trim_right.simps [simp del]

definition trim_space :: "string \<Rightarrow> string" where
  "trim_space s = trim_right (trim_left s)"

text \<open>\<open>strings.Fields\<close>: the maximal runs without white space.\<close>

function fields_from :: "string \<Rightarrow> string \<Rightarrow> string list" where
  "fields_from acc s =
     (case s of
        [] \<Rightarrow> (if acc = [] then [] else [acc])
      | x # xs \<Rightarrow>
         (case lead_space s of
            None \<Rightarrow> fields_from (acc @ [x]) xs
          | Some w \<Rightarrow> (if acc = [] then [] else [acc]) @ fields_from [] (drop (length w) s)))"
  by pat_completeness auto
termination
  by (relation "measure (\<lambda>(acc, s). length s)") (auto dest: lead_space_shorter)

declare fields_from.simps [simp del]

definition fields :: "string \<Rightarrow> string list" where
  "fields s = fields_from [] s"

text \<open>A visible ASCII character starts no space, and none ends with it.\<close>

definition visible :: "char \<Rightarrow> bool" where
  "visible c \<longleftrightarrow> 0x21 \<le> (of_char c :: nat) \<and> (of_char c :: nat) \<le> 0x7E"

lemma visible_not_space: "w \<in> set unicode_spaces \<Longrightarrow> \<not> visible (hd w) \<and> \<not> visible (last w)"
  by (auto simp: unicode_spaces_def visible_def)

lemma lead_space_visible: "visible c \<Longrightarrow> lead_space (c # s) = None"
proof -
  assume c: "visible c"
  have "\<not> has_prefix (c # s) w" if "w \<in> set unicode_spaces" for w
    using visible_not_space [OF that] unicode_spaces_nonempty [OF that] c
    by (cases w) (auto simp: has_prefix_def)
  then show ?thesis by (simp add: lead_space_def find_None_iff)
qed

lemma trail_space_visible: "visible c \<Longrightarrow> trail_space (s @ [c]) = None"
proof -
  assume c: "visible c"
  have "\<not> has_suffix (s @ [c]) w" if "w \<in> set unicode_spaces" for w
    using visible_not_space [OF that] unicode_spaces_nonempty [OF that] c
    by (cases w rule: rev_cases) (auto simp: has_suffix_def)
  then show ?thesis by (simp add: trail_space_def find_None_iff)
qed

lemma lead_space_blank: "lead_space (CHR '' '' # s) = Some [CHR '' '']"
  by (simp add: lead_space_def unicode_spaces_def has_prefix_def)

lemma lead_space_Nil: "lead_space [] = None"
  by (simp add: lead_space_def unicode_spaces_def has_prefix_def)

lemma trim_space_Nil [simp]: "trim_space [] = []"
  by (simp add: trim_space_def trim_left.simps [of "[]"] lead_space_Nil trim_right.simps [of "[]"]
      trail_space_def unicode_spaces_def has_suffix_def)

text \<open>Text that starts and ends with a visible character is what trimming keeps.\<close>

lemma trim_space_visible:
  assumes "s \<noteq> []" and "visible (hd s)" and "visible (last s)"
  shows "trim_space s = s" and "trim_space (s @ [LF]) = s"
proof -
  have l: "trim_left (s @ t) = s @ t" for t
    using assms by (cases s) (simp_all add: trim_left.simps lead_space_visible)
  have r: "trim_right s = s"
    using assms by (cases s rule: rev_cases) (simp_all add: trim_right.simps trail_space_visible)
  show "trim_space s = s" using l [of "[]"] r by (simp add: trim_space_def)
  have "trail_space (s @ [LF]) = Some [LF]"
    by (simp add: trail_space_def unicode_spaces_def has_suffix_def)
  then show "trim_space (s @ [LF]) = s"
    using l [of "[LF]"] r by (simp add: trim_space_def trim_right.simps [of "s @ [LF]"])
qed

lemma fields_from_word:
  "list_all visible w \<Longrightarrow> fields_from acc (w @ s) = fields_from (acc @ w) s"
  by (induction w arbitrary: acc)
     (simp_all add: fields_from.simps [of _ "_ # _"] lead_space_visible)

text \<open>Joining words of visible characters by blanks and taking the fields gives them back.\<close>

lemma fields_join:
  "list_all (\<lambda>w. w \<noteq> [] \<and> list_all visible w) ws \<Longrightarrow> fields (join_with '' '' ws) = ws"
proof -
  have end_of: "fields_from acc [] = (if acc = [] then [] else [acc])" for acc
    by (simp add: fields_from.simps)
  have blank: "fields_from acc (CHR '' '' # s) = (if acc = [] then [] else [acc]) @ fields_from [] s"
    for acc s by (simp add: fields_from.simps [of acc "_ # _"] lead_space_blank)
  assume "list_all (\<lambda>w. w \<noteq> [] \<and> list_all visible w) ws"
  then have "fields_from [] (join_with '' '' ws) = ws"
  proof (induction ws)
    case Nil
    then show ?case by (simp add: end_of)
  next
    case (Cons w ws)
    then show ?case
      using fields_from_word [of w "[]" "[]"] fields_from_word [of w "[]" "'' '' @ join_with '' '' ws"]
      by (cases "ws = []") (simp_all add: join_with_Cons end_of blank)
  qed
  then show ?thesis by (simp add: fields_def)
qed

text \<open>\<open>strings.ToLower\<close> on ASCII letters; other bytes are kept.\<close>

definition lower_char :: "char \<Rightarrow> char" where
  "lower_char c = (let n = (of_char c :: nat) in if 65 \<le> n \<and> n \<le> 90 then char_of (n + 32) else c)"

definition to_lower :: "string \<Rightarrow> string" where
  "to_lower s = map lower_char s"

text \<open>\<open>strings.Contains\<close>\<close>

fun contains :: "string \<Rightarrow> string \<Rightarrow> bool" where
  "contains [] p = (p = [])"
| "contains (c # s) p = (has_prefix (c # s) p \<or> contains s p)"

text \<open>\<open>strings.TrimPrefix\<close>\<close>

definition trim_prefix :: "string \<Rightarrow> string \<Rightarrow> string" where
  "trim_prefix s p = (if has_prefix s p then drop (length p) s else s)"

end
