(* ===== verification/Sse_Stream.thy ===== *)
theory Sse_Stream
  imports Go_Strings
begin

text \<open>
  Server-sent events: the writer of \<open>internal/server/sse.go\<close> (the server puts a message on an
  HTTP response) and the reader of \<open>internal/client/sse_reader.go\<close> (the client takes it off).
  The theorems say the reader recovers what the writer wrote, event by event, and where it does
  not.
\<close>

section \<open>The writer\<close>

datatype sse_write_error = SSEWriterClosed | SSEWriteFailed

text \<open>
  \<open>SSEWriter\<close>: \<open>sw_out\<close> is what the response has received, \<open>sw_flushed\<close> how much of it has been
  flushed to the client.  The flusher is always set: the handlers refuse a response writer that
  is no \<open>http.Flusher\<close>.
\<close>

record sse_writer =
  sw_closed :: bool
  sw_out :: string
  sw_flushed :: nat

definition NewSSEWriter :: sse_writer where
  "NewSSEWriter = \<lparr>sw_closed = False, sw_out = [], sw_flushed = 0\<rparr>"

text \<open>\<open>SSEEvent\<close> of the server package: \<open>Retry\<close> in milliseconds, 0 to leave it out.\<close>

record sse_out_event =
  oe_ID :: string
  oe_Event :: string
  oe_Data :: string
  oe_Retry :: int

definition event_lines :: "string \<Rightarrow> string" where
  "event_lines event = (if event \<noteq> [] then ''event: '' @ event @ [LF] else [])"

definition id_lines :: "string \<Rightarrow> string" where
  "id_lines i = (if i \<noteq> [] then ''id: '' @ i @ [LF] else [])"

definition retry_lines :: "int \<Rightarrow> string" where
  "retry_lines n = (if n > 0 then ''retry: '' @ show_int n @ [LF] else [])"

text \<open>The data is split at newlines, each line a \<open>data:\<close> field of its own.\<close>

definition data_lines :: "string \<Rightarrow> string" where
  "data_lines data =
     (if data \<noteq> []
      then concat (map (\<lambda>line. ''data: '' @ line @ [LF]) (split_on LF data))
      else ''data: '' @ [LF])"

text \<open>
  \<open>fmt.Fprint(s.w, ...)\<close> followed by the flush.  The environment decides how the write goes:
  \<open>None\<close>, all bytes are taken, or \<open>Some n\<close>, it fails after \<open>n\<close> bytes (and nothing is flushed).
\<close>

definition put_response ::
  "nat option \<Rightarrow> string \<Rightarrow> sse_writer \<Rightarrow> (sse_write_error + unit) \<times> sse_writer" where
  "put_response wr bytes w =
     (case wr of
        Some n \<Rightarrow> (Inl SSEWriteFailed, w\<lparr>sw_out := sw_out w @ take n bytes\<rparr>)
      | None \<Rightarrow>
          let out = sw_out w @ bytes
          in (Inr (), w\<lparr>sw_out := out, sw_flushed := length out\<rparr>))"

definition WriteEvent ::
  "nat option \<Rightarrow> string \<Rightarrow> string \<Rightarrow> sse_writer \<Rightarrow> (sse_write_error + unit) \<times> sse_writer" where
  "WriteEvent wr event data w =
     (if sw_closed w then (Inl SSEWriterClosed, w)
      else put_response wr (event_lines event @ data_lines data @ [LF]) w)"

definition sse_WriteMessage ::
  "nat option \<Rightarrow> string \<Rightarrow> sse_writer \<Rightarrow> (sse_write_error + unit) \<times> sse_writer" where
  "sse_WriteMessage wr msg = WriteEvent wr ''message'' msg"

definition WriteData ::
  "nat option \<Rightarrow> string \<Rightarrow> sse_writer \<Rightarrow> (sse_write_error + unit) \<times> sse_writer" where
  "WriteData wr data = WriteEvent wr [] data"

definition WriteEventWithID ::
  "nat option \<Rightarrow> string \<Rightarrow> string \<Rightarrow> string \<Rightarrow> sse_writer \<Rightarrow>
   (sse_write_error + unit) \<times> sse_writer" where
  "WriteEventWithID wr i event data w =
     (if sw_closed w then (Inl SSEWriterClosed, w)
      else put_response wr (id_lines i @ event_lines event @ data_lines data @ [LF]) w)"

definition WriteRetry ::
  "nat option \<Rightarrow> int \<Rightarrow> sse_writer \<Rightarrow> (sse_write_error + unit) \<times> sse_writer" where
  "WriteRetry wr ms w =
     (if sw_closed w then (Inl SSEWriterClosed, w)
      else put_response wr (''retry: '' @ show_int ms @ [LF, LF]) w)"

definition WriteComment ::
  "nat option \<Rightarrow> string \<Rightarrow> sse_writer \<Rightarrow> (sse_write_error + unit) \<times> sse_writer" where
  "WriteComment wr comment w =
     (if sw_closed w then (Inl SSEWriterClosed, w)
      else put_response wr ('': '' @ comment @ [LF, LF]) w)"

definition sse_writer_Close :: "sse_writer \<Rightarrow> sse_writer" where
  "sse_writer_Close w = w\<lparr>sw_closed := True\<rparr>"

definition encode_event :: "sse_out_event \<Rightarrow> string" where
  "encode_event e =
     id_lines (oe_ID e) @ event_lines (oe_Event e) @ retry_lines (oe_Retry e) @
     data_lines (oe_Data e) @ [LF]"

definition WriteSSEEvent ::
  "nat option \<Rightarrow> sse_out_event \<Rightarrow> sse_writer \<Rightarrow> (sse_write_error + unit) \<times> sse_writer" where
  "WriteSSEEvent wr e w =
     (if sw_closed w then (Inl SSEWriterClosed, w) else put_response wr (encode_event e) w)"

section \<open>The reader\<close>

datatype sse_read_error = ErrSSEReaderClosed | SSE_EOF | SSEReadFailed

text \<open>
  \<open>SSEReader\<close> over the bytes still to come: \<open>sr_end\<close> is the error the body returns once they
  are used up (\<open>SSE_EOF\<close> for a closed response).
\<close>

record sse_reader =
  sr_input :: string
  sr_end :: sse_read_error
  sr_lastEventID :: string
  sr_closed :: bool

definition NewSSEReader :: "string \<Rightarrow> sse_read_error \<Rightarrow> sse_reader" where
  "NewSSEReader body e =
     \<lparr>sr_input = body, sr_end = e, sr_lastEventID = [], sr_closed = False\<rparr>"

text \<open>\<open>parseSSELine\<close>: the field up to the first colon, one leading space of the value dropped.\<close>

fun cut_colon :: "string \<Rightarrow> (string \<times> string) option" where
  "cut_colon [] = None"
| "cut_colon (x # xs) =
     (if x = CHR '':'' then Some ([], xs)
      else map_option (\<lambda>(f, v). (x # f, v)) (cut_colon xs))"

definition parseSSELine :: "string \<Rightarrow> string \<times> string" where
  "parseSSELine line =
     (case cut_colon line of
        None \<Rightarrow> (line, [])
      | Some (field, value) \<Rightarrow>
          (field, case value of [] \<Rightarrow> [] | v # vs \<Rightarrow> if v = CHR '' '' then vs else value))"

text \<open>
  The body of the loop of \<open>ReadEvent\<close> for one line without its terminator, on the event type,
  the data buffer and the last event ID collected so far.
\<close>

definition sse_line :: "string \<Rightarrow> string \<Rightarrow> string \<Rightarrow> string \<Rightarrow> string \<times> string \<times> string" where
  "sse_line line ev buf lastid =
     (if has_prefix line '':'' then (ev, buf, lastid)
      else let (field, value) = parseSSELine line in
        if field = ''event'' then (value, buf, lastid)
        else if field = ''data'' then (ev, buf @ value @ [LF], lastid)
        else if field = ''id'' then (ev, buf, value)
        else (ev, buf, lastid))"

text \<open>
  The loop of \<open>ReadEvent\<close>: the result, the bytes left and the last event ID.  Bytes after the
  last newline are returned with the end of the input and dropped.
\<close>

function read_event_loop ::
  "sse_read_error \<Rightarrow> string \<Rightarrow> string \<Rightarrow> string \<Rightarrow> string \<Rightarrow>
   (sse_read_error + string \<times> string) \<times> string \<times> string" where
  "read_event_loop e ev buf lastid s =
     (case cut_line s of
        None \<Rightarrow>
          if e = SSE_EOF \<and> buf \<noteq> [] then (Inr (ev, trim_suffix buf [LF]), [], lastid)
          else (Inl e, [], lastid)
      | Some (raw, rest) \<Rightarrow>
          let line = trim_suffix (trim_suffix raw [LF]) [CR] in
          if line = [] then
            if buf \<noteq> [] then (Inr (ev, trim_suffix buf [LF]), rest, lastid)
            else read_event_loop e ev buf lastid rest
          else
            let (ev', buf', lastid') = sse_line line ev buf lastid
            in read_event_loop e ev' buf' lastid' rest)"
  by pat_completeness auto
termination
  by (relation "measure (\<lambda>(e, ev, buf, lastid, s). length s)") (auto dest: cut_line_shorter)

declare read_event_loop.simps [simp del]

definition ReadEvent ::
  "sse_reader \<Rightarrow> (sse_read_error + string \<times> string) \<times> sse_reader" where
  "ReadEvent r =
     (if sr_closed r then (Inl ErrSSEReaderClosed, r)
      else let (res, rest, lastid) = read_event_loop (sr_end r) [] [] (sr_lastEventID r) (sr_input r)
           in (res, r\<lparr>sr_input := rest, sr_lastEventID := lastid\<rparr>))"

definition LastEventID :: "sse_reader \<Rightarrow> string" where
  "LastEventID r = sr_lastEventID r"

definition sse_reader_Close :: "sse_reader \<Rightarrow> sse_reader" where
  "sse_reader_Close r = r\<lparr>sr_closed := True\<rparr>"

text \<open>Reading uses input up: an event is taken off the front of what is left.\<close>

lemma read_event_loop_consumes:
  "read_event_loop e ev buf lastid s = (Inr x, rest, lastid') \<Longrightarrow>
   length rest \<le> length s \<and> (buf = [] \<longrightarrow> length rest < length s)"
proof (induction e ev buf lastid s rule: read_event_loop.induct)
  case (1 e ev buf lastid s)
  show ?case
  proof (cases "cut_line s")
    case None
    then show ?thesis using "1.prems" by (auto simp: read_event_loop.simps [of e ev buf lastid s] split: if_splits)
  next
    case (Some lr)
    obtain raw r where lr: "lr = (raw, r)" by (cases lr)
    let ?line = "trim_suffix (trim_suffix raw [LF]) [CR]"
    obtain ev' buf' id' where sl: "sse_line ?line ev buf lastid = (ev', buf', id')"
      by (cases "sse_line ?line ev buf lastid")
    have short: "length r < length s" using Some lr cut_line_shorter by blast
    show ?thesis
    proof (cases "?line = []")
      case True
      show ?thesis
      proof (cases "buf = []")
        case buf: True
        then have "read_event_loop e ev buf lastid r = (Inr x, rest, lastid')"
          using "1.prems" Some lr True by (simp add: read_event_loop.simps [of e ev "[]" lastid s])
        then show ?thesis
          using "1.IH"(1) [OF Some lr [symmetric] refl True] buf short by simp
      next
        case False
        then show ?thesis
          using "1.prems" Some lr True short
          by (simp add: read_event_loop.simps [of e ev buf lastid s])
      qed
    next
      case False
      then have "read_event_loop e ev' buf' id' r = (Inr x, rest, lastid')"
        using "1.prems" Some lr sl by (simp add: read_event_loop.simps [of e ev buf lastid s])
      then show ?thesis
        using "1.IH"(2) [OF Some lr [symmetric] refl False sl [symmetric] refl] short by simp
    qed
  qed
qed

lemma ReadEvent_consumes:
  "ReadEvent r = (Inr x, r') \<Longrightarrow> length (sr_input r') < length (sr_input r)"
  by (auto simp: ReadEvent_def split: if_splits prod.splits dest: read_event_loop_consumes)

text \<open>\<open>ReadMessage\<close>: skip to the next event that is a message (the empty type is one).\<close>

function sse_ReadMessage :: "sse_reader \<Rightarrow> (sse_read_error + string) \<times> sse_reader" where
  "sse_ReadMessage r =
     (case ReadEvent r of
        (Inl err, r') \<Rightarrow> (Inl err, r')
      | (Inr (event, data), r') \<Rightarrow>
          if event = [] \<or> event = ''message'' then (Inr data, r') else sse_ReadMessage r')"
  by pat_completeness auto
termination
  by (relation "measure (\<lambda>r. length (sr_input r))")
     (auto dest!: ReadEvent_consumes [OF sym] ReadEvent_consumes)

declare sse_ReadMessage.simps [simp del]

lemma sse_ReadMessage_consumes:
  "sse_ReadMessage r = (Inr x, r') \<Longrightarrow> length (sr_input r') < length (sr_input r)"
proof (induction r rule: sse_ReadMessage.induct)
  case (1 r)
  then show ?case
    by (fastforce simp: sse_ReadMessage.simps [of r] split: prod.splits sum.splits if_splits
        dest!: ReadEvent_consumes intro: less_trans)
qed

text \<open>\<open>ReadEvents\<close>: every event until the reader fails, each with the last event ID.\<close>

record sse_in_event =
  ie_Event :: string
  ie_Data :: string
  ie_ID :: string

function ReadEvents :: "sse_reader \<Rightarrow> sse_in_event list" where
  "ReadEvents r =
     (case ReadEvent r of
        (Inl err, r') \<Rightarrow> []
      | (Inr (event, data), r') \<Rightarrow>
          \<lparr>ie_Event = event, ie_Data = data, ie_ID = sr_lastEventID r'\<rparr> # ReadEvents r')"
  by pat_completeness auto
termination
  by (relation "measure (\<lambda>r. length (sr_input r))")
     (auto dest!: ReadEvent_consumes [OF sym] ReadEvent_consumes)

declare ReadEvents.simps [simp del]

subsection \<open>The buffered reader\<close>

text \<open>\<open>BufferedSSEReader\<close>: a reader with events put back in front of it.\<close>

record buffered_reader =
  br_reader :: sse_reader
  br_buffer :: "sse_in_event list"

definition NewBufferedSSEReader :: "string \<Rightarrow> sse_read_error \<Rightarrow> buffered_reader" where
  "NewBufferedSSEReader body e = \<lparr>br_reader = NewSSEReader body e, br_buffer = []\<rparr>"

definition read_in_event :: "sse_reader \<Rightarrow> (sse_read_error + sse_in_event) \<times> sse_reader" where
  "read_in_event r =
     (case ReadEvent r of
        (Inl err, r') \<Rightarrow> (Inl err, r')
      | (Inr (event, data), r') \<Rightarrow>
          (Inr \<lparr>ie_Event = event, ie_Data = data, ie_ID = sr_lastEventID r'\<rparr>, r'))"

definition PeekEvent ::
  "buffered_reader \<Rightarrow> (sse_read_error + sse_in_event) \<times> buffered_reader" where
  "PeekEvent b =
     (case br_buffer b of
        evt # _ \<Rightarrow> (Inr evt, b)
      | [] \<Rightarrow>
         (case read_in_event (br_reader b) of
            (Inl err, r') \<Rightarrow> (Inl err, b\<lparr>br_reader := r'\<rparr>)
          | (Inr evt, r') \<Rightarrow> (Inr evt, b\<lparr>br_reader := r', br_buffer := br_buffer b @ [evt]\<rparr>)))"

definition NextEvent ::
  "buffered_reader \<Rightarrow> (sse_read_error + sse_in_event) \<times> buffered_reader" where
  "NextEvent b =
     (case br_buffer b of
        evt # evts \<Rightarrow> (Inr evt, b\<lparr>br_buffer := evts\<rparr>)
      | [] \<Rightarrow> (case read_in_event (br_reader b) of (res, r') \<Rightarrow> (res, b\<lparr>br_reader := r'\<rparr>)))"

definition UnreadEvent :: "sse_in_event \<Rightarrow> buffered_reader \<Rightarrow> buffered_reader" where
  "UnreadEvent evt b = b\<lparr>br_buffer := evt # br_buffer b\<rparr>"

definition DrainBuffer :: "buffered_reader \<Rightarrow> sse_in_event list \<times> buffered_reader" where
  "DrainBuffer b = (br_buffer b, b\<lparr>br_buffer := []\<rparr>)"

section \<open>What is written is read\<close>

text \<open>
  What a field and what the data can carry: no newline inside a field, and no line that ends
  with a carriage return, which the reader takes for part of the line's end.
\<close>

definition field_ok :: "string \<Rightarrow> bool" where
  "field_ok f \<longleftrightarrow> LF \<notin> set f \<and> (f = [] \<or> last f \<noteq> CR)"

definition data_ok :: "string \<Rightarrow> bool" where
  "data_ok d \<longleftrightarrow> list_all (\<lambda>l. l = [] \<or> last l \<noteq> CR) (split_on LF d)"

definition out_event_ok :: "sse_out_event \<Rightarrow> bool" where
  "out_event_ok e \<longleftrightarrow> field_ok (oe_ID e) \<and> field_ok (oe_Event e) \<and> data_ok (oe_Data e)"

lemma strip_line_end:
  "line \<noteq> [] \<Longrightarrow> last line \<noteq> CR \<Longrightarrow> trim_suffix line [CR] = line"
  by (simp add: trim_suffix_single)

lemma loop_field [framing_simps]:
  assumes "LF \<notin> set line" and "line \<noteq> []" and "last line \<noteq> CR"
  shows "read_event_loop e ev buf lastid (line @ LF # rest) =
    (let (ev', buf', lastid') = sse_line line ev buf lastid
     in read_event_loop e ev' buf' lastid' rest)"
  using assms by (subst read_event_loop.simps) (simp add: strip_line_end Let_def)

lemma loop_blank [framing_simps]:
  "read_event_loop e ev buf lastid (LF # rest) =
    (if buf \<noteq> [] then (Inr (ev, trim_suffix buf [LF]), rest, lastid)
     else read_event_loop e ev buf lastid rest)"
  by (subst read_event_loop.simps) (simp add: trim_suffix_single)

lemma cut_colon_append: "CHR '':'' \<notin> set f \<Longrightarrow> cut_colon (f @ CHR '':'' # v) = Some (f, v)"
  by (induction f) auto

lemma sse_line_event: "sse_line (''event: '' @ v) ev buf lastid = (v, buf, lastid)"
  using cut_colon_append [of "''event''" "CHR '' '' # v"]
  by (simp add: sse_line_def parseSSELine_def has_prefix_def)

lemma sse_line_data: "sse_line (''data: '' @ v) ev buf lastid = (ev, buf @ v @ [LF], lastid)"
  using cut_colon_append [of "''data''" "CHR '' '' # v"]
  by (simp add: sse_line_def parseSSELine_def has_prefix_def)

lemma sse_line_id: "sse_line (''id: '' @ v) ev buf lastid = (ev, buf, v)"
  using cut_colon_append [of "''id''" "CHR '' '' # v"]
  by (simp add: sse_line_def parseSSELine_def has_prefix_def)

lemma sse_line_retry: "sse_line (''retry: '' @ v) ev buf lastid = (ev, buf, lastid)"
  using cut_colon_append [of "''retry''" "CHR '' '' # v"]
  by (simp add: sse_line_def parseSSELine_def has_prefix_def)

lemma sse_line_comment: "sse_line ('': '' @ v) ev buf lastid = (ev, buf, lastid)"
  by (simp add: sse_line_def has_prefix_def)

lemma loop_prefixed:
  assumes "field_ok v" and "LF \<notin> set p" and "p \<noteq> []" and "last p \<noteq> CR"
  shows "read_event_loop e ev buf lastid (p @ v @ LF # rest) =
    (let (ev', buf', lastid') = sse_line (p @ v) ev buf lastid
     in read_event_loop e ev' buf' lastid' rest)"
  using loop_field [of "p @ v" e ev buf lastid rest] assms
  by (auto simp: field_ok_def last_append)

lemma loop_event_lines [framing_simps]:
  "field_ok v \<Longrightarrow> read_event_loop e ev buf lastid (event_lines v @ rest) =
    read_event_loop e (if v = [] then ev else v) buf lastid rest"
  using loop_prefixed [of v "''event: ''" e ev buf lastid rest] sse_line_event [of v ev buf lastid]
  by (simp add: event_lines_def)

lemma loop_id_lines [framing_simps]:
  "field_ok v \<Longrightarrow> read_event_loop e ev buf lastid (id_lines v @ rest) =
    read_event_loop e ev buf (if v = [] then lastid else v) rest"
  using loop_prefixed [of v "''id: ''" e ev buf lastid rest] sse_line_id [of v ev buf lastid]
  by (simp add: id_lines_def)

lemma loop_retry_lines [framing_simps]:
  "read_event_loop e ev buf lastid (retry_lines n @ rest) = read_event_loop e ev buf lastid rest"
proof (cases "n > 0")
  case True
  have "field_ok (show_int n)"
    using True LF_not_in_show_nat [of "nat n"] last_show_nat [of "nat n"]
    by (simp add: field_ok_def show_int_def)
  then show ?thesis
    using loop_prefixed [of "show_int n" "''retry: ''" e ev buf lastid rest]
      sse_line_retry [of "show_int n" ev buf lastid] True
    by (simp add: retry_lines_def)
next
  case False
  then show ?thesis by (simp add: retry_lines_def)
qed

lemma loop_data_pieces:
  "list_all field_ok ps \<Longrightarrow>
   read_event_loop e ev buf lastid (concat (map (\<lambda>l. ''data: '' @ l @ [LF]) ps) @ rest) =
   read_event_loop e ev (buf @ concat (map (\<lambda>l. l @ [LF]) ps)) lastid rest"
proof (induction ps arbitrary: buf)
  case Nil
  then show ?case by simp
next
  case (Cons p ps)
  then show ?case
    using loop_prefixed [of p "''data: ''" e ev buf lastid
        "concat (map (\<lambda>l. ''data: '' @ l @ [LF]) ps) @ rest"] sse_line_data [of p ev buf lastid]
    by simp
qed

lemma data_ok_pieces: "data_ok d \<Longrightarrow> list_all field_ok (split_on LF d)"
  by (auto simp: data_ok_def field_ok_def list_all_iff dest: split_on_pieces)

text \<open>The writer's data lines fill the reader's buffer with the data and one newline.\<close>

lemma loop_data_lines [framing_simps]:
  assumes "data_ok d"
  shows "read_event_loop e ev buf lastid (data_lines d @ rest) =
    read_event_loop e ev (buf @ d @ [LF]) lastid rest"
proof (cases "d = []")
  case True
  then show ?thesis
    using loop_data_pieces [of "[[]]" e ev buf lastid rest] by (simp add: data_lines_def field_ok_def)
next
  case False
  then show ?thesis
    using loop_data_pieces [OF data_ok_pieces [OF assms], of e ev buf lastid rest]
      concat_terminated [of "split_on LF d" LF] by (simp add: data_lines_def)
qed

lemma loop_encode_event [framing_simps]:
  "out_event_ok oe \<Longrightarrow>
   read_event_loop e [] [] lastid (encode_event oe @ rest) =
     (Inr (oe_Event oe, oe_Data oe), rest, if oe_ID oe = [] then lastid else oe_ID oe)"
  by (simp add: out_event_ok_def encode_event_def framing_simps)

subsection \<open>The event stream is a framed byte stream\<close>

definition event_frame :: "string \<times> string \<Rightarrow> string" where
  "event_frame m = event_lines (fst m) @ data_lines (snd m) @ [LF]"

definition read_event_frame :: "string \<Rightarrow> ((string \<times> string) \<times> string) option" where
  "read_event_frame s =
     (case read_event_loop SSE_EOF [] [] [] s of
        (Inr m, rest, _) \<Rightarrow> Some (m, rest)
      | (Inl _, _, _) \<Rightarrow> None)"

interpretation sse: framing event_frame read_event_frame "\<lambda>m. field_ok (fst m) \<and> data_ok (snd m)"
  by unfold_locales (auto simp: event_frame_def read_event_frame_def framing_simps)

lemma WriteEvent_frame:
  "\<not> sw_closed w \<Longrightarrow> sw_out (snd (WriteEvent None event data w)) = sw_out w @ event_frame (event, data)"
  by (simp add: WriteEvent_def put_response_def event_frame_def Let_def)

subsection \<open>Streams of events\<close>

text \<open>The server's side of a stream: every event written, in order, by \<open>WriteSSEEvent\<close>.\<close>

fun write_events :: "sse_out_event list \<Rightarrow> sse_writer \<Rightarrow> sse_writer" where
  "write_events [] w = w"
| "write_events (e # es) w = write_events es (snd (WriteSSEEvent None e w))"

text \<open>What a client should see of them: type, data, and the last non-empty ID so far.\<close>

fun received :: "string \<Rightarrow> sse_out_event list \<Rightarrow> sse_in_event list" where
  "received lastid [] = []"
| "received lastid (e # es) =
     (let i = (if oe_ID e = [] then lastid else oe_ID e)
      in \<lparr>ie_Event = oe_Event e, ie_Data = oe_Data e, ie_ID = i\<rparr> # received i es)"

lemma write_events_out:
  "\<not> sw_closed w \<Longrightarrow> sw_out (write_events es w) = sw_out w @ concat (map encode_event es)"
  by (induction es arbitrary: w) (simp_all add: WriteSSEEvent_def put_response_def Let_def)

lemma ReadEvents_at_end:
  "ReadEvents \<lparr>sr_input = [], sr_end = e, sr_lastEventID = i, sr_closed = c\<rparr> = []"
  by (subst ReadEvents.simps) (simp add: ReadEvent_def read_event_loop.simps [of _ _ _ _ "[]"])

lemma ReadEvents_encoded:
  "list_all out_event_ok es \<Longrightarrow>
   ReadEvents \<lparr>sr_input = concat (map encode_event es), sr_end = e, sr_lastEventID = lastid,
     sr_closed = False\<rparr> = received lastid es"
proof (induction es arbitrary: lastid)
  case Nil
  then show ?case by (simp add: ReadEvents_at_end)
next
  case (Cons oe es)
  then show ?case
    by (subst ReadEvents.simps) (simp add: ReadEvent_def loop_encode_event Let_def)
qed

text \<open>
  C26.  What the server writes with \<open>WriteSSEEvent\<close> is what the client reads: over a response that
  carried any list of events (whose fields have no newline and whose lines do not end in a
  carriage return), \<open>ReadEvents\<close> yields exactly these events, in order, with type and data
  unchanged whatever newlines the data holds, and each with the last event ID the stream had
  shown by then; retry fields are skipped and nothing else is delivered.
\<close>

theorem sse_stream_roundtrip:
  assumes "list_all out_event_ok es"
  shows "ReadEvents (NewSSEReader (sw_out (write_events es NewSSEWriter)) SSE_EOF) = received [] es"
  using ReadEvents_encoded [OF assms]
  by (simp add: NewSSEReader_def NewSSEWriter_def write_events_out)

definition sample_events :: "sse_out_event list" where
  "sample_events =
     [\<lparr>oe_ID = ''7'', oe_Event = ''message'', oe_Data = ''a'' @ [LF] @ ''b'', oe_Retry = 500\<rparr>,
      \<lparr>oe_ID = [], oe_Event = ''ping'', oe_Data = [], oe_Retry = 0\<rparr>]"

lemma sample_events_ok: "list_all out_event_ok sample_events"
  by (simp add: sample_events_def out_event_ok_def field_ok_def data_ok_def)

theorem sse_stream_roundtrip_witness:
  "ReadEvents (NewSSEReader (sw_out (write_events sample_events NewSSEWriter)) SSE_EOF) =
    [\<lparr>ie_Event = ''message'', ie_Data = ''a'' @ [LF] @ ''b'', ie_ID = ''7''\<rparr>,
     \<lparr>ie_Event = ''ping'', ie_Data = [], ie_ID = ''7''\<rparr>]"
  using sse_stream_roundtrip [OF sample_events_ok] by (simp add: sample_events_def Let_def)

subsection \<open>Messages\<close>

text \<open>
  The loop of \<open>SendWithSSE\<close> (\<open>internal/client/transport.go\<close>): the data of every message event
  until the stream ends, empty ones left out.
\<close>

function sse_messages :: "sse_reader \<Rightarrow> string list" where
  "sse_messages r =
     (case sse_ReadMessage r of
        (Inl err, r') \<Rightarrow> []
      | (Inr data, r') \<Rightarrow> (if data \<noteq> [] then data # sse_messages r' else sse_messages r'))"
  by pat_completeness auto
termination
  by (relation "measure (\<lambda>r. length (sr_input r))")
     (auto dest!: sse_ReadMessage_consumes [OF sym] sse_ReadMessage_consumes)

declare sse_messages.simps [simp del]

lemma sse_messages_ReadEvent:
  "sse_messages r =
     (case ReadEvent r of
        (Inl err, r') \<Rightarrow> []
      | (Inr (event, data), r') \<Rightarrow>
          (if (event = [] \<or> event = ''message'') \<and> data \<noteq> [] then [data] else []) @ sse_messages r')"
proof (cases "ReadEvent r")
  case (Pair res r')
  show ?thesis
  proof (cases res)
    case (Inl err)
    then show ?thesis using Pair
      by (simp add: sse_messages.simps [of r] sse_ReadMessage.simps [of r])
  next
    case (Inr m)
    then show ?thesis using Pair
      by (cases m) (simp add: sse_messages.simps [of r] sse_ReadMessage.simps [of r]
          sse_messages.simps [of r'])
  qed
qed

lemma sse_messages_events:
  "sse_messages r =
     filter (\<lambda>d. d \<noteq> []) (map ie_Data (filter (\<lambda>v. ie_Event v = [] \<or> ie_Event v = ''message'') (ReadEvents r)))"
proof (induction r rule: ReadEvents.induct)
  case (1 r)
  show ?case
    using "1.IH"
    by (simp add: sse_messages_ReadEvent [of r] ReadEvents.simps [of r] split: prod.splits sum.splits)
qed

lemma received_messages:
  "map ie_Data (filter (\<lambda>v. ie_Event v = [] \<or> ie_Event v = ''message'') (received lastid es)) =
   map oe_Data (filter (\<lambda>e. oe_Event e = [] \<or> oe_Event e = ''message'') es)"
  by (induction es arbitrary: lastid) (simp_all add: Let_def)

text \<open>
  C27.  The streaming client hands on exactly the messages: of any list of events the server writes,
  the loop of \<open>SendWithSSE\<close> yields the data of the events of type \<open>message\<close> or of no type, in
  order and unchanged, and nothing for \<open>ping\<close>, \<open>connected\<close>, \<open>close\<close> or empty events.
\<close>

theorem sse_messages_of_stream:
  assumes "list_all out_event_ok es"
  shows "sse_messages (NewSSEReader (sw_out (write_events es NewSSEWriter)) SSE_EOF) =
    filter (\<lambda>d. d \<noteq> [])
      (map oe_Data (filter (\<lambda>e. oe_Event e = [] \<or> oe_Event e = ''message'') es))"
  using ReadEvents_encoded [OF assms]
  by (simp add: sse_messages_events received_messages NewSSEReader_def NewSSEWriter_def
      write_events_out)

theorem sse_messages_of_stream_witness:
  "sse_messages (NewSSEReader (sw_out (write_events sample_events NewSSEWriter)) SSE_EOF) =
    [''a'' @ [LF] @ ''b'']"
  using sse_messages_of_stream [OF sample_events_ok] by (simp add: sample_events_def)

text \<open>Comments are transparent, so keepalive comments never disturb an event.\<close>

lemma comment_skipped:
  assumes "field_ok c"
  shows "read_event_loop e ev [] lastid (('': '' @ c @ [LF, LF]) @ rest) =
    read_event_loop e ev [] lastid rest"
proof -
  have "last ('': '' @ c) \<noteq> CR" using assms by (auto simp: field_ok_def)
  then show ?thesis
    using loop_field [of "'': '' @ c" e ev "[]" lastid "LF # rest"] sse_line_comment [of c ev "[]" lastid]
      assms by (simp add: field_ok_def framing_simps)
qed

text \<open>
  The event type is not reset at the end of an event without data: a blank line that dispatches
  nothing leaves the type of the abandoned event in force, so the event that follows it is
  delivered under that stale type.  A bare \<open>message\<close> after an \<open>event: ping\<close> block without data is
  then a ping to the reader and its data never reaches the client, where the W3C specification
  the reader claims to follow resets the type and delivers it.
\<close>

theorem stale_event_type:
  assumes "field_ok ev" and "ev \<noteq> []" and "ev \<noteq> ''message''" and "data_ok d"
  shows "ReadEvents (NewSSEReader (event_lines ev @ [LF] @ event_frame ([], d)) SSE_EOF) =
      [\<lparr>ie_Event = ev, ie_Data = d, ie_ID = []\<rparr>] \<and>
    sse_messages (NewSSEReader (event_lines ev @ [LF] @ event_frame ([], d)) SSE_EOF) = []"
proof -
  have step: "read_event_loop SSE_EOF [] [] [] (event_lines ev @ [LF] @ event_frame ([], d)) =
      (Inr (ev, d), [], [])"
    using assms loop_data_lines [OF assms(4), of SSE_EOF ev "[]" "[]" "[LF]"]
    by (simp add: framing_simps event_frame_def event_lines_def [of "[]"])
  have "ReadEvents (NewSSEReader (event_lines ev @ [LF] @ event_frame ([], d)) SSE_EOF) =
      [\<lparr>ie_Event = ev, ie_Data = d, ie_ID = []\<rparr>]"
    using step by (subst ReadEvents.simps) (simp add: ReadEvent_def NewSSEReader_def ReadEvents_at_end)
  then show ?thesis using assms(2,3) by (simp add: sse_messages_events)
qed

theorem stale_event_type_witness:
  "sse_messages (NewSSEReader (event_lines ''ping'' @ [LF] @ event_frame ([], ''x'')) SSE_EOF) = []"
  by (rule stale_event_type [THEN conjunct2]) (simp_all add: field_ok_def data_ok_def)

subsection \<open>The buffered reader\<close>

lemma PeekEvent_buffers:
  "PeekEvent b = (Inr evt, b') \<Longrightarrow> br_buffer b' \<noteq> [] \<and> hd (br_buffer b') = evt"
  by (auto simp: PeekEvent_def split: list.splits prod.splits sum.splits)

text \<open>
  Peeking does not consume: after \<open>PeekEvent\<close> has shown an event, \<open>NextEvent\<close> returns that very
  event and leaves the reader as \<open>NextEvent\<close> alone would have; and an event put back with
  \<open>UnreadEvent\<close> is the next one returned.
\<close>

theorem peek_then_next:
  "(case PeekEvent b of
      (Inl err, b') \<Rightarrow> fst (NextEvent b) = Inl err
    | (Inr evt, b') \<Rightarrow> NextEvent b' = NextEvent b \<and> fst (NextEvent b) = Inr evt) \<and>
   NextEvent (UnreadEvent evt b) = (Inr evt, b)"
  by (auto simp: PeekEvent_def NextEvent_def UnreadEvent_def split: list.splits prod.splits sum.splits)

end
