(* ===== verification/Stdio_Lines.thy ===== *)
theory Stdio_Lines
  imports Go_Strings
begin

text \<open>
  Newline-delimited messages over pipes: the subprocess side (\<open>internal/process/stdio.go\<close>), the
  client side (\<open>internal/client/stdio.go\<close>) and the JSON-RPC codec (\<open>internal/protocol/codec.go\<close>).
  The three readers and the three writers are modelled on the bytes of the pipe; the theorems
  say that any of the writers is understood by the readers, message by message.
\<close>

section \<open>What a read returns\<close>

text \<open>
  One call of \<open>ReadBytes\<close> for the newline: a line with its terminator, or one of the errors the
  loops distinguish.  An iteration of a read loop also sees whether its context was cancelled
  and whether the owner was closed meanwhile.
\<close>

datatype read_result = ReadLine string | ReadEOF | ReadClosedPipe | ReadOther string

record iteration =
  it_cancelled :: bool
  it_read :: read_result
  it_closed :: bool

text \<open>The reads a pipe with these bytes yields before it reports the end of the input.\<close>

function byte_reads :: "string \<Rightarrow> iteration list" where
  "byte_reads s =
     (case cut_line s of
        None \<Rightarrow> [\<lparr>it_cancelled = False, it_read = ReadEOF, it_closed = False\<rparr>]
      | Some (line, rest) \<Rightarrow>
          \<lparr>it_cancelled = False, it_read = ReadLine line, it_closed = False\<rparr> # byte_reads rest)"
  by pat_completeness auto
termination
  by (relation "measure length") (auto dest: cut_line_shorter)

declare byte_reads.simps [simp del]

text \<open>The line without its newline and without a carriage return before it.\<close>

definition strip_newline :: "string \<Rightarrow> string" where
  "strip_newline line = trim_suffix (trim_suffix line [LF]) [CR]"

section \<open>The bridge to the subprocess\<close>

datatype bridge_error =
    ErrBridgeClosed
  | ErrPipeClosed
  | ReadingStdout string
  | HandlerError string
  | WritingStdin string
  | WritingNewline string
  | HandlerNotSet
  | StderrNotAvailable
  | ReadingStderr string
  | StdoutNil

text \<open>How one \<open>Write\<close> on a pipe ends; a failing one may have taken the first bytes.\<close>

datatype write_outcome = WriteOk | WriteClosedPipe nat | WriteError nat string

text \<open>
  \<open>StdioBridge\<close>: \<open>sb_stdin\<close> is what has been written to the subprocess, \<open>None\<close> once the writer
  is nil.  \<open>sb_handler\<close> and \<open>sb_onError\<close> say whether the two handlers are set.
\<close>

record stdio_bridge =
  sb_stdin :: "string option"
  sb_stderr :: bool
  sb_closed :: bool
  sb_handler :: bool
  sb_onError :: bool
  sb_cancelled :: bool
  sb_loops :: nat

definition NewStdioBridge :: "bool \<Rightarrow> stdio_bridge" where
  "NewStdioBridge stderr =
     \<lparr>sb_stdin = Some [], sb_stderr = stderr, sb_closed = False, sb_handler = False,
      sb_onError = False, sb_cancelled = False, sb_loops = 0\<rparr>"

definition NewStdioBridgeFromManager :: "bool \<Rightarrow> bool \<Rightarrow> bool \<Rightarrow> bridge_error + stdio_bridge" where
  "NewStdioBridgeFromManager stdin stdout stderr =
     (if \<not> stdin \<or> \<not> stdout then Inl StdoutNil else Inr (NewStdioBridge stderr))"

definition SetMessageHandler :: "stdio_bridge \<Rightarrow> stdio_bridge" where
  "SetMessageHandler b = b\<lparr>sb_handler := True\<rparr>"

definition SetErrorHandler :: "stdio_bridge \<Rightarrow> stdio_bridge" where
  "SetErrorHandler b = b\<lparr>sb_onError := True\<rparr>"

definition StartReading :: "stdio_bridge \<Rightarrow> (bridge_error + unit) \<times> stdio_bridge" where
  "StartReading b =
     (if sb_closed b then (Inl ErrBridgeClosed, b)
      else if \<not> sb_handler b then (Inl HandlerNotSet, b)
      else (Inr (), b\<lparr>sb_loops := Suc (sb_loops b)\<rparr>))"

text \<open>What the read loop does with the handlers, in order.\<close>

datatype loop_action = Deliver string | OnError bridge_error

definition report :: "bool \<Rightarrow> bridge_error \<Rightarrow> loop_action list" where
  "report onError e = (if onError then [OnError e] else [])"

text \<open>
  \<open>readLoop\<close>: \<open>h\<close> is the message handler (\<open>Some e\<close>, it fails with \<open>e\<close>).  A line is skipped when it
  is empty before or after trimming; an error other than the end of the pipe is reported and
  the loop goes on.
\<close>

fun stdio_readLoop ::
  "(string \<Rightarrow> string option) \<Rightarrow> bool \<Rightarrow> iteration list \<Rightarrow> loop_action list" where
  "stdio_readLoop h onError [] = []"
| "stdio_readLoop h onError (it # its) =
     (if it_cancelled it then []
      else case it_read it of
        ReadLine line \<Rightarrow>
          if line = [] \<or> line = [LF] then stdio_readLoop h onError its
          else let msg = strip_newline line in
            if msg = [] then stdio_readLoop h onError its
            else Deliver msg #
              (case h msg of None \<Rightarrow> [] | Some e \<Rightarrow> report onError (HandlerError e)) @
              stdio_readLoop h onError its
      | ReadEOF \<Rightarrow> if it_closed it then [] else report onError ErrPipeClosed
      | ReadClosedPipe \<Rightarrow> if it_closed it then [] else report onError ErrPipeClosed
      | ReadOther e \<Rightarrow>
          if it_closed it then []
          else report onError (ReadingStdout e) @ stdio_readLoop h onError its)"

text \<open>One \<open>stdin.Write\<close>.\<close>

definition put_stdin ::
  "write_outcome \<Rightarrow> (string \<Rightarrow> bridge_error) \<Rightarrow> string \<Rightarrow> string \<Rightarrow> (bridge_error + unit) \<times> string" where
  "put_stdin oc wrap out data =
     (case oc of
        WriteOk \<Rightarrow> (Inr (), out @ data)
      | WriteClosedPipe n \<Rightarrow> (Inl ErrPipeClosed, out @ take n data)
      | WriteError n e \<Rightarrow> (Inl (wrap e), out @ take n data))"

definition bridge_Write ::
  "write_outcome \<Rightarrow> string \<Rightarrow> stdio_bridge \<Rightarrow> (bridge_error + unit) \<times> stdio_bridge" where
  "bridge_Write oc data b =
     (if sb_closed b then (Inl ErrBridgeClosed, b)
      else case sb_stdin b of
        None \<Rightarrow> (Inl ErrPipeClosed, b)
      | Some out \<Rightarrow>
          let (res, out') = put_stdin oc WritingStdin out data
          in (res, b\<lparr>sb_stdin := Some out'\<rparr>))"

definition bridge_WriteMessage ::
  "write_outcome \<Rightarrow> write_outcome \<Rightarrow> string \<Rightarrow> stdio_bridge \<Rightarrow>
   (bridge_error + unit) \<times> stdio_bridge" where
  "bridge_WriteMessage oc1 oc2 data b =
     (if sb_closed b then (Inl ErrBridgeClosed, b)
      else case sb_stdin b of
        None \<Rightarrow> (Inl ErrPipeClosed, b)
      | Some out \<Rightarrow>
         (case put_stdin oc1 WritingStdin out data of
            (Inl e, out') \<Rightarrow> (Inl e, b\<lparr>sb_stdin := Some out'\<rparr>)
          | (Inr _, out') \<Rightarrow>
              if data = [] \<or> last data \<noteq> LF then
                let (res, out'') = put_stdin oc2 WritingNewline out' [LF]
                in (res, b\<lparr>sb_stdin := Some out''\<rparr>)
              else (Inr (), b\<lparr>sb_stdin := Some out'\<rparr>)))"

text \<open>\<open>ReadMessage\<close> on the reader's next result.\<close>

definition bridge_ReadMessage :: "read_result \<Rightarrow> stdio_bridge \<Rightarrow> bridge_error + string" where
  "bridge_ReadMessage r b =
     (if sb_closed b then Inl ErrBridgeClosed
      else case r of
        ReadLine line \<Rightarrow> Inr (strip_newline line)
      | ReadEOF \<Rightarrow> Inl ErrPipeClosed
      | ReadClosedPipe \<Rightarrow> Inl ErrPipeClosed
      | ReadOther e \<Rightarrow> Inl (ReadingStdout e))"

text \<open>
  \<open>Close\<close>: the first call marks the bridge closed, cancels the loops and drops stdin; later
  calls do nothing.  Closing the descriptors is the operating system's.
\<close>

definition bridge_Close :: "stdio_bridge \<Rightarrow> stdio_bridge" where
  "bridge_Close b =
     (if sb_closed b then b else b\<lparr>sb_closed := True, sb_cancelled := True, sb_stdin := None\<rparr>)"

definition ForwardStderr :: "stdio_bridge \<Rightarrow> (bridge_error + unit) \<times> stdio_bridge" where
  "ForwardStderr b =
     (if sb_closed b then (Inl ErrBridgeClosed, b)
      else if \<not> sb_stderr b then (Inl StderrNotAvailable, b)
      else (Inr (), b\<lparr>sb_loops := Suc (sb_loops b)\<rparr>))"

text \<open>\<open>ReadStderr\<close>, on how its one read ends, with the bytes read; and the goroutine that throws stderr away.\<close>

datatype stderr_read = StderrBytes nat | StderrClosed nat | StderrOther nat string

definition ReadStderr :: "stderr_read \<Rightarrow> stdio_bridge \<Rightarrow> nat \<times> bridge_error option" where
  "ReadStderr r b =
     (if sb_closed b then (0, Some ErrBridgeClosed)
      else if \<not> sb_stderr b then (0, Some StderrNotAvailable)
      else case r of
        StderrBytes n \<Rightarrow> (n, None)
      | StderrClosed n \<Rightarrow> (n, Some ErrPipeClosed)
      | StderrOther n e \<Rightarrow> (n, Some (ReadingStderr e)))"

definition DrainStderr :: "stdio_bridge \<Rightarrow> stdio_bridge" where
  "DrainStderr b = (if sb_stderr b then b\<lparr>sb_loops := Suc (sb_loops b)\<rparr> else b)"

definition stdinWriter_Write ::
  "write_outcome \<Rightarrow> string \<Rightarrow> stdio_bridge \<Rightarrow> nat \<times> (bridge_error + unit) \<times> stdio_bridge" where
  "stdinWriter_Write oc p b =
     (case bridge_Write oc p b of
        (Inl e, b') \<Rightarrow> (0, Inl e, b')
      | (Inr u, b') \<Rightarrow> (length p, Inr u, b'))"

section \<open>The client's standard input and output\<close>

datatype stdio_error = ErrStdioHandlerClosed | ErrWriteFailed | StdioEOF | StdioErr string

record stdio_handler =
  sh_out :: string
  sh_closed :: bool

text \<open>
  \<open>ReadMessages\<close>: the messages the channel yields until the loop ends.  The loop ends on every
  read error, on cancellation and once the handler is closed, which it checks before a read.
\<close>

fun ReadMessages :: "iteration list \<Rightarrow> string list" where
  "ReadMessages [] = []"
| "ReadMessages (it # its) =
     (if it_cancelled it \<or> it_closed it then []
      else case it_read it of
        ReadLine line \<Rightarrow>
          if line = [] then ReadMessages its
          else let msg = strip_newline line in
            if msg = [] then ReadMessages its else msg # ReadMessages its
      | ReadEOF \<Rightarrow> []
      | ReadClosedPipe \<Rightarrow> []
      | ReadOther e \<Rightarrow> [])"

definition stdio_ReadMessage :: "read_result \<Rightarrow> stdio_handler \<Rightarrow> stdio_error + string" where
  "stdio_ReadMessage r h =
     (if sh_closed h then Inl ErrStdioHandlerClosed
      else case r of
        ReadLine line \<Rightarrow> Inr (strip_newline line)
      | ReadEOF \<Rightarrow> Inl StdioEOF
      | ReadClosedPipe \<Rightarrow> Inl (StdioErr ''io: read/write on closed pipe'')
      | ReadOther e \<Rightarrow> Inl (StdioErr e))"

text \<open>How one write to standard output ends: \<open>OutShort n\<close>, it took \<open>n\<close> bytes without an error.\<close>

datatype out_outcome = OutOk | OutErr nat string | OutShort nat

definition put_stdout ::
  "out_outcome \<Rightarrow> string \<Rightarrow> string \<Rightarrow> (stdio_error + unit) \<times> string" where
  "put_stdout oc out data =
     (case oc of
        OutOk \<Rightarrow> (Inr (), out @ data)
      | OutErr n e \<Rightarrow> (Inl (StdioErr e), out @ take n data)
      | OutShort n \<Rightarrow>
          (if length (take n data) \<noteq> length data then Inl ErrWriteFailed else Inr (), out @ take n data))"

definition stdio_WriteMessage ::
  "out_outcome \<Rightarrow> out_outcome \<Rightarrow> string \<Rightarrow> stdio_handler \<Rightarrow> (stdio_error + unit) \<times> stdio_handler" where
  "stdio_WriteMessage oc1 oc2 msg h =
     (if sh_closed h then (Inl ErrStdioHandlerClosed, h)
      else case put_stdout oc1 (sh_out h) msg of
        (Inl e, out') \<Rightarrow> (Inl e, h\<lparr>sh_out := out'\<rparr>)
      | (Inr _, out') \<Rightarrow>
          if msg = [] \<or> last msg \<noteq> LF then
            (case oc2 of
               OutErr n e \<Rightarrow> (Inl (StdioErr e), h\<lparr>sh_out := out' @ take n [LF]\<rparr>)
             | OutShort n \<Rightarrow> (Inr (), h\<lparr>sh_out := out' @ take n [LF]\<rparr>)
             | OutOk \<Rightarrow> (Inr (), h\<lparr>sh_out := out' @ [LF]\<rparr>))
          else (Inr (), h\<lparr>sh_out := out'\<rparr>))"

definition stdio_WriteRaw ::
  "out_outcome \<Rightarrow> string \<Rightarrow> stdio_handler \<Rightarrow> (stdio_error + unit) \<times> stdio_handler" where
  "stdio_WriteRaw oc data h =
     (if sh_closed h then (Inl ErrStdioHandlerClosed, h)
      else let (res, out') = put_stdout oc (sh_out h) data in (res, h\<lparr>sh_out := out'\<rparr>))"

definition stdio_Close :: "stdio_handler \<Rightarrow> stdio_handler" where
  "stdio_Close h = h\<lparr>sh_closed := True\<rparr>"

section \<open>What is written is read\<close>

text \<open>
  A message the line format can carry: not empty, no newline inside, and not ending in a carriage
  return, which the readers take for part of the line's end.
\<close>

definition line_ok :: "string \<Rightarrow> bool" where
  "line_ok m \<longleftrightarrow> m \<noteq> [] \<and> LF \<notin> set m \<and> last m \<noteq> CR"

lemma line_okD: "line_ok m \<Longrightarrow> m \<noteq> [] \<and> LF \<notin> set m \<and> last m \<noteq> LF \<and> last m \<noteq> CR"
  unfolding line_ok_def by (metis last_in_set)

lemma strip_line [framing_simps]: "line_ok m \<Longrightarrow> strip_newline (m @ [LF]) = m"
  by (auto simp: strip_newline_def trim_suffix_single line_ok_def)

text \<open>One read of a line and what is left of the pipe.\<close>

definition read_line_frame :: "string \<Rightarrow> (string \<times> string) option" where
  "read_line_frame s = map_option (\<lambda>(line, rest). (strip_newline line, rest)) (cut_line s)"

interpretation pipe: framing "\<lambda>m. m @ [LF]" read_line_frame line_ok
  by unfold_locales (auto simp: read_line_frame_def framing_simps line_ok_def)

lemma byte_reads_line [framing_simps]:
  "LF \<notin> set m \<Longrightarrow> byte_reads (m @ LF # rest) =
     \<lparr>it_cancelled = False, it_read = ReadLine (m @ [LF]), it_closed = False\<rparr> # byte_reads rest"
  by (simp add: byte_reads.simps [of "m @ LF # rest"])

lemma byte_reads_Nil [framing_simps]:
  "byte_reads [] = [\<lparr>it_cancelled = False, it_read = ReadEOF, it_closed = False\<rparr>]"
  by (simp add: byte_reads.simps [of "[]"])

text \<open>The lines of a list of messages, read back by the two loops.\<close>

lemma ReadMessages_lines:
  "list_all line_ok ms \<Longrightarrow> ReadMessages (byte_reads (concat (map (\<lambda>m. m @ [LF]) ms))) = ms"
proof (induction ms)
  case Nil
  then show ?case by (simp add: framing_simps)
next
  case (Cons m ms)
  then show ?case using line_okD [of m] by (simp add: framing_simps Let_def)
qed

definition handled :: "(string \<Rightarrow> string option) \<Rightarrow> bool \<Rightarrow> string \<Rightarrow> loop_action list" where
  "handled h onError m =
     Deliver m # (case h m of None \<Rightarrow> [] | Some e \<Rightarrow> report onError (HandlerError e))"

lemma readLoop_lines:
  "list_all line_ok ms \<Longrightarrow>
   stdio_readLoop h onError (byte_reads (concat (map (\<lambda>m. m @ [LF]) ms))) =
     concat (map (handled h onError) ms) @ report onError ErrPipeClosed"
proof (induction ms)
  case Nil
  then show ?case by (simp add: framing_simps)
next
  case (Cons m ms)
  then show ?case using line_okD [of m] by (simp add: framing_simps handled_def Let_def)
qed

text \<open>The messages written one after the other, every write accepted by the system.\<close>

definition bridge_send :: "string list \<Rightarrow> stdio_bridge \<Rightarrow> stdio_bridge" where
  "bridge_send ms b = fold (\<lambda>m b. snd (bridge_WriteMessage WriteOk WriteOk m b)) ms b"

definition handler_send :: "string list \<Rightarrow> stdio_handler \<Rightarrow> stdio_handler" where
  "handler_send ms h = fold (\<lambda>m h. snd (stdio_WriteMessage OutOk OutOk m h)) ms h"

lemma bridge_send_out:
  "list_all line_ok ms \<Longrightarrow> sb_stdin b = Some out \<Longrightarrow> \<not> sb_closed b \<Longrightarrow>
   sb_stdin (bridge_send ms b) = Some (out @ concat (map (\<lambda>m. m @ [LF]) ms))"
proof (induction ms arbitrary: b out)
  case Nil
  then show ?case by (simp add: bridge_send_def)
next
  case (Cons m ms)
  then show ?case
    by (simp add: bridge_send_def bridge_WriteMessage_def put_stdin_def line_okD)
qed

lemma handler_send_out:
  "list_all line_ok ms \<Longrightarrow> \<not> sh_closed h \<Longrightarrow>
   sh_out (handler_send ms h) = sh_out h @ concat (map (\<lambda>m. m @ [LF]) ms)"
proof (induction ms arbitrary: h)
  case Nil
  then show ?case by (simp add: handler_send_def)
next
  case (Cons m ms)
  then show ?case
    by (simp add: handler_send_def stdio_WriteMessage_def put_stdout_def line_okD)
qed

text \<open>
  C24.  Messages cross the subprocess pipes intact in both directions.  Whatever the bridge writes with
  \<open>WriteMessage\<close> to a fresh subprocess, a line reader on the other side (the one the client uses)
  takes off exactly as sent; and what such a peer writes, the bridge's \<open>readLoop\<close> hands to its
  handler message by message, in order, going on after a failing handler (whose error is
  reported), and ending with the closed pipe reported once.
\<close>

theorem pipe_roundtrip:
  assumes "list_all line_ok ms"
  shows "ReadMessages (byte_reads (the (sb_stdin (bridge_send ms (NewStdioBridge stderr))))) = ms \<and>
    stdio_readLoop h onError
        (byte_reads (sh_out (handler_send ms \<lparr>sh_out = [], sh_closed = False\<rparr>))) =
      concat (map (handled h onError) ms) @ report onError ErrPipeClosed"
  using assms ReadMessages_lines readLoop_lines
  by (simp add: NewStdioBridge_def bridge_send_out handler_send_out)

theorem pipe_roundtrip_witness:
  "ReadMessages (byte_reads (the (sb_stdin (bridge_send [''ab'', ''c''] (NewStdioBridge True))))) =
     [''ab'', ''c''] \<and>
   stdio_readLoop (\<lambda>m. if m = ''ab'' then Some ''boom'' else None) True
     (byte_reads (sh_out (handler_send [''ab'', ''c''] \<lparr>sh_out = [], sh_closed = False\<rparr>))) =
     [Deliver ''ab'', OnError (HandlerError ''boom''), Deliver ''c'', OnError ErrPipeClosed]"
  using pipe_roundtrip [of "[''ab'', ''c'']" True "\<lambda>m. if m = ''ab'' then Some ''boom'' else None" True]
  by (simp add: line_ok_def handled_def report_def)

text \<open>Once closed, a bridge stays closed and takes nothing.\<close>

lemma bridge_Close_closed: "sb_closed (bridge_Close b)"
  by (simp add: bridge_Close_def)

lemma bridge_closed_refuses:
  "sb_closed b \<Longrightarrow>
   bridge_Write oc data b = (Inl ErrBridgeClosed, b) \<and>
   bridge_WriteMessage oc oc' data b = (Inl ErrBridgeClosed, b) \<and>
   bridge_ReadMessage r b = Inl ErrBridgeClosed \<and> StartReading b = (Inl ErrBridgeClosed, b) \<and>
   ForwardStderr b = (Inl ErrBridgeClosed, b) \<and>
   stdinWriter_Write oc data b = (0, Inl ErrBridgeClosed, b) \<and> bridge_Close b = b"
  by (simp add: bridge_Write_def bridge_WriteMessage_def bridge_ReadMessage_def StartReading_def
      ForwardStderr_def stdinWriter_Write_def bridge_Close_def)

text \<open>
  A write to the subprocess that fails half way is not contained.  The bridge reports the
  error but stays open, and the bytes the pipe had taken stay there: the next message that is
  written without an error is read by the subprocess glued to them, as one line that is neither
  message.
\<close>

theorem torn_write_glues:
  assumes "sb_stdin b = Some out" and "\<not> sb_closed b" and "line_ok m" and "line_ok m'" and "0 < n"
  shows "(let (res, b1) = bridge_WriteMessage (WriteError n e) oc m b;
              (res', b2) = bridge_WriteMessage WriteOk WriteOk m' b1
          in res = Inl (WritingStdin e) \<and> res' = Inr () \<and>
             (\<exists>out'. sb_stdin b2 = Some (out @ out') \<and>
               ReadMessages (byte_reads out') = [take n m @ m']))"
proof -
  have ok: "line_ok (take n m @ m')"
    using assms by (auto simp: line_ok_def dest: in_set_takeD)
  have "ReadMessages (byte_reads (take n m @ m' @ [LF])) = [take n m @ m']"
    using ReadMessages_lines [of "[take n m @ m']"] ok by simp
  then show ?thesis
    using assms by (auto simp: bridge_WriteMessage_def put_stdin_def line_okD)
qed

theorem torn_write_glues_witness:
  "ReadMessages (byte_reads (the (sb_stdin (snd (bridge_WriteMessage WriteOk WriteOk ''cd''
     (snd (bridge_WriteMessage (WriteError 1 ''EIO'') WriteOk ''ab'' (NewStdioBridge False)))))))) =
   [''acd'']"
  using torn_write_glues [of "NewStdioBridge False" "[]" "''ab''" "''cd''" 1 "''EIO''" WriteOk]
  by (auto simp: NewStdioBridge_def line_ok_def Let_def split: prod.splits)

end
