(* ===== verification/Go_Json.thy ===== *)
theory Go_Json
  imports Go_Strings
begin

text \<open>
  What the bridge uses of Go's \<open>encoding/json\<close> and of \<open>strconv\<close>'s floating point conversions:
  the scanner, the decoding of string and number literals, the encoding of strings and of compact
  values, and the matching of object keys against field names.  The round trip of the printer and
  the parser is what the message theories build on.
\<close>

section \<open>Values\<close>

text \<open>
  A JSON value as the decoder sees it.  Numbers keep their literal and strings the text between
  the quotes, still escaped, so that a \<open>json.RawMessage\<close> is such a value: the bridge only parses
  it again or writes it through \<open>Marshal\<close>, which drops the white space.
\<close>

datatype json =
    JNull
  | JBool bool
  | JNum string
  | JStr string
  | JArr "json list"
  | JObj "(string \<times> json) list"

section \<open>Scanning\<close>

definition json_space :: "char \<Rightarrow> bool" where
  "json_space c \<longleftrightarrow> c = CHR '' '' \<or> c = CHR 0x09 \<or> c = LF \<or> c = CR"

definition skip_ws :: "string \<Rightarrow> string" where
  "skip_ws s = dropWhile json_space s"

definition is_digit :: "char \<Rightarrow> bool" where
  "is_digit c \<longleftrightarrow> 48 \<le> (of_char c :: nat) \<and> (of_char c :: nat) \<le> 57"

definition hex_val :: "char \<Rightarrow> nat option" where
  "hex_val c =
     (let n = (of_char c :: nat) in
      if 48 \<le> n \<and> n \<le> 57 then Some (n - 48)
      else if 97 \<le> n \<and> n \<le> 102 then Some (n - 87)
      else if 65 \<le> n \<and> n \<le> 70 then Some (n - 55)
      else None)"

definition quote_char :: char where "quote_char = CHR 0x22"
definition back_slash :: char where "back_slash = CHR 0x5C"

definition simple_escapes :: "char list" where
  "simple_escapes = [quote_char, back_slash, CHR ''/'', CHR ''b'', CHR ''f'', CHR ''n'', CHR ''r'', CHR ''t'']"

definition hex4 :: "string \<Rightarrow> bool" where
  "hex4 s \<longleftrightarrow> 4 \<le> length s \<and> list_all (\<lambda>h. hex_val h \<noteq> None) (take 4 s)"

text \<open>A string literal after its opening quote: the text up to the closing quote and the rest.\<close>

fun scan_string :: "string \<Rightarrow> (string \<times> string) option" where
  "scan_string [] = None"
| "scan_string (c # s) =
     (if c = quote_char then Some ([], s)
      else if c = back_slash then
        (case s of
           [] \<Rightarrow> None
         | e # s' \<Rightarrow>
             if e \<in> set simple_escapes then map_option (\<lambda>(t, r). (c # e # t, r)) (scan_string s')
             else if e = CHR ''u'' then
               (if hex4 s' then map_option (\<lambda>(t, r). (c # e # take 4 s' @ t, r)) (scan_string (drop 4 s'))
                else None)
             else None)
      else if (of_char c :: nat) < 32 then None
      else map_option (\<lambda>(t, r). (c # t, r)) (scan_string s))"

text \<open>Number literals: \<open>-? (0 | [1-9][0-9]*) (. [0-9]+)? ([eE] [+-]? [0-9]+)?\<close>\<close>

definition scan_digits :: "string \<Rightarrow> (string \<times> string) option" where
  "scan_digits s =
     (if takeWhile is_digit s = [] then None else Some (takeWhile is_digit s, dropWhile is_digit s))"

definition scan_int :: "string \<Rightarrow> (string \<times> string) option" where
  "scan_int s =
     (case s of
        [] \<Rightarrow> None
      | c # r \<Rightarrow> if c = CHR ''0'' then Some (''0'', r) else scan_digits s)"

definition scan_frac :: "string \<Rightarrow> (string \<times> string) option" where
  "scan_frac s =
     (case s of
        [] \<Rightarrow> Some ([], [])
      | c # r \<Rightarrow> if c = CHR ''.'' then map_option (\<lambda>(t, r'). (c # t, r')) (scan_digits r) else Some ([], s))"

definition scan_exp :: "string \<Rightarrow> (string \<times> string) option" where
  "scan_exp s =
     (case s of
        [] \<Rightarrow> Some ([], [])
      | c # r \<Rightarrow>
          if c = CHR ''e'' \<or> c = CHR ''E'' then
            (case r of
               [] \<Rightarrow> None
             | g # r' \<Rightarrow>
                 if g = CHR ''+'' \<or> g = CHR ''-'' then map_option (\<lambda>(t, q). (c # g # t, q)) (scan_digits r')
                 else map_option (\<lambda>(t, q). (c # t, q)) (scan_digits r))
          else Some ([], s))"

definition scan_unsigned :: "string \<Rightarrow> (string \<times> string) option" where
  "scan_unsigned s =
     (case scan_int s of
        None \<Rightarrow> None
      | Some (i, r1) \<Rightarrow>
         (case scan_frac r1 of
            None \<Rightarrow> None
          | Some (f, r2) \<Rightarrow>
             (case scan_exp r2 of None \<Rightarrow> None | Some (x, r3) \<Rightarrow> Some (i @ f @ x, r3))))"

definition scan_number :: "string \<Rightarrow> (string \<times> string) option" where
  "scan_number s =
     (case s of
        [] \<Rightarrow> None
      | c # r \<Rightarrow>
          if c = CHR ''-'' then map_option (\<lambda>(t, r'). (c # t, r')) (scan_unsigned r) else scan_unsigned s)"

section \<open>Parsing\<close>

text \<open>
  The elements of an array and the members of an object, after the opening bracket and known not
  to be empty, with the parser \<open>p\<close> of the values one level down.  The guards on the length only
  serve the termination proof: every parser consumes what it accepts.
\<close>

function parse_elems ::
  "(string \<Rightarrow> (json \<times> string) option) \<Rightarrow> string \<Rightarrow> (json list \<times> string) option" where
  "parse_elems p s =
     (case p s of
        None \<Rightarrow> None
      | Some (v, r) \<Rightarrow>
         (case skip_ws r of
            [] \<Rightarrow> None
          | c # r' \<Rightarrow>
              if c = CHR '']'' then Some ([v], r')
              else if c = CHR '','' \<and> length r' < length s then
                map_option (\<lambda>(vs, q). (v # vs, q)) (parse_elems p r')
              else None))"
  by pat_completeness auto
termination
  by (relation "measure (\<lambda>(p, s). length s)") auto

definition parse_key :: "string \<Rightarrow> (string \<times> string) option" where
  "parse_key s =
     (case skip_ws s of
        [] \<Rightarrow> None
      | c # r \<Rightarrow>
          if c = quote_char then
            (case scan_string r of
               None \<Rightarrow> None
             | Some (k, q) \<Rightarrow>
                (case skip_ws q of
                   [] \<Rightarrow> None
                 | d # q' \<Rightarrow> if d = CHR '':'' then Some (k, q') else None))
          else None)"

function parse_members ::
  "(string \<Rightarrow> (json \<times> string) option) \<Rightarrow> string \<Rightarrow> ((string \<times> json) list \<times> string) option" where
  "parse_members p s =
     (case parse_key s of
        None \<Rightarrow> None
      | Some (k, q) \<Rightarrow>
         (case p q of
            None \<Rightarrow> None
          | Some (v, r) \<Rightarrow>
             (case skip_ws r of
                [] \<Rightarrow> None
              | c # r' \<Rightarrow>
                  if c = CHR ''}'' then Some ([(k, v)], r')
                  else if c = CHR '','' \<and> length r' < length s then
                    map_option (\<lambda>(ms, q'). ((k, v) # ms, q')) (parse_members p r')
                  else None)))"
  by pat_completeness auto
termination
  by (relation "measure (\<lambda>(p, s). length s)") auto

declare parse_elems.simps [simp del] parse_members.simps [simp del]

text \<open>
  One value, with \<open>d\<close> levels of nesting left.  The decoder refuses a document nested deeper than
  10000 levels.
\<close>

fun parse_value :: "nat \<Rightarrow> string \<Rightarrow> (json \<times> string) option" where
  "parse_value d s =
     (case skip_ws s of
        [] \<Rightarrow> None
      | c # r \<Rightarrow>
          if c = quote_char then map_option (\<lambda>(t, q). (JStr t, q)) (scan_string r)
          else if c = CHR ''{'' then
            (case d of
               0 \<Rightarrow> None
             | Suc d' \<Rightarrow>
                (case skip_ws r of
                   [] \<Rightarrow> None
                 | e # r' \<Rightarrow>
                     if e = CHR ''}'' then Some (JObj [], r')
                     else map_option (\<lambda>(ms, q). (JObj ms, q)) (parse_members (parse_value d') r)))
          else if c = CHR ''['' then
            (case d of
               0 \<Rightarrow> None
             | Suc d' \<Rightarrow>
                (case skip_ws r of
                   [] \<Rightarrow> None
                 | e # r' \<Rightarrow>
                     if e = CHR '']'' then Some (JArr [], r')
                     else map_option (\<lambda>(vs, q). (JArr vs, q)) (parse_elems (parse_value d') r)))
          else if has_prefix (c # r) ''null'' then Some (JNull, drop 4 (c # r))
          else if has_prefix (c # r) ''true'' then Some (JBool True, drop 4 (c # r))
          else if has_prefix (c # r) ''false'' then Some (JBool False, drop 5 (c # r))
          else map_option (\<lambda>(t, q). (JNum t, q)) (scan_number (c # r)))"

declare parse_value.simps [simp del]

definition max_depth :: nat where "max_depth = 10000"

text \<open>\<open>json.Unmarshal\<close> accepts one value, with white space around it and nothing after it.\<close>

definition parse_json :: "string \<Rightarrow> json option" where
  "parse_json s =
     (case parse_value max_depth s of
        None \<Rightarrow> None
      | Some (v, r) \<Rightarrow> if skip_ws r = [] then Some v else None)"

section \<open>Printing\<close>

text \<open>A value without white space.\<close>

fun show_json :: "json \<Rightarrow> string" where
  "show_json JNull = ''null''"
| "show_json (JBool b) = (if b then ''true'' else ''false'')"
| "show_json (JNum n) = n"
| "show_json (JStr t) = quote_char # t @ [quote_char]"
| "show_json (JArr vs) = CHR ''['' # join_with '','' (map show_json vs) @ '']''"
| "show_json (JObj ms) =
     CHR ''{'' # join_with '','' (map (\<lambda>(k, v). quote_char # k @ quote_char # CHR '':'' # show_json v) ms) @ ''}''"

text \<open>Literals the scanner takes whole.\<close>

definition number_ok :: "string \<Rightarrow> bool" where
  "number_ok n \<longleftrightarrow> scan_number n = Some (n, [])"

definition raw_ok :: "string \<Rightarrow> bool" where
  "raw_ok t \<longleftrightarrow> scan_string (t @ [quote_char]) = Some (t, [])"

fun json_ok :: "json \<Rightarrow> bool" where
  "json_ok JNull = True"
| "json_ok (JBool b) = True"
| "json_ok (JNum n) = number_ok n"
| "json_ok (JStr t) = raw_ok t"
| "json_ok (JArr vs) = (\<forall>v \<in> set vs. json_ok v)"
| "json_ok (JObj ms) = (\<forall>(k, v) \<in> set ms. raw_ok k \<and> json_ok v)"

fun json_depth :: "json \<Rightarrow> nat" where
  "json_depth (JArr vs) = Suc (Max (insert 0 (json_depth ` set vs)))"
| "json_depth (JObj ms) = Suc (Max (insert 0 ((\<lambda>(k, v). json_depth v) ` set ms)))"
| "json_depth _ = 0"

section \<open>Parsing what was printed\<close>

lemma scan_string_append:
  "scan_string s = Some (t, r) \<Longrightarrow> scan_string (s @ x) = Some (t, r @ x)"
proof (induction s arbitrary: t r rule: scan_string.induct)
  case 1
  then show ?case by simp
next
  case (2 c s)
  show ?case
  proof (cases "c = back_slash \<and> c \<noteq> quote_char")
    case False
    then show ?thesis using 2 by (auto split: if_splits)
  next
    case True
    then obtain e s' where s: "s = e # s'" using "2.prems" by (cases s) auto
    have h: "hex4 s' \<Longrightarrow> hex4 (s' @ x) \<and> take 4 (s' @ x) = take 4 s' \<and> drop 4 (s' @ x) = drop 4 s' @ x"
      by (auto simp: hex4_def)
    show ?thesis
      using True "2.prems" "2.IH"(1) [OF _ _ s] "2.IH"(2) [OF _ _ s] h
      by (auto simp: s split: if_splits)
  qed
qed

lemma scan_string_raw [framing_simps]:
  "raw_ok t \<Longrightarrow> scan_string (t @ quote_char # rest) = Some (t, rest)"
  using scan_string_append [of "t @ [quote_char]" t "[]" rest] by (simp add: raw_ok_def)

text \<open>No printed number goes on with a character that can follow a value.\<close>

definition number_char :: "char \<Rightarrow> bool" where
  "number_char c \<longleftrightarrow> is_digit c \<or> c \<in> set ''.eE+-''"

definition ends_number :: "string \<Rightarrow> bool" where
  "ends_number s \<longleftrightarrow> s = [] \<or> \<not> number_char (hd s)"

lemma ends_number_simps [simp]:
  "ends_number []" "ends_number (c # s) \<longleftrightarrow> \<not> number_char c"
  by (simp_all add: ends_number_def)

lemma scan_digits_append:
  assumes "scan_digits s = Some (t, r)" and "ends_number x"
  shows "scan_digits (s @ x) = Some (t, r @ x)"
proof (cases "dropWhile is_digit s = []")
  case True
  then have "\<forall>c \<in> set s. is_digit c" by (simp add: dropWhile_eq_Nil_conv)
  then have "takeWhile is_digit (s @ x) = s" and "dropWhile is_digit (s @ x) = x"
    using assms(2) by (cases x; simp add: takeWhile_append2 dropWhile_append2 number_char_def)+
  moreover have "t = s" and "r = []" and "s \<noteq> []"
    using assms(1) True takeWhile_dropWhile_id [of is_digit s]
    by (auto simp: scan_digits_def split: if_splits)
  ultimately show ?thesis by (simp add: scan_digits_def)
next
  case False
  then obtain c where "c \<in> set s" and "\<not> is_digit c" by (auto simp: dropWhile_eq_Nil_conv)
  then show ?thesis
    using assms(1) by (auto simp: scan_digits_def takeWhile_append1 dropWhile_append1 split: if_splits)
qed

lemma scan_int_append:
  "scan_int s = Some (t, r) \<Longrightarrow> ends_number x \<Longrightarrow> scan_int (s @ x) = Some (t, r @ x)"
  using scan_digits_append [of s t r x]
  by (auto simp: scan_int_def split: list.splits if_splits)

lemma scan_frac_append:
  "scan_frac s = Some (t, r) \<Longrightarrow> ends_number x \<Longrightarrow> scan_frac (s @ x) = Some (t, r @ x)"
  using scan_digits_append [of "tl s" _ r x]
  by (cases s; cases x) (auto simp: scan_frac_def number_char_def split: if_splits)

lemma scan_exp_append:
  "scan_exp s = Some (t, r) \<Longrightarrow> ends_number x \<Longrightarrow> scan_exp (s @ x) = Some (t, r @ x)"
  using scan_digits_append [of "tl s" _ r x] scan_digits_append [of "tl (tl s)" _ r x]
  by (cases s; cases x; cases "tl s") (auto simp: scan_exp_def number_char_def split: if_splits)

lemma scan_unsigned_append:
  assumes "scan_unsigned s = Some (t, r)" and "ends_number x"
  shows "scan_unsigned (s @ x) = Some (t, r @ x)"
proof -
  obtain i r1 f r2 q where "scan_int s = Some (i, r1)" and "scan_frac r1 = Some (f, r2)"
    and "scan_exp r2 = Some (q, r)" and "t = i @ f @ q"
    using assms(1) by (auto simp: scan_unsigned_def split: option.splits prod.splits)
  then show ?thesis
    using assms(2) scan_int_append scan_frac_append scan_exp_append
    by (simp add: scan_unsigned_def)
qed

lemma scan_number_append:
  "scan_number s = Some (t, r) \<Longrightarrow> ends_number x \<Longrightarrow> scan_number (s @ x) = Some (t, r @ x)"
  using scan_unsigned_append [of s t r x] scan_unsigned_append [of "tl s" _ r x]
  by (auto simp: scan_number_def split: list.splits if_splits)

text \<open>A number starts with a digit or a minus sign, so it is taken for no other value.\<close>

lemma scan_number_first:
  "scan_number (c # s) \<noteq> None \<Longrightarrow> c = CHR ''-'' \<or> is_digit c"
  by (auto simp: scan_number_def scan_unsigned_def scan_int_def scan_digits_def is_digit_def
      split: if_splits option.splits)

lemma is_digit_cases:
  assumes "is_digit c \<or> c = CHR ''-''"
  shows "\<not> json_space c" and "c \<noteq> quote_char" and "c \<noteq> CHR ''{''" and "c \<noteq> CHR ''[''"
    and "c \<noteq> CHR '']''" and "c \<noteq> CHR ''}''" and "c \<noteq> CHR ''n''" and "c \<noteq> CHR ''t''" and "c \<noteq> CHR ''f''"
  using assms by (auto simp: is_digit_def json_space_def quote_char_def)

lemma skip_ws_Cons [simp]: "\<not> json_space c \<Longrightarrow> skip_ws (c # s) = c # s"
  by (simp add: skip_ws_def)

lemma brackets_no_space [simp]:
  "\<not> json_space CHR ''['' " "\<not> json_space CHR '']'' " "\<not> json_space CHR ''{'' "
  "\<not> json_space CHR ''}'' " "\<not> json_space CHR '','' " "\<not> json_space CHR '':'' "
  "\<not> json_space quote_char" "\<not> json_space CHR ''n'' " "\<not> json_space CHR ''t'' "
  "\<not> json_space CHR ''f'' "
  by (simp_all add: json_space_def quote_char_def)

lemma quote_char_neq:
  "CHR ''{'' \<noteq> quote_char" "quote_char \<noteq> CHR ''}'' "
  by (simp_all add: quote_char_def)

lemma brackets_end_number [simp]:
  "\<not> number_char CHR '']'' " "\<not> number_char CHR ''}'' " "\<not> number_char CHR '','' "
  "\<not> number_char LF" "\<not> number_char CHR '' '' "
  by (simp_all add: number_char_def is_digit_def)

lemma number_ok_first:
  assumes "number_ok n"
  obtains c s where "n = c # s" and "is_digit c \<or> c = CHR ''-''"
proof (cases n)
  case Nil
  then show ?thesis using assms by (simp add: number_ok_def scan_number_def)
next
  case (Cons c s)
  then show ?thesis using assms scan_number_first [of c s] that by (auto simp: number_ok_def)
qed

text \<open>A printed value starts with a character that is no space and closes no bracket.\<close>

lemma show_json_first:
  assumes "json_ok v"
  obtains c s where "show_json v = c # s" and "\<not> json_space c" and "c \<noteq> CHR '']''" and "c \<noteq> CHR ''}''"
proof (cases v)
  case (JNum n)
  then show ?thesis
    using assms that is_digit_cases by (auto elim!: number_ok_first)
next
  case (JBool b)
  then show ?thesis using that by (cases b) auto
next
  case (JStr t)
  then show ?thesis using that [of quote_char] by (simp add: quote_char_def json_space_def)
qed (use that in auto)

lemma show_json_not_Nil: "json_ok v \<Longrightarrow> show_json v \<noteq> []"
  by (metis list.distinct(1) show_json_first)

lemma skip_ws_show [simp]: "json_ok v \<Longrightarrow> skip_ws (show_json v @ rest) = show_json v @ rest"
  by (metis append_Cons show_json_first skip_ws_Cons)

lemma parse_elems_show:
  assumes "vs \<noteq> []"
    and "\<And>v rest. v \<in> set vs \<Longrightarrow> ends_number rest \<Longrightarrow> p (show_json v @ rest) = Some (v, rest)"
  shows "parse_elems p (join_with '','' (map show_json vs) @ CHR '']'' # rest) = Some (vs, rest)"
  using assms
proof (induction vs rule: list_nonempty_induct)
  case (single v)
  then show ?case by (simp add: parse_elems.simps)
next
  case (cons v vs)
  then show ?case
    by (subst parse_elems.simps) (simp add: join_with_Cons)
qed

lemma parse_key_show [simp]:
  "raw_ok k \<Longrightarrow> parse_key (quote_char # k @ quote_char # CHR '':'' # rest) = Some (k, rest)"
  by (simp add: parse_key_def framing_simps)

lemma parse_members_show:
  assumes "ms \<noteq> []" and "\<And>k v. (k, v) \<in> set ms \<Longrightarrow> raw_ok k"
    and "\<And>k v rest. (k, v) \<in> set ms \<Longrightarrow> ends_number rest \<Longrightarrow> p (show_json v @ rest) = Some (v, rest)"
  shows "parse_members p
    (join_with '','' (map (\<lambda>(k, v). quote_char # k @ quote_char # CHR '':'' # show_json v) ms)
      @ CHR ''}'' # rest) = Some (ms, rest)"
  using assms
proof (induction ms rule: list_nonempty_induct)
  case (single m)
  then show ?case by (cases m) (simp add: parse_members.simps)
next
  case (cons m ms)
  obtain k v where m: "m = (k, v)" by (cases m)
  have ih: "parse_members p
    (join_with '','' (map (\<lambda>(k, v). quote_char # k @ quote_char # CHR '':'' # show_json v) ms)
      @ CHR ''}'' # rest) = Some (ms, rest)"
    by (rule cons.IH) (use cons.prems in \<open>meson list.set_intros(2)\<close>)+
  have k: "raw_ok k" using cons.prems(1) [of k v] by (simp add: m)
  have v: "p (show_json v @ r) = Some (v, r)" if "ends_number r" for r
    using cons.prems(2) [of k v r] that by (simp add: m)
  show ?case
    using cons.hyps ih k v unfolding m
    by (subst parse_members.simps) (simp add: join_with_Cons)
qed

lemma le_Max_depth: "finite A \<Longrightarrow> x \<in> A \<Longrightarrow> Max (insert 0 A) \<le> d \<Longrightarrow> x \<le> (d :: nat)"
  by (metis Max_ge finite_insert insertCI le_trans)

theorem parse_value_show:
  "json_ok j \<Longrightarrow> json_depth j \<le> d \<Longrightarrow> ends_number rest \<Longrightarrow>
   parse_value d (show_json j @ rest) = Some (j, rest)"
proof (induction j arbitrary: d rest)
  case (JNum n)
  then obtain c s where n: "n = c # s" and c: "is_digit c \<or> c = CHR ''-''"
    by (auto elim: number_ok_first)
  show ?case
    using JNum n is_digit_cases [OF c] scan_number_append [of n n "[]" rest]
    by (subst parse_value.simps) (simp add: number_ok_def has_prefix_def)
next
  case (JArr vs)
  then obtain d' where d: "d = Suc d'" by (cases d) auto
  have p: "parse_value d' (show_json v @ r) = Some (v, r)" if "v \<in> set vs" "ends_number r" for v r
    using that JArr.prems le_Max_depth [of "json_depth ` set vs" "json_depth v" d']
    by (intro JArr.IH) (auto simp: d)
  show ?case
  proof (cases vs)
    case Nil
    then show ?thesis by (subst parse_value.simps) (simp add: d quote_char_def)
  next
    case (Cons v ws)
    have "json_ok v" using JArr.prems(1) Cons by simp
    then obtain c t where v: "show_json v = c # t" and c: "\<not> json_space c" "c \<noteq> CHR '']''"
      by (rule show_json_first)
    then obtain s where "join_with '','' (map show_json vs) @ CHR '']'' # rest = c # s"
      using Cons by (cases ws) simp_all
    then show ?thesis using c
      using parse_elems_show [of vs "parse_value d'" rest] p Cons
      by (subst parse_value.simps) (simp add: d quote_char_def)
  qed
next
  case (JObj ms)
  then obtain d' where d: "d = Suc d'" by (cases d) auto
  have p: "parse_value d' (show_json v @ r) = Some (v, r)" if "(k, v) \<in> set ms" "ends_number r" for k v r
    using that JObj.prems
      le_Max_depth [of "(\<lambda>(k, v). json_depth v) ` set ms" "json_depth v" d']
    by (intro JObj.IH) (force simp: d)+
  show ?case
  proof (cases ms)
    case Nil
    then show ?thesis by (subst parse_value.simps) (simp add: d quote_char_def)
  next
    case (Cons m ms')
    obtain s where s: "join_with '','' (map (\<lambda>(k, v). quote_char # k @ quote_char # CHR '':'' # show_json v) ms)
        @ CHR ''}'' # rest = quote_char # s"
      using Cons by (cases ms'; cases m) auto
    have "parse_members (parse_value d') (quote_char # s) = Some (ms, rest)"
      unfolding s [symmetric]
      by (rule parse_members_show) (use p JObj.prems Cons in fastforce)+
    then show ?thesis
      using s Cons by (subst parse_value.simps) (simp add: d quote_char_neq)
  qed
next
  case (JStr t)
  then show ?case by (subst parse_value.simps) (simp add: framing_simps)
qed (subst parse_value.simps, simp add: quote_char_def has_prefix_def)+

text \<open>\<open>Unmarshal\<close> after \<open>Marshal\<close>, with or without a newline after the value.\<close>

corollary parse_json_show:
  assumes "json_ok j" and "json_depth j \<le> max_depth"
  shows "parse_json (show_json j) = Some j" and "parse_json (show_json j @ [LF]) = Some j"
  using parse_value_show [OF assms, of "[]"] parse_value_show [OF assms, of "[LF]"]
  by (simp_all add: parse_json_def skip_ws_def json_space_def)

text \<open>Printed values hold no newline, so a line carries a whole message.\<close>

lemma scan_string_no_LF: "scan_string s = Some (t, r) \<Longrightarrow> LF \<notin> set t"
proof (induction s arbitrary: t r rule: scan_string.induct)
  case 1
  then show ?case by simp
next
  case (2 c s)
  show ?case
  proof (cases "c = back_slash \<and> c \<noteq> quote_char")
    case False
    then show ?thesis using 2 by (auto split: if_splits)
  next
    case True
    then obtain e s' where s: "s = e # s'" using "2.prems" by (cases s) auto
    have h: "hex4 s' \<Longrightarrow> LF \<notin> set (take 4 s')"
      by (auto simp: hex4_def list_all_iff hex_val_def Let_def)
    show ?thesis
      using True "2.prems" "2.IH"(1) [OF _ _ s] "2.IH"(2) [OF _ _ s] h
      by (auto simp: s simple_escapes_def quote_char_def back_slash_def split: if_splits)
  qed
qed

lemma scan_digits_chars: "scan_digits s = Some (t, r) \<Longrightarrow> c \<in> set t \<Longrightarrow> number_char c"
  by (auto simp: scan_digits_def number_char_def dest: set_takeWhileD split: if_splits)

lemma scan_int_chars: "scan_int s = Some (t, r) \<Longrightarrow> c \<in> set t \<Longrightarrow> number_char c"
  by (cases s) (auto simp: scan_int_def number_char_def is_digit_def split: if_splits dest: scan_digits_chars)

lemma scan_frac_chars: "scan_frac s = Some (t, r) \<Longrightarrow> c \<in> set t \<Longrightarrow> number_char c"
  by (cases s) (auto simp: scan_frac_def number_char_def split: if_splits dest: scan_digits_chars)

lemma scan_exp_chars: "scan_exp s = Some (t, r) \<Longrightarrow> c \<in> set t \<Longrightarrow> number_char c"
  by (cases s; cases "tl s")
     (auto simp: scan_exp_def number_char_def split: if_splits dest: scan_digits_chars)

lemma scan_unsigned_chars: "scan_unsigned s = Some (t, r) \<Longrightarrow> c \<in> set t \<Longrightarrow> number_char c"
  by (clarsimp simp: scan_unsigned_def split: option.splits prod.splits)
     (metis scan_int_chars scan_frac_chars scan_exp_chars)

lemma scan_number_chars: "scan_number s = Some (t, r) \<Longrightarrow> c \<in> set t \<Longrightarrow> number_char c"
  by (cases s) (auto simp: scan_number_def number_char_def [of "CHR ''-''"] split: if_splits,
      (metis scan_unsigned_chars)+)

lemma set_join_with: "c \<in> set (join_with sep ps) \<Longrightarrow> c \<in> set sep \<or> (\<exists>p \<in> set ps. c \<in> set p)"
  by (induction sep ps rule: join_with.induct) auto

lemma show_json_no_LF: "json_ok j \<Longrightarrow> LF \<notin> set (show_json j)"
proof (induction j)
  case (JNum n)
  then show ?case using scan_number_chars [of n n "[]" LF] by (auto simp: number_ok_def)
next
  case (JStr t)
  then show ?case using scan_string_no_LF by (auto simp: raw_ok_def quote_char_def)
next
  case (JArr vs)
  then show ?case by (auto dest!: set_join_with)
next
  case (JObj ms)
  then show ?case
    by (fastforce dest!: set_join_with scan_string_no_LF simp: raw_ok_def quote_char_def)
qed auto

end
