(* ===== verification/Go_Literals.thy ===== *)
theory Go_Literals
  imports Go_Json
begin

text \<open>
  The literals of \<open>encoding/json\<close>: strings decoded and encoded the way the package does (UTF-8
  checked, invalid bytes replaced, HTML characters escaped), object keys matched against field
  names without regard to case, and numbers read as IEEE double precision.
\<close>

section \<open>UTF-8\<close>

definition byte_in :: "nat \<Rightarrow> nat \<Rightarrow> char \<Rightarrow> bool" where
  "byte_in lo hi c \<longleftrightarrow> lo \<le> of_char c \<and> of_char c \<le> hi"

text \<open>
  \<open>utf8.DecodeRune\<close>: by its first byte a rune has a size (0, no rune starts so) and a range for
  its second byte; the others are continuation bytes.  \<open>utf8_width\<close> is the width of the rune in
  front, 0 when it is not well formed.
\<close>

definition utf8_first :: "char \<Rightarrow> nat \<times> nat \<times> nat" where
  "utf8_first a =
     (if byte_in 0 0x7F a then (1, 0, 0)
      else if byte_in 0xC2 0xDF a then (2, 0x80, 0xBF)
      else if byte_in 0xE0 0xE0 a then (3, 0xA0, 0xBF)
      else if byte_in 0xED 0xED a then (3, 0x80, 0x9F)
      else if byte_in 0xE1 0xEF a then (3, 0x80, 0xBF)
      else if byte_in 0xF0 0xF0 a then (4, 0x90, 0xBF)
      else if byte_in 0xF1 0xF3 a then (4, 0x80, 0xBF)
      else if byte_in 0xF4 0xF4 a then (4, 0x80, 0x8F)
      else (0, 0, 0))"

definition utf8_tail :: "nat \<Rightarrow> nat \<Rightarrow> nat \<Rightarrow> string \<Rightarrow> bool" where
  "utf8_tail n lo hi s \<longleftrightarrow>
     n - 1 \<le> length s \<and>
     (case take (n - 1) s of [] \<Rightarrow> True | b # t \<Rightarrow> byte_in lo hi b \<and> list_all (byte_in 0x80 0xBF) t)"

fun utf8_width :: "string \<Rightarrow> nat" where
  "utf8_width [] = 0"
| "utf8_width (a # s) =
     (let (n, lo, hi) = utf8_first a in if n \<noteq> 0 \<and> utf8_tail n lo hi s then n else 0)"

text \<open>\<open>utf8.EncodeRune\<close>\<close>

definition encode_rune :: "nat \<Rightarrow> string" where
  "encode_rune n =
     (if n < 0x80 then [char_of n]
      else if n < 0x800 then [char_of (0xC0 + n div 64), char_of (0x80 + n mod 64)]
      else if n < 0x10000 then
        [char_of (0xE0 + n div 4096), char_of (0x80 + n div 64 mod 64), char_of (0x80 + n mod 64)]
      else
        [char_of (0xF0 + n div 262144), char_of (0x80 + n div 4096 mod 64),
         char_of (0x80 + n div 64 mod 64), char_of (0x80 + n mod 64)])"

definition rune_error :: string where
  "rune_error = [CHR 0xEF, CHR 0xBF, CHR 0xBD]"

lemma utf8_width_le: "utf8_width s \<le> length s"
  by (cases s) (auto simp: utf8_tail_def split: prod.splits)

lemma utf8_width_prefix:
  assumes "utf8_width s \<noteq> 0"
  shows "utf8_width (take (utf8_width s) s @ rest) = utf8_width s"
proof (cases s)
  case (Cons a t)
  obtain n lo hi where n: "utf8_first a = (n, lo, hi)" by (cases "utf8_first a")
  have w: "utf8_width s = n" "n \<noteq> 0" "utf8_tail n lo hi t"
    using assms Cons n by (auto split: if_splits)
  then have "take n s = a # take (n - 1) t" using Cons by (cases n) simp_all
  then show ?thesis using w n by (simp add: utf8_tail_def)
qed (use assms in simp)

function valid_utf8 :: "string \<Rightarrow> bool" where
  "valid_utf8 s =
     (if s = [] then True
      else if utf8_width s = 0 then False
      else valid_utf8 (drop (utf8_width s) s))"
  by pat_completeness auto
termination
  by (relation "measure length") (simp, case_tac s, simp_all)

declare valid_utf8.simps [simp del]

section \<open>Strings\<close>

definition hex4_val :: "string \<Rightarrow> nat" where
  "hex4_val s = foldl (\<lambda>n h. 16 * n + (case hex_val h of None \<Rightarrow> 0 | Some v \<Rightarrow> v)) 0 (take 4 s)"

definition unescape :: "char \<Rightarrow> char" where
  "unescape e =
     (if e = CHR ''b'' then CHR 0x08 else if e = CHR ''f'' then CHR 0x0C
      else if e = CHR ''n'' then LF else if e = CHR ''r'' then CR
      else if e = CHR ''t'' then CHR 0x09 else e)"

text \<open>The second half of a surrogate pair, if the escape that follows is one.\<close>

definition low_surrogate :: "string \<Rightarrow> nat option" where
  "low_surrogate s =
     (if has_prefix s [back_slash, CHR ''u''] \<and> hex4 (drop 2 s) \<and>
         0xDC00 \<le> hex4_val (drop 2 s) \<and> hex4_val (drop 2 s) \<le> 0xDFFF
      then Some (hex4_val (drop 2 s)) else None)"

text \<open>\<open>unquote\<close>: what a string literal stands for.\<close>

function unquote :: "string \<Rightarrow> string" where
  "unquote [] = []"
| "unquote (c # s) =
     (if c = back_slash then
        (case s of
           [] \<Rightarrow> []
         | e # r \<Rightarrow>
             if e = CHR ''u'' then
               (let n = hex4_val r in
                if 0xD800 \<le> n \<and> n \<le> 0xDFFF then
                  (case low_surrogate (drop 4 r) of
                     Some m \<Rightarrow>
                       if n \<le> 0xDBFF
                       then encode_rune ((n - 0xD800) * 1024 + (m - 0xDC00) + 0x10000) @ unquote (drop 10 r)
                       else rune_error @ unquote (drop 4 r)
                   | None \<Rightarrow> rune_error @ unquote (drop 4 r))
                else encode_rune n @ unquote (drop 4 r))
             else unescape e # unquote r)
      else if byte_in 0 0x7F c then c # unquote s
      else if utf8_width (c # s) = 0 then rune_error @ unquote s
      else take (utf8_width (c # s)) (c # s) @ unquote (drop (utf8_width (c # s)) (c # s)))"
  by pat_completeness auto
termination
  by (relation "measure length") auto

declare unquote.simps(2) [simp del]

definition hex_digit :: "nat \<Rightarrow> char" where
  "hex_digit n = (if n < 10 then char_of (48 + n) else char_of (87 + n))"

definition u_escape :: "nat \<Rightarrow> string" where
  "u_escape n =
     [back_slash, CHR ''u'', hex_digit (n div 4096), hex_digit (n div 256 mod 16),
      hex_digit (n div 16 mod 16), hex_digit (n mod 16)]"

text \<open>One ASCII character of a string, encoded.\<close>

definition quote_ascii :: "char \<Rightarrow> string" where
  "quote_ascii c =
     (if c = quote_char \<or> c = back_slash then [back_slash, c]
      else if c = CHR 0x08 then [back_slash, CHR ''b'']
      else if c = CHR 0x0C then [back_slash, CHR ''f'']
      else if c = LF then [back_slash, CHR ''n'']
      else if c = CR then [back_slash, CHR ''r'']
      else if c = CHR 0x09 then [back_slash, CHR ''t'']
      else if byte_in 0 31 c \<or> c = CHR ''<'' \<or> c = CHR ''>'' \<or> c = CHR ''&'' then u_escape (of_char c)
      else [c])"

function quote_text :: "string \<Rightarrow> string" where
  "quote_text [] = []"
| "quote_text (c # s) =
     (if byte_in 0 0x7F c then quote_ascii c @ quote_text s
      else if utf8_width (c # s) = 0 then u_escape 0xFFFD @ quote_text s
      else let w = utf8_width (c # s); r = take w (c # s) in
        (if r = [CHR 0xE2, CHR 0x80, CHR 0xA8] then u_escape 0x2028
         else if r = [CHR 0xE2, CHR 0x80, CHR 0xA9] then u_escape 0x2029 else r) @
        quote_text (drop w (c # s)))"
  by pat_completeness auto
termination
  by (relation "measure length") auto

declare quote_text.simps(2) [simp del]

text \<open>A Go string as a JSON value.\<close>

definition JText :: "string \<Rightarrow> json" where
  "JText s = JStr (quote_text s)"

section \<open>What is encoded is decoded\<close>

definition plain_char :: "char \<Rightarrow> bool" where
  "plain_char c \<longleftrightarrow> c \<noteq> quote_char \<and> c \<noteq> back_slash \<and> 32 \<le> (of_char c :: nat)"

lemma scan_string_plain:
  "list_all plain_char bs \<Longrightarrow>
   scan_string (bs @ x) = map_option (\<lambda>(t, r). (bs @ t, r)) (scan_string x)"
  by (induction bs) (auto simp: plain_char_def option.map_comp comp_def split_def option.map_ident)

lemma high_byte_plain: "byte_in 0x80 hi c \<Longrightarrow> plain_char c"
  by (auto simp: byte_in_def plain_char_def quote_char_def back_slash_def)

lemma utf8_bytes_plain:
  assumes "\<not> byte_in 0 0x7F a"
  shows "list_all plain_char (take (utf8_width (a # s)) (a # s))"
proof -
  obtain n lo hi where n: "utf8_first a = (n, lo, hi)" by (cases "utf8_first a")
  have lo: "n \<noteq> 0 \<Longrightarrow> 0x80 \<le> lo" using assms n by (auto simp: utf8_first_def split: if_splits)
  have a: "plain_char a" using assms by (auto simp: byte_in_def plain_char_def quote_char_def back_slash_def)
  have "list_all plain_char (take (n - 1) s)" if "n \<noteq> 0" and t: "utf8_tail n lo hi s"
  proof (cases "take (n - 1) s")
    case (Cons b bs)
    then have "byte_in lo hi b" and "list_all (byte_in 0x80 0xBF) bs"
      using t by (simp_all add: utf8_tail_def)
    then show ?thesis
      using Cons lo [OF that(1)] high_byte_plain [of hi b] high_byte_plain [where hi = "0xBF"]
      by (auto simp: list_all_iff byte_in_def)
  next
    case Nil
    show ?thesis unfolding Nil by simp
  qed
  then show ?thesis using a n by (cases n) (auto simp: Let_def)
qed

lemma hex_digit_val [simp]: "n < 16 \<Longrightarrow> hex_val (hex_digit n) = Some n"
  by (auto simp: hex_digit_def hex_val_def)

lemma u_escape_hex4 [simp]:
  "n < 0x10000 \<Longrightarrow> hex4 (drop 2 (u_escape n) @ x)"
  "n < 0x10000 \<Longrightarrow> hex4_val (drop 2 (u_escape n) @ x) = n"
proof -
  assume n: "n < 0x10000"
  show "hex4 (drop 2 (u_escape n) @ x)" using n by (simp add: u_escape_def hex4_def)
  have "n div 256 = n div 16 div 16" and "n div 4096 = n div 16 div 16 div 16"
    by (simp_all add: div_mult2_eq [symmetric])
  moreover have "n div 16 div 16 div 16 < 16" using n by (simp add: div_mult2_eq [symmetric] less_mult_imp_div_less)
  moreover have "16 * (16 * (16 * (n div 16 div 16 div 16) + n div 16 div 16 mod 16) + n div 16 mod 16)
      + n mod 16 = n" by (simp only: mult_div_mod_eq)
  ultimately show "hex4_val (drop 2 (u_escape n) @ x) = n"
    using n by (simp add: u_escape_def hex4_val_def)
qed

lemma u_escape_split:
  "u_escape n = back_slash # CHR ''u'' # drop 2 (u_escape n)" "length (drop 2 (u_escape n)) = 4"
  by (simp_all add: u_escape_def)

lemma scan_string_u_escape:
  assumes "n < 0x10000"
  shows "scan_string (u_escape n @ x) = map_option (\<lambda>(t, r). (u_escape n @ t, r)) (scan_string x)"
proof -
  let ?h = "drop 2 (u_escape n)"
  have "take 4 (?h @ x) = ?h" and "drop 4 (?h @ x) = x" using u_escape_split(2) [of n] by simp_all
  then show ?thesis
    using assms u_escape_hex4(1) [OF assms, of x]
    by (subst (1 2) u_escape_split(1))
      (simp add: simple_escapes_def back_slash_def quote_char_def)
qed

lemma unquote_u_escape:
  assumes "n < 0xD800 \<or> (0xDFFF < n \<and> n < 0x10000)"
  shows "unquote (u_escape n @ x) = encode_rune n @ unquote x"
proof -
  let ?h = "drop 2 (u_escape n)"
  have "drop 4 (?h @ x) = x" using u_escape_split(2) [of n] by simp
  moreover have "hex4_val (?h @ x) = n" using assms by (intro u_escape_hex4(2)) auto
  ultimately show ?thesis
    using assms by (subst u_escape_split(1)) (auto simp: unquote.simps(2))
qed

lemma scan_string_quote_ascii:
  "byte_in 0 0x7F c \<Longrightarrow>
   scan_string (quote_ascii c @ x) = map_option (\<lambda>(t, r). (quote_ascii c @ t, r)) (scan_string x)"
  using scan_string_u_escape [of "of_char c" x] scan_string_plain [of "[c]" x]
  by (auto simp: quote_ascii_def simple_escapes_def quote_char_def back_slash_def plain_char_def byte_in_def)

lemma unquote_quote_ascii:
  assumes "byte_in 0 0x7F c"
  shows "unquote (quote_ascii c @ x) = c # unquote x"
proof -
  have "encode_rune (of_char c) = [c]" using assms by (simp add: encode_rune_def byte_in_def)
  then show ?thesis
    using assms unquote_u_escape [of "of_char c" x]
    by (auto simp: quote_ascii_def unquote.simps(2) unescape_def quote_char_def back_slash_def byte_in_def)
qed

lemma quote_text_raw: "scan_string (quote_text s @ quote_char # rest) = Some (quote_text s, rest)"
proof (induction s rule: quote_text.induct)
  case 1
  then show ?case by simp
next
  case (2 c s)
  show ?case
  proof (cases "byte_in 0 0x7F c")
    case True
    then show ?thesis using 2 by (simp add: quote_text.simps(2) scan_string_quote_ascii)
  next
    case False
    then show ?thesis
      using 2 utf8_bytes_plain [OF False, of s]
      by (simp add: quote_text.simps(2) scan_string_u_escape scan_string_plain Let_def)
  qed
qed

lemma raw_ok_quote_text [simp]: "raw_ok (quote_text s)"
  using quote_text_raw [of s "[]"] by (simp add: raw_ok_def)

lemma json_ok_JText [simp]: "json_ok (JText s)"
  by (simp add: JText_def)

lemma unquote_rune:
  assumes "\<not> byte_in 0 0x7F c" and "utf8_width (c # s) \<noteq> 0"
  shows "unquote (take (utf8_width (c # s)) (c # s) @ x) = take (utf8_width (c # s)) (c # s) @ unquote x"
proof -
  let ?w = "utf8_width (c # s)"
  let ?t = "take (?w - 1) s"
  have t: "take ?w (c # s) = c # ?t" using assms(2) by (cases ?w) simp_all
  have w: "utf8_width (c # ?t @ x) = ?w" using utf8_width_prefix [OF assms(2), of x] t by simp
  have d: "take ?w (c # ?t @ x) = c # ?t" "drop ?w (c # ?t @ x) = x"
    using utf8_width_le [of "c # s"] assms(2) by (cases ?w; simp)+
  have "c \<noteq> back_slash" using assms(1) by (auto simp: byte_in_def back_slash_def)
  then have "unquote (c # ?t @ x) = (c # ?t) @ unquote x"
    using assms w d by (simp add: unquote.simps(2) del: utf8_width.simps)
  then show ?thesis by (simp only: t append.simps)
qed


theorem unquote_quote_text: "valid_utf8 s \<Longrightarrow> unquote (quote_text s) = s"
proof (induction s rule: quote_text.induct)
  case 1
  then show ?case by simp
next
  case (2 c s)
  show ?case
  proof (cases "byte_in 0 0x7F c")
    case True
    then have "utf8_width (c # s) = 1" by (simp add: utf8_first_def utf8_tail_def)
    then have "valid_utf8 s" using "2.prems" by (simp add: valid_utf8.simps [of "c # s"] del: utf8_width.simps)
    then show ?thesis
      using True 2 by (simp add: quote_text.simps(2) unquote_quote_ascii del: utf8_width.simps)
  next
    case False
    let ?w = "utf8_width (c # s)"
    have w: "?w \<noteq> 0" and v: "valid_utf8 (drop ?w (c # s))"
      using "2.prems" by (auto simp: valid_utf8.simps [of "c # s"] simp del: utf8_width.simps split: if_splits)
    then have ih: "unquote (quote_text (drop ?w (c # s))) = drop ?w (c # s)"
      using "2.IH"(3) False by (simp del: utf8_width.simps)
    have r: "encode_rune 0x2028 = [CHR 0xE2, CHR 0x80, CHR 0xA8]"
      "encode_rune 0x2029 = [CHR 0xE2, CHR 0x80, CHR 0xA9]"
      by (simp_all add: encode_rune_def char_of_def bit_iff_odd)
    define t where "t = take ?w (c # s)"
    define d where "d = drop ?w (c # s)"
    have "quote_text (c # s) = (if t = [CHR 0xE2, CHR 0x80, CHR 0xA8] then u_escape 0x2028
         else if t = [CHR 0xE2, CHR 0x80, CHR 0xA9] then u_escape 0x2029 else t) @ quote_text d"
      using False w by (simp add: quote_text.simps(2) Let_def t_def d_def del: utf8_width.simps)
    moreover have "unquote (t @ quote_text d) = t @ unquote (quote_text d)"
      using unquote_rune [OF False w, of "quote_text d"] by (simp only: t_def)
    ultimately have "unquote (quote_text (c # s)) = t @ d"
      using ih r unquote_u_escape [of "0x2028" "quote_text d"] unquote_u_escape [of "0x2029" "quote_text d"]
      by (auto simp: d_def [symmetric] simp del: utf8_width.simps)
    moreover have "t @ d = c # s" unfolding t_def d_def by (rule append_take_drop_id)
    ultimately show ?thesis by simp
  qed
qed

text \<open>Text in ASCII is well formed.\<close>

lemma ascii_valid: "list_all (byte_in 0 0x7F) s \<Longrightarrow> valid_utf8 s"
  by (induction s) (simp_all add: valid_utf8.simps utf8_first_def utf8_tail_def)

section \<open>Object keys\<close>

text \<open>
  A key names a field when it is equal to it up to the simple case folding of Unicode.  On the
  letters of ASCII this is the usual one; two characters beyond ASCII fold into it, the long s and
  the Kelvin sign.
\<close>

function fold_name :: "string \<Rightarrow> string" where
  "fold_name [] = []"
| "fold_name (c # s) =
     (if has_prefix (c # s) [CHR 0xC5, CHR 0xBF] then CHR ''s'' # fold_name (drop 1 s)
      else if has_prefix (c # s) [CHR 0xE2, CHR 0x84, CHR 0xAA] then CHR ''k'' # fold_name (drop 2 s)
      else lower_char c # fold_name s)"
  by pat_completeness auto
termination
  by (relation "measure length") auto

definition key_is :: "string \<Rightarrow> string \<Rightarrow> bool" where
  "key_is raw field \<longleftrightarrow> fold_name (unquote raw) = field"

section \<open>Numbers as double precision\<close>

text \<open>\<open>Float64 neg m e\<close> is the number \<open>m * 2 ^ e\<close>, negated if \<open>neg\<close>; \<open>m < 2 ^ 53\<close> and \<open>e \<ge> -1074\<close>.\<close>

datatype float64 = Float64 bool nat int

definition round_div :: "nat \<Rightarrow> nat \<Rightarrow> nat" where
  "round_div n d =
     (let q = n div d; r = n mod d
      in if 2 * r > d \<or> (2 * r = d \<and> odd q) then q + 1 else q)"

fun bit_length :: "nat \<Rightarrow> nat" where
  "bit_length n = (if n = 0 then 0 else Suc (bit_length (n div 2)))"

declare bit_length.simps [simp del]

definition scaled :: "nat \<Rightarrow> nat \<Rightarrow> int \<Rightarrow> nat" where
  "scaled n d e =
     (if e \<ge> 0 then round_div n (d * 2 ^ nat e) else round_div (n * 2 ^ nat (- e)) d)"

text \<open>The double nearest to \<open>n / d\<close>, ties to even; \<open>None\<close> beyond the largest double.\<close>

definition to_float64 :: "bool \<Rightarrow> nat \<Rightarrow> nat \<Rightarrow> float64 option" where
  "to_float64 neg n d =
     (if n = 0 then Some (Float64 neg 0 (- 1074))
      else
        let e0 = int (bit_length n) - int (bit_length d) - 53;
            e1 = (if (if e0 \<ge> 0 then n div (d * 2 ^ nat e0) else n * 2 ^ nat (- e0) div d) \<ge> 2 ^ 53
                  then e0 + 1 else e0);
            e = max e1 (- 1074);
            m = scaled n d e;
            (m', e') = (if m = 2 ^ 53 then (2 ^ 52, e + 1) else (m, e))
        in if e' > 971 then None else Some (Float64 neg m' e'))"

text \<open>A number literal cut into its sign, its digits, and the power of ten to scale them with.\<close>

definition read_int :: "string \<Rightarrow> int" where
  "read_int s =
     (case s of
        [] \<Rightarrow> 0
      | c # r \<Rightarrow> if c = CHR ''-'' then - int (read_nat r) else if c = CHR ''+'' then int (read_nat r)
                 else int (read_nat s))"

definition literal_parts :: "string \<Rightarrow> bool \<times> nat \<times> int" where
  "literal_parts lit =
     (let neg = has_prefix lit ''-'';
          body = (if neg then tl lit else lit);
          int_part = takeWhile is_digit body;
          rest = dropWhile is_digit body;
          frac = (if has_prefix rest ''.'' then takeWhile is_digit (tl rest) else []);
          ex = dropWhile (\<lambda>c. c \<noteq> CHR ''e'' \<and> c \<noteq> CHR ''E'') rest;
          x = (if ex = [] then 0 else read_int (tl ex))
      in (neg, read_nat (int_part @ frac), x - int (length frac)))"

text \<open>\<open>strconv.ParseFloat(lit, 64)\<close>, \<open>None\<close> when the value is out of range.\<close>

definition parse_float :: "string \<Rightarrow> float64 option" where
  "parse_float lit =
     (case literal_parts lit of
        (neg, m, x) \<Rightarrow> if x \<ge> 0 then to_float64 neg (m * 10 ^ nat x) 1 else to_float64 neg m (10 ^ nat (- x)))"

text \<open>\<open>float64(int64(f)) == f\<close> (on amd64, where an out-of-range conversion gives the least integer).\<close>

definition float_int64 :: "float64 \<Rightarrow> int option" where
  "float_int64 f =
     (case f of Float64 neg m e \<Rightarrow>
        if e < 0 \<and> m mod 2 ^ nat (- e) \<noteq> 0 then None
        else let a = int (if e \<ge> 0 then m * 2 ^ nat e else m div 2 ^ nat (- e));
                 v = (if neg then - a else a)
             in if - (2 ^ 63) \<le> v \<and> v < 2 ^ 63 then Some v else None)"

text \<open>\<open>fmt.Sprintf("%.0f", f)\<close>\<close>

definition show_rounded :: "float64 \<Rightarrow> string" where
  "show_rounded f =
     (case f of Float64 neg m e \<Rightarrow>
        (if neg then ''-'' else []) @
        show_nat (if e \<ge> 0 then m * 2 ^ nat e else round_div m (2 ^ nat (- e))))"

text \<open>
  \<open>encoding/json\<close>'s rendering of a finite double: the shortest digits that read back as the same
  double, in positional notation between \<open>1e-6\<close> and \<open>1e21\<close> and with an exponent outside.
\<close>

definition digits_at :: "nat \<Rightarrow> int \<Rightarrow> nat \<Rightarrow> int \<Rightarrow> nat" where
  "digits_at m e k x =
     (let num = m * (if e \<ge> 0 then 2 ^ nat e else 1) * (if int k \<ge> x then 10 ^ nat (int k - x) else 1);
          den = (if e < 0 then 2 ^ nat (- e) else 1) * (if int k < x then 10 ^ nat (x - int k) else 1)
      in round_div num den)"

definition reads_back :: "float64 \<Rightarrow> nat \<Rightarrow> int \<Rightarrow> bool" where
  "reads_back f d x =
     (case f of Float64 neg m e \<Rightarrow>
        (if x \<ge> 0 then to_float64 neg (d * 10 ^ nat x) 1 else to_float64 neg d (10 ^ nat (- x))) = Some f)"

definition decimal_point :: "nat \<Rightarrow> int \<Rightarrow> int" where
  "decimal_point m e =
     (if e \<ge> 0 then int (length (show_nat (m * 2 ^ nat e)))
      else if m div 2 ^ nat (- e) > 0 then int (length (show_nat (m div 2 ^ nat (- e))))
      else 1 - (case find (\<lambda>j. m * 10 ^ j \<ge> 2 ^ nat (- e)) [1..<350] of None \<Rightarrow> 350 | Some j \<Rightarrow> int j))"

definition shortest :: "float64 \<Rightarrow> nat \<times> int" where
  "shortest f =
     (case f of Float64 neg m e \<Rightarrow>
        let x = decimal_point m e
        in case find (\<lambda>k. reads_back f (digits_at m e k x) (x - int k)) [1..<18] of
             Some k \<Rightarrow> (digits_at m e k x, x - int k)
           | None \<Rightarrow> (digits_at m e 17 x, x - 17))"

definition show_float64 :: "float64 \<Rightarrow> string" where
  "show_float64 f =
     (case f of Float64 neg m e \<Rightarrow>
        (if neg then ''-'' else []) @
        (if m = 0 then ''0''
         else
           let (d, y) = shortest f; all = show_nat d; p = int (length all) + y;
               ds = rev (dropWhile (\<lambda>c. c = CHR ''0'') (rev all)); x = p - int (length ds)
           in if p > 21 \<or> p < - 5 then
                take 1 ds @ (if length ds > 1 then CHR ''.'' # drop 1 ds else []) @ ''e'' @
                (if p - 1 < 0 then ''-'' else ''+'') @
                (let q = show_nat (nat (abs (p - 1)))
                 in if length q < 2 \<and> p - 1 \<ge> 0 then CHR ''0'' # q else q)
              else if p \<le> 0 then ''0.'' @ replicate (nat (- p)) (CHR ''0'') @ ds
              else if x \<ge> 0 then ds @ replicate (nat x) (CHR ''0'')
              else take (nat p) ds @ CHR ''.'' # drop (nat p) ds))"

end
