(* ===== verification/Jsonrpc.thy ===== *)
theory Jsonrpc
  imports Go_Literals
begin

text \<open>
  JSON-RPC 2.0 messages (\<open>internal/protocol/jsonrpc.go\<close>, and the parsing functions of
  \<open>internal/protocol/codec.go\<close>): request identifiers, requests, responses, notifications, the
  generic message and its classification, decoded from the bytes and encoded to them as
  \<open>encoding/json\<close> does it with these types.
\<close>

section \<open>Request identifiers\<close>

text \<open>\<open>RequestID\<close>: the value inside, nil, a string, an \<open>int64\<close> or a \<open>float64\<close>.\<close>

datatype request_id = IDNull | IDStr string | IDInt int | IDFloat float64

definition NewStringID :: "string \<Rightarrow> request_id" where
  "NewStringID s = IDStr s"

definition NewNumberID :: "int \<Rightarrow> request_id" where
  "NewNumberID n = IDInt n"

definition id_IsNull :: "request_id \<Rightarrow> bool" where
  "id_IsNull i \<longleftrightarrow> i = IDNull"

fun id_String :: "request_id \<Rightarrow> string" where
  "id_String (IDStr s) = s"
| "id_String (IDInt n) = show_int n"
| "id_String (IDFloat f) = show_rounded f"
| "id_String IDNull = []"

fun id_MarshalJSON :: "request_id \<Rightarrow> json" where
  "id_MarshalJSON IDNull = JNull"
| "id_MarshalJSON (IDStr s) = JText s"
| "id_MarshalJSON (IDInt n) = JNum (show_int n)"
| "id_MarshalJSON (IDFloat f) = JNum (show_float64 f)"

text \<open>A string first, then a number, kept as an integer when it is one; anything else is refused.\<close>

fun id_UnmarshalJSON :: "json \<Rightarrow> request_id option" where
  "id_UnmarshalJSON JNull = Some IDNull"
| "id_UnmarshalJSON (JStr t) = Some (IDStr (unquote t))"
| "id_UnmarshalJSON (JNum n) =
     (case parse_float n of
        None \<Rightarrow> None
      | Some f \<Rightarrow> (case float_int64 f of Some v \<Rightarrow> Some (IDInt v) | None \<Rightarrow> Some (IDFloat f)))"
| "id_UnmarshalJSON _ = None"

section \<open>The message types\<close>

text \<open>A \<open>json.RawMessage\<close> is nil or a value; \<open>Error.Data\<close> of type \<open>any\<close> likewise.\<close>

record rpc_error =
  re_Code :: int
  re_Message :: string
  re_Data :: "json option"

record request =
  rq_JSONRPC :: string
  rq_ID :: request_id
  rq_Method :: string
  rq_Params :: "json option"

record response =
  rs_JSONRPC :: string
  rs_ID :: request_id
  rs_Result :: "json option"
  rs_Error :: "rpc_error option"

record notification =
  nt_JSONRPC :: string
  nt_Method :: string
  nt_Params :: "json option"

record message =
  ms_JSONRPC :: string
  ms_ID :: "request_id option"
  ms_Method :: string
  ms_Params :: "json option"
  ms_Result :: "json option"
  ms_Error :: "rpc_error option"

definition JSONRPCVersion :: string where "JSONRPCVersion = ''2.0''"

definition ParseError :: int where "ParseError = - 32700"
definition InvalidRequest :: int where "InvalidRequest = - 32600"
definition MethodNotFound :: int where "MethodNotFound = - 32601"
definition InvalidParams :: int where "InvalidParams = - 32602"
definition InternalError :: int where "InternalError = - 32603"

definition NewError :: "int \<Rightarrow> string \<Rightarrow> json option \<Rightarrow> rpc_error" where
  "NewError code m data = \<lparr>re_Code = code, re_Message = m, re_Data = data\<rparr>"

definition NewParseError :: "json option \<Rightarrow> rpc_error" where
  "NewParseError data = NewError ParseError ''Parse error'' data"

definition NewInvalidRequestError :: "json option \<Rightarrow> rpc_error" where
  "NewInvalidRequestError data = NewError InvalidRequest ''Invalid Request'' data"

definition NewMethodNotFoundError :: "string \<Rightarrow> rpc_error" where
  "NewMethodNotFoundError m = NewError MethodNotFound ''Method not found'' (Some (JText m))"

definition NewInvalidParamsError :: "json option \<Rightarrow> rpc_error" where
  "NewInvalidParamsError data = NewError InvalidParams ''Invalid params'' data"

definition NewInternalError :: "json option \<Rightarrow> rpc_error" where
  "NewInternalError data = NewError InternalError ''Internal error'' data"

definition NewResponse :: "request_id \<Rightarrow> json \<Rightarrow> response" where
  "NewResponse i result = \<lparr>rs_JSONRPC = JSONRPCVersion, rs_ID = i, rs_Result = Some result, rs_Error = None\<rparr>"

definition NewErrorResponse :: "request_id \<Rightarrow> rpc_error \<Rightarrow> response" where
  "NewErrorResponse i e = \<lparr>rs_JSONRPC = JSONRPCVersion, rs_ID = i, rs_Result = None, rs_Error = Some e\<rparr>"

definition IsSuccess :: "response \<Rightarrow> bool" where
  "IsSuccess r \<longleftrightarrow> rs_Error r = None"

definition NewNotification :: "string \<Rightarrow> json option \<Rightarrow> notification" where
  "NewNotification m params = \<lparr>nt_JSONRPC = JSONRPCVersion, nt_Method = m, nt_Params = params\<rparr>"

datatype rpc_invalid = BadVersion string | MethodRequired | IdRequired | ParseFailed

definition Request_Validate :: "request \<Rightarrow> rpc_invalid option" where
  "Request_Validate r =
     (if rq_JSONRPC r \<noteq> JSONRPCVersion then Some (BadVersion (rq_JSONRPC r))
      else if rq_Method r = [] then Some MethodRequired
      else if id_IsNull (rq_ID r) then Some IdRequired
      else None)"

definition Notification_Validate :: "notification \<Rightarrow> rpc_invalid option" where
  "Notification_Validate n =
     (if nt_JSONRPC n \<noteq> JSONRPCVersion then Some (BadVersion (nt_JSONRPC n))
      else if nt_Method n = [] then Some MethodRequired
      else None)"

section \<open>Classification\<close>

datatype message_type =
  MessageTypeUnknown | MessageTypeRequest | MessageTypeResponse | MessageTypeNotification

definition Message_Type :: "message \<Rightarrow> message_type" where
  "Message_Type m =
     (if ms_Result m \<noteq> None \<or> ms_Error m \<noteq> None then MessageTypeResponse
      else if ms_Method m \<noteq> [] \<and> ms_ID m \<noteq> None \<and> \<not> id_IsNull (the (ms_ID m)) then MessageTypeRequest
      else if ms_Method m \<noteq> [] \<and> (ms_ID m = None \<or> id_IsNull (the (ms_ID m))) then MessageTypeNotification
      else MessageTypeUnknown)"

fun message_type_String :: "message_type \<Rightarrow> string" where
  "message_type_String MessageTypeRequest = ''request''"
| "message_type_String MessageTypeResponse = ''response''"
| "message_type_String MessageTypeNotification = ''notification''"
| "message_type_String MessageTypeUnknown = ''unknown''"

definition ToRequest :: "message \<Rightarrow> request option" where
  "ToRequest m =
     (if Message_Type m \<noteq> MessageTypeRequest then None
      else Some \<lparr>rq_JSONRPC = ms_JSONRPC m, rq_ID = the (ms_ID m), rq_Method = ms_Method m,
                 rq_Params = ms_Params m\<rparr>)"

definition ToResponse :: "message \<Rightarrow> response option" where
  "ToResponse m =
     (if Message_Type m \<noteq> MessageTypeResponse then None
      else Some \<lparr>rs_JSONRPC = ms_JSONRPC m,
                 rs_ID = (case ms_ID m of None \<Rightarrow> IDNull | Some i \<Rightarrow> i),
                 rs_Result = ms_Result m, rs_Error = ms_Error m\<rparr>)"

definition ToNotification :: "message \<Rightarrow> notification option" where
  "ToNotification m =
     (if Message_Type m \<noteq> MessageTypeNotification then None
      else Some \<lparr>nt_JSONRPC = ms_JSONRPC m, nt_Method = ms_Method m, nt_Params = ms_Params m\<rparr>)"

section \<open>Decoding\<close>

text \<open>
  \<open>json.Unmarshal\<close> into a struct goes through the members in order and decodes each whose key
  names a field into it, so the last one of a name wins; other members are ignored.  A null
  leaves a string or a number alone, clears a pointer or an \<open>any\<close>, and is a value to a raw message.
\<close>

fun decode_members ::
  "(string \<Rightarrow> json \<Rightarrow> 'r \<Rightarrow> 'r option) \<Rightarrow> (string \<times> json) list \<Rightarrow> 'r \<Rightarrow> 'r option" where
  "decode_members f [] r = Some r"
| "decode_members f ((k, v) # ms) r =
     (case f k v r of None \<Rightarrow> None | Some r' \<Rightarrow> decode_members f ms r')"

fun decode_string :: "json \<Rightarrow> string \<Rightarrow> string option" where
  "decode_string JNull old = Some old"
| "decode_string (JStr t) old = Some (unquote t)"
| "decode_string _ old = None"

text \<open>\<open>strconv.ParseInt\<close> to base 10 in 64 bits on a number literal.\<close>

fun decode_int :: "json \<Rightarrow> int \<Rightarrow> int option" where
  "decode_int JNull old = Some old"
| "decode_int (JNum n) old =
     (if list_all is_digit (if has_prefix n ''-'' then tl n else n) \<and>
         - (2 ^ 63) \<le> read_int n \<and> read_int n < 2 ^ 63
      then Some (read_int n) else None)"
| "decode_int _ old = None"

text \<open>
  An array decoded into a slice of strings: \<open>null\<close> gives nil, and a \<open>null\<close> element leaves the element
  a previous member of the same name put there.
\<close>

fun decode_strings :: "json list \<Rightarrow> string list \<Rightarrow> string list option" where
  "decode_strings [] old = Some []"
| "decode_strings (v # vs) old =
     (case decode_string v (case old of [] \<Rightarrow> [] | o1 # _ \<Rightarrow> o1) of
        None \<Rightarrow> None
      | Some s \<Rightarrow> map_option (\<lambda>ss. s # ss) (decode_strings vs (drop 1 old)))"

fun decode_string_slice :: "json \<Rightarrow> string list \<Rightarrow> string list option" where
  "decode_string_slice JNull old = Some []"
| "decode_string_slice (JArr vs) old = decode_strings vs old"
| "decode_string_slice _ old = None"

fun decode_bool :: "json \<Rightarrow> bool \<Rightarrow> bool option" where
  "decode_bool JNull old = Some old"
| "decode_bool (JBool b) old = Some b"
| "decode_bool _ old = None"

fun decode_any :: "json \<Rightarrow> json option" where
  "decode_any JNull = None"
| "decode_any v = Some v"

definition error_field :: "string \<Rightarrow> json \<Rightarrow> rpc_error \<Rightarrow> rpc_error option" where
  "error_field k v e =
     (if key_is k ''code'' then map_option (\<lambda>c. e\<lparr>re_Code := c\<rparr>) (decode_int v (re_Code e))
      else if key_is k ''message'' then map_option (\<lambda>m. e\<lparr>re_Message := m\<rparr>) (decode_string v (re_Message e))
      else if key_is k ''data'' then Some (e\<lparr>re_Data := decode_any v\<rparr>)
      else Some e)"

text \<open>Into a \<open>*Error\<close>: a second object is decoded into the one already there.\<close>

fun decode_error :: "json \<Rightarrow> rpc_error option \<Rightarrow> rpc_error option option" where
  "decode_error JNull old = Some None"
| "decode_error (JObj ms) old =
     map_option Some (decode_members error_field ms
       (case old of None \<Rightarrow> \<lparr>re_Code = 0, re_Message = [], re_Data = None\<rparr> | Some e \<Rightarrow> e))"
| "decode_error _ old = None"

fun decode_id_pointer :: "json \<Rightarrow> request_id option option" where
  "decode_id_pointer JNull = Some None"
| "decode_id_pointer v = map_option Some (id_UnmarshalJSON v)"

definition message_field :: "string \<Rightarrow> json \<Rightarrow> message \<Rightarrow> message option" where
  "message_field k v m =
     (if key_is k ''jsonrpc'' then map_option (\<lambda>s. m\<lparr>ms_JSONRPC := s\<rparr>) (decode_string v (ms_JSONRPC m))
      else if key_is k ''id'' then map_option (\<lambda>i. m\<lparr>ms_ID := i\<rparr>) (decode_id_pointer v)
      else if key_is k ''method'' then map_option (\<lambda>s. m\<lparr>ms_Method := s\<rparr>) (decode_string v (ms_Method m))
      else if key_is k ''params'' then Some (m\<lparr>ms_Params := Some v\<rparr>)
      else if key_is k ''result'' then Some (m\<lparr>ms_Result := Some v\<rparr>)
      else if key_is k ''error'' then map_option (\<lambda>e. m\<lparr>ms_Error := e\<rparr>) (decode_error v (ms_Error m))
      else Some m)"

definition request_field :: "string \<Rightarrow> json \<Rightarrow> request \<Rightarrow> request option" where
  "request_field k v r =
     (if key_is k ''jsonrpc'' then map_option (\<lambda>s. r\<lparr>rq_JSONRPC := s\<rparr>) (decode_string v (rq_JSONRPC r))
      else if key_is k ''id'' then map_option (\<lambda>i. r\<lparr>rq_ID := i\<rparr>) (id_UnmarshalJSON v)
      else if key_is k ''method'' then map_option (\<lambda>s. r\<lparr>rq_Method := s\<rparr>) (decode_string v (rq_Method r))
      else if key_is k ''params'' then Some (r\<lparr>rq_Params := Some v\<rparr>)
      else Some r)"

definition response_field :: "string \<Rightarrow> json \<Rightarrow> response \<Rightarrow> response option" where
  "response_field k v r =
     (if key_is k ''jsonrpc'' then map_option (\<lambda>s. r\<lparr>rs_JSONRPC := s\<rparr>) (decode_string v (rs_JSONRPC r))
      else if key_is k ''id'' then map_option (\<lambda>i. r\<lparr>rs_ID := i\<rparr>) (id_UnmarshalJSON v)
      else if key_is k ''result'' then Some (r\<lparr>rs_Result := Some v\<rparr>)
      else if key_is k ''error'' then map_option (\<lambda>e. r\<lparr>rs_Error := e\<rparr>) (decode_error v (rs_Error r))
      else Some r)"

definition notification_field :: "string \<Rightarrow> json \<Rightarrow> notification \<Rightarrow> notification option" where
  "notification_field k v n =
     (if key_is k ''jsonrpc'' then map_option (\<lambda>s. n\<lparr>nt_JSONRPC := s\<rparr>) (decode_string v (nt_JSONRPC n))
      else if key_is k ''method'' then map_option (\<lambda>s. n\<lparr>nt_Method := s\<rparr>) (decode_string v (nt_Method n))
      else if key_is k ''params'' then Some (n\<lparr>nt_Params := Some v\<rparr>)
      else Some n)"

text \<open>A document decoded into a struct that was zero before.\<close>

definition unmarshal :: "(string \<Rightarrow> json \<Rightarrow> 'r \<Rightarrow> 'r option) \<Rightarrow> 'r \<Rightarrow> string \<Rightarrow> 'r option" where
  "unmarshal f zero data =
     (case parse_json data of
        Some JNull \<Rightarrow> Some zero
      | Some (JObj ms) \<Rightarrow> decode_members f ms zero
      | _ \<Rightarrow> None)"

text \<open>A \<open>Decoder\<close> takes the first value of a text and leaves what follows it.\<close>

definition decode_first :: "(string \<Rightarrow> json \<Rightarrow> 'r \<Rightarrow> 'r option) \<Rightarrow> 'r \<Rightarrow> string \<Rightarrow> 'r option" where
  "decode_first f zero data =
     (case parse_value max_depth data of
        Some (JNull, _) \<Rightarrow> Some zero
      | Some (JObj ms, _) \<Rightarrow> decode_members f ms zero
      | _ \<Rightarrow> None)"

definition zero_message :: message where
  "zero_message =
     \<lparr>ms_JSONRPC = [], ms_ID = None, ms_Method = [], ms_Params = None, ms_Result = None, ms_Error = None\<rparr>"

definition zero_request :: request where
  "zero_request = \<lparr>rq_JSONRPC = [], rq_ID = IDNull, rq_Method = [], rq_Params = None\<rparr>"

definition zero_response :: response where
  "zero_response = \<lparr>rs_JSONRPC = [], rs_ID = IDNull, rs_Result = None, rs_Error = None\<rparr>"

definition zero_notification :: notification where
  "zero_notification = \<lparr>nt_JSONRPC = [], nt_Method = [], nt_Params = None\<rparr>"

definition ParseMessage :: "string \<Rightarrow> rpc_invalid + message" where
  "ParseMessage data =
     (case unmarshal message_field zero_message data of
        None \<Rightarrow> Inl ParseFailed
      | Some m \<Rightarrow> if ms_JSONRPC m \<noteq> JSONRPCVersion then Inl (BadVersion (ms_JSONRPC m)) else Inr m)"

definition ParseRequest :: "string \<Rightarrow> rpc_invalid + request" where
  "ParseRequest data =
     (case unmarshal request_field zero_request data of
        None \<Rightarrow> Inl ParseFailed
      | Some r \<Rightarrow> (case Request_Validate r of Some e \<Rightarrow> Inl e | None \<Rightarrow> Inr r))"

definition ParseResponse :: "string \<Rightarrow> rpc_invalid + response" where
  "ParseResponse data =
     (case unmarshal response_field zero_response data of
        None \<Rightarrow> Inl ParseFailed
      | Some r \<Rightarrow> if rs_JSONRPC r \<noteq> JSONRPCVersion then Inl (BadVersion (rs_JSONRPC r)) else Inr r)"

definition ParseNotification :: "string \<Rightarrow> rpc_invalid + notification" where
  "ParseNotification data =
     (case unmarshal notification_field zero_notification data of
        None \<Rightarrow> Inl ParseFailed
      | Some n \<Rightarrow> (case Notification_Validate n of Some e \<Rightarrow> Inl e | None \<Rightarrow> Inr n))"

definition is_type :: "message_type \<Rightarrow> string \<Rightarrow> bool" where
  "is_type t data = (case ParseMessage data of Inl _ \<Rightarrow> False | Inr m \<Rightarrow> Message_Type m = t)"

definition IsRequest :: "string \<Rightarrow> bool" where "IsRequest = is_type MessageTypeRequest"
definition IsResponse :: "string \<Rightarrow> bool" where "IsResponse = is_type MessageTypeResponse"
definition IsNotification :: "string \<Rightarrow> bool" where "IsNotification = is_type MessageTypeNotification"

definition IsBatch :: "string \<Rightarrow> bool" where
  "IsBatch data = has_prefix (trim_space data) ''[''"

definition ParseBatch :: "string \<Rightarrow> (rpc_invalid + json list)" where
  "ParseBatch data =
     (case parse_json data of
        Some JNull \<Rightarrow> Inr []
      | Some (JArr vs) \<Rightarrow> Inr vs
      | _ \<Rightarrow> Inl ParseFailed)"

section \<open>Encoding\<close>

text \<open>
  \<open>Marshal\<close> writes a raw message without white space and with the HTML characters of its strings
  escaped; it leaves a nil one with \<open>omitempty\<close> out.
\<close>

function html_escape :: "string \<Rightarrow> string" where
  "html_escape [] = []"
| "html_escape (c # s) =
     (if c = CHR ''<'' \<or> c = CHR ''>'' \<or> c = CHR ''&'' then u_escape (of_char c) @ html_escape s
      else if take 3 (c # s) = [CHR 0xE2, CHR 0x80, CHR 0xA8] then u_escape 0x2028 @ html_escape (drop 3 (c # s))
      else if take 3 (c # s) = [CHR 0xE2, CHR 0x80, CHR 0xA9] then u_escape 0x2029 @ html_escape (drop 3 (c # s))
      else c # html_escape s)"
  by pat_completeness auto
termination
  by (relation "measure length") auto

fun escape_json :: "json \<Rightarrow> json" where
  "escape_json (JStr t) = JStr (html_escape t)"
| "escape_json (JArr vs) = JArr (map escape_json vs)"
| "escape_json (JObj ms) = JObj (map (\<lambda>(k, v). (html_escape k, escape_json v)) ms)"
| "escape_json v = v"

text \<open>A string with \<open>omitempty\<close>.\<close>

definition text_member :: "string \<Rightarrow> string \<Rightarrow> (string \<times> json) list" where
  "text_member k s = (if s = [] then [] else [(k, JText s)])"

definition raw_member :: "string \<Rightarrow> json option \<Rightarrow> (string \<times> json) list" where
  "raw_member k v = (case v of None \<Rightarrow> [] | Some j \<Rightarrow> [(k, escape_json j)])"

definition marshal_error :: "rpc_error \<Rightarrow> json" where
  "marshal_error e =
     JObj ([(''code'', JNum (show_int (re_Code e))), (''message'', JText (re_Message e))] @
           raw_member ''data'' (re_Data e))"

definition marshal_request :: "request \<Rightarrow> json" where
  "marshal_request r =
     JObj ([(''jsonrpc'', JText (rq_JSONRPC r)), (''id'', id_MarshalJSON (rq_ID r)),
            (''method'', JText (rq_Method r))] @ raw_member ''params'' (rq_Params r))"

definition marshal_response :: "response \<Rightarrow> json" where
  "marshal_response r =
     JObj ([(''jsonrpc'', JText (rs_JSONRPC r)), (''id'', id_MarshalJSON (rs_ID r))] @
           raw_member ''result'' (rs_Result r) @
           (case rs_Error r of None \<Rightarrow> [] | Some e \<Rightarrow> [(''error'', marshal_error e)]))"

definition marshal_notification :: "notification \<Rightarrow> json" where
  "marshal_notification n =
     JObj ([(''jsonrpc'', JText (nt_JSONRPC n)), (''method'', JText (nt_Method n))] @
           raw_member ''params'' (nt_Params n))"

definition EncodeMessage :: "json \<Rightarrow> string" where
  "EncodeMessage j = show_json j"

subsection \<open>Integers survive encoding\<close>

lemma is_digit_char: "d < 10 \<Longrightarrow> is_digit (digit_char d)"
  by (auto simp: is_digit_def digit_char_def)

lemma show_nat_digits: "list_all is_digit (show_nat n)"
proof (induction n rule: show_nat.induct)
  case (1 n)
  then show ?case by (cases "n < 10") (simp_all add: show_nat.simps [of n] is_digit_char)
qed

lemma show_nat_zero_first: "hd (show_nat n) = CHR ''0'' \<Longrightarrow> n = 0"
proof (induction n rule: show_nat.induct)
  case (1 n)
  have c: "n < 10 \<Longrightarrow> digit_char n = CHR ''0'' \<Longrightarrow> n = 0"
    using digit_val_char [of n] by (simp add: digit_val_def)
  then show ?case using 1 by (cases "n < 10") (auto simp: show_nat.simps [of n] split: if_splits)
qed

lemma takeWhile_show_nat: "takeWhile is_digit (show_nat n) = show_nat n" "dropWhile is_digit (show_nat n) = []"
  using show_nat_digits [of n] by (simp_all add: takeWhile_eq_all_conv dropWhile_eq_Nil_conv list_all_iff)

lemma scan_unsigned_show_nat: "scan_unsigned (show_nat n) = Some (show_nat n, [])"
proof (cases "n = 0")
  case True
  then show ?thesis
    by (simp add: show_nat.simps [of 0] digit_char_def scan_unsigned_def scan_int_def scan_frac_def
        scan_exp_def char_of_def bit_iff_odd)
next
  case False
  then have "scan_int (show_nat n) = Some (show_nat n, [])"
    using show_nat_zero_first [of n] takeWhile_show_nat [of n]
    by (cases "show_nat n") (auto simp: scan_int_def scan_digits_def)
  then show ?thesis by (simp add: scan_unsigned_def scan_frac_def scan_exp_def)
qed

lemma number_ok_show_int [simp]: "number_ok (show_int n)"
proof -
  have "scan_number (show_nat m) = Some (show_nat m, [])" for m
    using scan_unsigned_show_nat [of m] hd_show_nat [of m]
    by (cases "show_nat m") (simp_all add: scan_number_def)
  then show ?thesis
    using scan_unsigned_show_nat
    by (auto simp: number_ok_def show_int_def) (simp add: scan_number_def)
qed

lemma literal_parts_show_int: "literal_parts (show_int n) = (n < 0, nat \<bar>n\<bar>, 0)"
proof -
  have "\<not> has_prefix (show_nat m) ''-''" for m
    using hd_show_nat [of m] by (cases "show_nat m") (simp_all add: has_prefix_def)
  then show ?thesis
    by (auto simp: literal_parts_def show_int_def takeWhile_show_nat has_prefix_def Let_def)
qed

lemma bit_length_bounds: "n \<noteq> 0 \<Longrightarrow> 2 ^ (bit_length n - 1) \<le> n \<and> n < 2 ^ bit_length n \<and> bit_length n \<noteq> 0"
proof (induction n rule: bit_length.induct)
  case (1 n)
  show ?case
  proof (cases "n div 2 = 0")
    case True
    then have "n = 1" using "1.prems" by simp
    then show ?thesis by (simp add: bit_length.simps)
  next
    case False
    then obtain b where b: "bit_length (n div 2) = Suc b" using 1 by (cases "bit_length (n div 2)") auto
    define p :: nat where "p = 2 ^ b"
    have "p \<le> n div 2" and "n div 2 < 2 * p" using 1 False b by (simp_all add: p_def)
    then have "2 * p \<le> n \<and> n < 4 * p" by linarith
    then show ?thesis using b "1.prems" by (simp add: bit_length.simps [of n] p_def)
  qed
qed

lemma round_div_1 [simp]: "round_div n 1 = n" "round_div n (Suc 0) = n"
  by (simp_all add: round_div_def)

lemma to_float64_exact:
  assumes "0 < m" and "m < 2 ^ 53"
  shows "to_float64 neg m 1 = Some (Float64 neg (m * 2 ^ (53 - bit_length m)) (int (bit_length m) - 53))"
    and "bit_length m \<le> 53"
proof -
  let ?b = "bit_length m"
  have b: "2 ^ (?b - 1) \<le> m" "m < 2 ^ ?b" "?b \<noteq> 0" using bit_length_bounds [of m] assms by auto
  have "(2::nat) ^ (?b - 1) < 2 ^ 53" using b(1) assms(2) by (rule le_less_trans)
  then have "?b - 1 < 53" by (rule power_less_imp_less_exp [rotated]) simp
  then show le: "?b \<le> 53" by simp
  obtain k where k: "53 = ?b + k" using le by (metis le_Suc_ex)
  have one: "bit_length 1 = 1" by (simp add: bit_length.simps)
  have "(2::nat) ^ 53 = 2 ^ (?b - 1) * 2 ^ Suc k"
    unfolding power_add [symmetric] using b(3) k by (intro arg_cong [where f = "power 2"]) linarith
  also have "\<dots> \<le> m * 2 ^ Suc k" using b(1) by (rule mult_le_mono1)
  finally have lo: "2 ^ 53 \<le> m * 2 ^ Suc k" .
  have "m * 2 ^ k < 2 ^ ?b * 2 ^ k" using b(2) by simp
  also have "\<dots> = 2 ^ 53" using k by (metis power_add)
  finally have hi: "m * 2 ^ k < 2 ^ 53" .
  have e0: "int ?b - int (bit_length 1) - 53 = - int (Suc k)" using k one by simp
  show "to_float64 neg m 1 = Some (Float64 neg (m * 2 ^ (53 - ?b)) (int ?b - 53))"
  proof -
    have kb: "53 - ?b = k" "int ?b - 53 = - int k" using k by simp_all
    show ?thesis
      using assms lo hi k unfolding to_float64_def e0 kb
      by (simp add: Let_def scaled_def nat_add_distrib)
  qed
qed

lemma float_int64_exact:
  assumes "b \<le> 53" and "m < 2 ^ 53"
  shows "float_int64 (Float64 neg (m * 2 ^ (53 - b)) (int b - 53)) = Some (if neg then - int m else int m)"
proof -
  obtain k where k: "53 = b + k" using assms(1) by (metis le_Suc_ex)
  then have kb: "53 - b = k" "int b - 53 = - int k" by simp_all
  have "int m < 2 ^ 63" and "- (2 ^ 63) \<le> - int m"
    using assms(2) by simp_all
  then show ?thesis
    unfolding float_int64_def kb using k by (cases "k = 0") (simp_all add: Let_def)
qed

text \<open>An identifier that is an integer of at most 53 bits is read back exactly.\<close>

lemma id_int_roundtrip:
  assumes "\<bar>n\<bar> < 2 ^ 53"
  shows "id_UnmarshalJSON (JNum (show_int n)) = Some (IDInt n)"
proof (cases "n = 0")
  case True
  then show ?thesis
    by (simp add: parse_float_def literal_parts_show_int to_float64_def float_int64_def)
next
  case False
  have m: "0 < nat \<bar>n\<bar>" "nat \<bar>n\<bar> < 2 ^ 53" using False assms by auto
  show ?thesis
    using to_float64_exact(1) [OF m, of "n < 0"] float_int64_exact [OF to_float64_exact(2) [OF m] m(2), of "n < 0"]
    by (simp add: parse_float_def literal_parts_show_int)
qed

subsection \<open>What is encoded is decoded\<close>

lemma html_escape_plain:
  "list_all (\<lambda>c. c \<noteq> CHR ''<'' \<and> c \<noteq> CHR ''>'' \<and> c \<noteq> CHR ''&'' \<and> c \<noteq> CHR 0xE2) h \<Longrightarrow>
   html_escape (h @ t) = h @ html_escape t"
  by (induction h) auto

lemma hex4_plain:
  "hex4 s \<Longrightarrow> list_all (\<lambda>c. c \<noteq> CHR ''<'' \<and> c \<noteq> CHR ''>'' \<and> c \<noteq> CHR ''&'' \<and> c \<noteq> CHR 0xE2) (take 4 s)"
  by (auto simp: hex4_def list_all_iff hex_val_def Let_def)

lemma scan_string_html_escape:
  "scan_string s = Some (t, r) \<Longrightarrow>
   scan_string (html_escape t @ quote_char # x) = Some (html_escape t, x)"
proof (induction s arbitrary: t r rule: scan_string.induct)
  case 1
  then show ?case by simp
next
  case (2 c s)
  consider (close) "c = quote_char"
    | (escape) "c \<noteq> quote_char" "c = back_slash"
    | (plain) "c \<noteq> quote_char" "c \<noteq> back_slash" by blast
  then show ?case
  proof cases
    case close
    then show ?thesis using "2.prems" by simp
  next
    case escape
    then obtain e s' where s: "s = e # s'" using "2.prems" by (cases s) auto
    show ?thesis
    proof (cases "e \<in> set simple_escapes")
      case True
      then obtain t' where t: "t = c # e # t'" and "scan_string s' = Some (t', r)"
        using "2.prems" escape s by auto
      then have "scan_string (html_escape t' @ quote_char # x) = Some (html_escape t', x)"
        using "2.IH"(1) [OF escape s True] by blast
      then show ?thesis
        using True escape html_escape_plain [of "[c, e]" t'] t
        by (simp add: simple_escapes_def back_slash_def quote_char_def) fastforce
    next
      case False
      then obtain t' where t: "t = c # e # take 4 s' @ t'" and "scan_string (drop 4 s') = Some (t', r)"
        and u: "e = CHR ''u''" and h: "hex4 s'"
        using "2.prems" escape s by (auto split: if_splits)
      then have ih: "scan_string (html_escape t' @ quote_char # x) = Some (html_escape t', x)"
        using "2.IH"(2) [OF escape s False] by blast
      have "html_escape t = c # e # take 4 s' @ html_escape t'"
        using html_escape_plain [of "c # e # take 4 s'" t'] hex4_plain [OF h] t u escape
        by (simp add: back_slash_def)
      moreover have "hex4 (take 4 s' @ html_escape t' @ quote_char # x)"
        using h by (simp add: hex4_def)
      ultimately show ?thesis
        using ih escape u False h by (simp add: hex4_def)
    qed
  next
    case plain
    then obtain t' where t: "t = c # t'" and "scan_string s = Some (t', r)"
      and c: "\<not> (of_char c :: nat) < 32"
      using "2.prems" by (auto split: if_splits)
    then have ih: "scan_string (html_escape t' @ quote_char # x) = Some (html_escape t', x)"
      using "2.IH"(3) [OF plain c] by blast
    have special: "scan_string (html_escape t @ quote_char # x) = Some (html_escape t, x)"
      if m: "html_escape t = u_escape n @ html_escape t''" "n < 0x10000"
        "t = h @ t''" "list_all plain_char h" "h \<noteq> []" "html_escape t' = tl h @ html_escape t''" for n h t''
    proof -
      have "list_all plain_char (tl h)" using m(4,5) by (cases h) simp_all
      then have "scan_string (html_escape t'' @ quote_char # x) = Some (html_escape t'', x)"
        using ih m(6) scan_string_plain [of "tl h" "html_escape t'' @ quote_char # x"]
        by (cases "scan_string (html_escape t'' @ quote_char # x)") auto
      then show ?thesis using m(1,2) by (simp add: scan_string_u_escape)
    qed
    show ?thesis
    proof (cases "c = CHR ''<'' \<or> c = CHR ''>'' \<or> c = CHR ''&''")
      case True
      then show ?thesis
        using special [of "of_char c" t' "[c]"] t by (auto simp: plain_char_def quote_char_def back_slash_def)
    next
      case False
      show ?thesis
      proof (cases "take 3 t = [CHR 0xE2, CHR 0x80, CHR 0xA8] \<or> take 3 t = [CHR 0xE2, CHR 0x80, CHR 0xA9]")
        case True
        define t'' where "t'' = drop 3 t"
        have tt: "t = take 3 t @ t''" by (simp add: t''_def)
        have t': "t' = tl (take 3 t) @ t''" using t tt True by (cases t') auto
        have "list_all plain_char (take 3 t)"
          using True by (auto simp: plain_char_def quote_char_def back_slash_def)
        moreover have "html_escape t' = tl (take 3 t) @ html_escape t''"
          using t' True html_escape_plain [of "tl (take 3 t)" t''] by auto
        moreover have "html_escape t =
            (if take 3 t = [CHR 0xE2, CHR 0x80, CHR 0xA8] then u_escape 0x2028 else u_escape 0x2029) @ html_escape t''"
          using True False t by (auto simp: t''_def)
        ultimately show ?thesis
          using special [of _ t'' "take 3 t"] tt True by (auto split: if_splits)
      next
        case n: False
        then have "html_escape t = c # html_escape t'" using False t by auto
        then show ?thesis using ih plain c by simp
      qed
    qed
  qed
qed

lemma raw_ok_html_escape [simp]: "raw_ok t \<Longrightarrow> raw_ok (html_escape t)"
  using scan_string_html_escape [of "t @ [quote_char]" t "[]" "[]"] by (simp add: raw_ok_def)

lemma escape_json_ok [simp]: "json_ok j \<Longrightarrow> json_ok (escape_json j)"
  by (induction j) (auto simp: split_def)

lemma escape_json_depth [simp]: "json_depth (escape_json j) = json_depth j"
proof (induction j)
  case (JObj ms)
  have "(\<lambda>(k, v). json_depth v) ` set (map (\<lambda>(k, v). (html_escape k, escape_json v)) ms) =
      (\<lambda>(k, v). json_depth v) ` set ms"
    unfolding set_map image_image
    by (rule image_cong) (use JObj.IH in \<open>auto simp: snds.simps\<close>)
  then show ?case by simp
qed (simp_all add: image_image cong: image_cong)

subsection \<open>Keys and members\<close>

text \<open>The field names are words of lower case letters and underscores.\<close>

definition field_name :: "string \<Rightarrow> bool" where
  "field_name k \<longleftrightarrow> list_all (\<lambda>c. byte_in 97 122 c \<or> c = CHR ''_'') k"

lemma fold_name_lower:
  "field_name k \<Longrightarrow> fold_name k = k \<and> unquote k = k"
  unfolding field_name_def
proof (induction k)
  case Nil
  then show ?case by simp
next
  case (Cons c k)
  then have "byte_in 97 122 c \<or> c = CHR ''_''" by simp
  then have "c \<noteq> CHR 0xC5" and "c \<noteq> CHR 0xE2" and "c \<noteq> back_slash" and "byte_in 0 0x7F c"
    and "lower_char c = c"
    by (auto simp: byte_in_def back_slash_def lower_char_def)
  then show ?case using Cons by (simp add: has_prefix_def unquote.simps(2))
qed

lemma key_is_lower [simp]: "field_name k \<Longrightarrow> key_is k f \<longleftrightarrow> k = f"
  by (simp add: key_is_def fold_name_lower)

lemma field_names [simp]:
  "field_name ''jsonrpc''" "field_name ''id''"
  "field_name ''method''" "field_name ''params''"
  "field_name ''result''" "field_name ''error''"
  "field_name ''code''" "field_name ''message''"
  "field_name ''data''"
  by (simp_all add: field_name_def byte_in_def)

lemma raw_ok_lower [simp]: "field_name k \<Longrightarrow> raw_ok k"
proof -
  assume "field_name k"
  then have "list_all plain_char k"
    by (auto simp: field_name_def list_all_iff byte_in_def plain_char_def quote_char_def back_slash_def)
  then show ?thesis using scan_string_plain [of k "[quote_char]"] by (simp add: raw_ok_def)
qed

lemma decode_members_append:
  "decode_members f (ms @ ms') r =
     (case decode_members f ms r of None \<Rightarrow> None | Some r' \<Rightarrow> decode_members f ms' r')"
  by (induction f ms r rule: decode_members.induct) (auto split: option.splits)

lemma JText_simps [simp]:
  "valid_utf8 s \<Longrightarrow> decode_string (JText s) old = Some s"
  "valid_utf8 s \<Longrightarrow> id_UnmarshalJSON (JText s) = Some (IDStr s)"
  "JText s \<noteq> JNull" "json_depth (JText s) = 0"
  by (simp_all add: JText_def unquote_quote_text)

text \<open>The identifiers that are decoded as they were encoded.\<close>

fun id_ok :: "request_id \<Rightarrow> bool" where
  "id_ok IDNull = True"
| "id_ok (IDStr s) = valid_utf8 s"
| "id_ok (IDInt n) = (\<bar>n\<bar> < 2 ^ 53)"
| "id_ok (IDFloat f) = False"

lemma id_roundtrip:
  "id_ok i \<Longrightarrow> id_UnmarshalJSON (id_MarshalJSON i) = Some i"
  using id_int_roundtrip by (cases i) (simp_all del: id_UnmarshalJSON.simps(3))

lemma id_json_ok: "id_ok i \<Longrightarrow> json_ok (id_MarshalJSON i) \<and> json_depth (id_MarshalJSON i) = 0"
  by (cases i) simp_all

lemma id_pointer_roundtrip:
  "id_ok i \<Longrightarrow> decode_id_pointer (id_MarshalJSON i) = Some (if i = IDNull then None else Some i)"
  using id_roundtrip [of i] by (cases i) (simp_all add: JText_def del: id_UnmarshalJSON.simps(3))

definition raw_value_ok :: "json option \<Rightarrow> bool" where
  "raw_value_ok v \<longleftrightarrow> (case v of None \<Rightarrow> True | Some j \<Rightarrow> json_ok j \<and> json_depth j < max_depth)"

lemma unmarshal_show:
  assumes "json_ok (JObj ms)" and "json_depth (JObj ms) \<le> max_depth"
  shows "unmarshal f z (show_json (JObj ms)) = decode_members f ms z"
    and "unmarshal f z (show_json (JObj ms) @ [LF]) = decode_members f ms z"
  using parse_json_show [OF assms] by (simp_all add: unmarshal_def)

definition member_ok :: "string \<times> json \<Rightarrow> bool" where
  "member_ok m \<longleftrightarrow> raw_ok (fst m) \<and> json_ok (snd m) \<and> json_depth (snd m) < max_depth"

lemma raw_member_ok:
  "raw_value_ok v \<Longrightarrow> field_name k \<Longrightarrow> list_all member_ok (raw_member k v)"
  by (auto simp: raw_value_ok_def raw_member_def member_ok_def split: option.splits)

lemma members_ok:
  assumes "list_all member_ok ms"
  shows "json_ok (JObj ms) \<and> json_depth (JObj ms) \<le> max_depth"
proof -
  have "Max (insert 0 ((\<lambda>(k, v). json_depth v) ` set ms)) < max_depth"
    by (subst Max_less_iff) (use assms in \<open>auto simp: max_depth_def list_all_iff member_ok_def\<close>)
  then show ?thesis using assms by (auto simp: list_all_iff member_ok_def Suc_le_eq)
qed

lemma max_depth_pos [simp]: "0 < max_depth" "Suc 0 < max_depth"
  by (simp_all add: max_depth_def)

lemma text_member_ok: "field_name k \<Longrightarrow> list_all member_ok (text_member k s)"
  by (simp add: text_member_def member_ok_def)

definition sendable_request :: "request \<Rightarrow> bool" where
  "sendable_request r \<longleftrightarrow>
     Request_Validate r = None \<and> valid_utf8 (rq_Method r) \<and> id_ok (rq_ID r) \<and> raw_value_ok (rq_Params r)"

lemma version_utf8 [simp]: "valid_utf8 JSONRPCVersion"
  by (rule ascii_valid) (simp add: JSONRPCVersion_def byte_in_def)

definition request_members :: "request \<Rightarrow> (string \<times> json) list" where
  "request_members r =
     [(''jsonrpc'', JText (rq_JSONRPC r)), (''id'', id_MarshalJSON (rq_ID r)),
      (''method'', JText (rq_Method r))] @ raw_member ''params'' (rq_Params r)"

lemma request_members_ok:
  "sendable_request r \<Longrightarrow> list_all member_ok (request_members r)"
  by (auto simp: request_members_def sendable_request_def id_json_ok member_ok_def raw_member_ok)

lemma sendable_requestD:
  "sendable_request r \<Longrightarrow> rq_JSONRPC r = JSONRPCVersion \<and> rq_Method r \<noteq> [] \<and> rq_ID r \<noteq> IDNull \<and>
   valid_utf8 (rq_Method r) \<and> id_ok (rq_ID r)"
  by (auto simp: sendable_request_def Request_Validate_def id_IsNull_def split: if_splits)

definition compacted :: "request \<Rightarrow> request" where
  "compacted r = r\<lparr>rq_Params := map_option escape_json (rq_Params r)\<rparr>"

lemma decode_request_members:
  assumes "sendable_request r"
  shows "decode_members request_field (request_members r) zero_request = Some (compacted r)"
  using sendable_requestD [OF assms] id_roundtrip [of "rq_ID r"]
  by (cases "rq_Params r")
     (simp_all add: request_members_def request_field_def raw_member_def zero_request_def compacted_def)

lemma decode_request_message:
  assumes "sendable_request r"
  shows "decode_members message_field (request_members r) zero_message =
    Some \<lparr>ms_JSONRPC = JSONRPCVersion, ms_ID = Some (rq_ID r), ms_Method = rq_Method r,
      ms_Params = map_option escape_json (rq_Params r), ms_Result = None, ms_Error = None\<rparr>"
  using sendable_requestD [OF assms] id_pointer_roundtrip [of "rq_ID r"]
  by (cases "rq_Params r")
     (simp_all add: request_members_def message_field_def raw_member_def zero_message_def)

lemma marshal_request_members: "EncodeMessage (marshal_request r) = show_json (JObj (request_members r))"
  by (simp add: EncodeMessage_def marshal_request_def request_members_def)

lemma compacted_valid: "Request_Validate (compacted r) = Request_Validate r"
  by (simp add: Request_Validate_def compacted_def)

lemma parse_encoded_request:
  assumes "sendable_request r"
  shows "ParseRequest (EncodeMessage (marshal_request r)) = Inr (compacted r)"
    and "ParseRequest (EncodeMessage (marshal_request r) @ [LF]) = Inr (compacted r)"
  using members_ok [OF request_members_ok [OF assms]] assms
  by (simp_all add: ParseRequest_def marshal_request_members unmarshal_show
      decode_request_members [OF assms] compacted_valid sendable_request_def del: json_ok.simps json_depth.simps show_json.simps)

definition message_of_request :: "request \<Rightarrow> message" where
  "message_of_request r =
     \<lparr>ms_JSONRPC = JSONRPCVersion, ms_ID = Some (rq_ID r), ms_Method = rq_Method r,
      ms_Params = map_option escape_json (rq_Params r), ms_Result = None, ms_Error = None\<rparr>"

lemma parse_encoded_message:
  assumes "sendable_request r"
  shows "ParseMessage (EncodeMessage (marshal_request r)) = Inr (message_of_request r)"
    and "ParseMessage (EncodeMessage (marshal_request r) @ [LF]) = Inr (message_of_request r)"
  using members_ok [OF request_members_ok [OF assms]]
  by (simp_all add: ParseMessage_def marshal_request_members unmarshal_show message_of_request_def
      decode_request_message [OF assms] del: json_ok.simps json_depth.simps show_json.simps)

lemma message_of_request_type:
  assumes "sendable_request r"
  shows "Message_Type (message_of_request r) = MessageTypeRequest"
    and "ToRequest (message_of_request r) = Some (compacted r)"
  using sendable_requestD [OF assms]
  by (simp_all add: message_of_request_def Message_Type_def ToRequest_def id_IsNull_def compacted_def)

text \<open>
  C28.  A valid request survives the wire.  Encoded by \<open>EncodeMessage\<close> and read back, with or without the
  newline that frames it, a request with a string identifier or an integer one of at most 53 bits is
  parsed by \<open>ParseRequest\<close> to the same request (its raw parameters as \<open>Marshal\<close> compacts them), and
  \<open>ParseMessage\<close>, which the server routes by, classifies it as a request and converts it to that
  same request.
\<close>

theorem request_roundtrip:
  assumes "sendable_request r"
  shows "ParseRequest (EncodeMessage (marshal_request r)) = Inr (compacted r) \<and>
    ParseRequest (EncodeMessage (marshal_request r) @ [LF]) = Inr (compacted r) \<and>
    (\<exists>m. ParseMessage (EncodeMessage (marshal_request r) @ [LF]) = Inr m \<and>
      Message_Type m = MessageTypeRequest \<and> ToRequest m = Some (compacted r))"
  using parse_encoded_request [OF assms] parse_encoded_message [OF assms] message_of_request_type [OF assms]
  by simp

definition sample_request :: request where
  "sample_request =
     \<lparr>rq_JSONRPC = ''2.0'', rq_ID = IDInt (- 7), rq_Method = ''ping'', rq_Params = Some (JStr ''<b>'')\<rparr>"

lemma sample_request_sendable: "sendable_request sample_request"
  by (simp add: sample_request_def sendable_request_def Request_Validate_def JSONRPCVersion_def id_IsNull_def
       raw_value_ok_def raw_ok_def quote_char_def back_slash_def ascii_valid byte_in_def)

theorem request_roundtrip_witness:
  "ParseRequest (EncodeMessage (marshal_request sample_request)) = Inr (compacted sample_request)"
  by (rule request_roundtrip [THEN conjunct1, OF sample_request_sendable])

subsection \<open>Responses\<close>

definition error_ok :: "rpc_error \<Rightarrow> bool" where
  "error_ok e \<longleftrightarrow>
     - (2 ^ 63) \<le> re_Code e \<and> re_Code e < 2 ^ 63 \<and> valid_utf8 (re_Message e) \<and>
     re_Data e \<noteq> Some JNull \<and>
     (case re_Data e of None \<Rightarrow> True | Some j \<Rightarrow> json_ok j \<and> Suc (json_depth j) < max_depth)"

definition sendable_response :: "response \<Rightarrow> bool" where
  "sendable_response r \<longleftrightarrow>
     rs_JSONRPC r = JSONRPCVersion \<and> id_ok (rs_ID r) \<and> raw_value_ok (rs_Result r) \<and>
     (case rs_Error r of None \<Rightarrow> rs_Result r \<noteq> None | Some e \<Rightarrow> error_ok e)"

lemma read_int_show_int [simp]: "read_int (show_int n) = n"
proof -
  have p: "hd (show_nat m) \<noteq> CHR ''+''" for m
  proof
    assume "hd (show_nat m) = CHR ''+''"
    then have "CHR ''+'' \<in> set (show_nat m)" by (metis hd_in_set show_nat_not_Nil)
    then show False using set_show_nat by fastforce
  qed
  have "read_int (show_nat m) = int m" for m
    using p [of m] hd_show_nat [of m] read_show_nat [of m]
    by (cases "show_nat m") (simp_all add: read_int_def del: read_show_nat)
  then show ?thesis by (simp add: show_int_def) (simp add: read_int_def)
qed

lemma decode_int_show [simp]:
  assumes "- (2 ^ 63) \<le> n" and "n < 2 ^ 63"
  shows "decode_int (JNum (show_int n)) old = Some n"
proof -
  have "list_all is_digit (if has_prefix (show_int n) ''-'' then tl (show_int n) else show_int n)"
    using show_nat_digits [of "nat n"] show_nat_digits [of "nat (- n)"] hd_show_nat [of "nat n"]
    by (cases "show_nat (nat n)") (auto simp: show_int_def has_prefix_def)
  then show ?thesis using assms by simp
qed

definition error_members :: "rpc_error \<Rightarrow> (string \<times> json) list" where
  "error_members e =
     [(''code'', JNum (show_int (re_Code e))), (''message'', JText (re_Message e))] @ raw_member ''data'' (re_Data e)"

definition compacted_error :: "rpc_error \<Rightarrow> rpc_error" where
  "compacted_error e = e\<lparr>re_Data := map_option escape_json (re_Data e)\<rparr>"

lemma decode_any_escape: "j \<noteq> JNull \<Longrightarrow> decode_any (escape_json j) = Some (escape_json j)"
  by (cases j) simp_all

lemma decode_error_members:
  assumes "error_ok e"
  shows "decode_error (marshal_error e) None = Some (Some (compacted_error e))"
proof -
  have "decode_members error_field (error_members e) \<lparr>re_Code = 0, re_Message = [], re_Data = None\<rparr> =
      Some (compacted_error e)"
    using assms
    by (cases "re_Data e")
       (simp_all add: error_ok_def error_members_def error_field_def raw_member_def compacted_error_def
         decode_any_escape del: decode_int.simps)
  then show ?thesis by (simp add: marshal_error_def error_members_def)
qed

lemma marshal_error_ok:
  assumes "error_ok e"
  shows "json_ok (marshal_error e) \<and> json_depth (marshal_error e) < max_depth"
proof -
  have m: "Max (insert 0 ((\<lambda>(k, v). json_depth v) ` set (error_members e))) < max_depth - 1"
    by (subst Max_less_iff)
       (use assms in \<open>auto simp: error_ok_def error_members_def raw_member_def max_depth_def split: option.splits\<close>)
  have "json_depth (marshal_error e) = Suc (Max (insert 0 ((\<lambda>(k, v). json_depth v) ` set (error_members e))))"
    unfolding marshal_error_def error_members_def by (rule json_depth.simps)
  then have "json_depth (marshal_error e) < max_depth" using m by linarith
  moreover have "json_ok (marshal_error e)"
    using assms by (auto simp: marshal_error_def error_ok_def raw_member_def split: option.splits)
  ultimately show ?thesis by simp
qed

definition response_members :: "response \<Rightarrow> (string \<times> json) list" where
  "response_members r =
     [(''jsonrpc'', JText (rs_JSONRPC r)), (''id'', id_MarshalJSON (rs_ID r))] @
     raw_member ''result'' (rs_Result r) @
     (case rs_Error r of None \<Rightarrow> [] | Some e \<Rightarrow> [(''error'', marshal_error e)])"

lemma response_members_ok:
  "sendable_response r \<Longrightarrow> list_all member_ok (response_members r)"
  by (auto simp: response_members_def sendable_response_def id_json_ok member_ok_def raw_member_ok
      marshal_error_ok split: option.splits)

definition compacted_response :: "response \<Rightarrow> response" where
  "compacted_response r =
     r\<lparr>rs_Result := map_option escape_json (rs_Result r),
       rs_Error := map_option compacted_error (rs_Error r)\<rparr>"

lemma decode_response_members:
  assumes "sendable_response r"
  shows "decode_members response_field (response_members r) zero_response = Some (compacted_response r)"
  using assms id_roundtrip [of "rs_ID r"]
  by (cases "rs_Result r"; cases "rs_Error r")
     (simp_all add: sendable_response_def response_members_def response_field_def raw_member_def
       zero_response_def compacted_response_def decode_error_members)

lemma decode_response_message:
  assumes "sendable_response r"
  shows "decode_members message_field (response_members r) zero_message =
    Some \<lparr>ms_JSONRPC = JSONRPCVersion, ms_ID = (if rs_ID r = IDNull then None else Some (rs_ID r)),
      ms_Method = [], ms_Params = None, ms_Result = map_option escape_json (rs_Result r),
      ms_Error = map_option compacted_error (rs_Error r)\<rparr>"
  using assms id_pointer_roundtrip [of "rs_ID r"]
  by (cases "rs_Result r"; cases "rs_Error r")
     (simp_all add: sendable_response_def response_members_def message_field_def raw_member_def
       zero_message_def decode_error_members)

lemma marshal_response_members: "EncodeMessage (marshal_response r) = show_json (JObj (response_members r))"
  by (simp add: EncodeMessage_def marshal_response_def response_members_def)

definition message_of_response :: "response \<Rightarrow> message" where
  "message_of_response r =
     \<lparr>ms_JSONRPC = JSONRPCVersion, ms_ID = (if rs_ID r = IDNull then None else Some (rs_ID r)),
      ms_Method = [], ms_Params = None, ms_Result = map_option escape_json (rs_Result r),
      ms_Error = map_option compacted_error (rs_Error r)\<rparr>"

lemma parse_encoded_response:
  assumes "sendable_response r"
  shows "ParseResponse (EncodeMessage (marshal_response r)) = Inr (compacted_response r)"
    and "ParseResponse (EncodeMessage (marshal_response r) @ [LF]) = Inr (compacted_response r)"
  using members_ok [OF response_members_ok [OF assms]] assms
  by (simp_all add: ParseResponse_def marshal_response_members unmarshal_show sendable_response_def
      decode_response_members [OF assms] compacted_response_def
      del: json_ok.simps json_depth.simps show_json.simps)

lemma message_of_response_type:
  assumes "sendable_response r"
  shows "Message_Type (message_of_response r) = MessageTypeResponse"
    and "ToResponse (message_of_response r) = Some (compacted_response r)"
  using assms
  by (cases "rs_Error r"; cases "rs_Result r";
      simp add: sendable_response_def message_of_response_def Message_Type_def ToResponse_def
        compacted_response_def)+

lemma parse_encoded_response_message:
  assumes "sendable_response r"
  shows "ParseMessage (EncodeMessage (marshal_response r) @ [LF]) = Inr (message_of_response r) \<and>
    Message_Type (message_of_response r) = MessageTypeResponse \<and>
    ms_ID (message_of_response r) = (if rs_ID r = IDNull then None else Some (rs_ID r))"
  using members_ok [OF response_members_ok [OF assms]] message_of_response_type [OF assms]
  by (simp add: ParseMessage_def marshal_response_members unmarshal_show message_of_response_def
      decode_response_message [OF assms] del: json_ok.simps json_depth.simps show_json.simps)



end
