(* ===== verification/Codec.thy ===== *)
theory Codec
  imports Jsonrpc
begin

text \<open>
  The NDJSON codec (\<open>Codec\<close>, \<open>MessageReader\<close>, \<open>MessageWriter\<close> and the one-off readers and
  writers of \<open>internal/protocol/codec.go\<close>): reading trims white space and skips blank lines, and
  both directions are meant to keep to a maximal message size.
\<close>

section \<open>The codec\<close>

datatype codec_error = CodecEOF | CodecReadError | MessageTooLarge nat nat | CodecWriteError

text \<open>
  \<open>Codec\<close> over the bytes still to come; \<open>cd_end\<close> is the error once they are used up.  A
  \<open>cd_max\<close> of 0 is no limit.
\<close>

record codec =
  cd_input :: string
  cd_end :: codec_error
  cd_out :: string
  cd_max :: nat

definition NewCodec :: "string \<Rightarrow> codec_error \<Rightarrow> codec" where
  "NewCodec input e = \<lparr>cd_input = input, cd_end = e, cd_out = [], cd_max = 0\<rparr>"

definition NewCodecWithOptions :: "string \<Rightarrow> codec_error \<Rightarrow> nat \<Rightarrow> codec" where
  "NewCodecWithOptions input e m = \<lparr>cd_input = input, cd_end = e, cd_out = [], cd_max = m\<rparr>"

text \<open>
  \<open>readMessageLocked\<close>.  The last line, without a newline, is returned without the checks the
  other lines go through.
\<close>

function read_message :: "codec_error \<Rightarrow> nat \<Rightarrow> string \<Rightarrow> (codec_error + string) \<times> string" where
  "read_message e m s =
     (case cut_line s of
        None \<Rightarrow> (if e = CodecEOF \<and> s \<noteq> [] then Inr (trim_space s) else Inl e, [])
      | Some (raw, rest) \<Rightarrow>
          let line = trim_space raw in
          if line = [] then read_message e m rest
          else if m > 0 \<and> length line > m then (Inl (MessageTooLarge (length line) m), rest)
          else (Inr line, rest))"
  by pat_completeness auto
termination
  by (relation "measure (\<lambda>(e, m, s). length s)") (auto dest: cut_line_shorter)

declare read_message.simps [simp del]

definition codec_ReadMessage :: "codec \<Rightarrow> (codec_error + string) \<times> codec" where
  "codec_ReadMessage c =
     (case read_message (cd_end c) (cd_max c) (cd_input c) of
        (res, rest) \<Rightarrow> (res, c\<lparr>cd_input := rest\<rparr>))"

text \<open>One \<open>Write\<close> to the writer: \<open>None\<close>, it takes everything, or \<open>Some n\<close>, it fails after \<open>n\<close> bytes.\<close>

definition put_codec :: "nat option \<Rightarrow> nat option \<Rightarrow> string \<Rightarrow> codec \<Rightarrow> (codec_error + unit) \<times> codec" where
  "put_codec w1 w2 data c =
     (case w1 of
        Some n \<Rightarrow> (Inl CodecWriteError, c\<lparr>cd_out := cd_out c @ take n data\<rparr>)
      | None \<Rightarrow>
         (case w2 of
            Some n \<Rightarrow> (Inl CodecWriteError, c\<lparr>cd_out := cd_out c @ data @ take n [LF]\<rparr>)
          | None \<Rightarrow> (Inr (), c\<lparr>cd_out := cd_out c @ data @ [LF]\<rparr>)))"

definition codec_WriteRaw ::
  "nat option \<Rightarrow> nat option \<Rightarrow> string \<Rightarrow> codec \<Rightarrow> (codec_error + unit) \<times> codec" where
  "codec_WriteRaw w1 w2 data c =
     (if cd_max c > 0 \<and> length data > cd_max c then (Inl (MessageTooLarge (length data) (cd_max c)), c)
      else put_codec w1 w2 data c)"

definition codec_WriteMessage ::
  "nat option \<Rightarrow> nat option \<Rightarrow> json \<Rightarrow> codec \<Rightarrow> (codec_error + unit) \<times> codec" where
  "codec_WriteMessage w1 w2 msg c =
     (let data = EncodeMessage msg in
      if cd_max c > 0 \<and> length data > cd_max c then (Inl (MessageTooLarge (length data) (cd_max c)), c)
      else put_codec w1 w2 data c)"

definition ReadMessageFrom :: "codec_error \<Rightarrow> string \<Rightarrow> codec_error + string" where
  "ReadMessageFrom e s =
     (case cut_line s of
        None \<Rightarrow> if e = CodecEOF \<and> s \<noteq> [] then Inr (trim_space s) else Inl e
      | Some (raw, rest) \<Rightarrow> Inr (trim_space raw))"

definition WriteMessageTo ::
  "nat option \<Rightarrow> nat option \<Rightarrow> json \<Rightarrow> string \<Rightarrow> (codec_error + unit) \<times> string" where
  "WriteMessageTo w1 w2 msg out =
     (case put_codec w1 w2 (EncodeMessage msg) (NewCodec [] CodecEOF\<lparr>cd_out := out\<rparr>) of
        (res, c) \<Rightarrow> (res, cd_out c))"

section \<open>The message reader\<close>

record message_reader =
  mr_codec :: codec
  mr_err :: "codec_error option"
  mr_data :: "string option"

definition NewMessageReader :: "string \<Rightarrow> codec_error \<Rightarrow> message_reader" where
  "NewMessageReader input e = \<lparr>mr_codec = NewCodec input e, mr_err = None, mr_data = None\<rparr>"

definition Next :: "message_reader \<Rightarrow> bool \<times> message_reader" where
  "Next r =
     (case codec_ReadMessage (mr_codec r) of
        (Inl e, c) \<Rightarrow> (False, r\<lparr>mr_codec := c, mr_err := Some e, mr_data := None\<rparr>)
      | (Inr d, c) \<Rightarrow> (True, r\<lparr>mr_codec := c, mr_err := None, mr_data := Some d\<rparr>))"

definition reader_Err :: "message_reader \<Rightarrow> codec_error option" where
  "reader_Err r = (if mr_err r = Some CodecEOF then None else mr_err r)"

text \<open>The loop over \<open>Next\<close>: the messages up to the first failure, and what \<open>Err\<close> says then.\<close>

lemma read_message_consumes:
  "read_message e m s = (Inr x, rest) \<Longrightarrow> length rest < length s"
proof (induction e m s rule: read_message.induct)
  case (1 e m s)
  show ?case
  proof (cases "cut_line s")
    case None
    then show ?thesis
      using "1.prems" by (auto simp: read_message.simps [of e m s] split: if_splits)
  next
    case (Some lr)
    obtain raw r where lr: "lr = (raw, r)" by (cases lr)
    then have s: "length r < length s" using Some cut_line_shorter by blast
    show ?thesis
    proof (cases "trim_space raw = []")
      case True
      then have "length rest < length r"
        using "1.IH" [OF Some lr [symmetric] refl] "1.prems" Some lr
        by (simp add: read_message.simps [of e m s])
      then show ?thesis using s by simp
    next
      case False
      then show ?thesis
        using "1.prems" Some lr s by (auto simp: read_message.simps [of e m s] Let_def split: if_splits)
    qed
  qed
qed

lemma Next_consumes:
  "Next r = (True, r') \<Longrightarrow> length (cd_input (mr_codec r')) < length (cd_input (mr_codec r))"
  by (auto simp: Next_def codec_ReadMessage_def split: prod.splits sum.splits dest: read_message_consumes)

function read_all :: "message_reader \<Rightarrow> string list \<times> codec_error option" where
  "read_all r =
     (case Next r of
        (False, r') \<Rightarrow> ([], reader_Err r')
      | (True, r') \<Rightarrow> (case read_all r' of (ms, e) \<Rightarrow> (the (mr_data r') # ms, e)))"
  by pat_completeness auto
termination
  by (relation "measure (\<lambda>r. length (cd_input (mr_codec r)))") (auto dest!: Next_consumes [OF sym] Next_consumes)

declare read_all.simps [simp del]

section \<open>What is written is read\<close>

text \<open>Text that trimming leaves alone and that fits on a line.\<close>

definition text_line :: "string \<Rightarrow> bool" where
  "text_line d \<longleftrightarrow> d \<noteq> [] \<and> LF \<notin> set d \<and> visible (hd d) \<and> visible (last d)"

lemma read_message_line [framing_simps]:
  "text_line d \<Longrightarrow>
   read_message e m (d @ LF # rest) =
     (if m > 0 \<and> length d > m then Inl (MessageTooLarge (length d) m) else Inr d, rest)"
  using trim_space_visible [of d]
  by (subst read_message.simps) (auto simp: text_line_def Let_def)

lemma read_message_blank [framing_simps]: "read_message e m (LF # rest) = read_message e m rest"
  using cut_line_append [of "[]" rest] trim_space_visible(2) [of "''x''"]
  by (subst read_message.simps)
     (simp add: trim_space_def trim_left.simps [of "[LF]"] lead_space_def unicode_spaces_def has_prefix_def
       trim_left.simps [of "[]"] trim_right.simps [of "[]"] trail_space_def has_suffix_def)

definition read_codec_frame :: "string \<Rightarrow> (string \<times> string) option" where
  "read_codec_frame s =
     (case read_message CodecEOF 0 s of (Inr d, rest) \<Rightarrow> Some (d, rest) | (Inl _, _) \<Rightarrow> None)"

interpretation ndjson: framing "\<lambda>d. d @ [LF]" read_codec_frame text_line
  by unfold_locales (simp add: read_codec_frame_def framing_simps)

lemma show_object_line: "json_ok (JObj ms) \<Longrightarrow> text_line (show_json (JObj ms))"
  using show_json_no_LF [of "JObj ms"] by (simp add: text_line_def visible_def)

text \<open>Requests written one after the other through a \<open>MessageWriter\<close>.\<close>

definition send_requests :: "request list \<Rightarrow> codec \<Rightarrow> codec" where
  "send_requests rs c = fold (\<lambda>r c. snd (codec_WriteMessage None None (marshal_request r) c)) rs c"

lemma send_requests_out:
  "cd_max c = 0 \<Longrightarrow>
   cd_out (send_requests rs c) = cd_out c @ concat (map (\<lambda>r. EncodeMessage (marshal_request r) @ [LF]) rs)"
proof (induction rs arbitrary: c)
  case Nil
  then show ?case by (simp add: send_requests_def)
next
  case (Cons r rs)
  then show ?case by (simp add: send_requests_def codec_WriteMessage_def put_codec_def Let_def)
qed

lemma request_line: "sendable_request r \<Longrightarrow> text_line (EncodeMessage (marshal_request r))"
  using members_ok [OF request_members_ok] show_object_line
  by (simp add: marshal_request_members)

lemma read_all_lines:
  "list_all text_line ds \<Longrightarrow> cd_max (mr_codec r) = 0 \<Longrightarrow> cd_end (mr_codec r) = CodecEOF \<Longrightarrow>
   cd_input (mr_codec r) = concat (map (\<lambda>d. d @ [LF]) ds) \<Longrightarrow> read_all r = (ds, None)"
proof (induction ds arbitrary: r)
  case Nil
  then show ?case
    by (subst read_all.simps)
       (simp add: Next_def codec_ReadMessage_def read_message.simps [of _ _ "[]"] reader_Err_def)
next
  case (Cons d ds)
  let ?r' = "r\<lparr>mr_codec := (mr_codec r)\<lparr>cd_input := concat (map (\<lambda>d. d @ [LF]) ds)\<rparr>, mr_err := None,
    mr_data := Some d\<rparr>"
  have "Next r = (True, ?r')"
    using Cons.prems by (simp add: Next_def codec_ReadMessage_def framing_simps)
  moreover have "read_all ?r' = (ds, None)" using Cons.prems by (intro Cons.IH) simp_all
  ultimately show ?case by (subst read_all.simps) simp
qed

text \<open>
  C25.  The NDJSON stream carries requests faithfully from end to end.  Any list of valid requests
  written through a \<open>MessageWriter\<close> and read through a \<open>MessageReader\<close> yields one message per
  request, in order, ends without an error, and each message is parsed back to its request.
\<close>

theorem codec_requests_roundtrip:
  assumes "list_all sendable_request rs"
  shows "case read_all (NewMessageReader (cd_out (send_requests rs (NewCodec [] CodecEOF))) CodecEOF) of
     (ms, err) \<Rightarrow> err = None \<and> map ParseRequest ms = map (\<lambda>r. Inr (compacted r)) rs"
proof -
  let ?ds = "map (\<lambda>r. EncodeMessage (marshal_request r)) rs"
  have "list_all text_line ?ds" using assms by (auto simp: list_all_iff request_line)
  then have "read_all (NewMessageReader (cd_out (send_requests rs (NewCodec [] CodecEOF))) CodecEOF) = (?ds, None)"
    by (rule read_all_lines) (simp_all add: NewMessageReader_def NewCodec_def send_requests_out comp_def)
  moreover have "map ParseRequest ?ds = map (\<lambda>r. Inr (compacted r)) rs"
    using assms by (simp add: list_all_iff parse_encoded_request)
  ultimately show ?thesis by simp
qed

theorem codec_requests_roundtrip_witness:
  "case read_all (NewMessageReader (cd_out (send_requests [sample_request, sample_request] (NewCodec [] CodecEOF))) CodecEOF) of
     (ms, err) \<Rightarrow> err = None \<and> map ParseRequest ms = map (\<lambda>r. Inr (compacted r)) [sample_request, sample_request]"
  by (rule codec_requests_roundtrip) (simp add: sample_request_sendable)

section \<open>The size limit\<close>

lemma read_message_limit:
  "read_message e m s = (Inr d, rest) \<Longrightarrow> 0 < m \<Longrightarrow> rest \<noteq> [] \<Longrightarrow> length d \<le> m"
proof (induction e m s rule: read_message.induct)
  case (1 e m s)
  then show ?case
    by (auto simp: read_message.simps [of e m s] Let_def split: option.splits if_splits)
qed

text \<open>
  The size limit does not bind at the end of the input.  A message longer than the limit is refused
  when its line is terminated, but the very same message as the last line without a newline is
  returned whole, whatever its length: that branch returns before the check.  Every message that
  is followed by anything else does keep to the limit.
\<close>

theorem codec_limit_last_line:
  assumes "text_line d" and "cd_max c = m" and "0 < m" and "m < length d" and "cd_end c = CodecEOF"
  shows "fst (codec_ReadMessage (c\<lparr>cd_input := d @ LF # rest\<rparr>)) = Inl (MessageTooLarge (length d) m) \<and>
    fst (codec_ReadMessage (c\<lparr>cd_input := d\<rparr>)) = Inr d \<and>
    (\<forall>c' d'. codec_ReadMessage c = (Inr d', c') \<longrightarrow> cd_input c' \<noteq> [] \<longrightarrow> length d' \<le> m)"
proof -
  have "read_message CodecEOF m d = (Inr d, [])"
    using assms(1) trim_space_visible(1) [of d] cut_line_none [of d]
    by (subst read_message.simps) (simp add: text_line_def)
  then show ?thesis
    using assms by (auto simp: codec_ReadMessage_def framing_simps split: prod.splits dest: read_message_limit)
qed

theorem codec_limit_last_line_witness:
  "fst (codec_ReadMessage (NewCodecWithOptions ''abc'' CodecEOF 2)) = Inr ''abc''"
  using codec_limit_last_line [of "''abc''" "NewCodecWithOptions ''abc'' CodecEOF 2" 2 "[]"]
  by (simp add: NewCodecWithOptions_def text_line_def visible_def)

end
