(* ===== verification/Config_Types.thy ===== *)
theory Config_Types
  imports Go_Literals
begin

text \<open>
  The configuration as the YAML file gives it (\<open>internal/config/config.go\<close>): one record per Go struct,
  pointers as options, durations in nanoseconds.  The components take their settings from these
  records.
\<close>

record retry_config =
  rc_Enabled :: bool
  rc_MaxRetries :: int
  rc_InitialDelay :: duration
  rc_MaxDelay :: duration
  rc_Multiplier :: float64

record session_config =
  sc_Enabled :: bool
  sc_MaxSessions :: int
  sc_Timeout :: duration
  sc_CleanupInterval :: duration

record tls_config =
  tlc_Enabled :: bool
  tlc_CertFile :: string
  tlc_KeyFile :: string
  tlc_ClientCA :: string
  tlc_ClientAuth :: string
  tlc_MinVersion :: string
  tlc_MaxVersion :: string

record tls_client_config =
  tcc_CACert :: string
  tcc_CertFile :: string
  tcc_KeyFile :: string
  tcc_InsecureSkipVerify :: bool
  tcc_ServerName :: string

record cors_config =
  crc_Enabled :: bool
  crc_AllowedOrigins :: "string list"
  crc_AllowedMethods :: "string list"
  crc_AllowedHeaders :: "string list"
  crc_ExposedHeaders :: "string list"
  crc_AllowCredentials :: bool
  crc_MaxAge :: int

record bearer_auth_config =
  bac_ValidTokens :: "string list"
  bac_ValidationEndpoint :: string
  bac_Token :: string
  bac_TokenEnv :: string

record oauth_auth_config =
  oac_DiscoveryURL :: string
  oac_AuthorizationURL :: string
  oac_TokenURL :: string
  oac_ClientID :: string
  oac_ClientSecret :: string
  oac_Scopes :: "string list"
  oac_IntrospectionURL :: string
  oac_JWKSURL :: string
  oac_Resource :: string
  oac_UsePKCE :: bool
  oac_HTTPTimeout :: duration

record auth_config =
  auc_Type :: string
  auc_Bearer :: "bearer_auth_config option"
  auc_OAuth :: "oauth_auth_config option"

record signing_config =
  sgc_Algorithm :: string
  sgc_KeyFile :: string
  sgc_KeyID :: string
  sgc_GenerateKey :: bool

record login_branding =
  lbc_PageTitle :: string
  lbc_Heading :: string
  lbc_Subtitle :: string
  lbc_UsernameLabel :: string
  lbc_PasswordLabel :: string
  lbc_ButtonText :: string
  lbc_FooterText :: string
  lbc_PrimaryColor :: string
  lbc_SecondaryColor :: string

record user_config =
  uc_Username :: string
  uc_PasswordHash :: string
  uc_PasswordEnv :: string
  uc_Scopes :: "string list"

record builtin_auth_config =
  bic_Users :: "user_config list"
  bic_LoginTemplate :: string
  bic_Branding :: "login_branding option"

record federated_auth_config =
  fdc_UpstreamIssuer :: string
  fdc_UpstreamDiscoveryURL :: string
  fdc_ClientID :: string
  fdc_ClientSecret :: string
  fdc_ClientSecretEnv :: string
  fdc_Scopes :: "string list"
  fdc_AllowedDomains :: "string list"
  fdc_DefaultScopes :: "string list"
  fdc_AdminUsers :: "string list"
  fdc_AdminScopes :: "string list"
  fdc_HTTPTimeout :: duration

record oauth_server_config =
  osc_Enabled :: bool
  osc_Issuer :: string
  osc_Mode :: string
  osc_TokenLifetime :: duration
  osc_RefreshTokenLifetime :: duration
  osc_AuthCodeLifetime :: duration
  osc_Signing :: "signing_config option"
  osc_BuiltIn :: "builtin_auth_config option"
  osc_Federated :: "federated_auth_config option"
  osc_AllowedRedirectURIs :: "string list"
  osc_ScopesSupported :: "string list"
  osc_AllowDynamicRegistration :: bool

record mcp_server_config =
  mcc_Command :: string
  mcc_Args :: "string list"
  mcc_Env :: "(string \<times> string) list"
  mcc_Dir :: string
  mcc_GracefulShutdownTimeout :: duration
  mcc_ReadTimeout :: duration
  mcc_RestartOnFailure :: bool
  mcc_MaxRestarts :: int
  mcc_RestartDelay :: duration

record server_config =
  svc_Listen :: string
  svc_TLS :: "tls_config option"
  svc_CORS :: "cors_config option"
  svc_Auth :: "auth_config option"
  svc_OAuthServer :: "oauth_server_config option"
  svc_ReadTimeout :: duration
  svc_WriteTimeout :: duration
  svc_IdleTimeout :: duration
  svc_SSEKeepaliveInterval :: duration
  svc_MCPServer :: mcp_server_config
  svc_Session :: session_config

record client_config =
  cc_URL :: string
  cc_TLS :: "tls_client_config option"
  cc_Auth :: "auth_config option"
  cc_Timeout :: duration
  cc_MaxIdleConns :: int
  cc_IdleConnTimeout :: duration
  cc_Retry :: retry_config

record log_config =
  lgc_Level :: string
  lgc_Format :: string
  lgc_Output :: string

record config =
  cf_Mode :: string
  cf_Server :: "server_config option"
  cf_Client :: "client_config option"
  cf_Log :: log_config

end
