(* ===== verification/Sessions.thy ===== *)
theory Sessions
  imports Config_Types
begin

text \<open>
  MCP sessions (\<open>internal/server/session.go\<close>): a session with its bounded notification channel and
  the manager that creates, finds, closes and expires sessions.  Sessions are shared by pointer (a
  handler keeps one after the manager has dropped it), so the model has a heap of session objects,
  and the manager's map holds addresses.
\<close>

section \<open>Sessions\<close>

record session =
  s_ID :: string
  s_CreatedAt :: instant
  s_LastActivity :: instant
  s_Initialized :: bool
  s_clientInfo :: "(string, json) fmap"
  s_capabilities :: "json option"
  s_notifications :: "string list"
  s_closed :: bool

definition notificationBufferSize :: nat where "notificationBufferSize = 100"
definition sessionIDLength :: nat where "sessionIDLength = 16"

definition newSession :: "string \<Rightarrow> instant \<Rightarrow> session" where
  "newSession i now =
     \<lparr>s_ID = i, s_CreatedAt = now, s_LastActivity = now, s_Initialized = False, s_clientInfo = fmempty,
      s_capabilities = None, s_notifications = [], s_closed = False\<rparr>"

definition Touch :: "instant \<Rightarrow> session \<Rightarrow> session" where
  "Touch now s = s\<lparr>s_LastActivity := now\<rparr>"

definition SetInitialized :: "bool \<Rightarrow> session \<Rightarrow> session" where
  "SetInitialized b s = s\<lparr>s_Initialized := b\<rparr>"

definition IsInitialized :: "session \<Rightarrow> bool" where "IsInitialized s = s_Initialized s"

definition SetClientInfo :: "(string, json) fmap \<Rightarrow> session \<Rightarrow> session" where
  "SetClientInfo info s = s\<lparr>s_clientInfo := info\<rparr>"

definition GetClientInfo :: "session \<Rightarrow> (string, json) fmap" where "GetClientInfo s = s_clientInfo s"

definition SetCapabilities :: "json option \<Rightarrow> session \<Rightarrow> session" where
  "SetCapabilities caps s = s\<lparr>s_capabilities := caps\<rparr>"

definition GetCapabilities :: "session \<Rightarrow> json option" where "GetCapabilities s = s_capabilities s"

text \<open>
  \<open>QueueNotification\<close> as one step, the way \<open>BroadcastNotification\<close> runs it under the manager's
  lock; the section on interleavings below takes it apart.
\<close>

definition QueueNotification :: "string \<Rightarrow> session \<Rightarrow> bool \<times> session" where
  "QueueNotification data s =
     (if s_closed s then (False, s)
      else if length (s_notifications s) < notificationBufferSize
        then (True, s\<lparr>s_notifications := s_notifications s @ [data]\<rparr>)
        else (False, s))"

definition session_Close :: "session \<Rightarrow> session" where
  "session_Close s = (if s_closed s then s else s\<lparr>s_closed := True\<rparr>)"

definition IsClosed :: "session \<Rightarrow> bool" where "IsClosed s = s_closed s"

definition IsExpired :: "instant \<Rightarrow> duration \<Rightarrow> session \<Rightarrow> bool" where
  "IsExpired now timeout s \<longleftrightarrow> now - s_LastActivity s > timeout"

text \<open>
  A receive on \<open>Notifications()\<close>: the oldest notification; on a closed channel that is drained, the
  end; otherwise it blocks.
\<close>

datatype received_notification = Received string | ChannelClosed | WouldBlock

definition receive_notification :: "session \<Rightarrow> received_notification \<times> session" where
  "receive_notification s =
     (case s_notifications s of
        n # ns \<Rightarrow> (Received n, s\<lparr>s_notifications := ns\<rparr>)
      | [] \<Rightarrow> (if s_closed s then ChannelClosed else WouldBlock, s))"

section \<open>The manager\<close>

type_synonym addr = nat

record session_manager =
  sm_sessions :: "(string, addr) fmap"
  sm_heap :: "session list"
  sm_maxSessions :: int
  sm_timeout :: duration
  sm_cleanupInterval :: duration
  sm_enabled :: bool
  sm_cleanup :: bool

definition NewSessionManager :: "session_config \<Rightarrow> session_manager" where
  "NewSessionManager cfg =
     \<lparr>sm_sessions = fmempty, sm_heap = [],
      sm_maxSessions = (if sc_MaxSessions cfg = 0 then 100 else sc_MaxSessions cfg),
      sm_timeout = (if sc_Timeout cfg = 0 then 30 * minute else sc_Timeout cfg),
      sm_cleanupInterval = (if sc_CleanupInterval cfg = 0 then 5 * minute else sc_CleanupInterval cfg),
      sm_enabled = sc_Enabled cfg, sm_cleanup = False\<rparr>"

text \<open>\<open>hex.EncodeToString\<close>\<close>

definition hex_encode :: "char list \<Rightarrow> string" where
  "hex_encode bs =
     concat (map (\<lambda>b. [hex_digit ((of_char b :: nat) div 16), hex_digit (of_char b mod 16)]) bs)"

text \<open>\<open>generateSessionID\<close> on what the random source returns: 16 bytes or an error.\<close>

definition generateSessionID :: "char list option \<Rightarrow> string option" where
  "generateSessionID bs = map_option hex_encode bs"

datatype session_error = MaxSessionsReached | RandomFailed | StillGenerating

text \<open>
  The loop that draws identifiers until one is unused.  The environment hands in the draws; when
  they are used up the loop is still running.
\<close>

fun fresh_session_id ::
  "char list option list \<Rightarrow> (string, addr) fmap \<Rightarrow> session_error + string" where
  "fresh_session_id [] m = Inl StillGenerating"
| "fresh_session_id (r # rs) m =
     (case generateSessionID r of
        None \<Rightarrow> Inl RandomFailed
      | Some i \<Rightarrow> if fmlookup m i \<noteq> None then fresh_session_id rs m else Inr i)"

definition CreateSession ::
  "char list option list \<Rightarrow> instant \<Rightarrow> session_manager \<Rightarrow> (session_error + addr) \<times> session_manager" where
  "CreateSession rnd now sm =
     (if int (fmsize (sm_sessions sm)) \<ge> sm_maxSessions sm then (Inl MaxSessionsReached, sm)
      else case fresh_session_id rnd (sm_sessions sm) of
        Inl e \<Rightarrow> (Inl e, sm)
      | Inr i \<Rightarrow>
          let a = length (sm_heap sm)
          in (Inr a, sm\<lparr>sm_heap := sm_heap sm @ [newSession i now],
                       sm_sessions := fmupd i a (sm_sessions sm)\<rparr>))"

text \<open>One session object of the heap updated in place.\<close>

definition at_session :: "addr \<Rightarrow> (session \<Rightarrow> session) \<Rightarrow> session_manager \<Rightarrow> session_manager" where
  "at_session a f sm = sm\<lparr>sm_heap := (sm_heap sm)[a := f (sm_heap sm ! a)]\<rparr>"

definition GetSession :: "string \<Rightarrow> session_manager \<Rightarrow> addr option" where
  "GetSession i sm =
     (case fmlookup (sm_sessions sm) i of
        None \<Rightarrow> None
      | Some a \<Rightarrow> if IsClosed (sm_heap sm ! a) then None else Some a)"

definition TouchSession :: "string \<Rightarrow> instant \<Rightarrow> session_manager \<Rightarrow> session_manager" where
  "TouchSession i now sm =
     (case GetSession i sm of None \<Rightarrow> sm | Some a \<Rightarrow> at_session a (Touch now) sm)"

definition CloseSession :: "string \<Rightarrow> session_manager \<Rightarrow> session_manager" where
  "CloseSession i sm =
     (case fmlookup (sm_sessions sm) i of
        None \<Rightarrow> sm
      | Some a \<Rightarrow> (at_session a session_Close sm)\<lparr>sm_sessions := fmdrop i (sm_sessions sm)\<rparr>)"

text \<open>
  The loops over the map touch each entry once and the entries do not interact, so a loop is an
  update of every object the map points to.
\<close>

definition live :: "session_manager \<Rightarrow> addr \<Rightarrow> bool" where
  "live sm a \<longleftrightarrow> a |\<in>| fmran (sm_sessions sm)"

definition update_live :: "(session \<Rightarrow> session) \<Rightarrow> session_manager \<Rightarrow> session list" where
  "update_live f sm =
     map (\<lambda>a. if live sm a then f (sm_heap sm ! a) else sm_heap sm ! a) [0..<length (sm_heap sm)]"

definition CloseAllSessions :: "session_manager \<Rightarrow> session_manager" where
  "CloseAllSessions sm = sm\<lparr>sm_heap := update_live session_Close sm, sm_sessions := fmempty\<rparr>"

definition SessionCount :: "session_manager \<Rightarrow> nat" where
  "SessionCount sm = fmsize (sm_sessions sm)"

definition MaxSessions :: "session_manager \<Rightarrow> int" where
  "MaxSessions sm = sm_maxSessions sm"

definition BroadcastNotification :: "string \<Rightarrow> session_manager \<Rightarrow> session_manager" where
  "BroadcastNotification data sm =
     sm\<lparr>sm_heap := update_live (\<lambda>s. snd (QueueNotification data s)) sm\<rparr>"

definition StartCleanup :: "session_manager \<Rightarrow> session_manager" where
  "StartCleanup sm = sm\<lparr>sm_cleanup := True\<rparr>"

definition StopCleanup :: "session_manager \<Rightarrow> session_manager" where
  "StopCleanup sm = sm\<lparr>sm_cleanup := False\<rparr>"

definition cleanupExpiredSessions :: "instant \<Rightarrow> session_manager \<Rightarrow> session_manager" where
  "cleanupExpiredSessions now sm =
     sm\<lparr>sm_heap := update_live (\<lambda>s. if IsExpired now (sm_timeout sm) s then session_Close s else s) sm,
        sm_sessions := fmdelete_if (\<lambda>i a. IsExpired now (sm_timeout sm) (sm_heap sm ! a)) (sm_sessions sm)\<rparr>"

text \<open>A tick of \<open>cleanupLoop\<close> while it runs.\<close>

definition cleanup_tick :: "instant \<Rightarrow> session_manager \<Rightarrow> session_manager" where
  "cleanup_tick now sm = (if sm_cleanup sm then cleanupExpiredSessions now sm else sm)"

record session_info =
  si_ID :: string
  si_CreatedAt :: instant
  si_LastActivity :: instant
  si_Initialized :: bool

definition session_info_of :: "session \<Rightarrow> session_info" where
  "session_info_of s =
     \<lparr>si_ID = s_ID s, si_CreatedAt = s_CreatedAt s, si_LastActivity = s_LastActivity s,
      si_Initialized = s_Initialized s\<rparr>"

text \<open>\<open>ListSessions\<close>: the order of a Go map is unspecified; this one is by age.\<close>

definition ListSessions :: "session_manager \<Rightarrow> session_info list" where
  "ListSessions sm = map (\<lambda>a. session_info_of (sm_heap sm ! a)) (filter (live sm) [0..<length (sm_heap sm)])"

section \<open>The invariant of the manager\<close>

text \<open>
  The map is a directory of the open sessions: an entry leads to the object of that identifier, which
  is open; every other object is closed; no buffer holds more than its capacity; and the number of
  entries is within the limit.
\<close>

definition sm_inv :: "session_manager \<Rightarrow> bool" where
  "sm_inv sm \<longleftrightarrow>
     (\<forall>i a. fmlookup (sm_sessions sm) i = Some a \<longrightarrow>
        a < length (sm_heap sm) \<and> s_ID (sm_heap sm ! a) = i \<and> \<not> s_closed (sm_heap sm ! a)) \<and>
     (\<forall>a < length (sm_heap sm). live sm a \<or> s_closed (sm_heap sm ! a)) \<and>
     (\<forall>a < length (sm_heap sm). length (s_notifications (sm_heap sm ! a)) \<le> notificationBufferSize) \<and>
     int (fmsize (sm_sessions sm)) \<le> max 0 (sm_maxSessions sm)"

lemma sm_invI [intro?]:
  assumes "\<And>i a. fmlookup (sm_sessions sm) i = Some a \<Longrightarrow>
        a < length (sm_heap sm) \<and> s_ID (sm_heap sm ! a) = i \<and> \<not> s_closed (sm_heap sm ! a)"
    and "\<And>a. a < length (sm_heap sm) \<Longrightarrow> live sm a \<or> s_closed (sm_heap sm ! a)"
    and "\<And>a. a < length (sm_heap sm) \<Longrightarrow> length (s_notifications (sm_heap sm ! a)) \<le> notificationBufferSize"
    and "int (fmsize (sm_sessions sm)) \<le> max 0 (sm_maxSessions sm)"
  shows "sm_inv sm"
  using assms by (simp add: sm_inv_def)

lemma sm_invD:
  assumes "sm_inv sm"
  shows "fmlookup (sm_sessions sm) i = Some a \<Longrightarrow>
        a < length (sm_heap sm) \<and> s_ID (sm_heap sm ! a) = i \<and> \<not> s_closed (sm_heap sm ! a)"
    and "a < length (sm_heap sm) \<Longrightarrow> live sm a \<or> s_closed (sm_heap sm ! a)"
    and "a < length (sm_heap sm) \<Longrightarrow> length (s_notifications (sm_heap sm ! a)) \<le> notificationBufferSize"
    and "int (fmsize (sm_sessions sm)) \<le> max 0 (sm_maxSessions sm)"
  using assms by (auto simp: sm_inv_def)

lemma live_iff: "live sm a \<longleftrightarrow> (\<exists>i. fmlookup (sm_sessions sm) i = Some a)"
  by (simp add: live_def fmlookup_ran_iff)

lemma live_id:
  assumes "sm_inv sm" and "live sm a"
  shows "fmlookup (sm_sessions sm) (s_ID (sm_heap sm ! a)) = Some a"
  using assms sm_invD(1) [OF assms(1)] by (auto simp: live_iff)

lemma length_update_live [simp]: "length (update_live f sm) = length (sm_heap sm)"
  by (simp add: update_live_def)

lemma update_live_nth [simp]:
  "a < length (sm_heap sm) \<Longrightarrow>
   update_live f sm ! a = (if live sm a then f (sm_heap sm ! a) else sm_heap sm ! a)"
  by (simp add: update_live_def)

text \<open>An operation on the objects that leaves identity, closedness and the bound on the buffer alone.\<close>

definition harmless :: "(session \<Rightarrow> session) \<Rightarrow> bool" where
  "harmless f \<longleftrightarrow>
     (\<forall>s. s_ID (f s) = s_ID s \<and> s_closed (f s) = s_closed s \<and>
          (length (s_notifications s) \<le> notificationBufferSize \<longrightarrow>
           length (s_notifications (f s)) \<le> notificationBufferSize))"

lemma harmless_ops [simp]:
  "harmless (Touch now)" "harmless (SetInitialized b)" "harmless (SetClientInfo info)"
  "harmless (SetCapabilities caps)" "harmless (\<lambda>s. snd (receive_notification s))"
  "harmless (\<lambda>s. snd (QueueNotification data s))"
  by (auto simp: harmless_def Touch_def SetInitialized_def SetClientInfo_def SetCapabilities_def
      receive_notification_def QueueNotification_def split: list.splits)

lemma at_session_inv:
  assumes "sm_inv sm" and "harmless f"
  shows "sm_inv (at_session a f sm)"
proof (cases "a < length (sm_heap sm)")
  case True
  then show ?thesis
    using assms unfolding sm_inv_def harmless_def at_session_def
    by (auto simp: nth_list_update live_def)
next
  case False
  then have "(sm_heap sm)[a := f (sm_heap sm ! a)] = sm_heap sm" by (simp add: list_update_beyond)
  then show ?thesis using assms(1) by (simp add: at_session_def)
qed

lemma update_live_inv:
  assumes "sm_inv sm" and "harmless f"
  shows "sm_inv (sm\<lparr>sm_heap := update_live f sm\<rparr>)"
  using assms unfolding sm_inv_def harmless_def by (auto simp: live_def)

lemma new_session_inv:
  assumes "sm_inv sm" and "fmlookup (sm_sessions sm) i = None"
    and "int (fmsize (sm_sessions sm)) < sm_maxSessions sm"
  shows "sm_inv (sm\<lparr>sm_heap := sm_heap sm @ [newSession i now],
    sm_sessions := fmupd i (length (sm_heap sm)) (sm_sessions sm)\<rparr>)" (is "sm_inv ?sm")
proof
  fix j a
  assume "fmlookup (sm_sessions ?sm) j = Some a"
  then show "a < length (sm_heap ?sm) \<and> s_ID (sm_heap ?sm ! a) = j \<and> \<not> s_closed (sm_heap ?sm ! a)"
    using sm_invD(1) [OF assms(1), of j a]
    by (auto simp: newSession_def nth_append split: if_splits)
next
  fix a
  assume a: "a < length (sm_heap ?sm)"
  have "live ?sm b" if "live sm b" for b
    using that assms(2) by (auto simp: live_iff) (metis option.distinct(1))
  moreover have "live ?sm (length (sm_heap sm))" by (auto simp: live_iff)
  ultimately show "live ?sm a \<or> s_closed (sm_heap ?sm ! a)"
    using a sm_invD(2) [OF assms(1), of a] by (cases "a < length (sm_heap sm)") (auto simp: nth_append less_Suc_eq)
  show "length (s_notifications (sm_heap ?sm ! a)) \<le> notificationBufferSize"
    using a sm_invD(3) [OF assms(1), of a] by (auto simp: nth_append newSession_def less_Suc_eq)
next
  show "int (fmsize (sm_sessions ?sm)) \<le> max 0 (sm_maxSessions ?sm)"
    using assms(2,3) by (simp add: go_map)
qed

lemma fresh_session_id_unused: "fresh_session_id rs m = Inr i \<Longrightarrow> fmlookup m i = None"
  by (induction rs m rule: fresh_session_id.induct) (auto split: option.splits if_splits)

lemma CreateSession_inv: "sm_inv sm \<Longrightarrow> sm_inv (snd (CreateSession rnd now sm))"
  using new_session_inv [of sm] fresh_session_id_unused [of rnd "sm_sessions sm"]
  by (auto simp: CreateSession_def Let_def split: sum.splits)

lemma CloseSession_inv:
  assumes "sm_inv sm"
  shows "sm_inv (CloseSession i sm)"
proof (cases "fmlookup (sm_sessions sm) i")
  case None
  then show ?thesis using assms by (simp add: CloseSession_def)
next
  case (Some a)
  let ?sm = "(at_session a session_Close sm)\<lparr>sm_sessions := fmdrop i (sm_sessions sm)\<rparr>"
  have a: "a < length (sm_heap sm)" "s_ID (sm_heap sm ! a) = i" using sm_invD(1) [OF assms Some] by auto
  have "sm_inv ?sm"
  proof
    fix j b
    assume "fmlookup (sm_sessions ?sm) j = Some b"
    then have "j \<noteq> i" and "fmlookup (sm_sessions sm) j = Some b" by (auto split: if_splits)
    then show "b < length (sm_heap ?sm) \<and> s_ID (sm_heap ?sm ! b) = j \<and> \<not> s_closed (sm_heap ?sm ! b)"
      using sm_invD(1) [OF assms, of j b] a by (auto simp: at_session_def nth_list_update)
  next
    fix b
    assume b: "b < length (sm_heap ?sm)"
    have "live ?sm b" if lb: "live sm b" "b \<noteq> a"
    proof -
      obtain j where j: "fmlookup (sm_sessions sm) j = Some b" using lb(1) by (auto simp: live_iff)
      then have "j \<noteq> i" using Some lb(2) by auto
      then show ?thesis using j by (auto simp: live_iff intro!: exI [of _ j])
    qed
    then show "live ?sm b \<or> s_closed (sm_heap ?sm ! b)"
      using b sm_invD(2) [OF assms, of b]
      by (cases "b = a") (auto simp: at_session_def session_Close_def)
    show "length (s_notifications (sm_heap ?sm ! b)) \<le> notificationBufferSize"
      using b sm_invD(3) [OF assms, of b]
      by (cases "b = a") (auto simp: at_session_def session_Close_def)
  next
    show "int (fmsize (sm_sessions ?sm)) \<le> max 0 (sm_maxSessions ?sm)"
      using sm_invD(4) [OF assms] fmsize_drop_le [of i "sm_sessions sm"]
      by (simp add: at_session_def del: fmsize_drop_le)
  qed
  then show ?thesis using Some by (simp add: CloseSession_def)
qed

lemma close_live_inv:
  assumes "sm_inv sm"
  shows "sm_inv (sm\<lparr>sm_heap := update_live (\<lambda>s. if p s then session_Close s else s) sm,
    sm_sessions := fmdelete_if (\<lambda>i a. p (sm_heap sm ! a)) (sm_sessions sm)\<rparr>)" (is "sm_inv ?sm")
proof
  have live: "live ?sm a \<longleftrightarrow> live sm a \<and> \<not> p (sm_heap sm ! a)" for a
    by (auto simp: live_iff split: option.splits if_splits)
  fix i a
  {
    assume "fmlookup (sm_sessions ?sm) i = Some a"
    then have "fmlookup (sm_sessions sm) i = Some a" and "\<not> p (sm_heap sm ! a)"
      by (auto split: option.splits if_splits)
    then show "a < length (sm_heap ?sm) \<and> s_ID (sm_heap ?sm ! a) = i \<and> \<not> s_closed (sm_heap ?sm ! a)"
      using sm_invD(1) [OF assms, of i a] by auto
  }
  assume a: "a < length (sm_heap ?sm)"
  then show "live ?sm a \<or> s_closed (sm_heap ?sm ! a)"
    using sm_invD(2) [OF assms, of a] by (auto simp: live session_Close_def)
  show "length (s_notifications (sm_heap ?sm ! a)) \<le> notificationBufferSize"
    using a sm_invD(3) [OF assms, of a] by (auto simp: session_Close_def)
next
  show "int (fmsize (sm_sessions ?sm)) \<le> max 0 (sm_maxSessions ?sm)"
    using sm_invD(4) [OF assms] fmsize_delete_if_le [of "\<lambda>i a. p (sm_heap sm ! a)" "sm_sessions sm"]
    by (simp del: fmsize_delete_if_le)
qed

lemma CloseAllSessions_inv:
  assumes "sm_inv sm"
  shows "sm_inv (CloseAllSessions sm)"
proof
  have none: "\<not> live (CloseAllSessions sm) a" for a
    by (simp add: live_iff CloseAllSessions_def)
  fix i a
  show "fmlookup (sm_sessions (CloseAllSessions sm)) i = Some a \<Longrightarrow>
      a < length (sm_heap (CloseAllSessions sm)) \<and> s_ID (sm_heap (CloseAllSessions sm) ! a) = i \<and>
      \<not> s_closed (sm_heap (CloseAllSessions sm) ! a)"
    by (simp add: CloseAllSessions_def)
  assume a: "a < length (sm_heap (CloseAllSessions sm))"
  then show "live (CloseAllSessions sm) a \<or> s_closed (sm_heap (CloseAllSessions sm) ! a)"
    using sm_invD(2) [OF assms, of a] by (auto simp: CloseAllSessions_def session_Close_def)
  show "length (s_notifications (sm_heap (CloseAllSessions sm) ! a)) \<le> notificationBufferSize"
    using a sm_invD(3) [OF assms, of a] by (auto simp: CloseAllSessions_def session_Close_def)
next
  show "int (fmsize (sm_sessions (CloseAllSessions sm))) \<le> max 0 (sm_maxSessions (CloseAllSessions sm))"
    by (simp add: CloseAllSessions_def)
qed

section \<open>Every sequence of operations\<close>

text \<open>
  What the server does with the manager and with the sessions it holds pointers to, in any order:
  requests, the clean-up ticker, broadcasts and receives on a session's channel.
\<close>

datatype sm_op =
    OpCreate "char list option list" instant
  | OpTouch string instant
  | OpClose string
  | OpCloseAll
  | OpBroadcast string
  | OpStartCleanup
  | OpStopCleanup
  | OpTick instant
  | OpSetInitialized addr bool
  | OpSetClientInfo addr "(string, json) fmap"
  | OpSetCapabilities addr "json option"
  | OpReceive addr

fun sm_run :: "sm_op \<Rightarrow> session_manager \<Rightarrow> session_manager" where
  "sm_run (OpCreate rnd now) sm = snd (CreateSession rnd now sm)"
| "sm_run (OpTouch i now) sm = TouchSession i now sm"
| "sm_run (OpClose i) sm = CloseSession i sm"
| "sm_run OpCloseAll sm = CloseAllSessions sm"
| "sm_run (OpBroadcast data) sm = BroadcastNotification data sm"
| "sm_run OpStartCleanup sm = StartCleanup sm"
| "sm_run OpStopCleanup sm = StopCleanup sm"
| "sm_run (OpTick now) sm = cleanup_tick now sm"
| "sm_run (OpSetInitialized a b) sm = at_session a (SetInitialized b) sm"
| "sm_run (OpSetClientInfo a info) sm = at_session a (SetClientInfo info) sm"
| "sm_run (OpSetCapabilities a caps) sm = at_session a (SetCapabilities caps) sm"
| "sm_run (OpReceive a) sm = at_session a (\<lambda>s. snd (receive_notification s)) sm"

definition sm_runs :: "sm_op list \<Rightarrow> session_manager \<Rightarrow> session_manager" where
  "sm_runs ops sm = fold sm_run ops sm"

lemma sm_run_inv: "sm_inv sm \<Longrightarrow> sm_inv (sm_run op sm)"
proof (induction op)
  case (OpTouch i now)
  then show ?case by (simp add: TouchSession_def at_session_inv split: option.splits)
next
  case (OpBroadcast data)
  then show ?case by (simp add: BroadcastNotification_def update_live_inv)
next
  case (OpTick now)
  then show ?case
    using close_live_inv [of sm "IsExpired now (sm_timeout sm)"]
    by (simp add: cleanup_tick_def cleanupExpiredSessions_def)
next
  case OpStartCleanup
  then show ?case by (simp add: StartCleanup_def sm_inv_def live_def)
next
  case OpStopCleanup
  then show ?case by (simp add: StopCleanup_def sm_inv_def live_def)
qed (simp_all add: CreateSession_inv CloseSession_inv CloseAllSessions_inv at_session_inv)

lemma NewSessionManager_inv: "sm_inv (NewSessionManager cfg)"
  by (simp add: sm_inv_def NewSessionManager_def)

lemma sm_runs_inv: "sm_inv sm \<Longrightarrow> sm_inv (sm_runs ops sm)"
  by (induction ops arbitrary: sm) (simp_all add: sm_runs_def sm_run_inv)

text \<open>The limit and the timeout are fixed at creation.\<close>

lemma sm_run_config:
  "sm_maxSessions (sm_run op sm) = sm_maxSessions sm \<and> sm_timeout (sm_run op sm) = sm_timeout sm"
  by (cases op)
     (auto simp: CreateSession_def TouchSession_def CloseSession_def CloseAllSessions_def Let_def
       BroadcastNotification_def StartCleanup_def StopCleanup_def cleanup_tick_def
       cleanupExpiredSessions_def at_session_def split: sum.splits option.splits)

lemma sm_runs_max: "sm_maxSessions (sm_runs ops sm) = sm_maxSessions sm"
  by (induction ops arbitrary: sm) (simp_all add: sm_runs_def sm_run_config)

text \<open>
  C4.  Whatever the server does, in any order, the session manager stays sound: there are never more
  sessions than the configured maximum; \<open>GetSession\<close> finds a session exactly while it is in the
  directory, and the one it finds has the requested identifier and is open; every session object
  that has left the directory is closed; and no session buffers more than 100 notifications.
\<close>

theorem sessions_sound:
  "let sm = sm_runs ops (NewSessionManager cfg)
   in int (SessionCount sm) \<le> max 0 (MaxSessions (NewSessionManager cfg)) \<and>
      (\<forall>i a. GetSession i sm = Some a \<longleftrightarrow> fmlookup (sm_sessions sm) i = Some a) \<and>
      (\<forall>i. case GetSession i sm of None \<Rightarrow> True
         | Some a \<Rightarrow> s_ID (sm_heap sm ! a) = i \<and> \<not> IsClosed (sm_heap sm ! a)) \<and>
      list_all (\<lambda>a. live sm a \<noteq> IsClosed (sm_heap sm ! a) \<and>
          length (s_notifications (sm_heap sm ! a)) \<le> 100) [0..<length (sm_heap sm)]"
proof -
  let ?sm = "sm_runs ops (NewSessionManager cfg)"
  have inv: "sm_inv ?sm" by (rule sm_runs_inv [OF NewSessionManager_inv])
  have "int (SessionCount ?sm) \<le> max 0 (MaxSessions (NewSessionManager cfg))"
    using sm_invD(4) [OF inv] by (simp add: SessionCount_def MaxSessions_def sm_runs_max)
  moreover have "GetSession i ?sm = fmlookup (sm_sessions ?sm) i" for i
    using sm_invD(1) [OF inv, of i] by (auto simp: GetSession_def IsClosed_def split: option.splits)
  moreover have "live ?sm a \<noteq> IsClosed (sm_heap ?sm ! a) \<and> length (s_notifications (sm_heap ?sm ! a)) \<le> 100"
    if "a < length (sm_heap ?sm)" for a
    using sm_invD(1) [OF inv, of _ a] sm_invD(2,3) [OF inv that]
    by (auto simp: live_iff IsClosed_def notificationBufferSize_def)
  ultimately show ?thesis
    using sm_invD(1) [OF inv] by (auto simp: Let_def list_all_iff IsClosed_def split: option.splits)
qed

text \<open>
  Clean-up evicts exactly the idle sessions.  After a pass at time \<open>now\<close>, a session is found
  under its identifier just when it was found before and has been active within the timeout, and
  then it is unchanged, its queued notifications included; the evicted ones are closed.
\<close>

theorem cleanup_exact:
  assumes "sm = sm_runs ops (NewSessionManager cfg)"
  shows "GetSession i (cleanupExpiredSessions now sm) =
      (case GetSession i sm of
         None \<Rightarrow> None
       | Some a \<Rightarrow> if now - s_LastActivity (sm_heap sm ! a) > sm_timeout sm then None else Some a) \<and>
    (case GetSession i sm of
       None \<Rightarrow> True
     | Some a \<Rightarrow> sm_heap (cleanupExpiredSessions now sm) ! a =
         (if now - s_LastActivity (sm_heap sm ! a) > sm_timeout sm then session_Close (sm_heap sm ! a)
          else sm_heap sm ! a))"
proof -
  have inv: "sm_inv sm" unfolding assms by (rule sm_runs_inv [OF NewSessionManager_inv])
  show ?thesis
  proof (cases "fmlookup (sm_sessions sm) i")
    case None
    then show ?thesis by (simp add: GetSession_def cleanupExpiredSessions_def)
  next
    case (Some a)
    then have "live sm a" by (auto simp: live_iff)
    then show ?thesis
      using Some sm_invD(1) [OF inv Some]
      by (auto simp: GetSession_def cleanupExpiredSessions_def IsExpired_def IsClosed_def)
  qed
qed

theorem cleanup_exact_witness:
  "GetSession (hex_encode [CHR ''a'']) (cleanupExpiredSessions 11
     (sm_runs [OpCreate [Some [CHR ''a'']] 0] (NewSessionManager \<lparr>sc_Enabled = True, sc_MaxSessions = 1,
        sc_Timeout = 10, sc_CleanupInterval = 1\<rparr>))) = None"
  using cleanup_exact [OF refl, of "hex_encode [CHR ''a'']" 11 "[OpCreate [Some [CHR ''a'']] 0]"
      "\<lparr>sc_Enabled = True, sc_MaxSessions = 1, sc_Timeout = 10, sc_CleanupInterval = 1\<rparr>"]
  by (simp add: sm_runs_def CreateSession_def NewSessionManager_def generateSessionID_def GetSession_def
      newSession_def IsClosed_def)

section \<open>The notification buffer\<close>

lemma BroadcastNotification_nth:
  "a < length (sm_heap sm) \<Longrightarrow> live sm a \<Longrightarrow>
   sm_heap (BroadcastNotification d sm) ! a = snd (QueueNotification d (sm_heap sm ! a))"
  by (simp add: BroadcastNotification_def)

lemma BroadcastNotification_frame [simp]:
  "live (BroadcastNotification d sm) a = live sm a"
  "length (sm_heap (BroadcastNotification d sm)) = length (sm_heap sm)"
  by (simp_all add: BroadcastNotification_def live_def)

lemma broadcasts_nth:
  "a < length (sm_heap sm) \<Longrightarrow> live sm a \<Longrightarrow> \<not> s_closed (sm_heap sm ! a) \<Longrightarrow>
   length (s_notifications (sm_heap sm ! a)) \<le> notificationBufferSize \<Longrightarrow>
   sm_heap (fold BroadcastNotification ds sm) ! a =
     (sm_heap sm ! a)\<lparr>s_notifications := take notificationBufferSize (s_notifications (sm_heap sm ! a) @ ds)\<rparr>"
proof (induction ds arbitrary: sm)
  case Nil
  then show ?case by simp
next
  case (Cons d ds)
  then show ?case
    by (simp add: BroadcastNotification_nth QueueNotification_def take_Cons')
qed

text \<open>
  Notifications reach a session in order, and overflow drops the newest.  After any history,
  broadcasting a list of notifications to which nobody listens leaves every open session with its
  old buffer followed by them, cut to the first 100; nothing else about the session changes.
\<close>

theorem broadcast_buffers_first:
  assumes "sm = sm_runs ops (NewSessionManager cfg)" and "GetSession i sm = Some a"
  shows "sm_heap (fold BroadcastNotification ds sm) ! a =
    (sm_heap sm ! a)\<lparr>s_notifications := take 100 (s_notifications (sm_heap sm ! a) @ ds)\<rparr>"
proof -
  have inv: "sm_inv sm" unfolding assms(1) by (rule sm_runs_inv [OF NewSessionManager_inv])
  have i: "fmlookup (sm_sessions sm) i = Some a"
    using assms(2) by (auto simp: GetSession_def split: option.splits if_splits)
  then have "live sm a" by (auto simp: live_iff)
  then show ?thesis
    using broadcasts_nth [of a sm ds] sm_invD(1) [OF inv i] sm_invD(3) [OF inv, of a]
    by (simp add: notificationBufferSize_def)
qed

theorem broadcast_buffers_first_witness:
  "s_notifications (sm_heap (fold BroadcastNotification [''x'', ''y'']
     (sm_runs [OpCreate [Some [CHR ''a'']] 0] (NewSessionManager \<lparr>sc_Enabled = True, sc_MaxSessions = 1,
        sc_Timeout = 10, sc_CleanupInterval = 1\<rparr>))) ! 0) = [''x'', ''y'']"
  using broadcast_buffers_first [OF refl, of "hex_encode [CHR ''a'']"
      "[OpCreate [Some [CHR ''a'']] 0]"
      "\<lparr>sc_Enabled = True, sc_MaxSessions = 1, sc_Timeout = 10, sc_CleanupInterval = 1\<rparr>" 0 "[''x'', ''y'']"]
  by (simp add: sm_runs_def CreateSession_def NewSessionManager_def generateSessionID_def GetSession_def
      newSession_def IsClosed_def)

section \<open>Queueing against closing\<close>

text \<open>
  \<open>QueueNotification\<close> looks at \<open>closed\<close> under the session's lock, lets go of it, and then sends; a
  send on a closed channel panics.  Steps of any number of goroutines on one session:
  \<open>qr_checked\<close> of them are between the two halves.  With \<open>locked\<close> they run under the manager's
  read lock, as in \<open>BroadcastNotification\<close>, and whoever closes needs the write lock, as
  \<open>CloseSession\<close>, \<open>CloseAllSessions\<close> and the clean-up do.
\<close>

record queue_race =
  qr_closed :: bool
  qr_length :: nat
  qr_checked :: nat
  qr_panic :: bool

inductive queue_step :: "bool \<Rightarrow> queue_race \<Rightarrow> queue_race \<Rightarrow> bool" for locked where
  check: "\<not> qr_closed q \<Longrightarrow> queue_step locked q (q\<lparr>qr_checked := Suc (qr_checked q)\<rparr>)"
| send: "qr_checked q = Suc n \<Longrightarrow> \<not> qr_closed q \<Longrightarrow>
    queue_step locked q (q\<lparr>qr_checked := n, qr_length := min notificationBufferSize (Suc (qr_length q))\<rparr>)"
| send_closed: "qr_checked q = Suc n \<Longrightarrow> qr_closed q \<Longrightarrow>
    queue_step locked q (q\<lparr>qr_checked := n, qr_panic := True\<rparr>)"
| receive: "qr_length q = Suc n \<Longrightarrow> queue_step locked q (q\<lparr>qr_length := n\<rparr>)"
| close: "locked \<longrightarrow> qr_checked q = 0 \<Longrightarrow> queue_step locked q (q\<lparr>qr_closed := True\<rparr>)"

definition queue_start :: queue_race where
  "queue_start = \<lparr>qr_closed = False, qr_length = 0, qr_checked = 0, qr_panic = False\<rparr>"

lemma queue_locked_invariant:
  "(queue_step True)\<^sup>*\<^sup>* queue_start q \<Longrightarrow>
   \<not> qr_panic q \<and> (qr_closed q \<longrightarrow> qr_checked q = 0) \<and> qr_length q \<le> notificationBufferSize"
proof (induction rule: rtranclp_induct)
  case base
  then show ?case by (simp add: queue_start_def)
next
  case (step q q')
  from step.hyps(2) step.IH show ?case by cases auto
qed



end
