(* ===== verification/Process_Manager.thy ===== *)
theory Process_Manager
  imports Bridge_Prelude
begin

text \<open>
  The life cycle of the MCP subprocess (\<open>internal/process/manager.go\<close>).  A definition per critical
  section of the code: starting, the phases of \<open>Stop\<close>, the phases of the \<open>monitor\<close> goroutine that
  waits for an exit and restarts, \<open>Close\<close>, and the bounded event channel; then a step relation
  that interleaves the goroutines and the operating system, with invariants over it.
\<close>

section \<open>State\<close>

datatype process_state = StateStopped | StateStarting | StateRunning | StateStopping | StateFailed

fun state_String :: "process_state \<Rightarrow> string" where
  "state_String StateStopped = ''stopped''"
| "state_String StateStarting = ''starting''"
| "state_String StateRunning = ''running''"
| "state_String StateStopping = ''stopping''"
| "state_String StateFailed = ''failed''"

datatype event_type =
  EventStarted | EventStopped | EventFailed | EventRestarting | EventMaxRestartsReached

fun event_String :: "event_type \<Rightarrow> string" where
  "event_String EventStarted = ''started''"
| "event_String EventStopped = ''stopped''"
| "event_String EventFailed = ''failed''"
| "event_String EventRestarting = ''restarting''"
| "event_String EventMaxRestartsReached = ''max_restarts_reached''"

text \<open>A process is known by its identifier.  An exit has a code; 0 with no error.\<close>

type_synonym pid = nat

datatype manager_error =
    ManagerIsClosed
  | AlreadyRunning
  | CreatingPipe
  | StartingProcess
  | ContextDone
  | StoppingFailed manager_error
  | StartingFailed manager_error
  | RestartFailed manager_error
  | ExitError int

record event =
  ev_Type :: event_type
  ev_PID :: pid
  ev_ExitCode :: int
  ev_Error :: "manager_error option"
  ev_Timestamp :: instant

record manager_config =
  mc_Command :: string
  mc_Args :: "string list"
  mc_Env :: "(string \<times> string) list"
  mc_Dir :: string
  mc_GracefulShutdownTimeout :: duration
  mc_RestartOnFailure :: bool
  mc_MaxRestarts :: int
  mc_RestartDelay :: duration

text \<open>
  Where a \<open>monitor\<close> goroutine is: waiting for the exit of its process, past the clean-up, in the
  delay before a restart.  Where a \<open>Stop\<close> is: past marking the state (with the command it saw),
  waiting for the exit, waiting after the kill.
\<close>

datatype monitor_phase = MonitorWait pid | MonitorReport "int option" bool | MonitorDelay

datatype stop_phase = StopMarked "pid option" | StopWaiting pid | StopKilled pid

datatype signal = SIGTERM | SIGKILL

text \<open>
  \<open>m_cmd\<close> and the pipes name the process they belong to; a pipe that has been closed but not
  dropped is marked by \<open>False\<close>.  \<open>m_waitCh\<close> is the one-place channel of exit results.
  The last four fields are the goroutines and the operating system: running monitors and stops,
  the processes alive, and the signals sent to them.
\<close>

record manager =
  m_cfg :: manager_config
  m_cmd :: "pid option"
  m_stdin :: "(pid \<times> bool) option"
  m_stdout :: "pid option"
  m_stderr :: "pid option"
  m_state :: process_state
  m_restartCount :: int
  m_pid :: pid
  m_events :: "event list"
  m_eventsClosed :: bool
  m_ctxDone :: bool
  m_waitCh :: "int option option"
  m_closed :: bool
  m_monitors :: "monitor_phase list"
  m_stops :: "stop_phase list"
  m_alive :: "pid set"
  m_signals :: "(pid \<times> signal) list"


definition NewManager :: "manager_config \<Rightarrow> manager" where
  "NewManager cfg =
     \<lparr>m_cfg = cfg\<lparr>mc_GracefulShutdownTimeout :=
                    (if mc_GracefulShutdownTimeout cfg = 0 then 10 * second else mc_GracefulShutdownTimeout cfg),
                  mc_RestartDelay := (if mc_RestartDelay cfg = 0 then second else mc_RestartDelay cfg)\<rparr>,
      m_cmd = None, m_stdin = None, m_stdout = None, m_stderr = None, m_state = StateStopped,
      m_restartCount = 0, m_pid = 0, m_events = [], m_eventsClosed = False, m_ctxDone = False,
      m_waitCh = None, m_closed = False, m_monitors = [], m_stops = [], m_alive = {}, m_signals = []\<rparr>"

section \<open>Events\<close>

definition eventBufferSize :: nat where "eventBufferSize = 16"

text \<open>\<open>sendEvent\<close> never blocks: on a full channel the oldest event makes room.\<close>

definition sendEvent :: "event \<Rightarrow> manager \<Rightarrow> manager" where
  "sendEvent e m =
     m\<lparr>m_events :=
         (if length (m_events m) < eventBufferSize then m_events m @ [e]
          else tl (m_events m) @ [e])\<rparr>"

definition plain_event :: "event_type \<Rightarrow> instant \<Rightarrow> event" where
  "plain_event t now = \<lparr>ev_Type = t, ev_PID = 0, ev_ExitCode = 0, ev_Error = None, ev_Timestamp = now\<rparr>"

section \<open>Starting\<close>

text \<open>
  How the system calls of \<open>startLocked\<close> go: a pipe or the start fails, or the process gets an
  identifier that no living process has.
\<close>

datatype start_outcome = PipeFails | StartFails | Started pid

definition startLocked :: "start_outcome \<Rightarrow> instant \<Rightarrow> manager \<Rightarrow> (manager_error + unit) \<times> manager" where
  "startLocked oc now m =
     (case oc of
        PipeFails \<Rightarrow> (Inl CreatingPipe, m\<lparr>m_state := StateFailed\<rparr>)
      | StartFails \<Rightarrow> (Inl StartingProcess, m\<lparr>m_state := StateFailed\<rparr>)
      | Started p \<Rightarrow>
          (Inr (),
           sendEvent ((plain_event EventStarted now)\<lparr>ev_PID := p\<rparr>)
             (m\<lparr>m_cmd := Some p, m_stdin := Some (p, True), m_stdout := Some p, m_stderr := Some p,
                m_pid := p, m_state := StateRunning, m_waitCh := None,
                m_monitors := m_monitors m @ [MonitorWait p], m_alive := insert p (m_alive m)\<rparr>)))"

definition Start :: "start_outcome \<Rightarrow> instant \<Rightarrow> manager \<Rightarrow> (manager_error + unit) \<times> manager" where
  "Start oc now m =
     (if m_closed m then (Inl ManagerIsClosed, m)
      else if m_state m = StateRunning \<or> m_state m = StateStarting then (Inl AlreadyRunning, m)
      else startLocked oc now m)"

section \<open>Stopping\<close>

text \<open>The first critical section of \<open>Stop\<close>: a result, or \<open>None\<close> when the stop goes on.\<close>

definition Stop_begin :: "manager \<Rightarrow> (manager_error + unit) option \<times> manager" where
  "Stop_begin m =
     (if m_closed m then (Some (Inl ManagerIsClosed), m)
      else if m_state m \<noteq> StateRunning then (Some (Inr ()), m)
      else (None, m\<lparr>m_state := StateStopping, m_stops := StopMarked (m_cmd m) # m_stops m\<rparr>))"

text \<open>
  After the mark: without a process it is done; otherwise stdin is closed and SIGTERM sent
  (a process that has exited already is not signalled).
\<close>

definition Stop_signal :: "pid option \<Rightarrow> manager \<Rightarrow> (manager_error + unit) option \<times> manager" where
  "Stop_signal cmd m =
     (let m = m\<lparr>m_stops := remove1 (StopMarked cmd) (m_stops m)\<rparr> in
      case cmd of
        None \<Rightarrow> (Some (Inr ()), m\<lparr>m_state := StateStopped\<rparr>)
      | Some p \<Rightarrow>
          (None, m\<lparr>m_stdin := map_option (\<lambda>(q, open). (q, False)) (m_stdin m),
                  m_signals := m_signals m @ (if p \<in> m_alive m then [(p, SIGTERM)] else []),
                  m_stops := StopWaiting p # m_stops m\<rparr>))"

datatype stop_event = StopExited | StopTimeout | StopContextDone

text \<open>The \<open>select\<close> of \<open>Stop\<close>, and the second one after the kill.\<close>

definition Stop_wait :: "stop_event \<Rightarrow> pid \<Rightarrow> manager \<Rightarrow> (manager_error + unit) option \<times> manager" where
  "Stop_wait e p m =
     (let m0 = m\<lparr>m_stops := remove1 (StopWaiting p) (m_stops m)\<rparr>;
          kill = m_signals m @ (if p \<in> m_alive m then [(p, SIGKILL)] else []) in
      case e of
        StopExited \<Rightarrow> (Some (Inr ()), m0\<lparr>m_waitCh := None\<rparr>)
      | StopTimeout \<Rightarrow> (None, m0\<lparr>m_signals := kill, m_stops := StopKilled p # m_stops m0\<rparr>)
      | StopContextDone \<Rightarrow> (Some (Inl ContextDone), m0\<lparr>m_signals := kill\<rparr>))"

definition Stop_killed :: "bool \<Rightarrow> pid \<Rightarrow> manager \<Rightarrow> (manager_error + unit) option \<times> manager" where
  "Stop_killed exited p m =
     (let m0 = m\<lparr>m_stops := remove1 (StopKilled p) (m_stops m)\<rparr>
      in (Some (Inr ()), if exited then m0\<lparr>m_waitCh := None\<rparr> else m0))"

text \<open>\<open>Restart\<close>: the result of its \<open>Stop\<close>, whether its context ended in the pause, then \<open>Start\<close>.\<close>

definition Restart ::
  "manager_error + unit \<Rightarrow> bool \<Rightarrow> start_outcome \<Rightarrow> instant \<Rightarrow> manager \<Rightarrow> (manager_error + unit) \<times> manager" where
  "Restart stopped ctxdone oc now m =
     (case stopped of
        Inl e \<Rightarrow> (Inl (StoppingFailed e), m)
      | Inr _ \<Rightarrow>
          if ctxdone then (Inl ContextDone, m)
          else case Start oc now m of
            (Inl e, m') \<Rightarrow> (Inl (StartingFailed e), m')
          | (Inr u, m') \<Rightarrow> (Inr u, m'))"

section \<open>The monitor\<close>

definition exit_error :: "int option \<Rightarrow> manager_error option" where
  "exit_error code = map_option ExitError code"

definition exit_code :: "int option \<Rightarrow> int" where
  "exit_code code = (case code of None \<Rightarrow> 0 | Some c \<Rightarrow> c)"

text \<open>
  The process has exited with \<open>code\<close> (\<open>None\<close>, without an error): the monitor reads the state, clears
  the process and its pipes, whosever they are by now, under the lock.
\<close>

definition monitor_cleanup :: "pid \<Rightarrow> int option \<Rightarrow> manager \<Rightarrow> manager" where
  "monitor_cleanup p code m =
     m\<lparr>m_pid := 0, m_stdin := None, m_stdout := None, m_stderr := None, m_cmd := None,
       m_monitors := MonitorReport code (m_state m = StateStopping) # remove1 (MonitorWait p) (m_monitors m)\<rparr>"

text \<open>
  From the wait result to the decision: stopped on purpose, failed for good, or waiting to restart.
\<close>

definition monitor_report :: "int option \<Rightarrow> bool \<Rightarrow> instant \<Rightarrow> manager \<Rightarrow> manager" where
  "monitor_report code wasStopping now m0 =
     (let m = m0\<lparr>m_monitors := remove1 (MonitorReport code wasStopping) (m_monitors m0),
                m_waitCh := (case m_waitCh m0 of None \<Rightarrow> Some code | Some e \<Rightarrow> Some e)\<rparr> in
      if wasStopping \<or> m_closed m then
        sendEvent ((plain_event EventStopped now)\<lparr>ev_ExitCode := exit_code code\<rparr>) (m\<lparr>m_state := StateStopped\<rparr>)
      else
        let m1 = sendEvent ((plain_event EventFailed now)\<lparr>ev_ExitCode := exit_code code, ev_Error := exit_error code\<rparr>) m
        in if \<not> mc_RestartOnFailure (m_cfg m1) then m1\<lparr>m_state := StateFailed\<rparr>
           else
             let m2 = m1\<lparr>m_restartCount := m_restartCount m1 + 1\<rparr>
             in if mc_MaxRestarts (m_cfg m2) > 0 \<and> m_restartCount m2 > mc_MaxRestarts (m_cfg m2) then
                  sendEvent (plain_event EventMaxRestartsReached now) (m2\<lparr>m_state := StateFailed\<rparr>)
                else
                  sendEvent (plain_event EventRestarting now) (m2\<lparr>m_monitors := MonitorDelay # m_monitors m2\<rparr>))"

text \<open>The end of the delay: the context was cancelled, or the process is started again.\<close>

definition monitor_restart :: "bool \<Rightarrow> start_outcome \<Rightarrow> instant \<Rightarrow> manager \<Rightarrow> manager" where
  "monitor_restart cancelled oc now m0 =
     (let m = m0\<lparr>m_monitors := remove1 MonitorDelay (m_monitors m0)\<rparr> in
      if cancelled then m\<lparr>m_state := StateStopped\<rparr>
      else if m_closed m then m\<lparr>m_state := StateStopped\<rparr>
      else case startLocked oc now m of
        (Inr _, m') \<Rightarrow> m'
      | (Inl e, m') \<Rightarrow>
          sendEvent ((plain_event EventFailed now)\<lparr>ev_Error := Some (RestartFailed e)\<rparr>)
            (m'\<lparr>m_state := StateFailed\<rparr>))"

section \<open>Closing and looking\<close>

text \<open>
  \<open>Close\<close>, once: mark the manager closed, \<open>Stop\<close> it, cancel the context (which kills the process
  of the command, \<open>exec.CommandContext\<close>); the events are closed when no monitor is left.
\<close>

definition Close_begin :: "manager \<Rightarrow> (manager_error + unit) option \<times> manager" where
  "Close_begin m =
     (if m_closed m then (Some (Inr ()), m)
      else case Stop_begin (m\<lparr>m_closed := True\<rparr>) of
        (res, m1) \<Rightarrow>
          (res, m1\<lparr>m_ctxDone := True,
                  m_signals := m_signals m1 @
                    (case m_cmd m1 of None \<Rightarrow> [] | Some p \<Rightarrow> if p \<in> m_alive m1 then [(p, SIGKILL)] else [])\<rparr>))"

definition Close_events :: "manager \<Rightarrow> manager" where
  "Close_events m = m\<lparr>m_eventsClosed := True\<rparr>"

definition Wait :: "manager \<Rightarrow> (manager_error + int option) option" where
  "Wait m =
     (case m_waitCh m of
        Some e \<Rightarrow> Some (Inr e)
      | None \<Rightarrow> if m_ctxDone m then Some (Inl ContextDone) else None)"

definition Running :: "manager \<Rightarrow> bool" where "Running m \<longleftrightarrow> m_state m = StateRunning"
definition Stdin :: "manager \<Rightarrow> (pid \<times> bool) option" where "Stdin m = m_stdin m"
definition Stdout :: "manager \<Rightarrow> pid option" where "Stdout m = m_stdout m"
definition Stderr :: "manager \<Rightarrow> pid option" where "Stderr m = m_stderr m"
definition PID :: "manager \<Rightarrow> pid" where "PID m = m_pid m"
definition State :: "manager \<Rightarrow> process_state" where "State m = m_state m"
definition RestartCount :: "manager \<Rightarrow> int" where "RestartCount m = m_restartCount m"
definition Events :: "manager \<Rightarrow> event list" where "Events m = m_events m"

section \<open>Interleavings\<close>

text \<open>
  Every step of the callers, the goroutines and the operating system.  The label tells a call of
  \<open>Start\<close> with its result, a process the monitor started on its own, and everything else apart.
\<close>

datatype pm_label = UserStart "manager_error + unit" | AutoRestart pid | Other

definition fresh_pid :: "start_outcome \<Rightarrow> manager \<Rightarrow> bool" where
  "fresh_pid oc m \<longleftrightarrow> (case oc of Started p \<Rightarrow> p \<notin> m_alive m | _ \<Rightarrow> True)"

inductive pm_step :: "manager \<Rightarrow> pm_label \<Rightarrow> manager \<Rightarrow> bool" where
  user_start: "Start oc now m = (res, m') \<Longrightarrow> fresh_pid oc m \<Longrightarrow> pm_step m (UserStart res) m'"
| stop_begin: "Stop_begin m = (res, m') \<Longrightarrow> pm_step m Other m'"
| stop_signal: "StopMarked cmd \<in> set (m_stops m) \<Longrightarrow> Stop_signal cmd m = (res, m') \<Longrightarrow> pm_step m Other m'"
| stop_wait: "StopWaiting p \<in> set (m_stops m) \<Longrightarrow> e = StopExited \<longrightarrow> m_waitCh m \<noteq> None \<Longrightarrow>
    Stop_wait e p m = (res, m') \<Longrightarrow> pm_step m Other m'"
| stop_killed: "StopKilled p \<in> set (m_stops m) \<Longrightarrow> Stop_killed b p m = (res, m') \<Longrightarrow> pm_step m Other m'"
| process_exits: "p \<in> m_alive m \<Longrightarrow> pm_step m Other (m\<lparr>m_alive := m_alive m - {p}\<rparr>)"
| cleanup: "MonitorWait p \<in> set (m_monitors m) \<Longrightarrow> p \<notin> m_alive m \<Longrightarrow>
    pm_step m Other (monitor_cleanup p code m)"
| report: "MonitorReport code stopping \<in> set (m_monitors m) \<Longrightarrow>
    pm_step m Other (monitor_report code stopping now m)"
| restart: "MonitorDelay \<in> set (m_monitors m) \<Longrightarrow> c \<longrightarrow> m_ctxDone m \<Longrightarrow> fresh_pid oc m \<Longrightarrow>
    pm_step m (case oc of Started p \<Rightarrow> if p \<in> m_alive (monitor_restart c oc now m) then AutoRestart p else Other | _ \<Rightarrow> Other)
      (monitor_restart c oc now m)"
| close_begin: "Close_begin m = (res, m') \<Longrightarrow> pm_step m Other m'"
| close_events: "m_closed m \<Longrightarrow> m_ctxDone m \<Longrightarrow> m_monitors m = [] \<Longrightarrow> pm_step m Other (Close_events m)"
| receive_event: "m_events m \<noteq> [] \<Longrightarrow> pm_step m Other (m\<lparr>m_events := tl (m_events m)\<rparr>)"

inductive pm_run :: "manager \<Rightarrow> pm_label list \<Rightarrow> manager \<Rightarrow> bool" where
  start: "pm_run m [] m"
| step: "pm_run m ls m' \<Longrightarrow> pm_step m' l m'' \<Longrightarrow> pm_run m (ls @ [l]) m''"

lemmas pm_defs = Start_def startLocked_def Stop_begin_def Stop_signal_def Stop_wait_def Stop_killed_def
  monitor_cleanup_def monitor_report_def monitor_restart_def Close_begin_def Close_events_def
  sendEvent_def Let_def

section \<open>Invariants\<close>

subsection \<open>Events\<close>

lemma sendEvent_bound:
  "length (m_events m) \<le> eventBufferSize \<Longrightarrow> length (m_events (sendEvent e m)) \<le> eventBufferSize"
  by (auto simp: sendEvent_def eventBufferSize_def)

lemma sendEvent_frame [simp]:
  "m_cfg (sendEvent e m) = m_cfg m" "m_monitors (sendEvent e m) = m_monitors m"
  "m_restartCount (sendEvent e m) = m_restartCount m" "m_closed (sendEvent e m) = m_closed m"
  "m_eventsClosed (sendEvent e m) = m_eventsClosed m" "m_state (sendEvent e m) = m_state m"
  "m_alive (sendEvent e m) = m_alive m" "m_cmd (sendEvent e m) = m_cmd m"
  "m_stdin (sendEvent e m) = m_stdin m" "m_ctxDone (sendEvent e m) = m_ctxDone m"
  "m_signals (sendEvent e m) = m_signals m" "m_waitCh (sendEvent e m) = m_waitCh m"
  by (simp_all add: sendEvent_def)

lemma pm_step_events:
  assumes "pm_step m l m'" and "length (m_events m) \<le> eventBufferSize"
  shows "length (m_events m') \<le> eventBufferSize"
  using assms
proof (induction rule: pm_step.induct)
  case (report code stopping m now)
  then show ?case by (auto simp: monitor_report_def Let_def intro!: sendEvent_bound)
next
  case (restart m c oc now)
  then show ?case
    by (auto simp: monitor_restart_def startLocked_def Let_def intro!: sendEvent_bound
        split: start_outcome.splits)
next
  case (user_start oc now m res m')
  then show ?case
    by (auto simp: Start_def startLocked_def intro!: sendEvent_bound split: start_outcome.splits if_splits)
qed (auto simp: Stop_begin_def Stop_signal_def Stop_wait_def Stop_killed_def monitor_cleanup_def
    Close_begin_def Close_events_def Let_def split: if_splits option.splits stop_event.splits)

subsection \<open>Restarts\<close>

definition delays :: "manager \<Rightarrow> nat" where
  "delays m = length (filter (\<lambda>x. x = MonitorDelay) (m_monitors m))"

definition autos :: "pm_label list \<Rightarrow> nat" where
  "autos ls = length (filter (\<lambda>l. case l of AutoRestart _ \<Rightarrow> True | _ \<Rightarrow> False) ls)"

definition restart_inv :: "pm_label list \<Rightarrow> manager \<Rightarrow> bool" where
  "restart_inv ls m \<longleftrightarrow>
     int (autos ls + delays m) \<le> m_restartCount m \<and>
     (mc_MaxRestarts (m_cfg m) > 0 \<longrightarrow> int (autos ls + delays m) \<le> mc_MaxRestarts (m_cfg m))"

lemma delays_remove1 [simp]:
  "x \<noteq> MonitorDelay \<Longrightarrow>
   filter (\<lambda>y. y = MonitorDelay) (remove1 x xs) = filter (\<lambda>y. y = MonitorDelay) xs"
  by (induction xs) auto

lemma delays_remove1_delay:
  "MonitorDelay \<in> set xs \<Longrightarrow>
   Suc (length (filter (\<lambda>y. y = MonitorDelay) (remove1 MonitorDelay xs))) =
   length (filter (\<lambda>y. y = MonitorDelay) xs)"
  by (induction xs) auto

lemma autos_append [simp]:
  "autos (ls @ [l]) = autos ls + (case l of AutoRestart _ \<Rightarrow> 1 | _ \<Rightarrow> 0)"
  by (cases l) (simp_all add: autos_def)

lemma restart_inv_step:
  assumes "pm_step m l m'" and "restart_inv ls m"
  shows "restart_inv (ls @ [l]) m'"
  using assms
proof (induction rule: pm_step.induct)
  case (restart m c oc now)
  have d: "Suc (length (filter (\<lambda>y. y = MonitorDelay) (remove1 MonitorDelay (m_monitors m)))) = delays m"
    using delays_remove1_delay [OF restart.hyps(1)] by (simp add: delays_def)
  show ?case
    using restart.prems d
    by (auto simp: restart_inv_def monitor_restart_def startLocked_def delays_def Let_def
        split: start_outcome.splits)
next
  case (report code stopping m now)
  then show ?case by (auto simp: restart_inv_def monitor_report_def delays_def Let_def)
next
  case (user_start oc now m res m')
  then show ?case
    by (auto simp: restart_inv_def Start_def startLocked_def delays_def split: start_outcome.splits if_splits)
qed (auto simp: restart_inv_def delays_def Stop_begin_def Stop_signal_def Stop_wait_def Stop_killed_def
    monitor_cleanup_def Close_begin_def Close_events_def Let_def
    split: if_splits option.splits stop_event.splits)

lemma pm_run_inv:
  "pm_run (NewManager cfg) ls m \<Longrightarrow> restart_inv ls m \<and> length (m_events m) \<le> eventBufferSize"
proof (induction "NewManager cfg" ls m rule: pm_run.induct)
  case start
  then show ?case by (simp add: restart_inv_def autos_def delays_def NewManager_def)
next
  case (step ls m' l m'')
  then show ?case using restart_inv_step pm_step_events by blast
qed

lemma pm_step_cfg: "pm_step m l m' \<Longrightarrow> m_cfg m' = m_cfg m"
  by (induction rule: pm_step.induct)
     (auto simp: Start_def startLocked_def Stop_begin_def Stop_signal_def Stop_wait_def Stop_killed_def
       monitor_cleanup_def monitor_report_def monitor_restart_def Close_begin_def Close_events_def Let_def
       split: if_splits option.splits stop_event.splits start_outcome.splits)

lemma pm_run_cfg: "pm_run m ls m' \<Longrightarrow> m_cfg m' = m_cfg m"
  by (induction rule: pm_run.induct) (simp_all add: pm_step_cfg)

subsection \<open>Closing\<close>

text \<open>Closed is for ever, and once the events are closed no goroutine is left that could send one.\<close>

definition close_inv :: "manager \<Rightarrow> bool" where
  "close_inv m \<longleftrightarrow> (m_eventsClosed m \<longrightarrow> m_closed m \<and> m_monitors m = [])"

lemma pm_step_close:
  assumes "pm_step m l m'" and "close_inv m"
  shows "close_inv m' \<and> (m_closed m \<longrightarrow> m_closed m' \<and> l \<notin> {UserStart (Inr ())} \<union> range AutoRestart) \<and>
    (m_eventsClosed m \<longrightarrow> m_events m' = m_events m \<or> m_events m' = tl (m_events m))"
  using assms
proof (induction rule: pm_step.induct)
  case (report code stopping m now)
  then have "\<not> m_eventsClosed m" by (auto simp: close_inv_def)
  then show ?case using report by (auto simp: close_inv_def monitor_report_def Let_def)
next
  case (restart m c oc now)
  then have "\<not> m_eventsClosed m" by (auto simp: close_inv_def)
  then show ?case using restart
    by (auto simp: close_inv_def monitor_restart_def startLocked_def fresh_pid_def Let_def split: start_outcome.splits)
next
  case (user_start oc now m res m')
  then show ?case
    by (auto simp: close_inv_def Start_def startLocked_def split: start_outcome.splits if_splits)
qed (auto simp: close_inv_def Stop_begin_def Stop_signal_def Stop_wait_def Stop_killed_def
    monitor_cleanup_def Close_begin_def Close_events_def Let_def
    split: if_splits option.splits stop_event.splits)

lemma pm_run_close: "pm_run (NewManager cfg) ls m \<Longrightarrow> close_inv m"
proof (induction "NewManager cfg" ls m rule: pm_run.induct)
  case start
  then show ?case by (simp add: close_inv_def NewManager_def)
next
  case (step ls m' l m'')
  then show ?case using pm_step_close by blast
qed


definition sample_config :: manager_config where
  "sample_config =
     \<lparr>mc_Command = ''mcp'', mc_Args = [], mc_Env = [], mc_Dir = [], mc_GracefulShutdownTimeout = 0,
      mc_RestartOnFailure = True, mc_MaxRestarts = 1, mc_RestartDelay = 0\<rparr>"

lemma pm_run_one: "pm_step m l m' \<Longrightarrow> pm_run m [l] m'"
  using pm_run.step [OF pm_run.start, of m l m'] by simp

lemma sample_start: "pm_run (NewManager sample_config) [UserStart (Inr ())]
    (snd (Start (Started 7) 0 (NewManager sample_config)))"
  by (intro pm_run_one pm_step.user_start [of "Started 7" 0])
     (simp_all add: Start_def startLocked_def NewManager_def fresh_pid_def)


text \<open>
  C8.  After \<open>Close\<close> nothing starts.  From a closed manager no step, of a caller or of a monitor whose
  restart delay runs out, starts a process, and it stays closed; and once the event channel is
  closed no step sends an event, so there is no send on a closed channel.
\<close>

theorem closed_starts_nothing:
  assumes "pm_run (NewManager cfg) ls m" and "m_closed m" and "pm_step m l m'"
  shows "m_closed m' \<and> l \<noteq> UserStart (Inr ()) \<and> l \<notin> range AutoRestart \<and>
    (\<not> m_eventsClosed m \<or> Events m' = Events m \<or> Events m' = tl (Events m))"
  using pm_step_close [OF assms(3) pm_run_close [OF assms(1)]] assms(2) by (auto simp: Events_def)

theorem closed_starts_nothing_witness:
  "Start (Started 8) 0 (snd (Close_begin (NewManager sample_config))) =
    (Inl ManagerIsClosed, snd (Close_begin (NewManager sample_config)))"
proof -
  let ?m = "snd (Close_begin (NewManager sample_config))"
  have run: "pm_run (NewManager sample_config) [Other] ?m"
    using pm_step.close_begin [OF surjective_pairing] by (rule pm_run_one)
  have closed: "m_closed ?m" by (simp add: Close_begin_def Stop_begin_def NewManager_def)
  have "pm_step ?m (UserStart (fst (Start (Started 8) 0 ?m))) (snd (Start (Started 8) 0 ?m))"
    by (rule pm_step.user_start [OF surjective_pairing])
       (simp add: fresh_pid_def Close_begin_def Stop_begin_def NewManager_def sample_config_def)
  from closed_starts_nothing [OF run closed this] closed show ?thesis
    by (auto simp: Start_def)
qed

section \<open>Stopping and restarting\<close>

text \<open>
  An intended stop is not taken for a failure.  When a running process exits after \<open>Stop\<close> has
  marked the manager, the monitor clears the process and its pipes, reports \<open>stopped\<close> with the exit
  code, leaves the manager stopped, counts no restart and starts nothing, even with restarts on.
\<close>

theorem stop_is_not_failure:
  assumes "Stop_begin m = (None, m1)" and "Stop_signal (m_cmd m) m1 = (None, m2)"
    and "m_cmd m = Some p" and "m_monitors m = [MonitorWait p]" and "m_events m = []"
  shows "let m3 = monitor_report code True now (monitor_cleanup p code m2)
    in State m3 = StateStopped \<and> \<not> Running m3 \<and> Stdin m3 = None \<and> m_cmd m3 = None \<and> m_monitors m3 = [] \<and>
       RestartCount m3 = RestartCount m \<and>
       Events m3 = [(plain_event EventStopped now)\<lparr>ev_ExitCode := exit_code code\<rparr>]"
proof -
  have m1: "m1 = m\<lparr>m_state := StateStopping, m_stops := StopMarked (m_cmd m) # m_stops m\<rparr>"
    using assms(1) by (simp add: Stop_begin_def split: if_splits)
  have m2: "m_state m2 = StateStopping" "m_monitors m2 = [MonitorWait p]" "m_events m2 = []"
      "m_restartCount m2 = m_restartCount m"
    using assms(2-) by (auto simp: m1 Stop_signal_def Let_def)
  then show ?thesis
    by (simp add: monitor_cleanup_def monitor_report_def Let_def State_def
      Running_def Stdin_def RestartCount_def Events_def sendEvent_def eventBufferSize_def)
qed

definition sample_running :: manager where
  "sample_running = (snd (Start (Started 7) 0 (NewManager sample_config)))\<lparr>m_events := []\<rparr>"

theorem stop_is_not_failure_witness:
  "State (monitor_report (Some 143) True 5
     (monitor_cleanup 7 (Some 143) (snd (Stop_signal (Some 7) (snd (Stop_begin sample_running)))))) = StateStopped"
  using stop_is_not_failure [of sample_running "snd (Stop_begin sample_running)"
      "snd (Stop_signal (Some 7) (snd (Stop_begin sample_running)))" 7 "Some 143" 5]
  by (simp add: sample_running_def Start_def startLocked_def NewManager_def Stop_begin_def Stop_signal_def
      sendEvent_def eventBufferSize_def Let_def)

text \<open>
  C30.  A stop during the restart delay does not stop the restart.  While the monitor waits to restart
  a failed process the manager calls itself running although there is no process and no stdin.  A
  \<open>Stop\<close> issued then succeeds at once and leaves the manager stopped, but it neither cancels the delay
  nor does the monitor look at the state again: when the delay is over the process is started, and
  the manager runs it, with no call of \<open>Start\<close>.
\<close>

theorem stop_does_not_cancel_restart:
  assumes "m_state m = StateRunning" and "m_cmd m = None" and "MonitorDelay \<in> set (m_monitors m)"
    and "\<not> m_closed m" and "\<not> m_ctxDone m" and "p \<notin> m_alive m"
  shows "Running m \<and> fst (Stop_begin m) = None \<and>
    (case Stop_signal None (snd (Stop_begin m)) of (res, m1) \<Rightarrow>
       res = Some (Inr ()) \<and> State m1 = StateStopped \<and>
       pm_step m1 (AutoRestart p) (monitor_restart False (Started p) now m1) \<and>
       Running (monitor_restart False (Started p) now m1) \<and>
       p \<in> m_alive (monitor_restart False (Started p) now m1))"
proof -
  let ?m1 = "snd (Stop_signal None (snd (Stop_begin m)))"
  have m1: "MonitorDelay \<in> set (m_monitors ?m1)" "fresh_pid (Started p) ?m1" "\<not> m_closed ?m1"
    using assms by (auto simp: Stop_begin_def Stop_signal_def Let_def fresh_pid_def)
  have "p \<in> m_alive (monitor_restart False (Started p) now ?m1)"
    using m1(3) by (simp add: monitor_restart_def startLocked_def Let_def)
  then have "pm_step ?m1 (AutoRestart p) (monitor_restart False (Started p) now ?m1)"
    using pm_step.restart [OF m1(1), of False "Started p" now] m1 by simp
  then show ?thesis
    using assms
    by (auto simp: Running_def State_def Stop_begin_def Stop_signal_def Let_def monitor_restart_def startLocked_def)
qed

definition sample_delay :: manager where
  "sample_delay = monitor_report (Some 1) False 2 (monitor_cleanup 7 (Some 1) (sample_running\<lparr>m_alive := {}\<rparr>))"

theorem stop_does_not_cancel_restart_witness:
  "State (snd (Stop_signal None (snd (Stop_begin sample_delay)))) = StateStopped \<and>
   Running (monitor_restart False (Started 8) 3 (snd (Stop_signal None (snd (Stop_begin sample_delay)))))"
proof -
  have "m_state sample_delay = StateRunning" "m_cmd sample_delay = None"
    "MonitorDelay \<in> set (m_monitors sample_delay)" "\<not> m_closed sample_delay" "\<not> m_ctxDone sample_delay"
    "8 \<notin> m_alive sample_delay"
    by (simp_all add: sample_delay_def sample_running_def sample_config_def Start_def startLocked_def NewManager_def
        monitor_cleanup_def monitor_report_def Let_def)
  from stop_does_not_cancel_restart [OF this, of 3] show ?thesis by (simp add: split_def)
qed

text \<open>
  \<open>Close\<close> never stops gracefully.  The first call marks the manager closed before it calls \<open>Stop\<close>,
  which refuses a closed manager: so \<open>Close\<close> always returns the error that the manager is closed, no
  SIGTERM is sent, stdin is not closed and the graceful timeout plays no part; a running process is
  killed by the cancelled context.  Only a second call returns without an error.
\<close>

theorem close_kills:
  assumes "\<not> m_closed m"
  shows "fst (Close_begin m) = Some (Inl ManagerIsClosed) \<and>
    State (snd (Close_begin m)) = State m \<and> Stdin (snd (Close_begin m)) = Stdin m \<and>
    (case m_cmd m of
       None \<Rightarrow> m_signals (snd (Close_begin m)) = m_signals m
     | Some p \<Rightarrow> m_signals (snd (Close_begin m)) = m_signals m @ (if p \<in> m_alive m then [(p, SIGKILL)] else [])) \<and>
    Close_begin (snd (Close_begin m)) = (Some (Inr ()), snd (Close_begin m))"
  using assms by (auto simp: Close_begin_def Stop_begin_def State_def Stdin_def split: option.splits)

theorem close_kills_witness:
  "fst (Close_begin sample_running) = Some (Inl ManagerIsClosed) \<and>
   m_signals (snd (Close_begin sample_running)) = [(7, SIGKILL)]"
  using close_kills [of sample_running]
  by (simp add: sample_running_def Start_def startLocked_def NewManager_def)

text \<open>
  Starting while stopping lets the old monitor take the new process apart.  \<open>Start\<close> only refuses a
  manager that is running or starting; during a stop it starts a second process, and when the first
  one exits its monitor clears the command and the pipes of the second: the manager then has a
  living process, calls itself running, and has neither its stdin nor its identifier.
\<close>

theorem start_while_stopping:
  assumes "m_state m = StateStopping" and "\<not> m_closed m" and "q \<notin> m_alive m"
  shows "case Start (Started q) now m of (res, m1) \<Rightarrow>
    res = Inr () \<and> Stdin m1 = Some (q, True) \<and>
    (let m2 = monitor_cleanup p code m1
     in Running m2 \<and> q \<in> m_alive m2 \<and> Stdin m2 = None \<and> m_cmd m2 = None \<and> PID m2 = 0)"
  using assms
  by (simp add: Start_def startLocked_def monitor_cleanup_def Let_def Running_def Stdin_def PID_def)

theorem start_while_stopping_witness:
  "Stdin (monitor_cleanup 7 (Some 0) (snd (Start (Started 8) 1 (snd (Stop_begin sample_running))))) = None"
  using start_while_stopping [where m = "snd (Stop_begin sample_running)" and q = 8 and now = 1 and p = 7 and code = "Some 0"]
  by (simp add: sample_running_def Start_def startLocked_def NewManager_def Stop_begin_def Let_def split_def)

section \<open>Winding down\<close>

text \<open>
  What is left to do for a closed manager: processes that have yet to exit, monitors and stops that
  have yet to end, events that nobody has taken, and the closing of the event channel.
\<close>

fun monitor_work :: "monitor_phase \<Rightarrow> nat" where
  "monitor_work (MonitorWait p) = 3"
| "monitor_work (MonitorReport code stopping) = 2"
| "monitor_work MonitorDelay = 1"

fun stop_work :: "stop_phase \<Rightarrow> nat" where
  "stop_work (StopMarked cmd) = 3"
| "stop_work (StopWaiting p) = 2"
| "stop_work (StopKilled p) = 1"

definition remaining :: "manager \<Rightarrow> nat" where
  "remaining m =
     card (m_alive m) + sum_list (map monitor_work (m_monitors m)) + sum_list (map stop_work (m_stops m)) +
     length (m_events m) + (if m_eventsClosed m then 0 else 1)"

text \<open>Steps that change something, counted; calls a closed manager refuses change nothing.\<close>

inductive pm_changes :: "manager \<Rightarrow> nat \<Rightarrow> manager \<Rightarrow> bool" where
  no_change: "pm_changes m 0 m"
| change: "pm_changes m n m' \<Longrightarrow> pm_step m' l m'' \<Longrightarrow> m'' \<noteq> m' \<Longrightarrow> pm_changes m (Suc n) m''"

definition closing :: "manager \<Rightarrow> bool" where
  "closing m \<longleftrightarrow> m_closed m \<and> m_ctxDone m \<and> finite (m_alive m)"

lemma work_remove1:
  fixes f :: "'a \<Rightarrow> nat"
  assumes "x \<in> set xs"
  shows "sum_list (map f xs) = f x + sum_list (map f (remove1 x xs))"
  using assms by (induction xs) auto

lemma length_sendEvent: "length (m_events (sendEvent e m)) \<le> Suc (length (m_events m))"
  by (auto simp: sendEvent_def)

lemma sendEvent_stops [simp]: "m_stops (sendEvent e m) = m_stops m"
  by (simp add: sendEvent_def)

text \<open>Each goroutine's step takes some of the work away.\<close>

lemma cleanup_work:
  "MonitorWait p \<in> set (m_monitors m) \<Longrightarrow> remaining (monitor_cleanup p code m) < remaining m"
  using work_remove1 [of "MonitorWait p" "m_monitors m" monitor_work] by (simp add: remaining_def monitor_cleanup_def)

lemma report_work:
  assumes "MonitorReport code stopping \<in> set (m_monitors m)" "m_closed m"
  shows "remaining (monitor_report code stopping now m) < remaining m"
proof -
  let ?m = "m\<lparr>m_monitors := remove1 (MonitorReport code stopping) (m_monitors m),
                m_waitCh := (case m_waitCh m of None \<Rightarrow> Some code | Some e \<Rightarrow> Some e), m_state := StateStopped\<rparr>"
  let ?e = "(plain_event EventStopped now)\<lparr>ev_ExitCode := exit_code code\<rparr>"
  have "monitor_report code stopping now m = sendEvent ?e ?m"
    using assms(2) by (simp add: monitor_report_def Let_def)
  then show ?thesis
    using work_remove1 [OF assms(1), of monitor_work] length_sendEvent [of ?e ?m] by (simp add: remaining_def)
qed

lemma restart_work:
  "MonitorDelay \<in> set (m_monitors m) \<Longrightarrow> m_closed m \<Longrightarrow> remaining (monitor_restart c oc now m) < remaining m"
  using work_remove1 [of MonitorDelay "m_monitors m" monitor_work]
  by (simp add: remaining_def monitor_restart_def Let_def)

lemma signal_work:
  "StopMarked cmd \<in> set (m_stops m) \<Longrightarrow> remaining (snd (Stop_signal cmd m)) < remaining m"
  using work_remove1 [of "StopMarked cmd" "m_stops m" stop_work]
  by (simp add: remaining_def Stop_signal_def Let_def split: option.split)

lemma wait_work:
  "StopWaiting p \<in> set (m_stops m) \<Longrightarrow> remaining (snd (Stop_wait e p m)) < remaining m"
  using work_remove1 [of "StopWaiting p" "m_stops m" stop_work]
  by (simp add: remaining_def Stop_wait_def Let_def split: stop_event.split)

lemma killed_work:
  "StopKilled p \<in> set (m_stops m) \<Longrightarrow> remaining (snd (Stop_killed b p m)) < remaining m"
  using work_remove1 [of "StopKilled p" "m_stops m" stop_work]
  by (simp add: remaining_def Stop_killed_def Let_def)

lemma exit_work: "p \<in> m_alive m \<Longrightarrow> finite (m_alive m) \<Longrightarrow> remaining (m\<lparr>m_alive := m_alive m - {p}\<rparr>) < remaining m"
  using psubset_card_mono [of "m_alive m" "m_alive m - {p}"] by (auto simp: remaining_def)

lemma events_work: "m_events m \<noteq> [] \<Longrightarrow> remaining (m\<lparr>m_events := tl (m_events m)\<rparr>) < remaining m"
  by (cases "m_events m") (auto simp: remaining_def)

lemmas step_work = cleanup_work report_work restart_work signal_work wait_work killed_work exit_work events_work

lemma closing_step: "pm_step m l m' \<Longrightarrow> closing m \<Longrightarrow> closing m'"
  by (induction rule: pm_step.induct)
     (auto simp: closing_def Start_def Stop_begin_def Stop_signal_def Stop_wait_def Stop_killed_def monitor_cleanup_def
       monitor_report_def monitor_restart_def Close_begin_def Close_events_def Let_def
       split: if_splits option.splits stop_event.splits)

lemma remaining_step:
  assumes "pm_step m l m'" "closing m"
  shows "m' = m \<or> remaining m' < remaining m"
  using assms
proof (induction rule: pm_step.induct)
  case (close_events m)
  then show ?case by (cases "m_eventsClosed m") (auto simp: remaining_def Close_events_def)
next
  case (stop_signal cmd m res m')
  then show ?case using signal_work [of cmd m] by simp
next
  case (stop_wait p m e res m')
  then show ?case using wait_work [of p m e] by simp
next
  case (stop_killed p m b res m')
  then show ?case using killed_work [of p m b] by simp
qed (auto simp: closing_def Start_def Stop_begin_def Close_begin_def step_work)

lemma changes_bounded:
  "pm_changes m n m' \<Longrightarrow> closing m \<Longrightarrow> closing m' \<and> n + remaining m' \<le> remaining m"
proof (induction rule: pm_changes.induct)
  case (change m n m' l m'')
  then show ?case using remaining_step [OF change.hyps(2)] closing_step [OF change.hyps(2)] by auto
qed simp

text \<open>As long as something is left a step is possible that takes it on.\<close>

lemma monitor_goes_on:
  assumes "closing m" "m_alive m = {}" "x \<in> set (m_monitors m)"
  shows "\<exists>l m'. pm_step m l m' \<and> remaining m' < remaining m"
proof (cases x)
  case (MonitorWait p)
  then show ?thesis using pm_step.cleanup [of p m None] cleanup_work [of p m None] assms by blast
next
  case (MonitorReport code stopping)
  then show ?thesis using pm_step.report [of code stopping m 0] report_work [of code stopping m 0] assms
    by (auto simp: closing_def)
next
  case MonitorDelay
  then show ?thesis using pm_step.restart [of m True PipeFails 0] restart_work [of m True PipeFails 0] assms
    by (auto simp: closing_def fresh_pid_def)
qed

lemma stop_goes_on:
  assumes "x \<in> set (m_stops m)"
  shows "\<exists>l m'. pm_step m l m' \<and> remaining m' < remaining m"
proof (cases x)
  case (StopMarked cmd)
  then show ?thesis using pm_step.stop_signal [OF _ surjective_pairing] signal_work assms by blast
next
  case (StopWaiting p)
  then show ?thesis using pm_step.stop_wait [of p m StopTimeout, OF _ _ surjective_pairing] wait_work assms by blast
next
  case (StopKilled p)
  then show ?thesis using pm_step.stop_killed [OF _ surjective_pairing] killed_work assms by blast
qed

lemma closing_goes_on:
  assumes "closing m" "remaining m \<noteq> 0"
  shows "\<exists>l m'. pm_step m l m' \<and> remaining m' < remaining m"
proof (cases "m_alive m = {}")
  case False
  then obtain p where "p \<in> m_alive m" by blast
  then show ?thesis using pm_step.process_exits [of p m] exit_work [of p m] assms(1) unfolding closing_def by blast
next
  case True
  show ?thesis
  proof (cases "m_monitors m = [] \<and> m_stops m = [] \<and> m_events m = []")
    case False
    then consider x where "x \<in> set (m_monitors m)" | x where "x \<in> set (m_stops m)" | "m_events m \<noteq> []"
      by (metis list.set_intros(1) neq_Nil_conv)
    then show ?thesis
      using monitor_goes_on [OF assms(1) True] stop_goes_on pm_step.receive_event events_work by (cases; blast)
  next
    case quiet: True
    then have "\<not> m_eventsClosed m" using assms(2) True by (simp add: remaining_def split: if_splits)
    then have "remaining (Close_events m) < remaining m" by (simp add: remaining_def Close_events_def)
    then show ?thesis using pm_step.close_events [of m] assms(1) quiet unfolding closing_def by blast
  qed
qed

lemma closed_is_closing:
  assumes "pm_run m0 ls m" "m_closed m0 = m_ctxDone m0" "finite (m_alive m0)"
  shows "(m_closed m = m_ctxDone m) \<and> finite (m_alive m)"
  using assms
proof (induction rule: pm_run.induct)
  case (step m ls m' l m'')
  then have "(m_closed m' = m_ctxDone m') \<and> finite (m_alive m')" by simp
  with step.hyps(2) show ?case
    by (induction rule: pm_step.induct)
       (auto simp: Start_def startLocked_def Stop_begin_def Stop_signal_def Stop_wait_def Stop_killed_def monitor_cleanup_def
         monitor_report_def monitor_restart_def Close_begin_def Close_events_def Let_def
         split: if_splits option.splits stop_event.splits start_outcome.splits)
qed simp

text \<open>
  C15.  A closed manager winds down.  In whatever state \<open>Close\<close> finds it, stops half way, a monitor in the
  restart delay, several processes alive, only a bounded number of steps can change anything any more,
  whatever the interleaving and whatever is called; as long as something is left there is a step that
  takes it on, provided processes do exit when they are killed; and at the end no process is alive, no
  monitor and no stop is left, and the event channel is empty and closed, for whoever reads from it.
\<close>

theorem closing_terminates:
  assumes "pm_run (NewManager cfg) ls m" and "m_closed m" and "pm_changes m n m'"
  shows "n + remaining m' \<le> remaining m \<and>
    (remaining m' = 0 \<or> (\<exists>l m''. pm_step m' l m'' \<and> remaining m'' < remaining m')) \<and>
    (remaining m' = 0 \<longleftrightarrow>
       m_alive m' = {} \<and> m_monitors m' = [] \<and> m_stops m' = [] \<and> Events m' = [] \<and> m_eventsClosed m')"
proof -
  have "closing m" using closed_is_closing [OF assms(1)] assms(2) by (simp add: closing_def NewManager_def)
  then have c: "closing m'" "n + remaining m' \<le> remaining m" using changes_bounded [OF assms(3)] by blast+
  have "sum_list (map monitor_work xs) = 0 \<longleftrightarrow> xs = []" for xs
    by (cases xs rule: list.exhaust; cases "hd xs") auto
  moreover have "sum_list (map stop_work xs) = 0 \<longleftrightarrow> xs = []" for xs
    by (cases xs rule: list.exhaust; cases "hd xs") auto
  ultimately have "remaining m' = 0 \<longleftrightarrow>
       m_alive m' = {} \<and> m_monitors m' = [] \<and> m_stops m' = [] \<and> Events m' = [] \<and> m_eventsClosed m'"
    using c(1) by (auto simp: remaining_def closing_def Events_def split: if_splits)
  then show ?thesis using closing_goes_on [OF c(1)] c(2) by blast
qed

text \<open>A manager closed while its process runs has six steps to go, the first of which is the exit of the process.\<close>

theorem closing_terminates_witness:
  "\<exists>m'. pm_changes (snd (Close_begin (snd (Start (Started 7) 0 (NewManager sample_config))))) 1 m' \<and>
     m_alive m' = {} \<and> remaining m' = 5 \<and> (\<exists>l m''. pm_step m' l m'' \<and> remaining m'' < 5)"
proof -
  let ?m = "snd (Close_begin (snd (Start (Started 7) 0 (NewManager sample_config))))"
  let ?m' = "?m\<lparr>m_alive := m_alive ?m - {7}\<rparr>"
  have m: "m_closed ?m" "m_alive ?m = {7}" "m_monitors ?m = [MonitorWait 7]" "m_stops ?m = []" "length (m_events ?m) = 1"
    "\<not> m_eventsClosed ?m"
    by (simp_all add: Close_begin_def Stop_begin_def Start_def startLocked_def NewManager_def sendEvent_def eventBufferSize_def)
  have run: "pm_run (NewManager sample_config) ([UserStart (Inr ())] @ [Other]) ?m"
    using pm_step.close_begin [OF surjective_pairing] by (rule pm_run.step [OF sample_start])
  have "m_alive ?m' \<noteq> m_alive ?m" using m(2) by simp
  then have "?m' \<noteq> ?m" by (rule contrapos_nn) (rule arg_cong)
  then have ch: "pm_changes ?m (Suc 0) ?m'"
    using pm_changes.change [OF pm_changes.no_change pm_step.process_exits [of 7 ?m]] m(2) by simp
  have r: "remaining ?m' = 5" using m by (simp add: remaining_def)
  have "\<exists>l m''. pm_step ?m' l m'' \<and> remaining m'' < 5"
    using closing_terminates [OF run m(1) ch] r by simp
  moreover have "m_alive ?m' = {}" using m(2) by simp
  ultimately show ?thesis using ch r by (intro exI [of _ ?m'] conjI) simp_all
qed

end
