(* ===== verification/Mcp_Handler.thy ===== *)
theory Mcp_Handler
  imports Sse_Stream Stdio_Lines Jsonrpc Sessions Process_Manager
begin

text \<open>
  The MCP endpoint (\<open>internal/server/handler.go\<close>): POST forwards a message to the subprocess and
  waits for the response of the same identifier, GET opens an event stream, DELETE closes a session,
  and the read loop routes what the subprocess writes.  The handler works on the process manager and
  the session manager; every HTTP exchange that waits is cut at the point where it waits.
\<close>

section \<open>Requests and answers\<close>

datatype http_method = POST | GET | DELETE | OtherMethod

text \<open>\<open>hr_body\<close> is \<open>None\<close> when reading the body fails; the code reads at most 10 MB of it.\<close>

record http_request =
  hr_method :: http_method
  hr_content_type :: string
  hr_accept :: string
  hr_session :: string
  hr_body :: "string option"

text \<open>
  What is answered: an HTTP error with its message, a JSON-RPC error with status 200, the response of
  the subprocess as JSON or as one event (with the session header), 202 or 204, or nothing to a
  client that went away.
\<close>

datatype http_answer =
    HttpError nat string
  | RpcError request_id rpc_error
  | JsonAnswer string string
  | EventAnswer string string
  | Accepted string
  | NoContent
  | NoAnswer

definition ContentTypeJSON :: string where "ContentTypeJSON = ''application/json''"
definition ContentTypeSSE :: string where "ContentTypeSSE = ''text/event-stream''"
definition body_limit :: nat where "body_limit = 10 * 1024 * 1024"

section \<open>The handler\<close>

text \<open>An open event stream: its session's address and identifier, and its writer.\<close>

record sse_conn =
  sc_session :: addr
  sc_id :: string
  sc_writer :: addr

text \<open>
  \<open>MCPHandler\<close>.  Response channels (of capacity one) and event writers are shared by pointer, so
  they live on heaps; \<open>h_stdin\<close> is what the subprocess has been sent.
\<close>

record handler =
  h_pm :: manager
  h_stdin :: string
  h_sm :: session_manager
  h_readTimeout :: duration
  h_keepalive :: duration
  h_pending :: "(string, addr) fmap"
  h_chans :: "string option list"
  h_sseClients :: "(string, addr) fmap"
  h_writers :: "sse_writer list"
  h_readLoopStarted :: bool
  h_readers :: nat

definition NewMCPHandler :: "manager \<Rightarrow> session_manager \<Rightarrow> duration \<Rightarrow> duration \<Rightarrow> handler" where
  "NewMCPHandler pm sm rt ka =
     \<lparr>h_pm = pm, h_stdin = [], h_sm = sm,
      h_readTimeout = (if rt = 0 then 30 * second else rt),
      h_keepalive = (if ka = 0 then 30 * second else ka),
      h_pending = fmempty, h_chans = [], h_sseClients = fmempty, h_writers = [],
      h_readLoopStarted = False, h_readers = 0\<rparr>"

text \<open>
  \<open>ensureReadLoop\<close> and the first lines of the goroutine it starts: without a standard output the
  loop returns at once (and leaves the flag set); otherwise one more goroutine reads.
\<close>

definition readLoop_begin :: "handler \<Rightarrow> handler" where
  "readLoop_begin h = (if Stdout (h_pm h) = None then h else h\<lparr>h_readers := Suc (h_readers h)\<rparr>)"

definition ensureReadLoop :: "handler \<Rightarrow> handler" where
  "ensureReadLoop h =
     (if h_readLoopStarted h then h else readLoop_begin (h\<lparr>h_readLoopStarted := True\<rparr>))"

subsection \<open>Forwarding\<close>

text \<open>
  How the two writes to stdin go: both taken, the first one failing after some bytes, or the newline
  failing.
\<close>

datatype forward_outcome = ForwardOk | BodyFails nat | NewlineFails

definition forward :: "forward_outcome \<Rightarrow> string \<Rightarrow> handler \<Rightarrow> http_answer option \<times> handler" where
  "forward oc body h =
     (if Stdin (h_pm h) = None then (Some (HttpError 503 ''MCP server not available''), h)
      else case oc of
        BodyFails n \<Rightarrow> (Some (HttpError 500 ''failed to communicate with MCP server''),
                        h\<lparr>h_stdin := h_stdin h @ take n body\<rparr>)
      | NewlineFails \<Rightarrow> (Some (HttpError 500 ''failed to communicate with MCP server''),
                        h\<lparr>h_stdin := h_stdin h @ body\<rparr>)
      | ForwardOk \<Rightarrow> (None, h\<lparr>h_stdin := h_stdin h @ body @ [LF]\<rparr>))"

text \<open>An exchange that waits for the response to its request.\<close>

record waiting =
  w_chan :: addr
  w_key :: string
  w_request :: request
  w_session :: addr
  w_wantsSSE :: bool

text \<open>The deferred removal of the pending entry, by its key.\<close>

definition forget :: "string \<Rightarrow> handler \<Rightarrow> handler" where
  "forget key h = h\<lparr>h_pending := fmdrop key (h_pending h)\<rparr>"

text \<open>\<open>handleRequest\<close> up to its wait.\<close>

definition handleRequest_begin ::
  "forward_outcome \<Rightarrow> addr \<Rightarrow> string \<Rightarrow> message \<Rightarrow> bool \<Rightarrow> handler \<Rightarrow> (http_answer + waiting) \<times> handler" where
  "handleRequest_begin oc session body msg wantsSSE h =
     (case ToRequest msg of
        None \<Rightarrow> (Inl (RpcError IDNull (NewInvalidRequestError (Some (JText ''invalid request'')))), h)
      | Some req \<Rightarrow>
          let key = id_String (rq_ID req);
              c = length (h_chans h);
              h1 = h\<lparr>h_chans := h_chans h @ [None], h_pending := fmupd key c (h_pending h)\<rparr>
          in case forward oc body h1 of
               (Some e, h2) \<Rightarrow> (Inl e, forget key h2)
             | (None, h2) \<Rightarrow>
                 (Inr \<lparr>w_chan = c, w_key = key, w_request = req, w_session = session, w_wantsSSE = wantsSSE\<rparr>, h2))"

text \<open>The capabilities of an \<open>initialize\<close> response, if it has any: the last member of that exact name.\<close>

definition response_capabilities :: "string \<Rightarrow> json option option" where
  "response_capabilities data =
     (case unmarshal response_field zero_response data of
        None \<Rightarrow> None
      | Some r \<Rightarrow>
         (case rs_Result r of
            Some (JObj ms) \<Rightarrow>
              (case filter (\<lambda>(k, v). unquote k = ''capabilities'') ms of
                 [] \<Rightarrow> None
               | kvs \<Rightarrow> Some (decode_any (snd (last kvs))))
          | _ \<Rightarrow> None))"

text \<open>
  The \<open>select\<close> of \<open>handleRequest\<close> and what follows: the response in the channel, the timeout, or the
  client gone (the deferred removal runs in every case).  \<open>flusher\<close> tells whether the response
  writer can stream.
\<close>

datatype wait_event = ResponseReady | WaitTimeout | ClientGone

definition handleRequest_end ::
  "wait_event \<Rightarrow> bool \<Rightarrow> waiting \<Rightarrow> handler \<Rightarrow> http_answer \<times> handler" where
  "handleRequest_end e flusher w h =
     (case e of
        WaitTimeout \<Rightarrow>
          (RpcError (rq_ID (w_request w)) (NewInternalError (Some (JText ''timeout waiting for response''))),
           forget (w_key w) h)
      | ClientGone \<Rightarrow> (NoAnswer, forget (w_key w) h)
      | ResponseReady \<Rightarrow>
          let data = the (h_chans h ! w_chan w);
              h1 = h\<lparr>h_chans := (h_chans h)[w_chan w := None]\<rparr>;
              h2 = (if rq_Method (w_request w) = ''initialize'' then
                      h1\<lparr>h_sm := at_session (w_session w)
                        ((case response_capabilities data of
                            None \<Rightarrow> id | Some caps \<Rightarrow> SetCapabilities caps) \<circ> SetInitialized True) (h_sm h1)\<rparr>
                    else h1);
              sid = s_ID (sm_heap (h_sm h2) ! w_session w)
          in (if w_wantsSSE w then
                (if flusher then EventAnswer sid (sw_out (snd (sse_WriteMessage None data NewSSEWriter)))
                 else HttpError 500 ''streaming not supported'')
              else JsonAnswer sid data,
              forget (w_key w) h2))"

definition handleNotification :: "forward_outcome \<Rightarrow> addr \<Rightarrow> string \<Rightarrow> handler \<Rightarrow> http_answer \<times> handler" where
  "handleNotification oc session body h =
     (case forward oc body h of
        (Some e, h1) \<Rightarrow> (e, h1)
      | (None, h1) \<Rightarrow> (Accepted (s_ID (sm_heap (h_sm h1) ! session)), h1))"

subsection \<open>POST\<close>

definition wants_sse :: "string \<Rightarrow> bool option" where
  "wants_sse accept =
     (if accept = [] \<or> accept = ContentTypeJSON \<or> accept = ''*/*'' \<or> accept = ''application/json, */*''
      then Some False
      else if accept = ContentTypeSSE \<or> contains accept ContentTypeSSE then Some True
      else None)"

text \<open>What the error of \<open>ParseMessage\<close> says; the text of a syntax error is the JSON package's.\<close>

fun parse_error_text :: "rpc_invalid \<Rightarrow> string" where
  "parse_error_text (BadVersion v) = ''invalid JSON-RPC version: '' @ v"
| "parse_error_text _ = ''failed to parse message''"

text \<open>The session of a POST: the one named by the header, touched, or a new one.\<close>

definition post_session ::
  "char list option list \<Rightarrow> instant \<Rightarrow> string \<Rightarrow> handler \<Rightarrow> (http_answer + addr) \<times> handler" where
  "post_session rnd now sid h =
     (if sid \<noteq> [] then
        (case GetSession sid (h_sm h) of
           None \<Rightarrow> (Inl (HttpError 404 ''session not found''), h)
         | Some a \<Rightarrow> (Inr a, h\<lparr>h_sm := TouchSession sid now (h_sm h)\<rparr>))
      else
        (case CreateSession rnd now (h_sm h) of
           (Inl e, sm) \<Rightarrow> (Inl (HttpError 503 ''failed to create session''), h\<lparr>h_sm := sm\<rparr>)
         | (Inr a, sm) \<Rightarrow> (Inr a, h\<lparr>h_sm := sm\<rparr>)))"

definition HandlePost ::
  "char list option list \<Rightarrow> instant \<Rightarrow> forward_outcome \<Rightarrow> http_request \<Rightarrow> handler \<Rightarrow>
   (http_answer + waiting) \<times> handler" where
  "HandlePost rnd now oc r h =
     (if hr_content_type r \<noteq> [] \<and> hr_content_type r \<noteq> ContentTypeJSON \<and>
         hr_content_type r \<noteq> ''application/json; charset=utf-8''
      then (Inl (HttpError 415 ''unsupported content type''), h)
      else case wants_sse (hr_accept r) of
        None \<Rightarrow> (Inl (HttpError 406 ''unsupported accept type''), h)
      | Some sse \<Rightarrow>
          if \<not> Running (h_pm h) then (Inl (HttpError 503 ''MCP server not available''), h)
          else case post_session rnd now (hr_session r) h of
            (Inl e, h1) \<Rightarrow> (Inl e, h1)
          | (Inr a, h1) \<Rightarrow>
             (case hr_body r of
                None \<Rightarrow> (Inl (HttpError 400 ''failed to read request body''), h1)
              | Some full \<Rightarrow>
                  let body = take body_limit full in
                  (case ParseMessage body of
                     Inl e \<Rightarrow> (Inl (RpcError IDNull (NewParseError (Some (JText (parse_error_text e))))), h1)
                   | Inr msg \<Rightarrow>
                       let h2 = ensureReadLoop h1 in
                       (case Message_Type msg of
                          MessageTypeRequest \<Rightarrow> handleRequest_begin oc a body msg sse h2
                        | MessageTypeNotification \<Rightarrow>
                            (case handleNotification oc a body h2 of (ans, h3) \<Rightarrow> (Inl ans, h3))
                        | _ \<Rightarrow> (Inl (RpcError IDNull (NewInvalidRequestError (Some (JText ''invalid message type'')))), h2)))))"

subsection \<open>The event stream\<close>

text \<open>A write on an event writer of the heap, with the outcome of the underlying write.\<close>

definition on_writer ::
  "addr \<Rightarrow> (sse_writer \<Rightarrow> (sse_write_error + unit) \<times> sse_writer) \<Rightarrow> handler \<Rightarrow> bool \<times> handler" where
  "on_writer a f h =
     (case f (h_writers h ! a) of
        (Inl _, w) \<Rightarrow> (False, h\<lparr>h_writers := (h_writers h)[a := w]\<rparr>)
      | (Inr _, w) \<Rightarrow> (True, h\<lparr>h_writers := (h_writers h)[a := w]\<rparr>))"

text \<open>The deferred removal of the client, by its session identifier.\<close>

definition unregister :: "string \<Rightarrow> handler \<Rightarrow> handler" where
  "unregister sid h = h\<lparr>h_sseClients := fmdrop sid (h_sseClients h)\<rparr>"

definition connected_data :: "string \<Rightarrow> string" where
  "connected_data sid = show_json (JObj [(''session_id'', JText sid)])"

text \<open>\<open>HandleSSE\<close> up to its loop: an error, a stream that broke at once (\<open>None\<close>), or an open one.\<close>

definition HandleSSE_begin ::
  "bool \<Rightarrow> nat option \<Rightarrow> http_request \<Rightarrow> handler \<Rightarrow> (http_answer + sse_conn option) \<times> handler" where
  "HandleSSE_begin flusher wr r h =
     (if hr_accept r \<noteq> ContentTypeSSE \<and> hr_accept r \<noteq> ''*/*'' \<and> hr_accept r \<noteq> []
      then (Inl (HttpError 406 ''this endpoint requires Accept: text/event-stream''), h)
      else if hr_session r = [] then (Inl (HttpError 400 ''Mcp-Session-Id header required''), h)
      else case GetSession (hr_session r) (h_sm h) of
        None \<Rightarrow> (Inl (HttpError 404 ''session not found''), h)
      | Some a \<Rightarrow>
          if \<not> flusher then (Inl (HttpError 500 ''streaming not supported''), h)
          else
            let w = length (h_writers h);
                h1 = h\<lparr>h_writers := h_writers h @ [NewSSEWriter],
                       h_sseClients := fmupd (hr_session r) w (h_sseClients h)\<rparr>
            in case on_writer w (WriteEvent wr ''connected'' (connected_data (hr_session r))) h1 of
                 (False, h2) \<Rightarrow> (Inr None, unregister (hr_session r) h2)
               | (True, h2) \<Rightarrow>
                   (Inr (Some \<lparr>sc_session = a, sc_id = hr_session r, sc_writer = w\<rparr>), h2))"

datatype stream_event = StreamGone | StreamNotification | StreamKeepalive

text \<open>One turn of the loop: whether it goes on, and the state.\<close>

definition HandleSSE_step :: "stream_event \<Rightarrow> nat option \<Rightarrow> sse_conn \<Rightarrow> handler \<Rightarrow> bool \<times> handler" where
  "HandleSSE_step e wr c h =
     (case e of
        StreamGone \<Rightarrow> (False, unregister (sc_id c) h)
      | StreamNotification \<Rightarrow>
         (case receive_notification (sm_heap (h_sm h) ! sc_session c) of
            (Received n, s) \<Rightarrow>
              (let h1 = h\<lparr>h_sm := at_session (sc_session c) (\<lambda>_. s) (h_sm h)\<rparr> in
               case on_writer (sc_writer c) (sse_WriteMessage wr n) h1 of
                 (True, h2) \<Rightarrow> (True, h2)
               | (False, h2) \<Rightarrow> (False, unregister (sc_id c) h2))
          | (ChannelClosed, _) \<Rightarrow> (False, unregister (sc_id c) h)
          | (WouldBlock, _) \<Rightarrow> (True, h))
      | StreamKeepalive \<Rightarrow>
         (case on_writer (sc_writer c) (WriteEvent wr ''ping'' []) h of
            (True, h1) \<Rightarrow> (True, h1)
          | (False, h1) \<Rightarrow> (False, unregister (sc_id c) h1)))"

subsection \<open>DELETE and shutdown\<close>

definition HandleSessionClose :: "nat option \<Rightarrow> http_request \<Rightarrow> handler \<Rightarrow> http_answer \<times> handler" where
  "HandleSessionClose wr r h =
     (if hr_session r = [] then (HttpError 400 ''Mcp-Session-Id header required'', h)
      else case GetSession (hr_session r) (h_sm h) of
        None \<Rightarrow> (HttpError 404 ''session not found'', h)
      | Some a \<Rightarrow>
          let h1 = h\<lparr>h_sm := CloseSession (hr_session r) (h_sm h)\<rparr> in
          (NoContent,
           case fmlookup (h_sseClients h1) (hr_session r) of
             None \<Rightarrow> h1
           | Some w \<Rightarrow>
               unregister (hr_session r)
                 (snd (on_writer w (WriteEvent wr ''close'' (show_json (JObj [(''reason'', JText ''session_closed'')]))) h1))))"

text \<open>An update of every registered writer; the writers do not interact.\<close>

definition each_client :: "(addr \<Rightarrow> sse_writer \<Rightarrow> sse_writer) \<Rightarrow> handler \<Rightarrow> handler" where
  "each_client f h =
     h\<lparr>h_writers := map (\<lambda>a. if a |\<in>| fmran (h_sseClients h) then f a (h_writers h ! a) else h_writers h ! a)
         [0..<length (h_writers h)]\<rparr>"

definition handler_Shutdown :: "(addr \<Rightarrow> nat option) \<Rightarrow> handler \<Rightarrow> handler" where
  "handler_Shutdown wr h =
     (each_client (\<lambda>a w. snd (WriteEvent (wr a) ''close''
        (show_json (JObj [(''reason'', JText ''server_shutdown'')])) w)) h)\<lparr>h_sseClients := fmempty\<rparr>"

text \<open>\<open>ServeHTTP\<close> for the methods that answer at once; POST and GET begin an exchange.\<close>

definition ServeHTTP ::
  "char list option list \<Rightarrow> instant \<Rightarrow> forward_outcome \<Rightarrow> bool \<Rightarrow> nat option \<Rightarrow> http_request \<Rightarrow> handler \<Rightarrow>
   (http_answer + waiting + sse_conn option) \<times> handler" where
  "ServeHTTP rnd now oc flusher wr r h =
     (case hr_method r of
        POST \<Rightarrow>
          (case HandlePost rnd now oc r h of
             (Inl ans, h1) \<Rightarrow> (Inl ans, h1)
           | (Inr w, h1) \<Rightarrow> (Inr (Inl w), h1))
      | GET \<Rightarrow>
          (case HandleSSE_begin flusher wr r h of
             (Inl ans, h1) \<Rightarrow> (Inl ans, h1)
           | (Inr c, h1) \<Rightarrow> (Inr (Inr c), h1))
      | DELETE \<Rightarrow> (case HandleSessionClose wr r h of (ans, h1) \<Rightarrow> (Inl ans, h1))
      | OtherMethod \<Rightarrow> (Inl (HttpError 405 ''method not allowed''), h))"

subsection \<open>The read loop\<close>

definition routeResponse :: "string \<Rightarrow> message \<Rightarrow> handler \<Rightarrow> handler" where
  "routeResponse data msg h =
     (case ms_ID msg of
        None \<Rightarrow> h
      | Some i \<Rightarrow>
         (case fmlookup (h_pending h) (id_String i) of
            None \<Rightarrow> h
          | Some c \<Rightarrow>
              if h_chans h ! c = None then h\<lparr>h_chans := (h_chans h)[c := Some data]\<rparr> else h))"

definition routeNotification :: "(addr \<Rightarrow> nat option) \<Rightarrow> string \<Rightarrow> handler \<Rightarrow> handler" where
  "routeNotification wr data h =
     (let h1 = each_client (\<lambda>a w. snd (sse_WriteMessage (wr a) data w)) h
      in h1\<lparr>h_sm := BroadcastNotification data (h_sm h1)\<rparr>)"

text \<open>The body of the loop for one line, its terminator included.\<close>

definition handle_line :: "(addr \<Rightarrow> nat option) \<Rightarrow> string \<Rightarrow> handler \<Rightarrow> handler" where
  "handle_line wr line h =
     (if length line \<le> 1 then h
      else case ParseMessage line of
        Inl _ \<Rightarrow> h
      | Inr msg \<Rightarrow>
         (case Message_Type msg of
            MessageTypeResponse \<Rightarrow> routeResponse line msg h
          | MessageTypeNotification \<Rightarrow> routeNotification wr line h
          | _ \<Rightarrow> h))"

text \<open>The loop over what the subprocess writes, until its output ends.\<close>

function handler_readLoop :: "(addr \<Rightarrow> nat option) \<Rightarrow> string \<Rightarrow> handler \<Rightarrow> handler" where
  "handler_readLoop wr out h =
     (case cut_line out of
        None \<Rightarrow> h\<lparr>h_readLoopStarted := False, h_readers := h_readers h - 1\<rparr>
      | Some (line, rest) \<Rightarrow> handler_readLoop wr rest (handle_line wr line h))"
  by pat_completeness auto
termination
  by (relation "measure (\<lambda>(wr, out, h). length out)") (auto dest: cut_line_shorter)

declare handler_readLoop.simps [simp del]

section \<open>Requests and responses\<close>

definition valid_post :: "http_request \<Rightarrow> bool" where
  "valid_post r \<longleftrightarrow>
     hr_method r = POST \<and> hr_content_type r \<in> {[], ContentTypeJSON, ''application/json; charset=utf-8''} \<and>
     wants_sse (hr_accept r) \<noteq> None"

lemma ensureReadLoop_frame [simp]:
  "h_pm (ensureReadLoop h) = h_pm h" "h_stdin (ensureReadLoop h) = h_stdin h"
  "h_sm (ensureReadLoop h) = h_sm h" "h_pending (ensureReadLoop h) = h_pending h"
  "h_chans (ensureReadLoop h) = h_chans h" "h_sseClients (ensureReadLoop h) = h_sseClients h"
  "h_writers (ensureReadLoop h) = h_writers h"
  by (simp_all add: ensureReadLoop_def readLoop_begin_def)

lemma post_session_frame:
  "post_session rnd now sid h = (res, h') \<Longrightarrow>
   h_pm h' = h_pm h \<and> h_stdin h' = h_stdin h \<and> h_pending h' = h_pending h \<and> h_chans h' = h_chans h \<and>
   h_readLoopStarted h' = h_readLoopStarted h \<and> h_readers h' = h_readers h \<and>
   h_sseClients h' = h_sseClients h \<and> h_writers h' = h_writers h"
  by (auto simp: post_session_def split: if_splits option.splits prod.splits sum.splits)

lemma handleRequest_begin_ok:
  assumes "ToRequest msg = Some req" and "Stdin (h_pm h) \<noteq> None"
  shows "handleRequest_begin ForwardOk a body msg sse h =
    (Inr \<lparr>w_chan = length (h_chans h), w_key = id_String (rq_ID req), w_request = req, w_session = a,
          w_wantsSSE = sse\<rparr>,
     h\<lparr>h_chans := h_chans h @ [None], h_pending := fmupd (id_String (rq_ID req)) (length (h_chans h)) (h_pending h),
       h_stdin := h_stdin h @ body @ [LF]\<rparr>)"
  using assms by (simp add: handleRequest_begin_def forward_def Let_def)

text \<open>A valid POST of an encoded request reaches its wait, and the subprocess has been sent its line.\<close>

lemma HandlePost_request:
  assumes "valid_post r" and "hr_body r = Some (EncodeMessage (marshal_request q))" and "sendable_request q"
    and "length (EncodeMessage (marshal_request q)) \<le> body_limit"
    and "Running (h_pm h)" and "Stdin (h_pm h) \<noteq> None"
    and "post_session rnd now (hr_session r) h = (Inr a, h1)"
  shows "HandlePost rnd now ForwardOk r h =
    (Inr \<lparr>w_chan = length (h_chans h), w_key = id_String (rq_ID q), w_request = compacted q, w_session = a,
          w_wantsSSE = the (wants_sse (hr_accept r))\<rparr>,
     (ensureReadLoop h1)\<lparr>h_chans := h_chans h @ [None],
       h_pending := fmupd (id_String (rq_ID q)) (length (h_chans h)) (h_pending h),
       h_stdin := h_stdin h @ EncodeMessage (marshal_request q) @ [LF]\<rparr>)"
proof -
  let ?body = "EncodeMessage (marshal_request q)"
  have id: "rq_ID (compacted q) = rq_ID q" by (simp add: compacted_def)
  have f: "h_pm h1 = h_pm h" "h_stdin h1 = h_stdin h" "h_pending h1 = h_pending h" "h_chans h1 = h_chans h"
    using post_session_frame [OF assms(7)] by simp_all
  have c: "\<not> (hr_content_type r \<noteq> [] \<and> hr_content_type r \<noteq> ContentTypeJSON \<and>
      hr_content_type r \<noteq> ''application/json; charset=utf-8'')"
    using assms(1) by (auto simp: valid_post_def)
  obtain sse where sse: "wants_sse (hr_accept r) = Some sse" using assms(1) by (auto simp: valid_post_def)
  have b: "take body_limit ?body = ?body" using assms(4) by simp
  have s: "Stdin (h_pm (ensureReadLoop h1)) \<noteq> None" using assms(6) f by simp
  show ?thesis
    using handleRequest_begin_ok [OF message_of_request_type(2) [OF assms(3)] s, of a ?body sse]
      parse_encoded_message(1) [OF assms(3)] message_of_request_type(1) [OF assms(3)] assms(2,5,7) b f
    by (simp only: HandlePost_def c sse) (simp add: id)
qed

text \<open>A response line for an identifier somebody waits for ends up in that channel.\<close>

lemma handle_line_response:
  assumes "sendable_response p" and "rs_ID p = i" and "i \<noteq> IDNull"
  shows "handle_line wr (EncodeMessage (marshal_response p) @ [LF]) h =
    (case fmlookup (h_pending h) (id_String i) of
       None \<Rightarrow> h
     | Some c \<Rightarrow> if h_chans h ! c = None
         then h\<lparr>h_chans := (h_chans h)[c := Some (EncodeMessage (marshal_response p) @ [LF])]\<rparr> else h)"
proof -
  let ?line = "EncodeMessage (marshal_response p) @ [LF]"
  have len: "\<not> length ?line \<le> 1"
    using show_json_not_Nil members_ok [OF response_members_ok [OF assms(1)]]
    by (auto simp: marshal_response_members)
  show ?thesis
    using parse_encoded_response_message [OF assms(1)] assms(2,3) len
    by (simp add: handle_line_def routeResponse_def split: option.splits)
qed


text \<open>A running subprocess and a handler on it, for the concrete runs.\<close>

definition sample_handler :: handler where
  "sample_handler = NewMCPHandler sample_running
     (NewSessionManager \<lparr>sc_Enabled = True, sc_MaxSessions = 2, sc_Timeout = 10, sc_CleanupInterval = 1\<rparr>) 0 0"

definition post_of :: "string \<Rightarrow> http_request" where
  "post_of body =
     \<lparr>hr_method = POST, hr_content_type = ContentTypeJSON, hr_accept = [], hr_session = [], hr_body = Some body\<rparr>"

lemma sample_handler_running:
  "Running (h_pm sample_handler)" "Stdin (h_pm sample_handler) \<noteq> None"
  by (simp_all add: sample_handler_def NewMCPHandler_def sample_running_def Running_def Stdin_def Start_def
      startLocked_def NewManager_def)

lemma sample_post_session:
  "post_session [Some [CHR ''a'']] 0 [] sample_handler =
     (Inr 0, sample_handler\<lparr>h_sm := snd (CreateSession [Some [CHR ''a'']] 0 (h_sm sample_handler))\<rparr>)"
  by (simp add: post_session_def sample_handler_def NewMCPHandler_def NewSessionManager_def CreateSession_def
      generateSessionID_def)

definition tiny_request :: request where
  "tiny_request = \<lparr>rq_JSONRPC = ''2.0'', rq_ID = IDStr ''a'', rq_Method = ''m'', rq_Params = None\<rparr>"

definition tiny_response :: response where
  "tiny_response = NewResponse (IDStr ''a'') JNull"

lemma tiny_sendable: "sendable_request tiny_request" "sendable_response tiny_response"
  by (simp_all add: tiny_request_def tiny_response_def NewResponse_def sendable_request_def Request_Validate_def
      JSONRPCVersion_def id_IsNull_def raw_value_ok_def ascii_valid byte_in_def sendable_response_def)

lemma tiny_size: "length (EncodeMessage (marshal_request tiny_request)) \<le> body_limit"
  by (simp add: EncodeMessage_def marshal_request_def tiny_request_def JText_def raw_member_def
      quote_text.simps(2) byte_in_def quote_ascii_def quote_char_def back_slash_def body_limit_def)

lemma tiny_post: "valid_post (post_of body)" "wants_sse (hr_accept (post_of body)) = Some False"
  by (simp_all add: valid_post_def post_of_def wants_sse_def)


section \<open>Where exchanges interfere\<close>

text \<open>
  C31.  Pending requests are keyed by the printed identifier alone, across all sessions.  When two
  exchanges are pending with identifiers that print alike (the same one in two sessions, or 1 and
  the string 1), the later one takes over the entry: the first response goes to the later exchange,
  the earlier one's channel stays empty, and once the later exchange has ended a further response
  is dropped, so the earlier one can only time out.
\<close>

theorem pending_ids_collide:
  assumes "handleRequest_begin ForwardOk a1 b1 m1 sse1 h = (Inr w1, h1)"
    and "handleRequest_begin ForwardOk a2 b2 m2 sse2 h1 = (Inr w2, h2)"
    and "w_key w1 = w_key w2" and "sendable_response p" and "rs_ID p \<noteq> IDNull"
    and "id_String (rs_ID p) = w_key w1"
  shows "let line = EncodeMessage (marshal_response p) @ [LF];
             h3 = handle_line wr line h2;
             (ans, h4) = handleRequest_end ResponseReady flusher w2 h3
         in h_chans h3 ! w_chan w1 = None \<and> h_chans h3 ! w_chan w2 = Some line \<and>
            h_chans h4 ! w_chan w1 = None \<and> handle_line wr line h4 = h4"
proof -
  obtain q1 where q1: "ToRequest m1 = Some q1" and s1: "Stdin (h_pm h) \<noteq> None"
    using assms(1) by (auto simp: handleRequest_begin_def forward_def Let_def split: option.splits if_splits)
  obtain q2 where q2: "ToRequest m2 = Some q2" and s2: "Stdin (h_pm h1) \<noteq> None"
    using assms(2) by (auto simp: handleRequest_begin_def forward_def Let_def split: option.splits if_splits)
  have w: "w_chan w1 = length (h_chans h)" "w_key w1 = id_String (rq_ID q1)"
      "h_chans h1 = h_chans h @ [None]"
    using assms(1) handleRequest_begin_ok [OF q1 s1, of a1 b1 sse1] by auto
  have v: "w_chan w2 = Suc (length (h_chans h))" "w_key w2 = w_key w1"
      "h_chans h2 = h_chans h @ [None, None]" "fmlookup (h_pending h2) (w_key w1) = Some (Suc (length (h_chans h)))"
    using assms(2,3) handleRequest_begin_ok [OF q2 s2, of a2 b2 sse2] w by auto
  show ?thesis
    using handle_line_response [OF assms(4) refl assms(5), of wr] assms(6) w v
    by (simp add: handleRequest_end_def Let_def forget_def nth_append list_update_append)
qed

theorem pending_ids_collide_witness:
  "\<exists>h1 h2 w1 w2. handleRequest_begin ForwardOk 0 ''x'' (message_of_request tiny_request) False sample_handler = (Inr w1, h1) \<and>
     handleRequest_begin ForwardOk 1 ''x'' (message_of_request tiny_request) False h1 = (Inr w2, h2) \<and>
     h_chans (handle_line (\<lambda>_. None) (EncodeMessage (marshal_response tiny_response) @ [LF]) h2) ! w_chan w1 = None"
proof -
  note r = message_of_request_type(2) [OF tiny_sendable(1)]
  obtain w1 h1 where 1: "handleRequest_begin ForwardOk 0 ''x'' (message_of_request tiny_request) False sample_handler = (Inr w1, h1)"
    and k1: "w_key w1 = ''a''" and p1: "h_pm h1 = h_pm sample_handler"
    using handleRequest_begin_ok [OF r sample_handler_running(2), of 0 "''x''" False]
    by (auto simp: compacted_def tiny_request_def)
  obtain w2 h2 where 2: "handleRequest_begin ForwardOk 1 ''x'' (message_of_request tiny_request) False h1 = (Inr w2, h2)"
    and k2: "w_key w2 = ''a''"
    using handleRequest_begin_ok [OF r, of h1 1 "''x''" False] p1 sample_handler_running(2)
    by (auto simp: compacted_def tiny_request_def)
  have "rs_ID tiny_response \<noteq> IDNull" "id_String (rs_ID tiny_response) = w_key w1"
    using k1 by (simp_all add: tiny_response_def NewResponse_def)
  from pending_ids_collide [OF 1 2 _ tiny_sendable(2) this, of "\<lambda>_. None" True] k1 k2 show ?thesis
    using 1 2 by (auto simp: Let_def split: prod.splits)
qed

lemma each_client_writer:
  "a < length (h_writers h) \<Longrightarrow> fmlookup (h_sseClients h) sid = Some a \<Longrightarrow>
   h_writers (each_client f h) ! a = f a (h_writers h ! a)"
  by (auto simp: each_client_def fmlookup_ran_iff)

text \<open>
  A connected client gets every notification twice.  The read loop writes a notification to every
  event stream and then queues it for every session, those with a stream included, although it is
  meant for the sessions without one; the stream's own loop takes it from the queue and writes it again.
\<close>

theorem notification_twice:
  assumes "fmlookup (h_sseClients h) sid = Some w" and "w < length (h_writers h)" and "\<not> sw_closed (h_writers h ! w)"
    and "live (h_sm h) a" and "a < length (sm_heap (h_sm h))" and "\<not> IsClosed (sm_heap (h_sm h) ! a)"
    and "s_notifications (sm_heap (h_sm h) ! a) = []"
    and "c = \<lparr>sc_session = a, sc_id = sid, sc_writer = w\<rparr>"
  shows "case HandleSSE_step StreamNotification None c (routeNotification (\<lambda>_. None) data h) of (goes_on, h2) \<Rightarrow>
    goes_on \<and>
    sw_out (h_writers h2 ! w) =
      sw_out (h_writers h ! w) @ event_frame (''message'', data) @ event_frame (''message'', data)"
proof -
  let ?h1 = "routeNotification (\<lambda>_. None) data h"
  have out: "sw_out (h_writers ?h1 ! w) = sw_out (h_writers h ! w) @ event_frame (''message'', data)"
    "\<not> sw_closed (h_writers ?h1 ! w)" "length (h_writers ?h1) = length (h_writers h)"
    using each_client_writer [OF assms(2,1)] WriteEvent_frame [OF assms(3)] assms(3)
    by (simp_all add: routeNotification_def Let_def sse_WriteMessage_def)
       (simp_all add: WriteEvent_def put_response_def Let_def each_client_def)
  have "sm_heap (h_sm ?h1) ! a = snd (QueueNotification data (sm_heap (h_sm h) ! a))"
    using BroadcastNotification_nth [OF assms(5,4)] by (simp add: routeNotification_def Let_def each_client_def)
  then have "receive_notification (sm_heap (h_sm ?h1) ! a) = (Received data, sm_heap (h_sm h) ! a)"
    using assms(6,7) by (simp add: QueueNotification_def IsClosed_def receive_notification_def notificationBufferSize_def)
  then show ?thesis
    using out assms(2) WriteEvent_frame [OF out(2), of "''message''" data]
    by (simp add: HandleSSE_step_def assms(8) on_writer_def sse_WriteMessage_def Let_def
        WriteEvent_def put_response_def)
qed

definition stream_handler :: handler where
  "stream_handler = sample_handler
     \<lparr>h_sm := snd (CreateSession [Some [CHR ''a'']] 0 (h_sm sample_handler)),
      h_sseClients := fmupd (hex_encode [CHR ''a'']) 0 fmempty, h_writers := [NewSSEWriter]\<rparr>"

theorem notification_twice_witness:
  "sw_out (h_writers (snd (HandleSSE_step StreamNotification None
      \<lparr>sc_session = 0, sc_id = hex_encode [CHR ''a''], sc_writer = 0\<rparr>
      (routeNotification (\<lambda>_. None) ''n'' stream_handler))) ! 0) =
    event_frame (''message'', ''n'') @ event_frame (''message'', ''n'')"
  using notification_twice [of stream_handler "hex_encode [CHR ''a'']" 0 0 _ "''n''", OF _ _ _ _ _ _ _ refl]
  by (simp add: stream_handler_def sample_handler_def NewMCPHandler_def NewSessionManager_def CreateSession_def
      generateSessionID_def newSession_def IsClosed_def live_iff NewSSEWriter_def split_def)

text \<open>What handling a message after the read loop was ensured leaves alone.\<close>

lemma handleRequest_begin_frame:
  "handleRequest_begin oc a b msg sse h = (res, h') \<Longrightarrow>
   h_readLoopStarted h' = h_readLoopStarted h \<and> h_readers h' = h_readers h \<and> h_pm h' = h_pm h \<and> h_sm h' = h_sm h"
  by (auto simp: handleRequest_begin_def forward_def forget_def Let_def
      split: option.splits if_splits forward_outcome.splits)

lemma handleNotification_frame:
  "handleNotification oc a b h = (res, h') \<Longrightarrow>
   h_readLoopStarted h' = h_readLoopStarted h \<and> h_readers h' = h_readers h \<and> h_pm h' = h_pm h \<and> h_sm h' = h_sm h"
  by (auto simp: handleNotification_def forward_def split: option.splits if_splits forward_outcome.splits prod.splits)

text \<open>
  One POST at the wrong moment stops all routing for good.  While the process manager waits to
  restart a failed process it calls itself running but has no pipes.  A POST of any well-formed message
  then starts the read loop, which finds no standard output and returns without clearing the flag: the
  handler believes that a loop runs, none does, and no later request, with whatever process, starts
  one, so no response is ever routed again.
\<close>

theorem read_loop_wedged:
  assumes "valid_post r" and "hr_body r = Some body" and "ParseMessage (take body_limit body) = Inr msg"
    and "Running (h_pm h)" and "Stdout (h_pm h) = None" and "\<not> h_readLoopStarted h" and "h_readers h = 0"
    and "post_session rnd now (hr_session r) h = (Inr a, h1)"
    and "HandlePost rnd now oc r h = (res, h')"
  shows "h_readLoopStarted h' \<and> h_readers h' = 0 \<and>
    (\<forall>pm. ensureReadLoop (h'\<lparr>h_pm := pm\<rparr>) = h'\<lparr>h_pm := pm\<rparr>)"
proof -
  have f: "h_pm h1 = h_pm h" "h_readLoopStarted h1 = h_readLoopStarted h" "h_readers h1 = h_readers h"
    using post_session_frame [OF assms(8)] by simp_all
  have e: "h_readLoopStarted (ensureReadLoop h1)" "h_readers (ensureReadLoop h1) = 0"
    using f assms(5-7) by (simp_all add: ensureReadLoop_def readLoop_begin_def)
  have c: "\<not> (hr_content_type r \<noteq> [] \<and> hr_content_type r \<noteq> ContentTypeJSON \<and>
      hr_content_type r \<noteq> ''application/json; charset=utf-8'')"
    using assms(1) by (auto simp: valid_post_def)
  obtain sse where sse: "wants_sse (hr_accept r) = Some sse" using assms(1) by (auto simp: valid_post_def)
  have "h_readLoopStarted h' \<and> h_readers h' = 0"
    using assms(2-4,8,9) e unfolding HandlePost_def if_not_P [OF c] sse
    by (auto simp: Let_def split: message_type.splits prod.splits
        dest!: handleRequest_begin_frame handleNotification_frame)
  then show ?thesis by (simp add: ensureReadLoop_def)
qed

theorem read_loop_wedged_witness:
  "h_readers (snd (HandlePost [Some [CHR ''a'']] 0 ForwardOk
      (post_of (EncodeMessage (marshal_request tiny_request)))
      (sample_handler\<lparr>h_pm := sample_delay\<rparr>))) = 0"
proof -
  let ?r = "post_of (EncodeMessage (marshal_request tiny_request))"
  let ?h = "sample_handler\<lparr>h_pm := sample_delay\<rparr>"
  have 1: "hr_body ?r = Some (EncodeMessage (marshal_request tiny_request))" and s: "hr_session ?r = []"
    by (simp_all add: post_of_def)
  have 2: "ParseMessage (take body_limit (EncodeMessage (marshal_request tiny_request))) = Inr (message_of_request tiny_request)"
    using parse_encoded_message(1) [OF tiny_sendable(1)] tiny_size by simp
  have 3: "Running (h_pm ?h)" "Stdout (h_pm ?h) = None"
    by (simp_all add: sample_delay_def sample_running_def sample_config_def Start_def startLocked_def NewManager_def
        monitor_cleanup_def monitor_report_def Let_def Running_def Stdout_def sendEvent_def)
  have 4: "\<not> h_readLoopStarted ?h" "h_readers ?h = 0" by (simp_all add: sample_handler_def NewMCPHandler_def)
  have 5: "post_session [Some [CHR ''a'']] 0 (hr_session ?r) ?h =
      (Inr 0, ?h\<lparr>h_sm := snd (CreateSession [Some [CHR ''a'']] 0 (h_sm ?h))\<rparr>)"
    using sample_post_session
    by (simp add: s post_session_def sample_handler_def NewMCPHandler_def NewSessionManager_def CreateSession_def
        generateSessionID_def)
  show ?thesis
    using read_loop_wedged [OF tiny_post(1) 1 2 3 4 5 surjective_pairing] by simp
qed

text \<open>
  A malformed POST without a session leaks one.  The session is created before the body is read:
  when the body then does not parse, the answer is a parse error that names no session, and a
  session nobody knows of stays in the directory, one slot of the maximum less until it times out.
\<close>

theorem malformed_post_leaks_session:
  assumes "valid_post r" and "hr_session r = []" and "hr_body r = Some body"
    and "ParseMessage (take body_limit body) = Inl e" and "Running (h_pm h)"
    and "CreateSession rnd now (h_sm h) = (Inr a, sm)"
  shows "case HandlePost rnd now oc r h of (res, h') \<Rightarrow>
    res = Inl (RpcError IDNull (NewParseError (Some (JText (parse_error_text e))))) \<and>
    SessionCount (h_sm h') = Suc (SessionCount (h_sm h)) \<and> h_stdin h' = h_stdin h"
proof -
  have c: "\<not> (hr_content_type r \<noteq> [] \<and> hr_content_type r \<noteq> ContentTypeJSON \<and>
      hr_content_type r \<noteq> ''application/json; charset=utf-8'')"
    using assms(1) by (auto simp: valid_post_def)
  obtain sse where sse: "wants_sse (hr_accept r) = Some sse" using assms(1) by (auto simp: valid_post_def)
  have "SessionCount sm = Suc (SessionCount (h_sm h))"
    using assms(6) fresh_session_id_unused
    by (auto simp: CreateSession_def SessionCount_def Let_def go_map split: if_splits sum.splits)
  then show ?thesis
    using assms(2-6) by (simp add: HandlePost_def if_not_P [OF c] sse post_session_def)
qed

theorem malformed_post_leaks_session_witness:
  "SessionCount (h_sm (snd (HandlePost [Some [CHR ''a'']] 0 ForwardOk (post_of []) sample_handler))) = 1"
proof -
  have "CreateSession [Some [CHR ''a'']] 0 (h_sm sample_handler) =
      (Inr 0, snd (CreateSession [Some [CHR ''a'']] 0 (h_sm sample_handler)))"
    by (simp add: sample_handler_def NewMCPHandler_def NewSessionManager_def CreateSession_def generateSessionID_def)
  from malformed_post_leaks_session [OF tiny_post(1) _ _ _ sample_handler_running(1) this, of "[]" "[]" ParseFailed ForwardOk]
  have "SessionCount (h_sm (snd (HandlePost [Some [CHR ''a'']] 0 ForwardOk (post_of []) sample_handler))) =
      Suc (SessionCount (h_sm sample_handler))"
    by (simp add: post_of_def ParseMessage_def unmarshal_def parse_json_def skip_ws_def max_depth_def
        parse_value.simps [of _ "[]"] split_def)
  then show ?thesis
    by (simp add: sample_handler_def NewMCPHandler_def NewSessionManager_def SessionCount_def)
qed

text \<open>
  A body is forwarded as it came, so a request laid out over several lines is torn.  The bridge
  accepts any white space inside the JSON of a POST, but writes the raw body to a subprocess that
  reads a message per line: it gets one line more for each newline in the body, none of which is the
  body.
\<close>

theorem multiline_body_torn:
  assumes "forward ForwardOk body h = (None, h')" and "h_stdin h = []" and "LF \<in> set body"
    and "list_all (\<lambda>l. l \<noteq> [] \<and> last l \<noteq> CR) (split_on LF body)"
  shows "ReadMessages (byte_reads (h_stdin h')) = split_on LF body \<and>
    length (ReadMessages (byte_reads (h_stdin h'))) = Suc (count_list body LF) \<and>
    body \<notin> set (ReadMessages (byte_reads (h_stdin h')))"
proof -
  have "h_stdin h' = body @ [LF]" using assms(1,2) by (auto simp: forward_def split: if_splits)
  also have "\<dots> = concat (map (\<lambda>m. m @ [LF]) (split_on LF body))"
    using concat_terminated [of "split_on LF body" LF] by simp
  finally have out: "h_stdin h' = concat (map (\<lambda>m. m @ [LF]) (split_on LF body))" .
  have "list_all line_ok (split_on LF body)"
    using assms(4) split_on_pieces [of _ LF body] by (auto simp: list_all_iff line_ok_def)
  then have r: "ReadMessages (byte_reads (h_stdin h')) = split_on LF body"
    unfolding out by (rule ReadMessages_lines)
  moreover have "body \<notin> set (split_on LF body)" using split_on_pieces [of body LF body] assms(3) by auto
  ultimately show ?thesis by (simp add: length_split_on)
qed

theorem multiline_body_torn_witness:
  "ReadMessages (byte_reads (h_stdin (snd (forward ForwardOk (''{'' @ [LF] @ ''}'') sample_handler)))) = [''{'', ''}'']"
proof -
  have "forward ForwardOk (''{'' @ [LF] @ ''}'') sample_handler =
      (None, snd (forward ForwardOk (''{'' @ [LF] @ ''}'') sample_handler))"
    using sample_handler_running(2) by (simp add: forward_def)
  from multiline_body_torn [OF this] show ?thesis by (simp add: sample_handler_def NewMCPHandler_def)
qed

end
