(* ===== verification/Mcp_Types.thy ===== *)
theory Mcp_Types
  imports Jsonrpc
begin

text \<open>
  The data of the Model Context Protocol (\<open>internal/protocol/mcp.go\<close>): contents of tool results and
  prompts, resources, prompts and the parameters of notifications, encoded to JSON and decoded from
  it as \<open>encoding/json\<close> does by their tags.  The bridge itself passes these values through; they are
  for the users of the package.  Capabilities, tools and their JSON schemas are not modelled.
\<close>

section \<open>Members\<close>

text \<open>Tags with \<open>omitempty\<close>: a zero value is left out.\<close>

definition flag_member :: "string \<Rightarrow> bool \<Rightarrow> (string \<times> json) list" where
  "flag_member k b = (if b then [(k, JBool True)] else [])"

definition strings_member :: "string \<Rightarrow> string list \<Rightarrow> (string \<times> json) list" where
  "strings_member k ss = (if ss = [] then [] else [(k, JArr (map JText ss))])"

definition pointer_member :: "string \<Rightarrow> ('a \<Rightarrow> json) \<Rightarrow> 'a option \<Rightarrow> (string \<times> json) list" where
  "pointer_member k enc v = (case v of None \<Rightarrow> [] | Some x \<Rightarrow> [(k, enc x)])"

definition float_zero :: "float64 \<Rightarrow> bool" where
  "float_zero f = (case f of Float64 neg m e \<Rightarrow> m = 0)"

definition zero_float :: float64 where "zero_float = Float64 False 0 (- 1074)"

definition float_member :: "string \<Rightarrow> float64 \<Rightarrow> (string \<times> json) list" where
  "float_member k f = (if float_zero f then [] else [(k, JNum (show_float64 f))])"

text \<open>A nil slice is null, an empty one an empty array.\<close>

definition slice_json :: "('a \<Rightarrow> json) \<Rightarrow> 'a list option \<Rightarrow> json" where
  "slice_json enc v = (case v of None \<Rightarrow> JNull | Some xs \<Rightarrow> JArr (map enc xs))"

text \<open>Into a number, a struct, a pointer to a struct, a slice of structs.\<close>

fun decode_float :: "json \<Rightarrow> float64 \<Rightarrow> float64 option" where
  "decode_float JNull old = Some old"
| "decode_float (JNum n) old = parse_float n"
| "decode_float _ old = None"

fun decode_struct :: "(string \<Rightarrow> json \<Rightarrow> 'r \<Rightarrow> 'r option) \<Rightarrow> json \<Rightarrow> 'r \<Rightarrow> 'r option" where
  "decode_struct f JNull old = Some old"
| "decode_struct f (JObj ms) old = decode_members f ms old"
| "decode_struct f _ old = None"

fun decode_pointer :: "(string \<Rightarrow> json \<Rightarrow> 'r \<Rightarrow> 'r option) \<Rightarrow> 'r \<Rightarrow> json \<Rightarrow> 'r option \<Rightarrow> 'r option option" where
  "decode_pointer f zero JNull old = Some None"
| "decode_pointer f zero v old = map_option Some (decode_struct f v (case old of None \<Rightarrow> zero | Some x \<Rightarrow> x))"

fun decode_elements :: "(json \<Rightarrow> 'r \<Rightarrow> 'r option) \<Rightarrow> 'r \<Rightarrow> json list \<Rightarrow> 'r list \<Rightarrow> 'r list option" where
  "decode_elements dec zero [] old = Some []"
| "decode_elements dec zero (v # vs) old =
     (case dec v (case old of [] \<Rightarrow> zero | x # _ \<Rightarrow> x) of
        None \<Rightarrow> None
      | Some x \<Rightarrow> map_option (\<lambda>xs. x # xs) (decode_elements dec zero vs (drop 1 old)))"

fun decode_slice :: "(json \<Rightarrow> 'r \<Rightarrow> 'r option) \<Rightarrow> 'r \<Rightarrow> json \<Rightarrow> 'r list option \<Rightarrow> 'r list option option" where
  "decode_slice dec zero JNull old = Some None"
| "decode_slice dec zero (JArr vs) old = map_option Some (decode_elements dec zero vs (case old of None \<Rightarrow> [] | Some xs \<Rightarrow> xs))"
| "decode_slice dec zero _ old = None"

section \<open>Contents\<close>

record annotations =
  an_Audience :: "string list"
  an_Priority :: float64

record embedded_resource =
  er_URI :: string
  er_MimeType :: string
  er_Text :: string
  er_Blob :: string

record text_content =
  tx_Type :: string
  tx_Text :: string
  tx_Annotations :: "annotations option"

record image_content =
  im_Type :: string
  im_Data :: string
  im_MimeType :: string
  im_Annotations :: "annotations option"

record resource_content =
  ec_Type :: string
  ec_Resource :: embedded_resource
  ec_Annotations :: "annotations option"

datatype content = TextContent text_content | ImageContent image_content | ResourceContent resource_content

definition ContentTypeText :: string where "ContentTypeText = ''text''"
definition ContentTypeImage :: string where "ContentTypeImage = ''image''"
definition ContentTypeResource :: string where "ContentTypeResource = ''resource''"

fun contentType :: "content \<Rightarrow> string" where
  "contentType (TextContent t) = ContentTypeText"
| "contentType (ImageContent i) = ContentTypeImage"
| "contentType (ResourceContent r) = ContentTypeResource"

text \<open>\<open>RawContent\<close>, for decoding a content whose type is not known.\<close>

record raw_content =
  rw_Type :: string
  rw_Text :: string
  rw_Data :: string
  rw_MimeType :: string
  rw_Resource :: "embedded_resource option"
  rw_Annotations :: "annotations option"

datatype content_error = ResourceMissing | UnknownContentType string

definition ToContent :: "raw_content \<Rightarrow> content_error + content" where
  "ToContent r =
     (if rw_Type r = ContentTypeText then
        Inr (TextContent \<lparr>tx_Type = rw_Type r, tx_Text = rw_Text r, tx_Annotations = rw_Annotations r\<rparr>)
      else if rw_Type r = ContentTypeImage then
        Inr (ImageContent \<lparr>im_Type = rw_Type r, im_Data = rw_Data r, im_MimeType = rw_MimeType r,
               im_Annotations = rw_Annotations r\<rparr>)
      else if rw_Type r = ContentTypeResource then
        (case rw_Resource r of
           None \<Rightarrow> Inl ResourceMissing
         | Some e \<Rightarrow> Inr (ResourceContent \<lparr>ec_Type = rw_Type r, ec_Resource = e, ec_Annotations = rw_Annotations r\<rparr>))
      else Inl (UnknownContentType (rw_Type r)))"

subsection \<open>Encoding\<close>

definition annotations_json :: "annotations \<Rightarrow> json" where
  "annotations_json a = JObj (strings_member ''audience'' (an_Audience a) @ float_member ''priority'' (an_Priority a))"

definition embedded_json :: "embedded_resource \<Rightarrow> json" where
  "embedded_json e =
     JObj ([(''uri'', JText (er_URI e))] @ text_member ''mimeType'' (er_MimeType e) @ text_member ''text'' (er_Text e) @
           text_member ''blob'' (er_Blob e))"

text \<open>\<open>MarshalJSON\<close> of the three contents sets the type, whatever it was.\<close>

fun content_members :: "content \<Rightarrow> (string \<times> json) list" where
  "content_members (TextContent t) =
     [(''type'', JText ContentTypeText), (''text'', JText (tx_Text t))] @
     pointer_member ''annotations'' annotations_json (tx_Annotations t)"
| "content_members (ImageContent i) =
     [(''type'', JText ContentTypeImage), (''data'', JText (im_Data i)), (''mimeType'', JText (im_MimeType i))] @
     pointer_member ''annotations'' annotations_json (im_Annotations i)"
| "content_members (ResourceContent r) =
     [(''type'', JText ContentTypeResource), (''resource'', embedded_json (ec_Resource r))] @
     pointer_member ''annotations'' annotations_json (ec_Annotations r)"

definition content_MarshalJSON :: "content \<Rightarrow> json" where
  "content_MarshalJSON c = JObj (content_members c)"

subsection \<open>Decoding\<close>

definition annotations_field :: "string \<Rightarrow> json \<Rightarrow> annotations \<Rightarrow> annotations option" where
  "annotations_field k v a =
     (if key_is k ''audience'' then map_option (\<lambda>s. a\<lparr>an_Audience := s\<rparr>) (decode_string_slice v (an_Audience a))
      else if key_is k ''priority'' then map_option (\<lambda>f. a\<lparr>an_Priority := f\<rparr>) (decode_float v (an_Priority a))
      else Some a)"

definition zero_annotations :: annotations where
  "zero_annotations = \<lparr>an_Audience = [], an_Priority = zero_float\<rparr>"

definition embedded_field :: "string \<Rightarrow> json \<Rightarrow> embedded_resource \<Rightarrow> embedded_resource option" where
  "embedded_field k v e =
     (if key_is k ''uri'' then map_option (\<lambda>s. e\<lparr>er_URI := s\<rparr>) (decode_string v (er_URI e))
      else if key_is k ''mimetype'' then map_option (\<lambda>s. e\<lparr>er_MimeType := s\<rparr>) (decode_string v (er_MimeType e))
      else if key_is k ''text'' then map_option (\<lambda>s. e\<lparr>er_Text := s\<rparr>) (decode_string v (er_Text e))
      else if key_is k ''blob'' then map_option (\<lambda>s. e\<lparr>er_Blob := s\<rparr>) (decode_string v (er_Blob e))
      else Some e)"

definition zero_embedded :: embedded_resource where
  "zero_embedded = \<lparr>er_URI = [], er_MimeType = [], er_Text = [], er_Blob = []\<rparr>"

definition raw_content_field :: "string \<Rightarrow> json \<Rightarrow> raw_content \<Rightarrow> raw_content option" where
  "raw_content_field k v r =
     (if key_is k ''type'' then map_option (\<lambda>s. r\<lparr>rw_Type := s\<rparr>) (decode_string v (rw_Type r))
      else if key_is k ''text'' then map_option (\<lambda>s. r\<lparr>rw_Text := s\<rparr>) (decode_string v (rw_Text r))
      else if key_is k ''data'' then map_option (\<lambda>s. r\<lparr>rw_Data := s\<rparr>) (decode_string v (rw_Data r))
      else if key_is k ''mimetype'' then map_option (\<lambda>s. r\<lparr>rw_MimeType := s\<rparr>) (decode_string v (rw_MimeType r))
      else if key_is k ''resource'' then
        map_option (\<lambda>e. r\<lparr>rw_Resource := e\<rparr>) (decode_pointer embedded_field zero_embedded v (rw_Resource r))
      else if key_is k ''annotations'' then
        map_option (\<lambda>a. r\<lparr>rw_Annotations := a\<rparr>) (decode_pointer annotations_field zero_annotations v (rw_Annotations r))
      else Some r)"

definition zero_raw_content :: raw_content where
  "zero_raw_content =
     \<lparr>rw_Type = [], rw_Text = [], rw_Data = [], rw_MimeType = [], rw_Resource = None, rw_Annotations = None\<rparr>"

text \<open>What a reader makes of one encoded content: \<open>None\<close> when it does not decode.\<close>

definition read_content :: "json \<Rightarrow> (content_error + content) option" where
  "read_content v = map_option ToContent (decode_struct raw_content_field v zero_raw_content)"

section \<open>Names in mixed case\<close>

definition word_name :: "string \<Rightarrow> bool" where
  "word_name k \<longleftrightarrow> list_all (\<lambda>c. byte_in 97 122 c \<or> byte_in 65 90 c) k"

lemma word_name_folds: "word_name k \<Longrightarrow> fold_name k = map lower_char k \<and> unquote k = k"
  unfolding word_name_def
proof (induction k)
  case (Cons c k)
  then have "byte_in 97 122 c \<or> byte_in 65 90 c" by simp
  then have "c \<noteq> CHR 0xC5" and "c \<noteq> CHR 0xE2" and "c \<noteq> back_slash" and "byte_in 0 0x7F c"
    by (auto simp: byte_in_def back_slash_def)
  then show ?case using Cons by (simp add: has_prefix_def unquote.simps(2))
qed simp

lemma key_is_word: "word_name k \<Longrightarrow> key_is k f \<longleftrightarrow> map lower_char k = f"
  by (simp add: key_is_def word_name_folds)

lemma raw_ok_word [simp]: "word_name k \<Longrightarrow> raw_ok k"
proof -
  assume "word_name k"
  then have "list_all plain_char k"
    by (auto simp: word_name_def list_all_iff byte_in_def plain_char_def quote_char_def back_slash_def)
  then show ?thesis using scan_string_plain [of k "[quote_char]"] by (simp add: raw_ok_def)
qed

lemma content_names [simp]:
  "field_name ''type''" "field_name ''text''" "field_name ''resource''" "field_name ''annotations''" "field_name ''audience''"
  "field_name ''priority''" "field_name ''uri''" "field_name ''blob''" "word_name ''mimeType''"
  by (simp_all add: field_name_def word_name_def byte_in_def)

lemma key_is_mimeType [simp]: "key_is ''mimeType'' f \<longleftrightarrow> f = ''mimetype''"
proof -
  have "map lower_char ''mimeType'' = ''mimetype''" by code_simp
  then show ?thesis by (auto simp: key_is_word)
qed

section \<open>Contents survive their encoding\<close>

definition float_ok :: "float64 \<Rightarrow> bool" where
  "float_ok f \<longleftrightarrow> f = zero_float \<or> \<not> float_zero f \<and> number_ok (show_float64 f) \<and> parse_float (show_float64 f) = Some f"

definition annotations_ok :: "annotations \<Rightarrow> bool" where
  "annotations_ok a \<longleftrightarrow> list_all valid_utf8 (an_Audience a) \<and> float_ok (an_Priority a)"

definition embedded_ok :: "embedded_resource \<Rightarrow> bool" where
  "embedded_ok e \<longleftrightarrow> valid_utf8 (er_URI e) \<and> valid_utf8 (er_MimeType e) \<and> valid_utf8 (er_Text e) \<and> valid_utf8 (er_Blob e)"

fun content_ok :: "content \<Rightarrow> bool" where
  "content_ok (TextContent t) \<longleftrightarrow> valid_utf8 (tx_Text t) \<and> pred_option annotations_ok (tx_Annotations t)"
| "content_ok (ImageContent i) \<longleftrightarrow>
     valid_utf8 (im_Data i) \<and> valid_utf8 (im_MimeType i) \<and> pred_option annotations_ok (im_Annotations i)"
| "content_ok (ResourceContent r) \<longleftrightarrow> embedded_ok (ec_Resource r) \<and> pred_option annotations_ok (ec_Annotations r)"

text \<open>A content whose type says what it is.\<close>

fun typed :: "content \<Rightarrow> content" where
  "typed (TextContent t) = TextContent (t\<lparr>tx_Type := ContentTypeText\<rparr>)"
| "typed (ImageContent i) = ImageContent (i\<lparr>im_Type := ContentTypeImage\<rparr>)"
| "typed (ResourceContent r) = ResourceContent (r\<lparr>ec_Type := ContentTypeResource\<rparr>)"

lemma decode_strings_texts: "list_all valid_utf8 ss \<Longrightarrow> decode_strings (map JText ss) [] = Some ss"
  by (induction ss) simp_all

lemma float_member_read:
  "float_ok f \<Longrightarrow> key_is k ''priority'' \<Longrightarrow> \<not> key_is k ''audience'' \<Longrightarrow> an_Priority a = zero_float \<Longrightarrow>
   decode_members annotations_field (float_member k f) a = Some (a\<lparr>an_Priority := f\<rparr>)"
  by (auto simp: float_ok_def float_member_def annotations_field_def zero_float_def float_zero_def)

lemma annotations_read:
  assumes "annotations_ok a"
  shows "decode_members annotations_field (strings_member ''audience'' (an_Audience a) @ float_member ''priority'' (an_Priority a))
    zero_annotations = Some a"
proof -
  have "decode_members annotations_field (strings_member ''audience'' (an_Audience a)) zero_annotations =
      Some \<lparr>an_Audience = an_Audience a, an_Priority = zero_float\<rparr>"
    using assms by (simp add: strings_member_def annotations_field_def zero_annotations_def annotations_ok_def decode_strings_texts)
  then show ?thesis
    using assms float_member_read [of "an_Priority a" "''priority''" "\<lparr>an_Audience = an_Audience a, an_Priority = zero_float\<rparr>"]
    by (simp add: decode_members_append annotations_ok_def)
qed

lemma embedded_read:
  assumes "embedded_ok e"
  shows "decode_pointer embedded_field zero_embedded (embedded_json e) None = Some (Some e)"
proof -
  have "decode_members embedded_field (text_member ''mimeType'' m @ rest) r =
      decode_members embedded_field rest (r\<lparr>er_MimeType := m\<rparr>)" if "valid_utf8 m" "er_MimeType r = []" for m rest r
    using that by (cases r) (simp add: text_member_def embedded_field_def)
  moreover have "decode_members embedded_field (text_member ''text'' m @ rest) r =
      decode_members embedded_field rest (r\<lparr>er_Text := m\<rparr>)" if "valid_utf8 m" "er_Text r = []" for m rest r
    using that by (cases r) (simp add: text_member_def embedded_field_def)
  moreover have "decode_members embedded_field (text_member ''blob'' m) r = Some (r\<lparr>er_Blob := m\<rparr>)"
    if "valid_utf8 m" "er_Blob r = []" for m r
    using that by (cases r) (simp add: text_member_def embedded_field_def)
  ultimately show ?thesis
    using assms by (simp add: embedded_json_def zero_embedded_def embedded_ok_def) (simp add: embedded_field_def)
qed

text \<open>Depth and form of what is written.\<close>

lemma texts_depth: "json_depth (JArr (map JText ss)) \<le> 1"
  by (cases ss) (simp_all add: image_image image_constant_conv)

lemma float_number_ok: "float_ok f \<Longrightarrow> \<not> float_zero f \<Longrightarrow> number_ok (show_float64 f)"
  by (auto simp: float_ok_def zero_float_def float_zero_def)

definition shallow :: "nat \<Rightarrow> string \<times> json \<Rightarrow> bool" where
  "shallow d m \<longleftrightarrow> raw_ok (fst m) \<and> json_ok (snd m) \<and> json_depth (snd m) \<le> d"

lemma shallow_obj: "list_all (shallow d) ms \<Longrightarrow> json_ok (JObj ms) \<and> json_depth (JObj ms) \<le> Suc d"
  by (auto simp: shallow_def list_all_iff)

lemma shallow_members:
  "raw_ok k \<Longrightarrow> shallow d (k, JText s)" "raw_ok k \<Longrightarrow> list_all (shallow d) (text_member k s)"
  "raw_ok k \<Longrightarrow> 1 \<le> d \<Longrightarrow> list_all (shallow d) (strings_member k ss)"
  "raw_ok k \<Longrightarrow> float_ok f \<Longrightarrow> list_all (shallow d) (float_member k f)"
  "raw_ok k \<Longrightarrow> list_all (shallow d) (flag_member k b)"
  using texts_depth [of ss] float_number_ok [of f]
  by (auto simp: shallow_def text_member_def strings_member_def float_member_def flag_member_def simp del: json_depth.simps(1))

lemma annotations_shallow: "annotations_ok a \<Longrightarrow> json_ok (annotations_json a) \<and> json_depth (annotations_json a) \<le> 2"
proof -
  assume "annotations_ok a"
  then have "list_all (shallow 1) (strings_member ''audience'' (an_Audience a) @ float_member ''priority'' (an_Priority a))"
    by (simp add: shallow_members annotations_ok_def)
  from shallow_obj [OF this] show ?thesis by (simp add: annotations_json_def numeral_2_eq_2 del: json_ok.simps json_depth.simps)
qed

lemma embedded_shallow: "json_ok (embedded_json e) \<and> json_depth (embedded_json e) \<le> 1"
proof -
  have "list_all (shallow 0) ([(''uri'', JText (er_URI e))] @ text_member ''mimeType'' (er_MimeType e) @
      text_member ''text'' (er_Text e) @ text_member ''blob'' (er_Blob e))"
    by (simp add: shallow_members)
  from shallow_obj [OF this] show ?thesis by (simp add: embedded_json_def del: json_ok.simps json_depth.simps)
qed

lemma content_shallow: "content_ok c \<Longrightarrow> json_ok (content_MarshalJSON c) \<and> json_depth (content_MarshalJSON c) \<le> 3"
proof -
  have a: "list_all (shallow 2) (pointer_member ''annotations'' annotations_json x)" if "pred_option annotations_ok x" for x
    using that annotations_shallow by (cases x) (simp_all add: pointer_member_def shallow_def)
  have e: "shallow 2 (''resource'', embedded_json e)" for e
    using embedded_shallow [of e] by (simp add: shallow_def)
  assume "content_ok c"
  then have "list_all (shallow 2) (content_members c)"
    by (cases c) (simp_all add: a e shallow_members)
  from shallow_obj [OF this] show ?thesis
    by (simp add: content_MarshalJSON_def numeral_3_eq_3 numeral_2_eq_2 del: json_ok.simps json_depth.simps)
qed

lemma annotations_member_read:
  assumes "pred_option annotations_ok x" "rw_Annotations r = None"
  shows "decode_members raw_content_field (pointer_member ''annotations'' annotations_json x) r = Some (r\<lparr>rw_Annotations := x\<rparr>)"
  using assms annotations_read
  by (cases x; cases r) (simp_all add: pointer_member_def raw_content_field_def annotations_json_def)

lemma type_names [simp]: "valid_utf8 ContentTypeText" "valid_utf8 ContentTypeImage" "valid_utf8 ContentTypeResource"
  by (rule ascii_valid, simp add: ContentTypeText_def ContentTypeImage_def ContentTypeResource_def byte_in_def)+

lemma ContentType_neq [simp]:
  "ContentTypeImage \<noteq> ContentTypeText" "ContentTypeResource \<noteq> ContentTypeText" "ContentTypeResource \<noteq> ContentTypeImage"
  by (simp_all add: ContentTypeText_def ContentTypeImage_def ContentTypeResource_def)

text \<open>What decoding one of the three gives.\<close>

fun raw_of :: "content \<Rightarrow> raw_content" where
  "raw_of (TextContent t) = zero_raw_content\<lparr>rw_Type := ContentTypeText, rw_Text := tx_Text t, rw_Annotations := tx_Annotations t\<rparr>"
| "raw_of (ImageContent i) = zero_raw_content\<lparr>rw_Type := ContentTypeImage, rw_Data := im_Data i, rw_MimeType := im_MimeType i,
     rw_Annotations := im_Annotations i\<rparr>"
| "raw_of (ResourceContent r) = zero_raw_content\<lparr>rw_Type := ContentTypeResource, rw_Resource := Some (ec_Resource r),
     rw_Annotations := ec_Annotations r\<rparr>"

lemma content_members_read: "content_ok c \<Longrightarrow> decode_members raw_content_field (content_members c) zero_raw_content = Some (raw_of c)"
  using embedded_read
  by (cases c) (simp_all add: decode_members_append annotations_member_read, simp_all add: raw_content_field_def zero_raw_content_def
      annotations_member_read)

lemma ToContent_raw: "ToContent (raw_of c) = Inr (typed c)"
  by (cases c) (auto simp: ToContent_def zero_raw_content_def)

lemma content_read: "content_ok c \<Longrightarrow> read_content (content_MarshalJSON c) = Some (Inr (typed c))"
  by (simp add: read_content_def content_MarshalJSON_def content_members_read ToContent_raw)

section \<open>Results that carry contents\<close>

text \<open>A nil slice is \<open>None\<close>; the contents in it are not nil.\<close>

record tool_call_result =
  cr_Content :: "content list option"
  cr_IsError :: bool

record prompt_message =
  pm_Role :: string
  pm_Content :: content

record prompts_get_result =
  pg_Description :: string
  pg_Messages :: "prompt_message list option"

definition RoleUser :: string where "RoleUser = ''user''"
definition RoleAssistant :: string where "RoleAssistant = ''assistant''"

definition tool_call_result_json :: "tool_call_result \<Rightarrow> json" where
  "tool_call_result_json r =
     JObj ([(''content'', slice_json content_MarshalJSON (cr_Content r))] @ flag_member ''isError'' (cr_IsError r))"

definition prompt_message_json :: "prompt_message \<Rightarrow> json" where
  "prompt_message_json m = JObj [(''role'', JText (pm_Role m)), (''content'', content_MarshalJSON (pm_Content m))]"

definition prompts_get_result_json :: "prompts_get_result \<Rightarrow> json" where
  "prompts_get_result_json r =
     JObj (text_member ''description'' (pg_Description r) @ [(''messages'', slice_json prompt_message_json (pg_Messages r))])"

text \<open>
  Decoding: nothing but null goes into an interface with methods, so of a slice of contents only nil
  ones can be had; they are left out here.
\<close>

fun decode_interface :: "json \<Rightarrow> unit option" where
  "decode_interface JNull = Some ()"
| "decode_interface _ = None"

fun decode_contents :: "json \<Rightarrow> content list option option" where
  "decode_contents JNull = Some None"
| "decode_contents (JArr vs) = (if list_all (\<lambda>v. decode_interface v \<noteq> None) vs then Some (Some []) else None)"
| "decode_contents _ = None"

definition tool_call_result_field :: "string \<Rightarrow> json \<Rightarrow> tool_call_result \<Rightarrow> tool_call_result option" where
  "tool_call_result_field k v r =
     (if key_is k ''content'' then map_option (\<lambda>c. r\<lparr>cr_Content := c\<rparr>) (decode_contents v)
      else if key_is k ''iserror'' then map_option (\<lambda>b. r\<lparr>cr_IsError := b\<rparr>) (decode_bool v (cr_IsError r))
      else Some r)"

definition zero_tool_call_result :: tool_call_result where
  "zero_tool_call_result = \<lparr>cr_Content = None, cr_IsError = False\<rparr>"

text \<open>
  What a reader who decodes the contents as \<open>RawContent\<close> makes of a result: the contents in order, and
  the error flag.
\<close>

definition raw_result_field ::
  "string \<Rightarrow> json \<Rightarrow> raw_content list option \<times> bool \<Rightarrow> (raw_content list option \<times> bool) option" where
  "raw_result_field k v r =
     (if key_is k ''content'' then
        map_option (\<lambda>c. (c, snd r)) (decode_slice (decode_struct raw_content_field) zero_raw_content v (fst r))
      else if key_is k ''iserror'' then map_option (\<lambda>b. (fst r, b)) (decode_bool v (snd r))
      else Some r)"

lemma result_names [simp]: "field_name ''content''" "word_name ''isError''"
  by (simp_all add: field_name_def word_name_def byte_in_def)

lemma key_is_isError [simp]: "key_is ''isError'' f \<longleftrightarrow> f = ''iserror''"
proof -
  have "map lower_char ''isError'' = ''iserror''" by code_simp
  then show ?thesis by (auto simp: key_is_word)
qed

lemma contents_read:
  "list_all content_ok cs \<Longrightarrow>
   decode_elements (decode_struct raw_content_field) zero_raw_content (map content_MarshalJSON cs) [] = Some (map raw_of cs)"
  by (induction cs) (simp_all add: content_MarshalJSON_def content_members_read)

lemma contents_shallow: "list_all content_ok cs \<Longrightarrow> shallow 4 (''content'', JArr (map content_MarshalJSON cs))"
  using content_shallow by (auto simp: shallow_def list_all_iff numeral_eq_Suc)

text \<open>
  C17.  A tool's result can be written and its contents read, but not by the type that writes it.  The
  text of a result whose strings are UTF-8 and whose priorities are read back has no line break; a
  reader that decodes its contents as raw contents gets all of them in their order, each converting to
  what was written with its type set, and the error flag.  Decoding the same text into the result
  type itself fails as soon as there is a content.
\<close>

theorem tool_result_read:
  assumes "cr_Content r = Some cs" and "list_all content_ok cs"
  shows "LF \<notin> set (EncodeMessage (tool_call_result_json r)) \<and>
    (case unmarshal raw_result_field (None, False) (EncodeMessage (tool_call_result_json r)) of
       Some (Some rs, isError) \<Rightarrow> map ToContent rs = map (\<lambda>c. Inr (typed c)) cs \<and> isError = cr_IsError r
     | _ \<Rightarrow> False) \<and>
    unmarshal tool_call_result_field zero_tool_call_result (EncodeMessage (tool_call_result_json r)) =
      (if cs = [] then Some r else None)"
proof -
  define ms where "ms = [(''content'', JArr (map content_MarshalJSON cs))] @ flag_member ''isError'' (cr_IsError r)"
  have j: "tool_call_result_json r = JObj ms"
    using assms(1) by (simp add: tool_call_result_json_def slice_json_def ms_def)
  have "list_all (shallow 4) ms"
    using contents_shallow [OF assms(2)] by (simp add: ms_def shallow_members)
  from shallow_obj [OF this] have ok: "json_ok (JObj ms)" "json_depth (JObj ms) \<le> max_depth"
    by (simp_all add: max_depth_def del: json_ok.simps json_depth.simps)
  have un: "unmarshal f z (EncodeMessage (tool_call_result_json r)) = decode_members f ms z" for f :: "string \<Rightarrow> json \<Rightarrow> 'z \<Rightarrow> 'z option" and z
    using unmarshal_show(1) [OF ok] by (simp add: j EncodeMessage_def)
  have "decode_members raw_result_field ms (None, False) = Some (Some (map raw_of cs), cr_IsError r)"
    using contents_read [OF assms(2)] by (simp add: ms_def raw_result_field_def flag_member_def)
  moreover have "decode_members tool_call_result_field ms zero_tool_call_result = (if cs = [] then Some r else None)"
    using assms(1)
    by (cases cs; cases r) (auto simp: ms_def tool_call_result_field_def flag_member_def content_MarshalJSON_def zero_tool_call_result_def)
  moreover have "LF \<notin> set (EncodeMessage (tool_call_result_json r))"
    using show_json_no_LF [OF ok(1)] by (simp add: j EncodeMessage_def)
  ultimately show ?thesis by (simp add: un ToContent_raw)
qed

definition sample_result :: tool_call_result where
  "sample_result = \<lparr>cr_Content = Some
     [TextContent \<lparr>tx_Type = [], tx_Text = ''done'', tx_Annotations = Some \<lparr>an_Audience = [''user''], an_Priority = zero_float\<rparr>\<rparr>,
      ResourceContent \<lparr>ec_Type = [], ec_Resource = \<lparr>er_URI = ''f'', er_MimeType = [], er_Text = ''x'', er_Blob = []\<rparr>,
        ec_Annotations = None\<rparr>], cr_IsError = True\<rparr>"

theorem tool_result_read_witness:
  "unmarshal tool_call_result_field zero_tool_call_result (EncodeMessage (tool_call_result_json sample_result)) = None"
proof -
  have u: "valid_utf8 ''done''" "valid_utf8 ''user''" "valid_utf8 ''f''" "valid_utf8 ''x''"
    by (rule ascii_valid, simp add: byte_in_def)+
  have "list_all content_ok (the (cr_Content sample_result))"
    using u by (simp add: sample_result_def annotations_ok_def embedded_ok_def float_ok_def valid_utf8.simps [of "[]"])
  from tool_result_read [OF _ this] show ?thesis by (simp add: sample_result_def)
qed

section \<open>Resources and prompts\<close>

record resource =
  rsc_URI :: string
  rsc_Name :: string
  rsc_Description :: string
  rsc_MimeType :: string
  rsc_Annotations :: "annotations option"

record resources_list_result =
  rl_Resources :: "resource list option"
  rl_NextCursor :: string

record prompt_argument =
  pa_Name :: string
  pa_Description :: string
  pa_Required :: bool

record prompt =
  prm_Name :: string
  prm_Description :: string
  prm_Arguments :: "prompt_argument list"

definition resource_json :: "resource \<Rightarrow> json" where
  "resource_json r =
     JObj ([(''uri'', JText (rsc_URI r)), (''name'', JText (rsc_Name r))] @
           text_member ''description'' (rsc_Description r) @ text_member ''mimeType'' (rsc_MimeType r) @
           pointer_member ''annotations'' annotations_json (rsc_Annotations r))"

definition resources_list_json :: "resources_list_result \<Rightarrow> json" where
  "resources_list_json r =
     JObj ([(''resources'', slice_json resource_json (rl_Resources r))] @ text_member ''nextCursor'' (rl_NextCursor r))"

definition prompt_argument_json :: "prompt_argument \<Rightarrow> json" where
  "prompt_argument_json a =
     JObj ([(''name'', JText (pa_Name a))] @ text_member ''description'' (pa_Description a) @ flag_member ''required'' (pa_Required a))"

definition prompt_json :: "prompt \<Rightarrow> json" where
  "prompt_json p =
     JObj ([(''name'', JText (prm_Name p))] @ text_member ''description'' (prm_Description p) @
           (if prm_Arguments p = [] then [] else [(''arguments'', JArr (map prompt_argument_json (prm_Arguments p)))]))"

definition resource_field :: "string \<Rightarrow> json \<Rightarrow> resource \<Rightarrow> resource option" where
  "resource_field k v r =
     (if key_is k ''uri'' then map_option (\<lambda>s. r\<lparr>rsc_URI := s\<rparr>) (decode_string v (rsc_URI r))
      else if key_is k ''name'' then map_option (\<lambda>s. r\<lparr>rsc_Name := s\<rparr>) (decode_string v (rsc_Name r))
      else if key_is k ''description'' then map_option (\<lambda>s. r\<lparr>rsc_Description := s\<rparr>) (decode_string v (rsc_Description r))
      else if key_is k ''mimetype'' then map_option (\<lambda>s. r\<lparr>rsc_MimeType := s\<rparr>) (decode_string v (rsc_MimeType r))
      else if key_is k ''annotations'' then
        map_option (\<lambda>a. r\<lparr>rsc_Annotations := a\<rparr>) (decode_pointer annotations_field zero_annotations v (rsc_Annotations r))
      else Some r)"

definition zero_resource :: resource where
  "zero_resource = \<lparr>rsc_URI = [], rsc_Name = [], rsc_Description = [], rsc_MimeType = [], rsc_Annotations = None\<rparr>"

definition resources_list_field :: "string \<Rightarrow> json \<Rightarrow> resources_list_result \<Rightarrow> resources_list_result option" where
  "resources_list_field k v r =
     (if key_is k ''resources'' then
        map_option (\<lambda>x. r\<lparr>rl_Resources := x\<rparr>) (decode_slice (decode_struct resource_field) zero_resource v (rl_Resources r))
      else if key_is k ''nextcursor'' then map_option (\<lambda>s. r\<lparr>rl_NextCursor := s\<rparr>) (decode_string v (rl_NextCursor r))
      else Some r)"

definition prompt_argument_field :: "string \<Rightarrow> json \<Rightarrow> prompt_argument \<Rightarrow> prompt_argument option" where
  "prompt_argument_field k v a =
     (if key_is k ''name'' then map_option (\<lambda>s. a\<lparr>pa_Name := s\<rparr>) (decode_string v (pa_Name a))
      else if key_is k ''description'' then map_option (\<lambda>s. a\<lparr>pa_Description := s\<rparr>) (decode_string v (pa_Description a))
      else if key_is k ''required'' then map_option (\<lambda>b. a\<lparr>pa_Required := b\<rparr>) (decode_bool v (pa_Required a))
      else Some a)"

definition prompt_field :: "string \<Rightarrow> json \<Rightarrow> prompt \<Rightarrow> prompt option" where
  "prompt_field k v p =
     (if key_is k ''name'' then map_option (\<lambda>s. p\<lparr>prm_Name := s\<rparr>) (decode_string v (prm_Name p))
      else if key_is k ''description'' then map_option (\<lambda>s. p\<lparr>prm_Description := s\<rparr>) (decode_string v (prm_Description p))
      else if key_is k ''arguments'' then
        map_option (\<lambda>x. p\<lparr>prm_Arguments := (case x of None \<Rightarrow> [] | Some as \<Rightarrow> as)\<rparr>)
          (decode_slice (decode_struct prompt_argument_field) \<lparr>pa_Name = [], pa_Description = [], pa_Required = False\<rparr> v
             (Some (prm_Arguments p)))
      else Some p)"

definition resource_ok :: "resource \<Rightarrow> bool" where
  "resource_ok r \<longleftrightarrow> valid_utf8 (rsc_URI r) \<and> valid_utf8 (rsc_Name r) \<and> valid_utf8 (rsc_Description r) \<and>
     valid_utf8 (rsc_MimeType r) \<and> pred_option annotations_ok (rsc_Annotations r)"

definition prompt_ok :: "prompt \<Rightarrow> bool" where
  "prompt_ok p \<longleftrightarrow> valid_utf8 (prm_Name p) \<and> valid_utf8 (prm_Description p) \<and>
     (\<forall>a \<in> set (prm_Arguments p). valid_utf8 (pa_Name a) \<and> valid_utf8 (pa_Description a))"

lemma listing_names [simp]:
  "field_name ''name''" "field_name ''description''" "field_name ''required''" "field_name ''arguments''" "field_name ''resources''"
  "word_name ''nextCursor''"
  by (simp_all add: field_name_def word_name_def byte_in_def)

lemma key_is_nextCursor [simp]: "key_is ''nextCursor'' f \<longleftrightarrow> f = ''nextcursor''"
proof -
  have "map lower_char ''nextCursor'' = ''nextcursor''" by code_simp
  then show ?thesis by (auto simp: key_is_word)
qed

text \<open>One member at a time.\<close>

lemma resource_members_read:
  "valid_utf8 s \<Longrightarrow> rsc_Description r = [] \<Longrightarrow>
     decode_members resource_field (text_member ''description'' s @ ms) r = decode_members resource_field ms (r\<lparr>rsc_Description := s\<rparr>)"
  "valid_utf8 s \<Longrightarrow> rsc_MimeType r = [] \<Longrightarrow>
     decode_members resource_field (text_member ''mimeType'' s @ ms) r = decode_members resource_field ms (r\<lparr>rsc_MimeType := s\<rparr>)"
  by (cases r; simp add: text_member_def resource_field_def)+

lemma resource_annotations_read:
  assumes "pred_option annotations_ok x" "rsc_Annotations r = None"
  shows "decode_members resource_field (pointer_member ''annotations'' annotations_json x) r = Some (r\<lparr>rsc_Annotations := x\<rparr>)"
  using assms annotations_read
  by (cases x; cases r) (simp_all add: pointer_member_def resource_field_def annotations_json_def)

lemma resource_read: "resource_ok r \<Longrightarrow> decode_struct resource_field (resource_json r) zero_resource = Some r"
  by (simp add: resource_json_def resource_ok_def zero_resource_def resource_members_read resource_annotations_read)
     (simp add: resource_field_def resource_members_read resource_annotations_read)

lemma resources_read:
  "list_all resource_ok rs \<Longrightarrow>
   decode_elements (decode_struct resource_field) zero_resource (map resource_json rs) [] = Some rs"
  by (induction rs) (simp_all add: resource_read)

lemma prompt_argument_read:
  "valid_utf8 (pa_Name a) \<Longrightarrow> valid_utf8 (pa_Description a) \<Longrightarrow>
   decode_struct prompt_argument_field (prompt_argument_json a) \<lparr>pa_Name = [], pa_Description = [], pa_Required = False\<rparr> = Some a"
  by (cases a) (simp add: prompt_argument_json_def prompt_argument_field_def text_member_def flag_member_def)

lemma prompt_arguments_read:
  "\<forall>a \<in> set as. valid_utf8 (pa_Name a) \<and> valid_utf8 (pa_Description a) \<Longrightarrow>
   decode_elements (decode_struct prompt_argument_field) \<lparr>pa_Name = [], pa_Description = [], pa_Required = False\<rparr>
     (map prompt_argument_json as) [] = Some as"
  by (induction as) (simp_all add: prompt_argument_read)

lemma prompt_read:
  "prompt_ok p \<Longrightarrow>
   decode_struct prompt_field (prompt_json p) \<lparr>prm_Name = [], prm_Description = [], prm_Arguments = []\<rparr> = Some p"
  using prompt_arguments_read [of "prm_Arguments p"]
  by (cases p) (simp add: prompt_json_def prompt_field_def text_member_def prompt_ok_def)

lemma resource_shallow: "resource_ok r \<Longrightarrow> json_ok (resource_json r) \<and> json_depth (resource_json r) \<le> 3"
proof -
  assume r: "resource_ok r"
  have "list_all (shallow 2) (pointer_member ''annotations'' annotations_json (rsc_Annotations r))"
    using r annotations_shallow by (cases "rsc_Annotations r") (simp_all add: pointer_member_def shallow_def resource_ok_def)
  then have "list_all (shallow 2) ([(''uri'', JText (rsc_URI r)), (''name'', JText (rsc_Name r))] @
           text_member ''description'' (rsc_Description r) @ text_member ''mimeType'' (rsc_MimeType r) @
           pointer_member ''annotations'' annotations_json (rsc_Annotations r))"
    by (simp add: shallow_members)
  from shallow_obj [OF this] show ?thesis
    by (simp add: resource_json_def numeral_3_eq_3 numeral_2_eq_2 del: json_ok.simps json_depth.simps)
qed

lemma resources_shallow: "list_all resource_ok rs \<Longrightarrow> shallow 4 (''resources'', JArr (map resource_json rs))"
  using resource_shallow by (auto simp: shallow_def list_all_iff numeral_eq_Suc)

text \<open>A list of resources is read back as it was written, the annotations of each included.\<close>

theorem resources_list_roundtrip:
  assumes "pred_option (list_all resource_ok) (rl_Resources r)" "valid_utf8 (rl_NextCursor r)"
  shows "unmarshal resources_list_field \<lparr>rl_Resources = None, rl_NextCursor = []\<rparr> (EncodeMessage (resources_list_json r)) = Some r"
proof -
  let ?ms = "[(''resources'', slice_json resource_json (rl_Resources r))] @ text_member ''nextCursor'' (rl_NextCursor r)"
  have "shallow 4 (''resources'', slice_json resource_json (rl_Resources r))"
    using assms(1) resources_shallow by (cases "rl_Resources r") (simp_all add: slice_json_def, simp add: shallow_def)
  then have "list_all (shallow 4) ?ms" by (simp add: shallow_members)
  from shallow_obj [OF this] have ok: "json_ok (JObj ?ms)" "json_depth (JObj ?ms) \<le> max_depth"
    by (simp_all add: max_depth_def del: json_ok.simps json_depth.simps)
  have "decode_members resources_list_field [(''resources'', slice_json resource_json (rl_Resources r))]
      \<lparr>rl_Resources = None, rl_NextCursor = []\<rparr> = Some \<lparr>rl_Resources = rl_Resources r, rl_NextCursor = []\<rparr>"
    using assms(1) resources_read
    by (cases "rl_Resources r") (simp_all add: slice_json_def resources_list_field_def)
  then have "decode_members resources_list_field ?ms \<lparr>rl_Resources = None, rl_NextCursor = []\<rparr> = Some r"
    using assms(2) unfolding decode_members_append by (simp add: resources_list_field_def text_member_def)
  then show ?thesis unfolding resources_list_json_def EncodeMessage_def unmarshal_show(1) [OF ok] .
qed

section \<open>Progress tokens and notifications\<close>

text \<open>\<open>ProgressToken\<close>: nil, a string, an \<open>int64\<close> or a \<open>float64\<close>.\<close>

datatype progress_token = TokenNil | TokenStr string | TokenInt int | TokenFloat float64

definition NewStringProgressToken :: "string \<Rightarrow> progress_token" where "NewStringProgressToken s = TokenStr s"
definition NewNumberProgressToken :: "int \<Rightarrow> progress_token" where "NewNumberProgressToken n = TokenInt n"

fun token_MarshalJSON :: "progress_token \<Rightarrow> json" where
  "token_MarshalJSON TokenNil = JNull"
| "token_MarshalJSON (TokenStr s) = JText s"
| "token_MarshalJSON (TokenInt n) = JNum (show_int n)"
| "token_MarshalJSON (TokenFloat f) = JNum (show_float64 f)"

text \<open>A string is tried first, and null decodes into one without an error.\<close>

definition token_UnmarshalJSON :: "json \<Rightarrow> progress_token option" where
  "token_UnmarshalJSON v =
     (case decode_string v [] of
        Some s \<Rightarrow> Some (TokenStr s)
      | None \<Rightarrow>
         (case decode_float v zero_float of
            None \<Rightarrow> None
          | Some f \<Rightarrow> Some (case float_int64 f of Some n \<Rightarrow> TokenInt n | None \<Rightarrow> TokenFloat f)))"

record progress_params =
  pp_Token :: progress_token
  pp_Progress :: float64
  pp_Total :: float64
  pp_Message :: string

record cancelled_params =
  cp_RequestID :: request_id
  cp_Reason :: string

record logging_message_params =
  lm_Level :: string
  lm_Logger :: string
  lm_Data :: "json option"

definition progress_params_json :: "progress_params \<Rightarrow> json" where
  "progress_params_json p =
     JObj ([(''progressToken'', token_MarshalJSON (pp_Token p)), (''progress'', JNum (show_float64 (pp_Progress p)))] @
           float_member ''total'' (pp_Total p) @ text_member ''message'' (pp_Message p))"

definition cancelled_params_json :: "cancelled_params \<Rightarrow> json" where
  "cancelled_params_json p =
     JObj ([(''requestId'', id_MarshalJSON (cp_RequestID p))] @ text_member ''reason'' (cp_Reason p))"

definition logging_message_params_json :: "logging_message_params \<Rightarrow> json" where
  "logging_message_params_json p =
     JObj ([(''level'', JText (lm_Level p))] @ text_member ''logger'' (lm_Logger p) @
           [(''data'', case lm_Data p of None \<Rightarrow> JNull | Some j \<Rightarrow> escape_json j)])"

definition cancelled_params_field :: "string \<Rightarrow> json \<Rightarrow> cancelled_params \<Rightarrow> cancelled_params option" where
  "cancelled_params_field k v p =
     (if key_is k ''requestid'' then map_option (\<lambda>i. p\<lparr>cp_RequestID := i\<rparr>) (id_UnmarshalJSON v)
      else if key_is k ''reason'' then map_option (\<lambda>s. p\<lparr>cp_Reason := s\<rparr>) (decode_string v (cp_Reason p))
      else Some p)"

text \<open>
  A progress token that is a string or an integer of at most 53 bits is read back; a nil one comes back
  as the empty string, which is a token of its own.
\<close>

theorem progress_token_roundtrip:
  "(case t of
      TokenNil \<Rightarrow> token_UnmarshalJSON (token_MarshalJSON t) = Some (NewStringProgressToken [])
    | TokenStr s \<Rightarrow> \<not> valid_utf8 s \<or> token_UnmarshalJSON (token_MarshalJSON t) = Some t
    | TokenInt n \<Rightarrow> 2 ^ 53 \<le> \<bar>n\<bar> \<or> token_UnmarshalJSON (token_MarshalJSON t) = Some t
    | TokenFloat f \<Rightarrow> True)"
proof (cases t)
  case (TokenInt n)
  have "\<bar>n\<bar> < 2 ^ 53 \<Longrightarrow> token_UnmarshalJSON (JNum (show_int n)) = Some (TokenInt n)"
    using id_int_roundtrip [of n] by (auto simp: token_UnmarshalJSON_def split: option.splits)
  then show ?thesis using TokenInt by (cases "2 ^ 53 \<le> \<bar>n\<bar>") simp_all
qed (simp_all add: token_UnmarshalJSON_def NewStringProgressToken_def)

end
