(* ===== verification/Go_Url.thy ===== *)
theory Go_Url
  imports Go_Literals
begin

text \<open>
  What the bridge uses of Go's \<open>net/url\<close> (Go 1.24, the toolchain of \<open>go.mod\<close>): parsing a URL into
  scheme, user information, host, path, query and fragment; the percent-encoding of paths and
  hosts; host names and ports; and the query strings of redirects.
\<close>

section \<open>Percent-encoding\<close>

datatype encoding = encodePath | encodeHost | encodeZone | encodeUserPassword | encodeQueryComponent | encodeFragment

definition alnum :: "char \<Rightarrow> bool" where
  "alnum c \<longleftrightarrow> byte_in 97 122 c \<or> byte_in 65 90 c \<or> byte_in 48 57 c"

definition shouldEscape :: "char \<Rightarrow> encoding \<Rightarrow> bool" where
  "shouldEscape c mode =
     (if alnum c then False
      else if (mode = encodeHost \<or> mode = encodeZone) \<and> c \<in> set (''!$&()*+,;=:[]<>'' @ [CHR 0x27, CHR 0x22])
      then False
      else if c \<in> set ''-_.~'' then False
      else if c \<in> set ''$&+,/:;=?@'' then
        (case mode of
           encodePath \<Rightarrow> c = CHR ''?''
         | encodeUserPassword \<Rightarrow> c \<in> set ''@/?:''
         | encodeQueryComponent \<Rightarrow> True
         | encodeFragment \<Rightarrow> False
         | _ \<Rightarrow> True)
      else if mode = encodeFragment \<and> c \<in> set ''!()*'' then False
      else True)"

definition hex_upper :: "nat \<Rightarrow> char" where
  "hex_upper n = (if n < 10 then char_of (48 + n) else char_of (55 + n))"

fun escape :: "encoding \<Rightarrow> string \<Rightarrow> string" where
  "escape mode [] = []"
| "escape mode (c # s) =
     (if shouldEscape c mode then
        (if c = CHR '' '' \<and> mode = encodeQueryComponent then CHR ''+'' # escape mode s
         else [CHR ''%'', hex_upper ((of_char c :: nat) div 16), hex_upper (of_char c mod 16)] @ escape mode s)
      else c # escape mode s)"

definition hex_pair :: "char \<Rightarrow> char \<Rightarrow> nat option" where
  "hex_pair a b =
     (case hex_val a of None \<Rightarrow> None | Some x \<Rightarrow> (case hex_val b of None \<Rightarrow> None | Some y \<Rightarrow> Some (16 * x + y)))"

text \<open>
  \<open>unescape\<close>: in a host only bytes beyond ASCII and the percent sign may be encoded, and what is
  not encoded must be a character of a host.
\<close>

fun url_unescape :: "encoding \<Rightarrow> string \<Rightarrow> string option" where
  "url_unescape mode [] = Some []"
| "url_unescape mode (c # s) =
     (if c = CHR ''%'' then
        (case s of
           a # b # r \<Rightarrow>
             (case hex_pair a b of
                None \<Rightarrow> None
              | Some v \<Rightarrow>
                  if mode = encodeHost \<and> v < 128 \<and> [a, b] \<noteq> ''25'' then None
                  else if mode = encodeZone \<and> [a, b] \<noteq> ''25'' \<and> v \<noteq> 32 \<and> shouldEscape (char_of v) encodeHost then None
                  else map_option (\<lambda>t. char_of v # t) (url_unescape mode r))
         | _ \<Rightarrow> None)
      else if c = CHR ''+'' \<and> mode = encodeQueryComponent then map_option (\<lambda>t. CHR '' '' # t) (url_unescape mode s)
      else if (mode = encodeHost \<or> mode = encodeZone) \<and> byte_in 0 0x7F c \<and> shouldEscape c mode then None
      else map_option (\<lambda>t. c # t) (url_unescape mode s))"

definition validEncoded :: "string \<Rightarrow> bool" where
  "validEncoded s =
     list_all (\<lambda>c. c \<in> set (''!$&()*+,;=:@[]%'' @ [CHR 0x27]) \<or> \<not> shouldEscape c encodePath) s"

section \<open>Cutting\<close>

text \<open>\<open>strings.Cut\<close> at a byte: before, after, and whether it was found.\<close>

fun cut_at :: "char \<Rightarrow> string \<Rightarrow> (string \<times> string) option" where
  "cut_at c [] = None"
| "cut_at c (x # xs) = (if x = c then Some ([], xs) else map_option (\<lambda>(a, b). (x # a, b)) (cut_at c xs))"

text \<open>The same at the last occurrence.\<close>

definition cut_last :: "char \<Rightarrow> string \<Rightarrow> (string \<times> string) option" where
  "cut_last c s = map_option (\<lambda>(a, b). (rev b, rev a)) (cut_at c (rev s))"

lemma cut_at_Some: "cut_at c s = Some (a, b) \<Longrightarrow> s = a @ c # b \<and> c \<notin> set a"
  by (induction s arbitrary: a) (auto split: if_splits)

lemma cut_at_None: "cut_at c s = None \<longleftrightarrow> c \<notin> set s"
  by (induction s) auto

lemma cut_last_Some: "cut_last c s = Some (a, b) \<Longrightarrow> s = a @ c # b \<and> c \<notin> set b"
  by (auto simp: cut_last_def dest!: cut_at_Some) (metis append.assoc append_Cons append_Nil rev.simps(2) rev_append rev_rev_ident)

lemma cut_last_None: "cut_last c s = None \<longleftrightarrow> c \<notin> set s"
  by (simp add: cut_last_def cut_at_None)

section \<open>URLs\<close>

record url =
  u_Scheme :: string
  u_Opaque :: string
  u_User :: "string option"
  u_Host :: string
  u_Path :: string
  u_RawPath :: string
  u_ForceQuery :: bool
  u_RawQuery :: string
  u_Fragment :: string

text \<open>\<open>getScheme\<close>: \<open>None\<close> is an error; the scheme is empty when there is none.\<close>

fun scan_scheme :: "nat \<Rightarrow> string \<Rightarrow> string option option" where
  "scan_scheme i [] = Some None"
| "scan_scheme i (c # s) =
     (if byte_in 97 122 c \<or> byte_in 65 90 c then map_option (map_option (\<lambda>t. c # t)) (scan_scheme (Suc i) s)
      else if byte_in 48 57 c \<or> c \<in> set ''+-.'' then
        (if i = 0 then Some None else map_option (map_option (\<lambda>t. c # t)) (scan_scheme (Suc i) s))
      else if c = CHR '':'' then (if i = 0 then None else Some (Some []))
      else Some None)"

definition getScheme :: "string \<Rightarrow> (string \<times> string) option" where
  "getScheme raw =
     (case scan_scheme 0 raw of
        None \<Rightarrow> None
      | Some None \<Rightarrow> Some ([], raw)
      | Some (Some s) \<Rightarrow> Some (s, drop (Suc (length s)) raw))"

definition validOptionalPort :: "string \<Rightarrow> bool" where
  "validOptionalPort p \<longleftrightarrow> p = [] \<or> (hd p = CHR '':'' \<and> list_all is_digit (tl p))"

fun find_sub :: "string \<Rightarrow> string \<Rightarrow> nat option" where
  "find_sub p [] = (if p = [] then Some 0 else None)"
| "find_sub p (c # s) = (if has_prefix (c # s) p then Some 0 else map_option Suc (find_sub p s))"

definition parseHost :: "string \<Rightarrow> string option" where
  "parseHost host =
     (if has_prefix host ''['' then
        (case cut_last CHR '']'' host of
           None \<Rightarrow> None
         | Some (before, colonPort) \<Rightarrow>
             if \<not> validOptionalPort colonPort then None
             else
               (case find_sub ''%25'' before of
                  None \<Rightarrow> url_unescape encodeHost host
                | Some z \<Rightarrow>
                   (case (url_unescape encodeHost (take z before), url_unescape encodeZone (drop z before),
                          url_unescape encodeHost (CHR '']'' # colonPort)) of
                      (Some h1, Some h2, Some h3) \<Rightarrow> Some (h1 @ h2 @ h3)
                    | _ \<Rightarrow> None)))
      else
        (case cut_last CHR '':'' host of
           None \<Rightarrow> url_unescape encodeHost host
         | Some (before, port) \<Rightarrow>
             if \<not> validOptionalPort (CHR '':'' # port) then None else url_unescape encodeHost host))"

definition validUserinfo :: "string \<Rightarrow> bool" where
  "validUserinfo s = list_all (\<lambda>c. alnum c \<or> c \<in> set (''-._:~!$&()*+,;=%@'' @ [CHR 0x27])) s"

text \<open>The user information is kept as it is written; the bridge only asks whether there is any.\<close>

definition parseAuthority :: "string \<Rightarrow> (string option \<times> string) option" where
  "parseAuthority authority =
     (case cut_last CHR ''@'' authority of
        None \<Rightarrow> map_option (\<lambda>h. (None, h)) (parseHost authority)
      | Some (userinfo, host) \<Rightarrow>
         (case parseHost host of
            None \<Rightarrow> None
          | Some h \<Rightarrow>
              if \<not> validUserinfo userinfo then None
              else if list_all (\<lambda>part. url_unescape encodeUserPassword part \<noteq> None)
                        (case cut_at CHR '':'' userinfo of None \<Rightarrow> [userinfo] | Some (n, p) \<Rightarrow> [n, p])
              then Some (Some userinfo, h) else None))"

definition control_byte :: "char \<Rightarrow> bool" where
  "control_byte c \<longleftrightarrow> byte_in 0 31 c \<or> byte_in 127 127 c"

definition setPath :: "string \<Rightarrow> url \<Rightarrow> url option" where
  "setPath p u =
     (case url_unescape encodePath p of
        None \<Rightarrow> None
      | Some path \<Rightarrow>
          Some (u\<lparr>u_Path := path, u_RawPath := (if escape encodePath path = p then [] else p)\<rparr>))"

definition zero_url :: url where
  "zero_url = \<lparr>u_Scheme = [], u_Opaque = [], u_User = None, u_Host = [], u_Path = [], u_RawPath = [],
     u_ForceQuery = False, u_RawQuery = [], u_Fragment = []\<rparr>"

text \<open>The rest after the scheme, split into path and query.\<close>

definition cut_query :: "string \<Rightarrow> bool \<times> string \<times> string" where
  "cut_query rest =
     (if has_suffix rest ''?'' \<and> count_list rest (CHR ''?'') = 1 then (True, butlast rest, [])
      else case cut_at CHR ''?'' rest of None \<Rightarrow> (False, rest, []) | Some (a, b) \<Rightarrow> (False, a, b))"

definition parse_nofrag :: "string \<Rightarrow> url option" where
  "parse_nofrag raw =
     (if list_ex control_byte raw then None
      else if raw = ''*'' then Some (zero_url\<lparr>u_Path := ''*''\<rparr>)
      else case getScheme raw of
        None \<Rightarrow> None
      | Some (scheme0, rest0) \<Rightarrow>
          let scheme = to_lower scheme0;
              (force, rest, query) = cut_query rest0;
              u = zero_url\<lparr>u_Scheme := scheme, u_ForceQuery := force, u_RawQuery := query\<rparr>
          in
            if \<not> has_prefix rest ''/'' \<and> scheme \<noteq> [] then Some (u\<lparr>u_Opaque := rest\<rparr>)
            else if \<not> has_prefix rest ''/'' \<and> contains (takeWhile (\<lambda>c. c \<noteq> CHR ''/'') rest) '':'' then None
            else if (scheme \<noteq> [] \<or> \<not> has_prefix rest ''///'') \<and> has_prefix rest ''//'' then
              (let authority = takeWhile (\<lambda>c. c \<noteq> CHR ''/'') (drop 2 rest);
                   path = dropWhile (\<lambda>c. c \<noteq> CHR ''/'') (drop 2 rest)
               in case parseAuthority authority of
                    None \<Rightarrow> None
                  | Some (user, host) \<Rightarrow> setPath path (u\<lparr>u_User := user, u_Host := host\<rparr>))
            else setPath rest u)"

definition url_Parse :: "string \<Rightarrow> url option" where
  "url_Parse raw =
     (case cut_at CHR ''#'' raw of
        None \<Rightarrow> parse_nofrag raw
      | Some (a, frag) \<Rightarrow>
         (case parse_nofrag a of
            None \<Rightarrow> None
          | Some u \<Rightarrow>
              if frag = [] then Some u
              else map_option (\<lambda>f. u\<lparr>u_Fragment := f\<rparr>) (url_unescape encodeFragment frag)))"

definition EscapedPath :: "url \<Rightarrow> string" where
  "EscapedPath u =
     (if u_RawPath u \<noteq> [] \<and> validEncoded (u_RawPath u) \<and> url_unescape encodePath (u_RawPath u) = Some (u_Path u)
      then u_RawPath u
      else if u_Path u = ''*'' then ''*''
      else escape encodePath (u_Path u))"

text \<open>\<open>Hostname\<close>: the host without a valid port and without brackets.\<close>

definition strip_port :: "string \<Rightarrow> string" where
  "strip_port hp =
     (case cut_last CHR '':'' hp of
        None \<Rightarrow> hp
      | Some (h, p) \<Rightarrow> if validOptionalPort (CHR '':'' # p) then h else hp)"

definition Hostname :: "url \<Rightarrow> string" where
  "Hostname u =
     (let h = strip_port (u_Host u)
      in if has_prefix h ''['' \<and> has_suffix h '']'' then butlast (tl h) else h)"

section \<open>What a parsed host says about the text\<close>

text \<open>A decoded host without percent signs and with ASCII characters only was not encoded.\<close>

definition plain_host :: "string \<Rightarrow> bool" where
  "plain_host h \<longleftrightarrow> list_all (\<lambda>c. byte_in 0 0x7F c \<and> c \<noteq> CHR ''%'') h"

lemma hex_pair_25: "hex_pair CHR ''2'' CHR ''5'' = Some 37"
  by (simp add: hex_pair_def hex_val_def)

lemma hex_pair_less: "hex_pair a b = Some v \<Longrightarrow> v < 256"
  by (auto simp: hex_pair_def hex_val_def Let_def split: option.splits if_splits)

lemma url_unescape_plain:
  "url_unescape encodeHost r = Some h \<Longrightarrow> plain_host h \<Longrightarrow> r = h"
proof (induction encodeHost r arbitrary: h rule: url_unescape.induct)
  case 1
  then show ?case by simp
next
  case (2 c s)
  show ?case
  proof (cases "c = CHR ''%''")
    case True
    then obtain a b r where s: "s = a # b # r" using "2.prems"(1) by (auto split: list.splits)
    then obtain v t where v: "hex_pair a b = Some v" and h: "h = char_of v # t"
      and n: "\<not> (v < 128 \<and> [a, b] \<noteq> ''25'')"
      using "2.prems"(1) True by (auto split: option.splits if_splits)
    have "v < 256" using hex_pair_less [OF v] .
    then have of: "of_char (char_of v :: char) = v" by (simp add: of_char_of)
    have "byte_in 0 0x7F (char_of v)" and "char_of v \<noteq> CHR ''%''"
      using "2.prems"(2) h by (simp_all add: plain_host_def)
    moreover have "char_of (37 :: nat) = CHR ''%''" by (simp add: char_of_def bit_iff_odd)
    ultimately have "v < 128" and "v \<noteq> 37"
      using of by (auto simp: byte_in_def)
    moreover have "[a, b] = ''25'' \<Longrightarrow> v = 37" using v hex_pair_25 by simp
    ultimately show ?thesis using n by blast
  next
    case False
    then obtain t where "url_unescape encodeHost s = Some t" and h: "h = c # t"
      using "2.prems"(1) by (auto split: if_splits)
    then have "s = t" using "2.hyps" False "2.prems" by (auto simp: plain_host_def split: if_splits)
    then show ?thesis using h by simp
  qed
qed

lemma find_sub_Some: "find_sub p s = Some i \<Longrightarrow> has_prefix (drop i s) p"
  by (induction p s arbitrary: i rule: find_sub.induct) (auto split: if_splits simp: has_prefix_def)

lemma parseHost_plain:
  assumes "parseHost raw = Some h" and "plain_host h"
  shows "raw = h"
proof -
  have "url_unescape encodeHost raw = Some h"
  proof (rule ccontr)
    assume n: "url_unescape encodeHost raw \<noteq> Some h"
    then obtain before colonPort z h1 h2 h3 where
      "find_sub ''%25'' before = Some z" and h2: "url_unescape encodeZone (drop z before) = Some h2"
      and h: "h = h1 @ h2 @ h3"
      using assms(1) by (auto simp: parseHost_def split: if_splits option.splits prod.splits)
    then have "has_prefix (drop z before) ''%25''" using find_sub_Some by blast
    then obtain s where "drop z before = CHR ''%'' # CHR ''2'' # CHR ''5'' # s"
      by (cases "drop z before"; cases "tl (drop z before)"; cases "tl (tl (drop z before))")
         (auto simp: has_prefix_def)
    then have "CHR ''%'' \<in> set h2"
      using h2 by (auto simp: hex_pair_25 char_of_def bit_iff_odd)
    then show False using assms(2) h by (auto simp: plain_host_def list_all_iff)
  qed
  then show ?thesis using assms(2) by (rule url_unescape_plain)
qed

lemma parseAuthority_host:
  "parseAuthority a = Some (None, h) \<Longrightarrow> plain_host h \<Longrightarrow> a = h"
  using parseHost_plain by (auto simp: parseAuthority_def split: option.splits if_splits)

lemma strip_port_shape:
  "\<exists>port. hp = strip_port hp @ port \<and> validOptionalPort port"
proof (cases "cut_last CHR '':'' hp")
  case None
  then show ?thesis by (auto simp: strip_port_def validOptionalPort_def intro: exI [of _ "[]"])
next
  case (Some hpair)
  then obtain h p where "cut_last CHR '':'' hp = Some (h, p)" by (cases hpair) auto
  then show ?thesis
    using cut_last_Some [of "CHR '':''" hp h p]
    by (auto simp: strip_port_def validOptionalPort_def intro: exI [of _ "[]"])
qed

definition loopback_hosts :: "string list" where
  "loopback_hosts = [''localhost'', ''127.0.0.1'', ''::1'']"

text \<open>A loopback host, in brackets or not, and perhaps a port.\<close>

definition loopback_authority :: "string \<Rightarrow> bool" where
  "loopback_authority a \<longleftrightarrow>
     (\<exists>x \<in> set loopback_hosts. \<exists>port. validOptionalPort port \<and> (a = x @ port \<or> a = CHR ''['' # x @ CHR '']'' # port))"

lemma plain_port: "validOptionalPort p \<Longrightarrow> plain_host p"
  by (cases p) (auto simp: validOptionalPort_def plain_host_def list_all_iff is_digit_def byte_in_def)

lemma Hostname_loopback:
  assumes "Hostname u \<in> set loopback_hosts"
  shows "plain_host (u_Host u) \<and> loopback_authority (u_Host u)"
proof -
  obtain port where port: "u_Host u = strip_port (u_Host u) @ port" "validOptionalPort port"
    using strip_port_shape by blast
  let ?h = "strip_port (u_Host u)"
  have x: "plain_host x" if "x \<in> set loopback_hosts" for x
    using that by (auto simp: loopback_hosts_def plain_host_def byte_in_def)
  have "?h = Hostname u \<or> ?h = CHR ''['' # Hostname u @ '']''"
  proof (cases "has_prefix ?h ''['' \<and> has_suffix ?h '']''")
    case True
    then obtain t where t: "?h = CHR ''['' # t" by (cases ?h) (auto simp: has_prefix_def)
    then have "t \<noteq> [] \<and> last t = CHR '']''"
      using True by (cases t) (auto simp: has_suffix_single split: if_splits)
    then have "t = butlast t @ '']''" by (metis append_butlast_last_id)
    then show ?thesis using True t by (simp add: Hostname_def Let_def)
  next
    case False
    then show ?thesis by (auto simp: Hostname_def Let_def)
  qed
  then have "u_Host u = Hostname u @ port \<or> u_Host u = CHR ''['' # Hostname u @ CHR '']'' # port"
    using port(1) by (metis append.assoc append_Cons append_Nil)
  then show ?thesis
  proof
    assume h: "u_Host u = Hostname u @ port"
    have "plain_host (Hostname u @ port)"
      using x [OF assms] plain_port [OF port(2)] by (simp add: plain_host_def)
    then show ?thesis unfolding h using assms port(2) unfolding loopback_authority_def by blast
  next
    assume h: "u_Host u = CHR ''['' # Hostname u @ CHR '']'' # port"
    have "plain_host (CHR ''['' # Hostname u @ CHR '']'' # port)"
      using x [OF assms] plain_port [OF port(2)] by (simp add: plain_host_def byte_in_def)
    then show ?thesis unfolding h using assms port(2) unfolding loopback_authority_def by blast
  qed
qed

lemma scan_scheme_shape:
  "scan_scheme i raw = Some (Some t) \<Longrightarrow> raw = t @ CHR '':'' # drop (Suc (length t)) raw"
  by (induction i raw arbitrary: t rule: scan_scheme.induct) (auto split: if_splits)

lemma getScheme_shape:
  "getScheme raw = Some (s, r) \<Longrightarrow> s \<noteq> [] \<Longrightarrow> raw = s @ CHR '':'' # r"
  using scan_scheme_shape [of 0 raw] by (auto simp: getScheme_def split: option.splits)

lemma cut_query_shape:
  assumes "cut_query rest = (force, p, q)"
  shows "\<exists>t. rest = p @ t \<and> (t = [] \<or> hd t = CHR ''?'')"
proof (cases "has_suffix rest ''?'' \<and> count_list rest (CHR ''?'') = 1")
  case True
  then have "rest = p @ ''?''"
    using assms append_butlast_last_id [of rest] by (auto simp: cut_query_def has_suffix_single)
  then show ?thesis by (metis list.sel(1))
next
  case False
  then show ?thesis
    using assms cut_at_Some [of "CHR ''?''" rest]
    by (auto simp: cut_query_def split: option.splits)
qed

lemma setPath_frame:
  "setPath p u = Some u' \<Longrightarrow>
   u_Host u' = u_Host u \<and> u_User u' = u_User u \<and> u_Scheme u' = u_Scheme u \<and> u_Opaque u' = u_Opaque u"
  by (auto simp: setPath_def split: option.splits)

text \<open>
  A parsed URL with a host and no user information reads, in its text, as the scheme, the host and then
  a path, a query or the end.
\<close>

definition url_shape :: "string \<Rightarrow> string \<Rightarrow> string \<Rightarrow> bool" where
  "url_shape scheme host raw \<longleftrightarrow>
     (\<exists>s rest. raw = s @ ''://'' @ host @ rest \<and> to_lower s = scheme \<and>
       (rest = [] \<or> hd rest \<in> set ''/?''))"

lemma authority_shape:
  assumes "has_prefix rest ''//''" and "takeWhile (\<lambda>c. c \<noteq> CHR ''/'') (drop 2 rest) = host"
  shows "\<exists>p. rest = ''//'' @ host @ p \<and> (p = [] \<or> hd p = CHR ''/'')"
proof -
  have "rest = ''//'' @ drop 2 rest"
    using assms(1) by (metis append_take_drop_id has_prefix_def length_Cons list.size(3) numeral_2_eq_2)
  moreover have "drop 2 rest = host @ dropWhile (\<lambda>c. c \<noteq> CHR ''/'') (drop 2 rest)"
    using assms(2) takeWhile_dropWhile_id [of "\<lambda>c. c \<noteq> CHR ''/''" "drop 2 rest"] by simp
  moreover have "dropWhile (\<lambda>c. c \<noteq> CHR ''/'') xs = [] \<or> hd (dropWhile (\<lambda>c. c \<noteq> CHR ''/'') xs) = CHR ''/''" for xs
    using hd_dropWhile [of "\<lambda>c. c \<noteq> CHR ''/''" xs] by auto
  ultimately show ?thesis by metis
qed

lemma parse_nofrag_shape:
  assumes "parse_nofrag raw = Some u" and "u_User u = None" and "plain_host (u_Host u)"
    and "u_Host u \<noteq> []" and "u_Scheme u \<noteq> []"
  shows "url_shape (u_Scheme u) (u_Host u) raw"
proof -
  have star: "raw \<noteq> ''*''"
    using assms(1,5) by (auto simp: parse_nofrag_def zero_url_def control_byte_def byte_in_def)
  obtain s rest0 where g: "getScheme raw = Some (s, rest0)"
    using assms(1) star by (auto simp: parse_nofrag_def split: if_splits option.splits)
  obtain force rest q where cq: "cut_query rest0 = (force, rest, q)" by (cases "cut_query rest0")
  let ?u = "zero_url\<lparr>u_Scheme := to_lower s, u_ForceQuery := force, u_RawQuery := q\<rparr>"
  have main: "(has_prefix rest ''//'' \<and> (case parseAuthority (takeWhile (\<lambda>c. c \<noteq> CHR ''/'') (drop 2 rest)) of
      None \<Rightarrow> False | Some (user, host) \<Rightarrow>
        setPath (dropWhile (\<lambda>c. c \<noteq> CHR ''/'') (drop 2 rest)) (?u\<lparr>u_User := user, u_Host := host\<rparr>) = Some u))"
    using assms(1,4) star g cq
    by (auto simp: parse_nofrag_def Let_def zero_url_def split: if_splits option.splits prod.splits
        dest!: setPath_frame)
  then obtain user host where pa: "parseAuthority (takeWhile (\<lambda>c. c \<noteq> CHR ''/'') (drop 2 rest)) = Some (user, host)"
    and sp: "setPath (dropWhile (\<lambda>c. c \<noteq> CHR ''/'') (drop 2 rest)) (?u\<lparr>u_User := user, u_Host := host\<rparr>) = Some u"
    by (auto split: option.splits)
  have f: "u_Host u = host" "user = None" "u_Scheme u = to_lower s"
    using setPath_frame [OF sp] assms(2) by simp_all
  then have "takeWhile (\<lambda>c. c \<noteq> CHR ''/'') (drop 2 rest) = host"
    using pa parseAuthority_host assms(3) by simp
  then obtain p where p: "rest = ''//'' @ host @ p" "p = [] \<or> hd p = CHR ''/''"
    using main authority_shape by blast
  obtain t where t: "rest0 = rest @ t" "t = [] \<or> hd t = CHR ''?''" using cut_query_shape [OF cq] by blast
  have "s \<noteq> []" using assms(5) f(3) by (auto simp: to_lower_def)
  then have "raw = s @ ''://'' @ host @ (p @ t)" using getScheme_shape [OF g] p t by simp
  moreover have "p @ t = [] \<or> hd (p @ t) \<in> set ''/?''" using p(2) t(2) by (cases p) auto
  ultimately show ?thesis using f unfolding url_shape_def by metis
qed

lemma url_Parse_no_fragment: "CHR ''#'' \<notin> set raw \<Longrightarrow> url_Parse raw = parse_nofrag raw"
  by (simp add: url_Parse_def cut_at_None split: option.splits) (metis cut_at_None option.distinct(1))

end
