(* ===== verification/Config.thy ===== *)
theory Config
  imports Config_Types Go_Url
begin

text \<open>
  Loading the configuration (\<open>internal/config\<close>): environment variables are expanded in the text, the
  YAML library parses it, defaults fill what is not set (\<open>defaults.go\<close>), and the result is
  validated (\<open>validate.go\<close>).  The file system and the environment are arguments, YAML is a
  parameter.
\<close>

section \<open>Defaults\<close>

definition or_zero :: "int \<Rightarrow> int \<Rightarrow> int" where "or_zero v d = (if v = 0 then d else v)"
definition or_empty :: "'a list \<Rightarrow> 'a list \<Rightarrow> 'a list" where "or_empty v d = (if v = [] then d else v)"

lemma or_idem [simp]: "or_zero (or_zero v d) d = or_zero v d" "or_empty (or_empty w e) e = or_empty w e"
  by (simp_all add: or_zero_def or_empty_def)

lemma or_nonzero [simp]: "d \<noteq> 0 \<Longrightarrow> or_zero v d \<noteq> 0" "e \<noteq> [] \<Longrightarrow> or_empty w e \<noteq> []"
  by (simp_all add: or_zero_def or_empty_def)

definition DefaultCORSMethods :: "string list" where
  "DefaultCORSMethods = [''GET'', ''POST'', ''DELETE'', ''OPTIONS'']"

definition DefaultCORSHeaders :: "string list" where
  "DefaultCORSHeaders = [''Authorization'', ''Content-Type'', ''Mcp-Session-Id'', ''Accept'']"

definition DefaultOAuthScopes :: "string list" where
  "DefaultOAuthScopes = [''mcp:read'', ''mcp:write'']"

definition DefaultOAuthRedirectURIs :: "string list" where
  "DefaultOAuthRedirectURIs =
     [''https://claude.ai/api/mcp/auth_callback'', ''https://claude.com/api/mcp/auth_callback'']"

definition applyLoginBrandingDefaults :: "builtin_auth_config \<Rightarrow> builtin_auth_config" where
  "applyLoginBrandingDefaults b =
     (let br = (case bic_Branding b of
                  Some br \<Rightarrow> br
                | None \<Rightarrow> \<lparr>lbc_PageTitle = [], lbc_Heading = [], lbc_Subtitle = [], lbc_UsernameLabel = [],
                    lbc_PasswordLabel = [], lbc_ButtonText = [], lbc_FooterText = [], lbc_PrimaryColor = [],
                    lbc_SecondaryColor = []\<rparr>)
      in b\<lparr>bic_Branding := Some
           \<lparr>lbc_PageTitle = or_empty (lbc_PageTitle br) ''Sign In - MCP Bridge'',
            lbc_Heading = or_empty (lbc_Heading br) ''Sign In'',
            lbc_Subtitle = or_empty (lbc_Subtitle br) ''Authorize access to MCP Bridge'',
            lbc_UsernameLabel = or_empty (lbc_UsernameLabel br) ''Username'',
            lbc_PasswordLabel = or_empty (lbc_PasswordLabel br) ''Password'',
            lbc_ButtonText = or_empty (lbc_ButtonText br) ''Sign In'',
            lbc_FooterText = or_empty (lbc_FooterText br) ''Signing in to:'',
            lbc_PrimaryColor = or_empty (lbc_PrimaryColor br) ''#667eea'',
            lbc_SecondaryColor = or_empty (lbc_SecondaryColor br) ''#764ba2''\<rparr>\<rparr>)"

definition applyOAuthServerDefaults :: "oauth_server_config \<Rightarrow> oauth_server_config" where
  "applyOAuthServerDefaults o1 =
     o1\<lparr>osc_Mode := or_empty (osc_Mode o1) ''builtin'',
       osc_TokenLifetime := or_zero (osc_TokenLifetime o1) (60 * minute),
       osc_RefreshTokenLifetime := or_zero (osc_RefreshTokenLifetime o1) (24 * 60 * minute),
       osc_AuthCodeLifetime := or_zero (osc_AuthCodeLifetime o1) (10 * minute),
       osc_ScopesSupported := or_empty (osc_ScopesSupported o1) DefaultOAuthScopes,
       osc_AllowedRedirectURIs := or_empty (osc_AllowedRedirectURIs o1) DefaultOAuthRedirectURIs,
       osc_Signing := map_option (\<lambda>s. s\<lparr>sgc_Algorithm := or_empty (sgc_Algorithm s) ''RS256''\<rparr>) (osc_Signing o1),
       osc_Federated := map_option (\<lambda>f. f\<lparr>fdc_HTTPTimeout := or_zero (fdc_HTTPTimeout f) (30 * second)\<rparr>)
         (osc_Federated o1),
       osc_BuiltIn := map_option applyLoginBrandingDefaults (osc_BuiltIn o1)\<rparr>"

text \<open>\<open>OAuth.HTTPTimeout\<close> of either mode.\<close>

definition auth_defaults :: "auth_config \<Rightarrow> auth_config" where
  "auth_defaults a =
     a\<lparr>auc_OAuth := map_option (\<lambda>o1. o1\<lparr>oac_HTTPTimeout := or_zero (oac_HTTPTimeout o1) (30 * second)\<rparr>) (auc_OAuth a)\<rparr>"

definition tls_defaults :: "tls_config \<Rightarrow> tls_config" where
  "tls_defaults t =
     (if tlc_Enabled t
      then t\<lparr>tlc_MinVersion := or_empty (tlc_MinVersion t) ''1.2'', tlc_ClientAuth := or_empty (tlc_ClientAuth t) ''none''\<rparr>
      else t)"

definition cors_defaults :: "cors_config \<Rightarrow> cors_config" where
  "cors_defaults c =
     (if crc_Enabled c
      then c\<lparr>crc_AllowedMethods := or_empty (crc_AllowedMethods c) DefaultCORSMethods,
             crc_AllowedHeaders := or_empty (crc_AllowedHeaders c) DefaultCORSHeaders,
             crc_MaxAge := or_zero (crc_MaxAge c) 86400\<rparr>
      else c)"

definition applyServerDefaults :: "server_config \<Rightarrow> server_config" where
  "applyServerDefaults s =
     s\<lparr>svc_Listen := or_empty (svc_Listen s) '':8080'',
       svc_ReadTimeout := or_zero (svc_ReadTimeout s) (30 * second),
       svc_WriteTimeout := or_zero (svc_WriteTimeout s) (60 * second),
       svc_IdleTimeout := or_zero (svc_IdleTimeout s) (120 * second),
       svc_SSEKeepaliveInterval := or_zero (svc_SSEKeepaliveInterval s) (30 * second),
       svc_MCPServer := (svc_MCPServer s)
         \<lparr>mcc_ReadTimeout := or_zero (mcc_ReadTimeout (svc_MCPServer s)) (30 * second),
          mcc_GracefulShutdownTimeout := or_zero (mcc_GracefulShutdownTimeout (svc_MCPServer s)) (30 * second),
          mcc_MaxRestarts := or_zero (mcc_MaxRestarts (svc_MCPServer s)) 5,
          mcc_RestartDelay := or_zero (mcc_RestartDelay (svc_MCPServer s)) (5 * second)\<rparr>,
       svc_Session := (svc_Session s)
         \<lparr>sc_Timeout := or_zero (sc_Timeout (svc_Session s)) (30 * minute),
          sc_MaxSessions := or_zero (sc_MaxSessions (svc_Session s)) 100,
          sc_CleanupInterval := or_zero (sc_CleanupInterval (svc_Session s)) (5 * minute)\<rparr>,
       svc_Auth := map_option auth_defaults (svc_Auth s),
       svc_TLS := map_option tls_defaults (svc_TLS s),
       svc_CORS := map_option cors_defaults (svc_CORS s),
       svc_OAuthServer := map_option (\<lambda>o1. if osc_Enabled o1 then applyOAuthServerDefaults o1 else o1) (svc_OAuthServer s)\<rparr>"

text \<open>The multiplier 2.0 as a double, and the test whether a double is zero.\<close>

definition DefaultRetryMultiplier :: float64 where
  "DefaultRetryMultiplier = Float64 False (2 ^ 52) (- 51)"

fun float_is_zero :: "float64 \<Rightarrow> bool" where
  "float_is_zero (Float64 neg m e) = (m = 0)"

definition retry_defaults :: "retry_config \<Rightarrow> retry_config" where
  "retry_defaults r =
     (if rc_Enabled r
      then r\<lparr>rc_MaxRetries := or_zero (rc_MaxRetries r) 3,
             rc_InitialDelay := or_zero (rc_InitialDelay r) (second div 10),
             rc_MaxDelay := or_zero (rc_MaxDelay r) (5 * second),
             rc_Multiplier := (if float_is_zero (rc_Multiplier r) then DefaultRetryMultiplier else rc_Multiplier r)\<rparr>
      else r)"

definition applyClientDefaults :: "client_config \<Rightarrow> client_config" where
  "applyClientDefaults c =
     c\<lparr>cc_Timeout := or_zero (cc_Timeout c) (30 * second),
       cc_MaxIdleConns := or_zero (cc_MaxIdleConns c) 10,
       cc_IdleConnTimeout := or_zero (cc_IdleConnTimeout c) (90 * second),
       cc_Auth := map_option auth_defaults (cc_Auth c),
       cc_Retry := retry_defaults (cc_Retry c)\<rparr>"

definition applyDefaults :: "config \<Rightarrow> config" where
  "applyDefaults cfg =
     cfg\<lparr>cf_Log := \<lparr>lgc_Level = or_empty (lgc_Level (cf_Log cfg)) ''info'',
            lgc_Format = or_empty (lgc_Format (cf_Log cfg)) ''text'',
            lgc_Output = or_empty (lgc_Output (cf_Log cfg)) ''stderr''\<rparr>,
         cf_Server := map_option applyServerDefaults (cf_Server cfg),
         cf_Client := map_option applyClientDefaults (cf_Client cfg)\<rparr>"

section \<open>Validation\<close>

text \<open>An error, perhaps within a part of the configuration (\<open>fmt.Errorf("part: %w", err)\<close>).\<close>

datatype config_error =
    Problem string
  | Within string config_error
  | NotAURL string

definition within :: "string \<Rightarrow> config_error option \<Rightarrow> config_error option" where
  "within part r = map_option (Within part) r"

lemma within_None [simp]: "within part r = None \<longleftrightarrow> r = None"
  by (simp add: within_def)

text \<open>A part that need not be there.\<close>

definition when_set :: "'a option \<Rightarrow> ('a \<Rightarrow> config_error option) \<Rightarrow> config_error option" where
  "when_set x f = (case x of None \<Rightarrow> None | Some a \<Rightarrow> f a)"

text \<open>What validation sees of the system: which files exist, and the environment.\<close>

record sys =
  sys_exists :: "string \<Rightarrow> bool"
  sys_env :: "string \<Rightarrow> string option"

definition sys_getenv :: "sys \<Rightarrow> string \<Rightarrow> string" where
  "sys_getenv sys name = (case sys_env sys name of None \<Rightarrow> [] | Some v \<Rightarrow> v)"

definition no_such_file :: "sys \<Rightarrow> string \<Rightarrow> string \<Rightarrow> config_error option" where
  "no_such_file sys what path = check (\<not> sys_exists sys path) (Problem (what @ '' does not exist: '' @ path))"

definition env_unset :: "sys \<Rightarrow> string \<Rightarrow> string \<Rightarrow> config_error option" where
  "env_unset sys at name =
     check (name \<noteq> [] \<and> sys_getenv sys name = [])
       (Problem (at @ ''environment variable '' @ name @ '' is not set''))"

definition bad_url :: "string \<Rightarrow> string \<Rightarrow> config_error option" where
  "bad_url what u = check (url_Parse u = None) (NotAURL what)"

definition validateTLS :: "sys \<Rightarrow> tls_config \<Rightarrow> config_error option" where
  "validateTLS sys t =
     first_error
      [check (tlc_CertFile t = []) (Problem ''cert_file is required when TLS is enabled''),
       check (tlc_KeyFile t = []) (Problem ''key_file is required when TLS is enabled''),
       no_such_file sys ''cert_file'' (tlc_CertFile t),
       no_such_file sys ''key_file'' (tlc_KeyFile t),
       check (tlc_ClientAuth t \<noteq> [] \<and> tlc_ClientAuth t \<notin> {''none'', ''request'', ''require'', ''verify''})
         (Problem (''invalid client_auth: '' @ tlc_ClientAuth t)),
       check (tlc_MinVersion t \<noteq> [] \<and> tlc_MinVersion t \<notin> {''1.2'', ''1.3''})
         (Problem (''invalid min_version: '' @ tlc_MinVersion t @ '' (must be 1.2 or 1.3)'')),
       check (tlc_MaxVersion t \<noteq> [] \<and> tlc_MaxVersion t \<notin> {''1.2'', ''1.3''})
         (Problem (''invalid max_version: '' @ tlc_MaxVersion t @ '' (must be 1.2 or 1.3)''))]"

definition validateClientTLS :: "sys \<Rightarrow> tls_client_config \<Rightarrow> config_error option" where
  "validateClientTLS sys t =
     first_error
      [check ((tcc_CertFile t \<noteq> [] \<and> tcc_KeyFile t = []) \<or> (tcc_CertFile t = [] \<and> tcc_KeyFile t \<noteq> []))
         (Problem ''both cert_file and key_file must be provided for client certificates''),
       (if tcc_CACert t \<noteq> [] then no_such_file sys ''ca_cert'' (tcc_CACert t) else None),
       (if tcc_CertFile t \<noteq> [] then no_such_file sys ''cert_file'' (tcc_CertFile t) else None),
       (if tcc_KeyFile t \<noteq> [] then no_such_file sys ''key_file'' (tcc_KeyFile t) else None)]"

definition validateBearerAuth :: "sys \<Rightarrow> bearer_auth_config option \<Rightarrow> bool \<Rightarrow> config_error option" where
  "validateBearerAuth sys b isServer =
     (case b of
        None \<Rightarrow> Some (Problem (''bearer configuration is required when type is 'bearer'' @ [CHR 0x27]))
      | Some b \<Rightarrow>
          if isServer then
            check (bac_ValidTokens b = [] \<and> bac_ValidationEndpoint b = [])
              (Problem ''either valid_tokens or validation_endpoint is required for server mode'')
          else first_error
            [check (bac_Token b = [] \<and> bac_TokenEnv b = [])
               (Problem ''either token or token_env is required for client mode''),
             env_unset sys [] (bac_TokenEnv b)])"

definition validateOAuthAuth :: "oauth_auth_config option \<Rightarrow> bool \<Rightarrow> config_error option" where
  "validateOAuthAuth o1 isServer =
     (case o1 of
        None \<Rightarrow> Some (Problem (''oauth configuration is required when type is 'oauth'' @ [CHR 0x27]))
      | Some c \<Rightarrow> first_error
          [check (oac_ClientID c = []) (Problem ''client_id is required''),
           (if isServer then
              check (oac_JWKSURL c = [] \<and> oac_IntrospectionURL c = [] \<and> oac_DiscoveryURL c = [])
                (Problem ''jwks_url, introspection_url, or discovery_url is required for server mode'')
            else
              check (oac_TokenURL c = [] \<and> oac_DiscoveryURL c = [])
                (Problem ''token_url or discovery_url is required for client mode''))])"

definition validateAuth :: "sys \<Rightarrow> auth_config \<Rightarrow> bool \<Rightarrow> config_error option" where
  "validateAuth sys a isServer =
     (if auc_Type a = [] then Some (Problem ''type is required'')
      else if auc_Type a = ''bearer'' then validateBearerAuth sys (auc_Bearer a) isServer
      else if auc_Type a = ''oauth'' then validateOAuthAuth (auc_OAuth a) isServer
      else Some (Problem (''invalid auth type: '' @ auc_Type a @ '' (must be 'bearer' or 'oauth')'')))"

definition validateMCPServer :: "mcp_server_config \<Rightarrow> config_error option" where
  "validateMCPServer m =
     first_error
      [check (mcc_Command m = []) (Problem ''command is required''),
       check (trim_space (mcc_Command m) = []) (Problem ''command cannot be empty or whitespace'')]"

definition validateCORS :: "cors_config \<Rightarrow> config_error option" where
  "validateCORS c =
     first_error
      (check (crc_AllowedOrigins c = []) (Problem ''allowed_origins is required when CORS is enabled'') #
       map (\<lambda>origin. check (origin \<noteq> ''*'' \<and> \<not> has_prefix origin ''http://'' \<and> \<not> has_prefix origin ''https://'')
              (Problem (''invalid origin: '' @ origin @ '' (must be '*' or start with http:// or https://)'')))
         (crc_AllowedOrigins c))"

definition validateSigning :: "sys \<Rightarrow> signing_config \<Rightarrow> config_error option" where
  "validateSigning sys s =
     first_error
      [check (sgc_Algorithm s \<notin> {''RS256'', ''RS384'', ''RS512'', ''ES256'', ''ES384'', ''ES512''})
         (Problem (''invalid algorithm: '' @ sgc_Algorithm s @
            '' (must be RS256, RS384, RS512, ES256, ES384, or ES512)'')),
       check (sgc_KeyFile s = [] \<and> \<not> sgc_GenerateKey s)
         (Problem ''either key_file or generate_key must be specified''),
       (if sgc_KeyFile s \<noteq> [] then no_such_file sys ''key_file'' (sgc_KeyFile s) else None)]"

text \<open>The users, from the \<open>i\<close>-th, with the names seen before it.\<close>

fun check_users :: "sys \<Rightarrow> nat \<Rightarrow> string list \<Rightarrow> user_config list \<Rightarrow> config_error option" where
  "check_users sys i seen [] = None"
| "check_users sys i seen (u # us) =
     (let at = ''users['' @ show_nat i @ '']: '' in
      first_error
       [check (uc_Username u = []) (Problem (at @ ''username is required'')),
        check (uc_Username u \<in> set seen) (Problem (at @ ''duplicate username: '' @ uc_Username u)),
        check (uc_PasswordHash u = [] \<and> uc_PasswordEnv u = [])
          (Problem (at @ ''either password_hash or password_env is required'')),
        env_unset sys at (uc_PasswordEnv u),
        check_users sys (Suc i) (uc_Username u # seen) us])"

text \<open>\<open>^#([0-9a-fA-F]{3}|[0-9a-fA-F]{6}|[0-9a-fA-F]{8})$\<close>\<close>

definition css_color :: "string \<Rightarrow> bool" where
  "css_color v \<longleftrightarrow> v \<noteq> [] \<and> hd v = CHR ''#'' \<and> length (tl v) \<in> {3, 6, 8} \<and>
     list_all (\<lambda>c. is_digit c \<or> c \<in> set ''abcdefABCDEF'') (tl v)"

definition validateCSSColor :: "string \<Rightarrow> string \<Rightarrow> config_error option" where
  "validateCSSColor value fieldName =
     (if value = [] then None
      else check (\<not> css_color value)
        (Problem (fieldName @ '': must be a valid hex color (e.g., #667eea), got: '' @ value)))"

definition validateBuiltInAuth :: "sys \<Rightarrow> builtin_auth_config \<Rightarrow> config_error option" where
  "validateBuiltInAuth sys b =
     first_error
      [check (bic_Users b = []) (Problem ''at least one user is required''),
       check_users sys 0 [] (bic_Users b),
       (if bic_LoginTemplate b \<noteq> [] then no_such_file sys ''login_template'' (bic_LoginTemplate b) else None),
       when_set (bic_Branding b) (\<lambda>br. validateCSSColor (lbc_PrimaryColor br) ''branding.primary_color''),
       when_set (bic_Branding b) (\<lambda>br. validateCSSColor (lbc_SecondaryColor br) ''branding.secondary_color'')]"

definition validateFederatedAuth :: "sys \<Rightarrow> federated_auth_config \<Rightarrow> config_error option" where
  "validateFederatedAuth sys f =
     first_error
      [check (fdc_UpstreamIssuer f = []) (Problem ''upstream_issuer is required''),
       bad_url ''upstream_issuer is not a valid URL'' (fdc_UpstreamIssuer f),
       check (fdc_ClientID f = []) (Problem ''client_id is required''),
       check (fdc_ClientSecret f = [] \<and> fdc_ClientSecretEnv f = [])
         (Problem ''either client_secret or client_secret_env is required''),
       env_unset sys [] (fdc_ClientSecretEnv f)]"

definition validateOAuthServer :: "sys \<Rightarrow> oauth_server_config \<Rightarrow> config_error option" where
  "validateOAuthServer sys o1 =
     first_error
      [check (osc_Issuer o1 = []) (Problem ''issuer is required''),
       bad_url ''issuer is not a valid URL'' (osc_Issuer o1),
       check (osc_Mode o1 \<notin> {''builtin'', ''federated''}) 
         (Problem (''invalid mode: '' @ osc_Mode o1 @ '' (must be 'builtin' or 'federated')'')),
       check (osc_Signing o1 = None) (Problem ''signing configuration is required''),
       when_set (osc_Signing o1) (\<lambda>s. within ''signing'' (validateSigning sys s)),
       (if osc_Mode o1 = ''builtin'' then
          (case osc_BuiltIn o1 of
             None \<Rightarrow> Some (Problem (''builtin configuration is required when mode is 'builtin'' @ [CHR 0x27]))
           | Some b \<Rightarrow> within ''builtin'' (validateBuiltInAuth sys b))
        else
          (case osc_Federated o1 of
             None \<Rightarrow> Some (Problem (''federated configuration is required when mode is 'federated'' @ [CHR 0x27]))
           | Some f \<Rightarrow> within ''federated'' (validateFederatedAuth sys f))),
       first_error (map (\<lambda>uri. bad_url (''invalid redirect URI '' @ uri) uri) (osc_AllowedRedirectURIs o1))]"

definition validateServer :: "sys \<Rightarrow> server_config \<Rightarrow> config_error option" where
  "validateServer sys s =
     first_error
      [check (svc_Listen s = []) (Problem ''server.listen is required''),
       when_set (svc_TLS s) (\<lambda>t. if tlc_Enabled t then within ''server.tls'' (validateTLS sys t) else None),
       when_set (svc_Auth s) (\<lambda>a. within ''server.auth'' (validateAuth sys a True)),
       within ''server.mcp_server'' (validateMCPServer (svc_MCPServer s)),
       when_set (svc_CORS s) (\<lambda>c. if crc_Enabled c then within ''server.cors'' (validateCORS c) else None),
       when_set (svc_OAuthServer s)
         (\<lambda>o1. if osc_Enabled o1 then within ''server.oauth_server'' (validateOAuthServer sys o1) else None)]"

definition validateClient :: "sys \<Rightarrow> client_config \<Rightarrow> config_error option" where
  "validateClient sys c =
     first_error
      [check (cc_URL c = []) (Problem ''client.url is required''),
       bad_url ''client.url is invalid'' (cc_URL c),
       when_set (cc_TLS c) (\<lambda>t. within ''client.tls'' (validateClientTLS sys t)),
       when_set (cc_Auth c) (\<lambda>a. within ''client.auth'' (validateAuth sys a False))]"

definition Validate :: "sys \<Rightarrow> config \<Rightarrow> config_error option" where
  "Validate sys cfg =
     (if cf_Mode cfg = [] then Some (Problem ''mode is required (server or client)'')
      else if cf_Mode cfg = ''server'' then
        (case cf_Server cfg of
           None \<Rightarrow> Some (Problem (''server configuration is required when mode is 'server'' @ [CHR 0x27]))
         | Some s \<Rightarrow> validateServer sys s)
      else if cf_Mode cfg = ''client'' then
        (case cf_Client cfg of
           None \<Rightarrow> Some (Problem (''client configuration is required when mode is 'client'' @ [CHR 0x27]))
         | Some c \<Rightarrow> validateClient sys c)
      else Some (Problem (''invalid mode: '' @ cf_Mode cfg @ '' (must be 'server' or 'client')'')))"

section \<open>Environment variables\<close>

text \<open>
  A match of \<open>\$\{([^}]+)\}|\$([A-Za-z_][A-Za-z0-9_]*)\<close> just behind a dollar sign: the name, the text
  of the match behind the dollar sign, and what follows.
\<close>

definition name_start :: "char \<Rightarrow> bool" where
  "name_start c \<longleftrightarrow> c = CHR ''_'' \<or> of_char c \<in> {65..90 :: nat} \<or> of_char c \<in> {97..122 :: nat}"

definition name_char :: "char \<Rightarrow> bool" where
  "name_char c \<longleftrightarrow> name_start c \<or> is_digit c"

definition env_match :: "string \<Rightarrow> (string \<times> string \<times> string) option" where
  "env_match s =
     (case s of
        [] \<Rightarrow> None
      | c # t \<Rightarrow>
          if c = CHR ''{'' then
            (case cut_at CHR ''}'' t of
               Some (name, rest) \<Rightarrow> if name \<noteq> [] then Some (name, CHR ''{'' # name @ ''}'', rest) else None
             | None \<Rightarrow> None)
          else if name_start c then
            Some (takeWhile name_char s, takeWhile name_char s, dropWhile name_char s)
          else None)"

lemma env_match_shorter: "env_match s = Some (name, text, rest) \<Longrightarrow> length rest \<le> length s"
  by (auto simp: env_match_def length_dropWhile_le le_SucI dest!: cut_at_Some split: list.splits if_splits option.splits)

function expandEnvVars :: "(string \<Rightarrow> string option) \<Rightarrow> string \<Rightarrow> string" where
  "expandEnvVars env [] = []"
| "expandEnvVars env (c # s) =
     (if c \<noteq> CHR ''$'' then c # expandEnvVars env s
      else case env_match s of
        None \<Rightarrow> c # expandEnvVars env s
      | Some (name, text, rest) \<Rightarrow>
          (case env name of Some v \<Rightarrow> v | None \<Rightarrow> c # text) @ expandEnvVars env rest)"
  by pat_completeness auto
termination
  by (relation "measure (\<lambda>(env, s). length s)") (auto dest!: env_match_shorter)

section \<open>Loading\<close>

datatype load_error = ReadingConfig | ParsingConfig | ValidatingConfig config_error

definition Load ::
  "(string \<Rightarrow> string option) \<Rightarrow> (string \<Rightarrow> config option) \<Rightarrow> sys \<Rightarrow> string \<Rightarrow> load_error + config" where
  "Load read yaml sys path =
     (case read path of
        None \<Rightarrow> Inl ReadingConfig
      | Some data \<Rightarrow>
         (case yaml (expandEnvVars (sys_env sys) data) of
            None \<Rightarrow> Inl ParsingConfig
          | Some cfg \<Rightarrow>
             (case Validate sys (applyDefaults cfg) of
                Some e \<Rightarrow> Inl (ValidatingConfig e)
              | None \<Rightarrow> Inr (applyDefaults cfg))))"

text \<open>\<open>FindConfigFile\<close>, with the directory of the executable when it is known.\<close>

definition FindConfigFile :: "(string \<Rightarrow> bool) \<Rightarrow> string option \<Rightarrow> string option" where
  "FindConfigFile stat exeDir =
     (if stat ''/etc/pgedge/config.yaml'' then Some ''/etc/pgedge/config.yaml''
      else case exeDir of
        None \<Rightarrow> None
      | Some dir \<Rightarrow> if stat (dir @ ''/config.yaml'') then Some (dir @ ''/config.yaml'') else None)"

section \<open>What loading promises\<close>

lemma defaults_idempotent:
  "applyLoginBrandingDefaults (applyLoginBrandingDefaults b) = applyLoginBrandingDefaults b"
  "applyOAuthServerDefaults (applyOAuthServerDefaults o1) = applyOAuthServerDefaults o1"
  "auth_defaults (auth_defaults a) = auth_defaults a" "tls_defaults (tls_defaults t) = tls_defaults t"
  "cors_defaults (cors_defaults c) = cors_defaults c" "retry_defaults (retry_defaults r) = retry_defaults r"
proof -
  show b: "applyLoginBrandingDefaults (applyLoginBrandingDefaults b) = applyLoginBrandingDefaults b" for b
    by (simp add: applyLoginBrandingDefaults_def Let_def)
  then show "applyOAuthServerDefaults (applyOAuthServerDefaults o1) = applyOAuthServerDefaults o1"
    by (simp add: applyOAuthServerDefaults_def option.map_comp comp_def)
  show "retry_defaults (retry_defaults r) = retry_defaults r"
    by (simp add: retry_defaults_def DefaultRetryMultiplier_def)
qed (simp_all add: auth_defaults_def tls_defaults_def cors_defaults_def option.map_comp comp_def)

lemma side_defaults_idempotent:
  "applyServerDefaults (applyServerDefaults s) = applyServerDefaults s"
  "applyClientDefaults (applyClientDefaults c) = applyClientDefaults c"
proof -
  have "osc_Enabled (applyOAuthServerDefaults o1) = osc_Enabled o1" for o1
    by (simp add: applyOAuthServerDefaults_def)
  then have "map_option (\<lambda>o1. if osc_Enabled o1 then applyOAuthServerDefaults o1 else o1)
      (map_option (\<lambda>o1. if osc_Enabled o1 then applyOAuthServerDefaults o1 else o1) x) =
    map_option (\<lambda>o1. if osc_Enabled o1 then applyOAuthServerDefaults o1 else o1) x" for x
    by (cases x) (simp_all add: defaults_idempotent)
  then show "applyServerDefaults (applyServerDefaults s) = applyServerDefaults s"
    by (simp add: applyServerDefaults_def option.map_comp comp_def defaults_idempotent)
  show "applyClientDefaults (applyClientDefaults c) = applyClientDefaults c"
    by (simp add: applyClientDefaults_def option.map_comp comp_def defaults_idempotent)
qed

lemma applyDefaults_idempotent: "applyDefaults (applyDefaults cfg) = applyDefaults cfg"
  by (simp add: applyDefaults_def option.map_comp comp_def side_defaults_idempotent)

lemma check_users_ok:
  "check_users sys i seen us = None \<Longrightarrow>
   distinct (map uc_Username us) \<and> set (map uc_Username us) \<inter> set seen = {} \<and>
   list_all (\<lambda>u. uc_Username u \<noteq> [] \<and> (uc_PasswordHash u \<noteq> [] \<or> uc_PasswordEnv u \<noteq> []) \<and>
     (uc_PasswordEnv u \<noteq> [] \<longrightarrow> sys_getenv sys (uc_PasswordEnv u) \<noteq> [])) us"
proof (induction us arbitrary: i seen)
  case Nil
  then show ?case by simp
next
  case (Cons u us)
  then have "check_users sys (Suc i) (uc_Username u # seen) us = None"
    by (simp add: Let_def)
  from Cons.IH [OF this] Cons.prems show ?case
    by (auto simp: Let_def env_unset_def split: if_splits)
qed

text \<open>What a configuration fulfils that \<open>Load\<close> returns.\<close>

definition auth_settled :: "sys \<Rightarrow> bool \<Rightarrow> auth_config \<Rightarrow> bool" where
  "auth_settled sys isServer a \<longleftrightarrow>
     (if auc_Type a = ''bearer''
      then (case auc_Bearer a of
              None \<Rightarrow> False
            | Some b \<Rightarrow> if isServer then bac_ValidTokens b \<noteq> [] \<or> bac_ValidationEndpoint b \<noteq> []
                else bac_Token b \<noteq> [] \<or> sys_getenv sys (bac_TokenEnv b) \<noteq> [])
      else auc_Type a = ''oauth'' \<and> auc_OAuth a \<noteq> None)"

definition users_settled :: "sys \<Rightarrow> user_config list \<Rightarrow> bool" where
  "users_settled sys us \<longleftrightarrow>
     us \<noteq> [] \<and> distinct (map uc_Username us) \<and>
     list_all (\<lambda>u. if uc_PasswordHash u = [] then sys_getenv sys (uc_PasswordEnv u) \<noteq> [] else True) us"

definition oauth_settled :: "sys \<Rightarrow> oauth_server_config \<Rightarrow> bool" where
  "oauth_settled sys o1 \<longleftrightarrow>
     osc_Issuer o1 \<noteq> [] \<and> osc_AllowedRedirectURIs o1 \<noteq> [] \<and> osc_ScopesSupported o1 \<noteq> [] \<and>
     osc_TokenLifetime o1 \<noteq> 0 \<and> osc_AuthCodeLifetime o1 \<noteq> 0 \<and> osc_RefreshTokenLifetime o1 \<noteq> 0 \<and>
     (if osc_Mode o1 = ''builtin''
      then (case osc_BuiltIn o1 of None \<Rightarrow> False | Some b \<Rightarrow> users_settled sys (bic_Users b))
      else osc_Mode o1 = ''federated'' \<and> osc_Federated o1 \<noteq> None)"

definition server_settled :: "sys \<Rightarrow> server_config \<Rightarrow> bool" where
  "server_settled sys s \<longleftrightarrow>
     svc_Listen s \<noteq> [] \<and> trim_space (mcc_Command (svc_MCPServer s)) \<noteq> [] \<and>
     svc_ReadTimeout s \<noteq> 0 \<and> svc_WriteTimeout s \<noteq> 0 \<and> svc_SSEKeepaliveInterval s \<noteq> 0 \<and>
     mcc_ReadTimeout (svc_MCPServer s) \<noteq> 0 \<and> mcc_MaxRestarts (svc_MCPServer s) \<noteq> 0 \<and>
     sc_MaxSessions (svc_Session s) \<noteq> 0 \<and> sc_Timeout (svc_Session s) \<noteq> 0 \<and>
     (case svc_Auth s of None \<Rightarrow> True | Some a \<Rightarrow> auth_settled sys True a) \<and>
     (case svc_OAuthServer s of None \<Rightarrow> True | Some o1 \<Rightarrow> if osc_Enabled o1 then oauth_settled sys o1 else True)"

definition client_settled :: "sys \<Rightarrow> client_config \<Rightarrow> bool" where
  "client_settled sys c \<longleftrightarrow>
     cc_URL c \<noteq> [] \<and> url_Parse (cc_URL c) \<noteq> None \<and> cc_Timeout c \<noteq> 0 \<and>
     (if rc_Enabled (cc_Retry c)
      then rc_MaxRetries (cc_Retry c) \<noteq> 0 \<and> rc_InitialDelay (cc_Retry c) \<noteq> 0 \<and> rc_MaxDelay (cc_Retry c) \<noteq> 0 \<and>
        \<not> float_is_zero (rc_Multiplier (cc_Retry c))
      else True) \<and>
     (case cc_TLS c of None \<Rightarrow> True | Some t \<Rightarrow> (tcc_CertFile t = []) = (tcc_KeyFile t = [])) \<and>
     (case cc_Auth c of None \<Rightarrow> True | Some a \<Rightarrow> auth_settled sys False a)"

lemma validated_auth: "validateAuth sys a isServer = None \<Longrightarrow> auth_settled sys isServer a"
  by (auto simp: validateAuth_def validateBearerAuth_def validateOAuthAuth_def env_unset_def auth_settled_def
      split: if_splits option.splits)

lemma validated_users:
  assumes "validateBuiltInAuth sys b = None"
  shows "users_settled sys (bic_Users b)"
proof -
  have "check_users sys 0 [] (bic_Users b) = None" "bic_Users b \<noteq> []"
    using assms by (auto simp: validateBuiltInAuth_def split: if_splits)
  from check_users_ok [OF this(1)] this(2) show ?thesis by (auto simp: users_settled_def list_all_iff)
qed

lemma validated_oauth_server:
  assumes "validateOAuthServer sys (applyOAuthServerDefaults o1) = None"
  shows "oauth_settled sys (applyOAuthServerDefaults o1)"
proof -
  define o2 where "o2 = applyOAuthServerDefaults o1"
  have d: "osc_AllowedRedirectURIs o2 \<noteq> []" "osc_ScopesSupported o2 \<noteq> []" "osc_TokenLifetime o2 \<noteq> 0"
    "osc_AuthCodeLifetime o2 \<noteq> 0" "osc_RefreshTokenLifetime o2 \<noteq> 0"
    by (simp_all add: o2_def applyOAuthServerDefaults_def DefaultOAuthScopes_def DefaultOAuthRedirectURIs_def
        minute_def)
  have v: "validateOAuthServer sys o2 = None" using assms by (simp add: o2_def)
  then have i: "osc_Issuer o2 \<noteq> []" and m: "osc_Mode o2 = ''builtin'' \<or> osc_Mode o2 = ''federated''"
    by (auto simp: validateOAuthServer_def split: if_splits)
  have "case osc_BuiltIn o2 of None \<Rightarrow> False | Some b \<Rightarrow> users_settled sys (bic_Users b)" if "osc_Mode o2 = ''builtin''"
    using v that validated_users by (cases "osc_BuiltIn o2") (simp_all add: validateOAuthServer_def)
  moreover have "osc_Federated o2 \<noteq> None" if "osc_Mode o2 = ''federated''"
    using v that by (cases "osc_Federated o2") (simp_all add: validateOAuthServer_def)
  ultimately show ?thesis using d i m unfolding o2_def [symmetric] oauth_settled_def by auto
qed

lemma validated_server:
  assumes "validateServer sys (applyServerDefaults s) = None"
  shows "server_settled sys (applyServerDefaults s)"
proof -
  define s' where "s' = applyServerDefaults s"
  have n: "svc_Listen s' \<noteq> []" "svc_ReadTimeout s' \<noteq> 0" "svc_WriteTimeout s' \<noteq> 0" "svc_SSEKeepaliveInterval s' \<noteq> 0"
    "mcc_ReadTimeout (svc_MCPServer s') \<noteq> 0" "mcc_MaxRestarts (svc_MCPServer s') \<noteq> 0"
    "sc_MaxSessions (svc_Session s') \<noteq> 0" "sc_Timeout (svc_Session s') \<noteq> 0"
    by (simp_all add: s'_def applyServerDefaults_def second_def minute_def)
  have v: "validateServer sys s' = None" using assms by (simp add: s'_def)
  then have c: "trim_space (mcc_Command (svc_MCPServer s')) \<noteq> []"
    and a: "\<And>a. svc_Auth s' = Some a \<Longrightarrow> validateAuth sys a True = None"
    and o1: "\<And>o1. svc_OAuthServer s' = Some o1 \<Longrightarrow> osc_Enabled o1 \<Longrightarrow> validateOAuthServer sys o1 = None"
    by (auto simp: validateServer_def validateMCPServer_def when_set_def split: if_splits option.splits)
  have "applyOAuthServerDefaults o2 = o2" if "svc_OAuthServer s' = Some o2" "osc_Enabled o2" for o2
    using that defaults_idempotent(2) by (auto simp: s'_def applyServerDefaults_def split: if_splits)
  then have o2: "oauth_settled sys o2" if "svc_OAuthServer s' = Some o2" "osc_Enabled o2" for o2
    using that o1 validated_oauth_server by metis
  have a2: "case svc_Auth s' of None \<Rightarrow> True | Some a \<Rightarrow> auth_settled sys True a"
    using a validated_auth by (simp split: option.split)
  have o3: "case svc_OAuthServer s' of None \<Rightarrow> True | Some o1 \<Rightarrow> if osc_Enabled o1 then oauth_settled sys o1 else True"
    using o2 by (simp split: option.split)
  show ?thesis
    unfolding server_settled_def s'_def [symmetric] using n c a2 o3 by blast
qed

lemma validated_client:
  assumes "validateClient sys (applyClientDefaults c) = None"
  shows "client_settled sys (applyClientDefaults c)"
proof -
  define c' where "c' = applyClientDefaults c"
  have v: "validateClient sys c' = None" using assms by (simp add: c'_def)
  then have "cc_URL c' \<noteq> []" "url_Parse (cc_URL c') \<noteq> None"
    and a: "\<And>a. cc_Auth c' = Some a \<Longrightarrow> validateAuth sys a False = None"
    and t: "\<And>t. cc_TLS c' = Some t \<Longrightarrow> validateClientTLS sys t = None"
    by (auto simp: validateClient_def bad_url_def when_set_def split: if_splits)
  moreover have "case cc_TLS c' of None \<Rightarrow> True | Some t \<Rightarrow> (tcc_CertFile t = []) = (tcc_KeyFile t = [])"
    using t by (auto simp: validateClientTLS_def split: if_splits option.split)
  moreover have "case cc_Auth c' of None \<Rightarrow> True | Some a \<Rightarrow> auth_settled sys False a"
    using a validated_auth by (simp split: option.split)
  moreover have "cc_Timeout c' \<noteq> 0"
    by (simp add: c'_def applyClientDefaults_def second_def)
  moreover have "if rc_Enabled (cc_Retry c') then rc_MaxRetries (cc_Retry c') \<noteq> 0 \<and> rc_InitialDelay (cc_Retry c') \<noteq> 0 \<and>
        rc_MaxDelay (cc_Retry c') \<noteq> 0 \<and> \<not> float_is_zero (rc_Multiplier (cc_Retry c')) else True"
    by (simp add: c'_def applyClientDefaults_def retry_defaults_def DefaultRetryMultiplier_def second_def)
  ultimately show ?thesis unfolding client_settled_def c'_def [symmetric] by blast
qed

text \<open>
  C34.  What \<open>Load\<close> returns is settled: the part of the mode is there, every setting with a default has a
  value, the listen address and the command (or the server URL) are usable, the configured
  authentication is complete with the environment as it is, and an enabled authorization server has
  its issuer, redirect URIs, scopes, and, in built-in mode, at least one user, with distinct names and
  a password for each; defaults applied to it again change nothing.
\<close>

theorem load_settles:
  assumes "Load read yaml sys path = Inr cfg"
  shows "applyDefaults cfg = cfg \<and>
    (if cf_Mode cfg = ''server'' then (case cf_Server cfg of None \<Rightarrow> False | Some s \<Rightarrow> server_settled sys s)
     else cf_Mode cfg = ''client'' \<and> (case cf_Client cfg of None \<Rightarrow> False | Some c \<Rightarrow> client_settled sys c))"
proof -
  obtain cfg0 where c0: "cfg = applyDefaults cfg0" and v: "Validate sys cfg = None"
    using assms by (auto simp: Load_def split: option.splits)
  have "cf_Server cfg = map_option applyServerDefaults (cf_Server cfg0)"
    "cf_Client cfg = map_option applyClientDefaults (cf_Client cfg0)"
    by (simp_all add: c0 applyDefaults_def)
  then show ?thesis
    using v validated_server [of sys] validated_client [of sys] applyDefaults_idempotent c0
    by (auto simp: Validate_def split: if_splits option.splits)
qed

definition all_there :: sys where
  "all_there = \<lparr>sys_exists = \<lambda>_. True, sys_env = \<lambda>n. if n = ''PW'' then Some ''secret'' else None\<rparr>"

definition bare_retry :: retry_config where
  "bare_retry = \<lparr>rc_Enabled = True, rc_MaxRetries = 0, rc_InitialDelay = 0, rc_MaxDelay = 0, rc_Multiplier = Float64 False 0 (- 1074)\<rparr>"

text \<open>A file with only what must be given.\<close>

definition bare_config :: "string \<Rightarrow> config" where
  "bare_config u =
     \<lparr>cf_Mode = ''client'', cf_Server = None,
      cf_Client = Some \<lparr>cc_URL = u, cc_TLS = None,
        cc_Auth = Some \<lparr>auc_Type = ''bearer'',
          auc_Bearer = Some \<lparr>bac_ValidTokens = [], bac_ValidationEndpoint = [], bac_Token = [], bac_TokenEnv = ''PW''\<rparr>,
          auc_OAuth = None\<rparr>,
        cc_Timeout = 0, cc_MaxIdleConns = 0, cc_IdleConnTimeout = 0, cc_Retry = bare_retry\<rparr>,
      cf_Log = \<lparr>lgc_Level = [], lgc_Format = [], lgc_Output = []\<rparr>\<rparr>"

lemma bare_loads:
  "Load (\<lambda>_. Some ''/$x'') (\<lambda>text. Some (bare_config text)) all_there [] = Inr (applyDefaults (bare_config ''/$x''))"
proof -
  have x: "expandEnvVars (sys_env all_there) ''/$x'' = ''/$x''" by code_simp
  have "url_Parse ''/$x'' \<noteq> None" by code_simp
  then have "Validate all_there (applyDefaults (bare_config ''/$x'')) = None"
    by (simp add: Validate_def validateClient_def applyDefaults_def applyClientDefaults_def bare_config_def bad_url_def
        when_set_def validateAuth_def validateBearerAuth_def env_unset_def sys_getenv_def auth_defaults_def all_there_def)
  then show ?thesis unfolding Load_def by (simp add: x del: expandEnvVars.simps)
qed

theorem load_settles_witness:
  "rc_MaxRetries (cc_Retry (the (cf_Client (applyDefaults (bare_config ''/$x''))))) \<noteq> 0"
  using load_settles [OF bare_loads]
  by (simp add: client_settled_def applyDefaults_def applyClientDefaults_def bare_config_def bare_retry_def retry_defaults_def)

section \<open>Expansion\<close>

text \<open>A text in pieces: characters other than the dollar sign, and variables in braces.\<close>

datatype piece = Verbatim string | Variable string

fun piece_text :: "piece \<Rightarrow> string" where
  "piece_text (Verbatim t) = t"
| "piece_text (Variable n) = ''${'' @ n @ ''}''"

fun piece_value :: "(string \<Rightarrow> string option) \<Rightarrow> piece \<Rightarrow> string" where
  "piece_value env (Verbatim t) = t"
| "piece_value env (Variable n) = (case env n of Some v \<Rightarrow> v | None \<Rightarrow> ''${'' @ n @ ''}'')"

fun piece_ok :: "piece \<Rightarrow> bool" where
  "piece_ok (Verbatim t) = (CHR ''$'' \<notin> set t)"
| "piece_ok (Variable n) = (n \<noteq> [] \<and> CHR ''}'' \<notin> set n)"

lemma expand_verbatim: "CHR ''$'' \<notin> set t \<Longrightarrow> expandEnvVars env (t @ s) = t @ expandEnvVars env s"
  by (induction t) auto

lemma cut_at_append: "c \<notin> set a \<Longrightarrow> cut_at c (a @ c # b) = Some (a, b)"
  by (induction a) auto

lemma expand_variable:
  "n \<noteq> [] \<Longrightarrow> CHR ''}'' \<notin> set n \<Longrightarrow>
   expandEnvVars env (''${'' @ n @ ''}'' @ s) = piece_value env (Variable n) @ expandEnvVars env s"
  by (simp add: env_match_def cut_at_append split: option.split)



end
