(* ===== verification/Pkce.thy ===== *)
theory Pkce
  imports Go_Literals "HOL-Library.Word"
begin

unbundle bit_operations_syntax

text \<open>
  Proof key for code exchange (\<open>internal/authserver/pkce.go\<close>) with what it uses of \<open>crypto/sha256\<close>
  and \<open>encoding/base64\<close>, and the random values of \<open>internal/authserver/jwt.go\<close>.
\<close>

section \<open>SHA-256\<close>

type_synonym w32 = "32 word"

definition rotr :: "nat \<Rightarrow> w32 \<Rightarrow> w32" where
  "rotr n x = drop_bit n x OR push_bit (32 - n) x"

text \<open>
  The constants are the first 32 bits after the point of roots of primes: the cube roots of the first
  64 primes for the rounds, the square roots of the first eight for the initial state.
  \<open>root_bits k n b r\<close> sets the low \<open>b\<close> bits of \<open>r\<close>, the highest first, while the \<open>k\<close>-th power stays
  at most \<open>n\<close>.
\<close>

fun root_bits :: "nat \<Rightarrow> nat \<Rightarrow> nat \<Rightarrow> nat \<Rightarrow> nat" where
  "root_bits k n 0 r = r"
| "root_bits k n (Suc b) r = root_bits k n b (if (r + 2 ^ b) ^ k \<le> n then r + 2 ^ b else r)"

definition root_fraction :: "nat \<Rightarrow> nat \<Rightarrow> w32" where
  "root_fraction k p = of_nat (root_bits k (p * 2 ^ (32 * k)) 37 0)"

definition small_primes :: "nat list" where
  "small_primes = filter (\<lambda>p. list_all (\<lambda>d. p mod d \<noteq> 0) [2..<p]) [2..<312]"

definition sha_K :: "w32 list" where
  "sha_K = map (root_fraction 3) small_primes"

datatype sha_state = Sha w32 w32 w32 w32 w32 w32 w32 w32

definition sha_init :: sha_state where
  "sha_init =
     (let f = root_fraction 2 in Sha (f 2) (f 3) (f 5) (f 7) (f 11) (f 13) (f 17) (f 19))"

text \<open>The message schedule, newest word first.\<close>

definition sched_word :: "w32 list \<Rightarrow> w32" where
  "sched_word ws =
     (let s0 = rotr 7 (ws ! 14) XOR rotr 18 (ws ! 14) XOR drop_bit 3 (ws ! 14);
          s1 = rotr 17 (ws ! 1) XOR rotr 19 (ws ! 1) XOR drop_bit 10 (ws ! 1)
      in ws ! 15 + s0 + ws ! 6 + s1)"

fun sched :: "nat \<Rightarrow> w32 list \<Rightarrow> w32 list" where
  "sched 0 ws = ws"
| "sched (Suc n) ws = sched n (sched_word ws # ws)"

fun sha_round :: "w32 \<times> w32 \<Rightarrow> sha_state \<Rightarrow> sha_state" where
  "sha_round (k, w) (Sha a b c d e f g h) =
     (let s1 = rotr 6 e XOR rotr 11 e XOR rotr 25 e;
          ch = (e AND f) XOR (NOT e AND g);
          t1 = h + s1 + ch + k + w;
          s0 = rotr 2 a XOR rotr 13 a XOR rotr 22 a;
          maj = (a AND b) XOR (a AND c) XOR (b AND c)
      in Sha (t1 + s0 + maj) a b c (d + t1) e f g)"

fun sha_add :: "sha_state \<Rightarrow> sha_state \<Rightarrow> sha_state" where
  "sha_add (Sha a b c d e f g h) (Sha a' b' c' d' e' f' g' h') =
     Sha (a + a') (b + b') (c + c') (d + d') (e + e') (f + f') (g + g') (h + h')"

definition byte_word :: "char \<Rightarrow> w32" where "byte_word c = of_nat (of_char c)"

fun words_of :: "char list \<Rightarrow> w32 list" where
  "words_of (a # b # c # d # s) =
     (push_bit 24 (byte_word a) OR push_bit 16 (byte_word b) OR push_bit 8 (byte_word c) OR byte_word d) # words_of s"
| "words_of _ = []"

definition sha_block :: "char list \<Rightarrow> sha_state \<Rightarrow> sha_state" where
  "sha_block block st = sha_add st (fold sha_round (zip sha_K (rev (sched 48 (rev (words_of block))))) st)"

function sha_blocks :: "char list \<Rightarrow> sha_state \<Rightarrow> sha_state" where
  "sha_blocks s st = (if s = [] then st else sha_blocks (drop 64 s) (sha_block (take 64 s) st))"
  by pat_completeness auto
termination
  by (relation "measure (\<lambda>(s, st). length s)") auto

declare sha_blocks.simps [simp del]

definition be_bytes :: "nat \<Rightarrow> nat \<Rightarrow> char list" where
  "be_bytes k n = map (\<lambda>i. char_of (n div 256 ^ (k - Suc i) mod 256)) [0..<k]"

definition sha_pad :: "char list \<Rightarrow> char list" where
  "sha_pad s = s @ [CHR 0x80] @ replicate ((119 - length s mod 64) mod 64) (CHR 0x00) @ be_bytes 8 (8 * length s)"

fun sha_bytes :: "sha_state \<Rightarrow> char list" where
  "sha_bytes (Sha a b c d e f g h) = concat (map (\<lambda>w. be_bytes 4 (unat w)) [a, b, c, d, e, f, g, h])"

definition sha256 :: "char list \<Rightarrow> char list" where
  "sha256 s = sha_bytes (sha_blocks (sha_pad s) sha_init)"

section \<open>Base64, URL alphabet, unpadded\<close>

definition base64_char :: "nat \<Rightarrow> char" where
  "base64_char n =
     (if n < 26 then char_of (65 + n)
      else if n < 52 then char_of (71 + n)
      else if n < 62 then char_of (n - 4)
      else if n = 62 then CHR ''-'' else CHR ''_'')"

fun encodeBase64URL :: "char list \<Rightarrow> string" where
  "encodeBase64URL [] = []"
| "encodeBase64URL [a] =
     (let x = (of_char a :: nat) in [base64_char (x div 4), base64_char (x mod 4 * 16)])"
| "encodeBase64URL [a, b] =
     (let x = (of_char a :: nat); y = (of_char b :: nat)
      in [base64_char (x div 4), base64_char (x mod 4 * 16 + y div 16), base64_char (y mod 16 * 4)])"
| "encodeBase64URL (a # b # c # s) =
     (let x = (of_char a :: nat); y = (of_char b :: nat); z = (of_char c :: nat)
      in [base64_char (x div 4), base64_char (x mod 4 * 16 + y div 16), base64_char (y mod 16 * 4 + z div 64),
          base64_char (z mod 64)] @ encodeBase64URL s)"

text \<open>
  Decoding takes no padding, passes over line ends, and ignores the bits beyond the last byte.
\<close>

definition base64_val :: "char \<Rightarrow> nat option" where
  "base64_val c =
     (let n = (of_char c :: nat)
      in if 65 \<le> n \<and> n \<le> 90 then Some (n - 65)
         else if 97 \<le> n \<and> n \<le> 122 then Some (n - 71)
         else if 48 \<le> n \<and> n \<le> 57 then Some (n + 4)
         else if c = CHR ''-'' then Some 62 else if c = CHR ''_'' then Some 63 else None)"

fun decode_quanta :: "nat list \<Rightarrow> char list option" where
  "decode_quanta [] = Some []"
| "decode_quanta [x] = None"
| "decode_quanta [x, y] = Some [char_of (4 * x + y div 16)]"
| "decode_quanta [x, y, z] = Some [char_of (4 * x + y div 16), char_of (y mod 16 * 16 + z div 4)]"
| "decode_quanta (x # y # z # w # s) =
     map_option (\<lambda>r. [char_of (4 * x + y div 16), char_of (y mod 16 * 16 + z div 4), char_of (z mod 4 * 64 + w)] @ r)
       (decode_quanta s)"

definition decodeBase64URL :: "string \<Rightarrow> char list option" where
  "decodeBase64URL t =
     (let vs = map base64_val (filter (\<lambda>c. c \<noteq> LF \<and> c \<noteq> CR) t)
      in if None \<in> set vs then None else decode_quanta (map the vs))"

section \<open>PKCE\<close>

definition isUnreservedChar :: "char \<Rightarrow> bool" where
  "isUnreservedChar c \<longleftrightarrow>
     byte_in 65 90 c \<or> byte_in 97 122 c \<or> byte_in 48 57 c \<or>
     c = CHR ''-'' \<or> c = CHR ''.'' \<or> c = CHR ''_'' \<or> c = CHR ''~''"

definition isBase64URLChar :: "char \<Rightarrow> bool" where
  "isBase64URLChar c \<longleftrightarrow>
     byte_in 65 90 c \<or> byte_in 97 122 c \<or> byte_in 48 57 c \<or> c = CHR ''-'' \<or> c = CHR ''_''"

text \<open>
  The loops range over the runes of the string and accept ASCII ones only; a byte beyond ASCII is
  part of a rune they refuse, so ranging over the bytes is the same.
\<close>

definition ValidateCodeVerifier :: "string \<Rightarrow> bool" where
  "ValidateCodeVerifier v \<longleftrightarrow> \<not> (length v < 43 \<or> length v > 128) \<and> list_all isUnreservedChar v"

definition ValidateCodeChallenge :: "string \<Rightarrow> bool" where
  "ValidateCodeChallenge c \<longleftrightarrow> length c = 43 \<and> list_all isBase64URLChar c"

definition ValidateCodeChallengeMethod :: "string \<Rightarrow> bool" where
  "ValidateCodeChallengeMethod m \<longleftrightarrow> m = ''S256''"

definition ValidatePKCE :: "string \<Rightarrow> string \<Rightarrow> string \<Rightarrow> bool" where
  "ValidatePKCE verifier challenge m =
     (if m \<noteq> ''S256'' then False
      else if verifier = [] \<or> challenge = [] then False
      else encodeBase64URL (sha256 verifier) = challenge)"

text \<open>The random values, from the 32 or 16 bytes of the source (\<open>None\<close>, it failed).\<close>

definition GenerateAuthorizationCode :: "char list option \<Rightarrow> string option" where
  "GenerateAuthorizationCode b = map_option encodeBase64URL b"

definition GenerateRefreshToken :: "char list option \<Rightarrow> string option" where
  "GenerateRefreshToken b = map_option encodeBase64URL b"

definition GenerateClientID :: "char list \<Rightarrow> string" where
  "GenerateClientID b = encodeBase64URL b"

definition GenerateClientSecret :: "char list \<Rightarrow> string" where
  "GenerateClientSecret b = encodeBase64URL b"

definition generateJTI :: "char list \<Rightarrow> string" where
  "generateJTI b = encodeBase64URL b"

section \<open>Challenges have the right form\<close>

lemma length_sha256 [simp]: "length (sha256 s) = 32"
proof -
  have "length (sha_bytes st) = 32" for st by (cases st) (simp add: be_bytes_def)
  then show ?thesis by (simp add: sha256_def)
qed

lemma length_encodeBase64URL: "length (encodeBase64URL s) = (4 * length s + 2) div 3"
proof (induction s rule: encodeBase64URL.induct)
  case (4 a b c s)
  have "(4 * length (a # b # c # s) + 2) div 3 = 4 + (4 * length s + 2) div 3" by simp
  then show ?case using 4 by (simp add: Let_def)
qed (simp_all add: Let_def)

lemma base64_char_ok: "n < 64 \<Longrightarrow> isBase64URLChar (base64_char n)"
  by (auto simp: base64_char_def isBase64URLChar_def byte_in_def)

lemma of_char_less [simp]: "(of_char c :: nat) < 256"
  using of_char_mod_256 [of c, where 'a = nat] by (metis mod_less_divisor zero_less_numeral)

lemma base64_parts:
  fixes x y z :: nat
  assumes "x < 256" and "y < 256" and "z < 256"
  shows "x div 4 < 64" "x mod 4 * 16 < 64" "x mod 4 * 16 + y div 16 < 64" "y mod 16 * 4 < 64"
    "y mod 16 * 4 + z div 64 < 64" "z mod 64 < 64"
proof -
  have "x mod 4 \<le> 3" "y mod 16 \<le> 15" by simp_all
  moreover have "y div 16 \<le> 15" "z div 64 \<le> 3" using assms by simp_all
  ultimately show "x mod 4 * 16 < 64" "x mod 4 * 16 + y div 16 < 64" "y mod 16 * 4 < 64"
    "y mod 16 * 4 + z div 64 < 64" by linarith+
  show "x div 4 < 64" "z mod 64 < 64" using assms by simp_all
qed

lemma encodeBase64URL_chars: "list_all isBase64URLChar (encodeBase64URL s)"
proof (induction s rule: encodeBase64URL.induct)
  case (2 a)
  then show ?case using base64_parts [of "of_char a" 0 0] by (simp add: Let_def base64_char_ok)
next
  case (3 a b)
  then show ?case using base64_parts [of "of_char a" "of_char b" 0] by (simp add: Let_def base64_char_ok)
next
  case (4 a b c s)
  then show ?case using base64_parts [of "of_char a" "of_char b" "of_char c"] by (simp add: Let_def base64_char_ok)
qed simp

lemma base64_val_char: "n < 64 \<Longrightarrow> base64_val (base64_char n) = Some n"
proof -
  have "list_all (\<lambda>n. base64_val (base64_char n) = Some n) [0..<64]"
    by (simp add: upt_rec base64_val_def base64_char_def Let_def char_of_def bit_iff_odd)
  then show "n < 64 \<Longrightarrow> base64_val (base64_char n) = Some n" by (simp add: list_all_iff)
qed

text \<open>Six bits apiece, and back.\<close>

fun sextets :: "char list \<Rightarrow> nat list" where
  "sextets [] = []"
| "sextets [a] = (let x = (of_char a :: nat) in [x div 4, x mod 4 * 16])"
| "sextets [a, b] =
     (let x = (of_char a :: nat); y = (of_char b :: nat) in [x div 4, x mod 4 * 16 + y div 16, y mod 16 * 4])"
| "sextets (a # b # c # s) =
     (let x = (of_char a :: nat); y = (of_char b :: nat); z = (of_char c :: nat)
      in [x div 4, x mod 4 * 16 + y div 16, y mod 16 * 4 + z div 64, z mod 64] @ sextets s)"

lemma encodeBase64URL_sextets: "encodeBase64URL s = map base64_char (sextets s)"
  by (induction s rule: encodeBase64URL.induct) (simp_all add: Let_def)

lemma sextets_less: "list_all (\<lambda>n. n < 64) (sextets s)"
proof (induction s rule: sextets.induct)
  case (2 a)
  then show ?case using base64_parts [of "of_char a" 0 0] by (simp add: Let_def)
next
  case (3 a b)
  then show ?case using base64_parts [of "of_char a" "of_char b" 0] by (simp add: Let_def)
next
  case (4 a b c s)
  then show ?case using base64_parts [of "of_char a" "of_char b" "of_char c"] by (simp add: Let_def)
qed simp

lemma sextet_parts:
  fixes x y z :: nat
  assumes "x < 256" and "y < 256" and "z < 256"
  shows "4 * (x div 4) + x mod 4 * 16 div 16 = x"
    and "4 * (x div 4) + (x mod 4 * 16 + y div 16) div 16 = x"
    and "(x mod 4 * 16 + y div 16) mod 16 * 16 + y mod 16 * 4 div 4 = y"
    and "(x mod 4 * 16 + y div 16) mod 16 * 16 + (y mod 16 * 4 + z div 64) div 4 = y"
    and "(y mod 16 * 4 + z div 64) mod 4 * 64 + z mod 64 = z"
proof -
  have "y div 16 < 16" and "z div 64 < 4" using assms by simp_all
  then have "(x mod 4 * 16 + y div 16) div 16 = x mod 4" and "(x mod 4 * 16 + y div 16) mod 16 = y div 16"
    and "(y mod 16 * 4 + z div 64) div 4 = y mod 16" and "(y mod 16 * 4 + z div 64) mod 4 = z div 64"
    by simp_all
  then show "4 * (x div 4) + x mod 4 * 16 div 16 = x"
    and "4 * (x div 4) + (x mod 4 * 16 + y div 16) div 16 = x"
    and "(x mod 4 * 16 + y div 16) mod 16 * 16 + y mod 16 * 4 div 4 = y"
    and "(x mod 4 * 16 + y div 16) mod 16 * 16 + (y mod 16 * 4 + z div 64) div 4 = y"
    and "(y mod 16 * 4 + z div 64) mod 4 * 64 + z mod 64 = z"
    by simp_all
qed

lemma decode_sextets: "decode_quanta (sextets s) = Some s"
proof (induction s rule: sextets.induct)
  case (2 a)
  then show ?case using sextet_parts [of "of_char a" 0 0] by (simp add: Let_def)
next
  case (3 a b)
  then show ?case using sextet_parts [of "of_char a" "of_char b" 0] by (simp add: Let_def)
next
  case (4 a b c s)
  then show ?case using sextet_parts [of "of_char a" "of_char b" "of_char c"] by (simp add: Let_def)
qed simp

lemma decode_encodeBase64URL: "decodeBase64URL (encodeBase64URL s) = Some s"
proof -
  have "c \<noteq> LF \<and> c \<noteq> CR" if "c \<in> set (encodeBase64URL s)" for c
    using encodeBase64URL_chars [of s] that by (auto simp: list_all_iff isBase64URLChar_def byte_in_def)
  then have "filter (\<lambda>c. c \<noteq> LF \<and> c \<noteq> CR) (encodeBase64URL s) = encodeBase64URL s" by simp
  moreover have "map base64_val (encodeBase64URL s) = map Some (sextets s)"
    using sextets_less [of s] by (simp add: encodeBase64URL_sextets list_all_iff base64_val_char)
  ultimately show ?thesis
    by (simp add: decodeBase64URL_def Let_def decode_sextets comp_def image_iff)
qed

lemma encodeBase64URL_inject [simp]: "encodeBase64URL s = encodeBase64URL t \<longleftrightarrow> s = t"
  using decode_encodeBase64URL by (metis option.inject)

lemma encodeBase64URL_sha256_not_Nil [simp]: "encodeBase64URL (sha256 v) \<noteq> []"
proof
  assume "encodeBase64URL (sha256 v) = []"
  then have "length (encodeBase64URL (sha256 v)) = 0" by simp
  then show False by (simp add: length_encodeBase64URL)
qed

lemma ValidatePKCE_challenge [simp]:
  "ValidatePKCE v (encodeBase64URL (sha256 v)) ''S256'' \<longleftrightarrow> v \<noteq> []"
  by (simp add: ValidatePKCE_def)

lemma ValidateCodeChallenge_sha256 [simp]: "ValidateCodeChallenge (encodeBase64URL (sha256 v))"
  by (simp add: ValidateCodeChallenge_def length_encodeBase64URL encodeBase64URL_chars)

text \<open>
  C18.  The validators of PKCE agree with what they validate.  The challenge computed from any
  verifier the server accepts passes the server's own check of challenges and is then verified, and
  whatever the server verifies was a well-formed challenge under the only supported method, equal to
  the encoded hash of the verifier.
\<close>

theorem pkce_agrees:
  "(let c = encodeBase64URL (sha256 v) in
      ValidateCodeChallenge c \<and> (ValidateCodeVerifier v \<longrightarrow> ValidatePKCE v c ''S256'')) \<and>
   (ValidatePKCE v c m \<longrightarrow>
      ValidateCodeChallenge c \<and> ValidateCodeChallengeMethod m \<and> c = encodeBase64URL (sha256 v))"
proof -
  have c: "ValidateCodeChallenge (encodeBase64URL (sha256 v))"
    by (simp add: ValidateCodeChallenge_def length_encodeBase64URL encodeBase64URL_chars)
  then have "encodeBase64URL (sha256 v) \<noteq> []" by (auto simp: ValidateCodeChallenge_def)
  then show ?thesis using c
    by (auto simp: ValidatePKCE_def ValidateCodeChallengeMethod_def Let_def ValidateCodeVerifier_def split: if_splits)
qed

theorem pkce_agrees_witness:
  "ValidatePKCE (replicate 43 (CHR ''a'')) (encodeBase64URL (sha256 (replicate 43 (CHR ''a'')))) ''S256''"
proof -
  have "ValidateCodeVerifier (replicate 43 (CHR ''a''))"
    by (simp add: ValidateCodeVerifier_def list_all_iff isUnreservedChar_def byte_in_def)
  then show ?thesis using pkce_agrees [of "replicate 43 (CHR ''a'')"] by (simp add: Let_def)
qed

end
