(* ===== verification/Auth_Requests.thy ===== *)
theory Auth_Requests
  imports Config Jsonrpc Pkce
begin

text \<open>
  Authentication of requests (\<open>internal/auth\<close>): the errors and principals, the bearer and OAuth
  authenticators of both modes, and the middleware of the server.  The HTTP calls they make, the
  verifier of signed tokens and the token source of the OAuth library are parameters.
\<close>

section \<open>Errors and principals\<close>

datatype sentinel =
    ErrUnauthorized
  | ErrForbidden
  | ErrTokenExpired
  | ErrInvalidToken
  | ErrMissingCredentials
  | ErrInvalidConfiguration
  | ErrTokenRefreshFailed

text \<open>
  A sentinel, an \<open>AuthError\<close> (error, message, realm, scheme), an error wrapped with a text before or after
  it, any other.
\<close>

datatype auth_err =
    Sentinel sentinel
  | AuthError auth_err string string string
  | Wrapping string auth_err
  | Noting auth_err string
  | OtherError string

fun sentinel_text :: "sentinel \<Rightarrow> string" where
  "sentinel_text ErrUnauthorized = ''unauthorized: authentication required''"
| "sentinel_text ErrForbidden = ''forbidden: insufficient permissions''"
| "sentinel_text ErrTokenExpired = ''token expired''"
| "sentinel_text ErrInvalidToken = ''invalid token''"
| "sentinel_text ErrMissingCredentials = ''missing credentials''"
| "sentinel_text ErrInvalidConfiguration = ''invalid authentication configuration''"
| "sentinel_text ErrTokenRefreshFailed = ''token refresh failed''"

fun AuthError_Error :: "auth_err \<Rightarrow> string" where
  "AuthError_Error (Sentinel s) = sentinel_text s"
| "AuthError_Error (AuthError e msg realm scheme) =
     (if msg \<noteq> [] then msg @ '': '' @ AuthError_Error e else AuthError_Error e)"
| "AuthError_Error (Wrapping what e) = what @ '': '' @ AuthError_Error e"
| "AuthError_Error (Noting e what) = AuthError_Error e @ '': '' @ what"
| "AuthError_Error (OtherError t) = t"

text \<open>\<open>errors.Is\<close> for the sentinels, \<open>errors.As\<close> for \<open>*AuthError\<close>.\<close>

fun errors_Is :: "auth_err \<Rightarrow> sentinel \<Rightarrow> bool" where
  "errors_Is (Sentinel s) t = (s = t)"
| "errors_Is (AuthError e _ _ _) t = errors_Is e t"
| "errors_Is (Wrapping _ e) t = errors_Is e t"
| "errors_Is (Noting e _) t = errors_Is e t"
| "errors_Is (OtherError _) t = False"

fun as_AuthError :: "auth_err \<Rightarrow> (auth_err \<times> string \<times> string) option" where
  "as_AuthError (AuthError e msg realm scheme) = Some (e, realm, scheme)"
| "as_AuthError (Wrapping _ e) = as_AuthError e"
| "as_AuthError (Noting e _) = as_AuthError e"
| "as_AuthError _ = None"

definition NewAuthError :: "sentinel \<Rightarrow> string \<Rightarrow> string \<Rightarrow> string \<Rightarrow> auth_err" where
  "NewAuthError s msg realm scheme = AuthError (Sentinel s) msg realm scheme"

definition IsAuthError :: "auth_err \<Rightarrow> bool" where
  "IsAuthError e \<longleftrightarrow> as_AuthError e \<noteq> None"

definition WWWAuthenticate :: "string \<Rightarrow> string \<Rightarrow> string" where
  "WWWAuthenticate realm scheme =
     (let scheme = (if scheme = [] then ''Bearer'' else scheme)
      in if realm \<noteq> [] then scheme @ '' realm='' @ [CHR 0x22] @ realm @ [CHR 0x22] else scheme)"

definition bearer_error :: "sentinel \<Rightarrow> string \<Rightarrow> auth_err" where
  "bearer_error s msg = NewAuthError s msg ''MCP Bridge'' ''Bearer''"

datatype principal_type = PrincipalTypeUser | PrincipalTypeService | PrincipalTypeToken

text \<open>The claims are the members of a JSON object, of which the last of a name counts.\<close>

record principal =
  pr_ID :: string
  pr_Type :: principal_type
  pr_Claims :: "(string \<times> json) list"
  pr_Scopes :: "string list"
  pr_Metadata :: "(string, string) fmap"

definition HasScope :: "principal \<Rightarrow> string \<Rightarrow> bool" where
  "HasScope p scope \<longleftrightarrow> scope \<in> set (pr_Scopes p)"

definition HasAnyScope :: "principal \<Rightarrow> string list \<Rightarrow> bool" where
  "HasAnyScope p scopes \<longleftrightarrow> list_ex (HasScope p) scopes"

definition HasAllScopes :: "principal \<Rightarrow> string list \<Rightarrow> bool" where
  "HasAllScopes p scopes \<longleftrightarrow> list_all (HasScope p) scopes"

definition GetClaim :: "principal \<Rightarrow> string \<Rightarrow> json option" where
  "GetClaim p key = map_of (rev (map (\<lambda>(k, v). (unquote k, v)) (pr_Claims p))) key"

definition GetStringClaim :: "principal \<Rightarrow> string \<Rightarrow> string" where
  "GetStringClaim p key = (case GetClaim p key of Some (JStr t) \<Rightarrow> unquote t | _ \<Rightarrow> [])"

definition anonymous :: principal where
  "anonymous = \<lparr>pr_ID = ''anonymous'', pr_Type = PrincipalTypeUser, pr_Claims = [], pr_Scopes = [], pr_Metadata = fmempty\<rparr>"

section \<open>Calls to other servers\<close>

text \<open>What a call meets: no answer, or a status and the body, \<open>None\<close> when reading it fails.\<close>

datatype call_outcome = NoReply | Reply int "string option"

definition body_1MB :: "string \<Rightarrow> string" where "body_1MB b = take (2 ^ 20) b"

text \<open>Numbers that fit a double, as decoding into an \<open>interface{}\<close> demands.\<close>

fun any_ok :: "json \<Rightarrow> bool" where
  "any_ok (JNum n) = (parse_float n \<noteq> None)"
| "any_ok (JArr vs) = list_all any_ok vs"
| "any_ok (JObj ms) = list_all (\<lambda>(k, v). any_ok v) ms"
| "any_ok _ = True"

text \<open>Into a map of strings to anything: \<open>null\<close> is the nil map, members are added to the map there is.\<close>

fun decode_claims :: "json \<Rightarrow> (string \<times> json) list option \<Rightarrow> (string \<times> json) list option option" where
  "decode_claims JNull old = Some None"
| "decode_claims (JObj ms) old =
     (if any_ok (JObj ms) then Some (Some ((case old of None \<Rightarrow> [] | Some o1 \<Rightarrow> o1) @ ms)) else None)"
| "decode_claims _ old = None"

fun decode_text_map ::
  "json \<Rightarrow> (string, string) fmap option \<Rightarrow> (string, string) fmap option option" where
  "decode_text_map JNull old = Some None"
| "decode_text_map (JObj ms) old =
     map_option Some (decode_members (\<lambda>k v m. map_option (\<lambda>s. fmupd (unquote k) s m) (decode_string v [])) ms
       (case old of None \<Rightarrow> fmempty | Some m \<Rightarrow> m))"
| "decode_text_map _ old = None"

section \<open>Bearer tokens\<close>

record bearer_auth =
  ba_isServer :: bool
  ba_validTokens :: "string list"
  ba_validationEndpoint :: string
  ba_token :: string
  ba_tokenEnv :: string

definition NewBearerAuthenticator ::
  "(string \<Rightarrow> string) \<Rightarrow> bearer_auth_config option \<Rightarrow> bool \<Rightarrow> auth_err + bearer_auth" where
  "NewBearerAuthenticator getenv cfg isServer =
     (case cfg of
        None \<Rightarrow> Inl (Noting (Sentinel ErrInvalidConfiguration) ''bearer config is nil'')
      | Some c \<Rightarrow>
          let ba = \<lparr>ba_isServer = isServer, ba_validTokens = [], ba_validationEndpoint = bac_ValidationEndpoint c,
                ba_token = [], ba_tokenEnv = bac_TokenEnv c\<rparr>
          in if isServer then
               (if bac_ValidTokens c = [] \<and> bac_ValidationEndpoint c = []
                then Inl (Noting (Sentinel ErrInvalidConfiguration) ''server mode requires valid_tokens or validation_endpoint'')
                else Inr (ba\<lparr>ba_validTokens := bac_ValidTokens c\<rparr>))
             else
               let token = (if bac_TokenEnv c \<noteq> [] \<and> getenv (bac_TokenEnv c) \<noteq> [] then getenv (bac_TokenEnv c) else bac_Token c)
               in if token = []
                  then Inl (Noting (Sentinel ErrInvalidConfiguration) ''client mode requires token or token_env'')
                  else Inr (ba\<lparr>ba_token := token\<rparr>))"

text \<open>The token of an \<open>Authorization\<close> header.\<close>

definition extractBearerToken :: "string \<Rightarrow> auth_err + string" where
  "extractBearerToken authHeader =
     (if authHeader = [] then Inl (bearer_error ErrMissingCredentials ''missing Authorization header'')
      else if length authHeader < 7 then Inl (bearer_error ErrInvalidToken ''invalid Authorization header format'')
      else if to_lower (take 7 authHeader) \<noteq> ''bearer '' then
        Inl (bearer_error ErrInvalidToken ''expected Bearer authentication scheme'')
      else if trim_space (drop 7 authHeader) = [] then Inl (bearer_error ErrMissingCredentials ''empty bearer token'')
      else Inr (trim_space (drop 7 authHeader)))"

definition validateTokenLocally :: "string \<Rightarrow> string list \<Rightarrow> bool" where
  "validateTokenLocally token tokens \<longleftrightarrow> list_ex (\<lambda>t. token = t) tokens"

record validation_report =
  vr_Valid :: bool
  vr_Subject :: string
  vr_Scopes :: "string list"
  vr_Claims :: "(string \<times> json) list option"
  vr_Metadata :: "(string, string) fmap option"

definition validation_field :: "string \<Rightarrow> json \<Rightarrow> validation_report \<Rightarrow> validation_report option" where
  "validation_field k v r =
     (if key_is k ''valid'' then map_option (\<lambda>b. r\<lparr>vr_Valid := b\<rparr>) (decode_bool v (vr_Valid r))
      else if key_is k ''subject'' then map_option (\<lambda>s. r\<lparr>vr_Subject := s\<rparr>) (decode_string v (vr_Subject r))
      else if key_is k ''scopes'' then map_option (\<lambda>s. r\<lparr>vr_Scopes := s\<rparr>) (decode_string_slice v (vr_Scopes r))
      else if key_is k ''claims'' then map_option (\<lambda>c. r\<lparr>vr_Claims := c\<rparr>) (decode_claims v (vr_Claims r))
      else if key_is k ''metadata'' then map_option (\<lambda>m. r\<lparr>vr_Metadata := m\<rparr>) (decode_text_map v (vr_Metadata r))
      else Some r)"

definition parse_validation :: "string \<Rightarrow> validation_report option" where
  "parse_validation body =
     unmarshal validation_field
       \<lparr>vr_Valid = False, vr_Subject = [], vr_Scopes = [], vr_Claims = None, vr_Metadata = None\<rparr> body"

definition createPrincipal :: "validation_report option \<Rightarrow> principal" where
  "createPrincipal report =
     (let p = \<lparr>pr_ID = ''token'', pr_Type = PrincipalTypeToken, pr_Claims = [], pr_Scopes = [], pr_Metadata = fmempty\<rparr>
      in case report of
           None \<Rightarrow> p
         | Some r \<Rightarrow>
             \<lparr>pr_ID = (if vr_Subject r \<noteq> [] then vr_Subject r else pr_ID p),
              pr_Type = (if vr_Subject r \<noteq> [] then PrincipalTypeService else pr_Type p),
              pr_Claims = (case vr_Claims r of None \<Rightarrow> pr_Claims p | Some c \<Rightarrow> c),
              pr_Scopes = (if vr_Scopes r \<noteq> [] then vr_Scopes r else pr_Scopes p),
              pr_Metadata = (case vr_Metadata r of None \<Rightarrow> pr_Metadata p | Some m \<Rightarrow> m)\<rparr>)"

text \<open>\<open>endpoint\<close>: what the call with a token to the validation endpoint meets.\<close>

definition validateTokenRemotely :: "(string \<Rightarrow> call_outcome) \<Rightarrow> string \<Rightarrow> auth_err + principal" where
  "validateTokenRemotely endpoint token =
     (case endpoint token of
        NoReply \<Rightarrow> Inl (OtherError ''calling validation endpoint'')
      | Reply status None \<Rightarrow> Inl (OtherError ''reading validation response'')
      | Reply status (Some body) \<Rightarrow>
          if status = 401 \<or> status = 403 then Inl (bearer_error ErrInvalidToken ''token validation failed'')
          else if status \<noteq> 200 then Inl (OtherError (''validation endpoint returned status '' @ show_int status))
          else case parse_validation (body_1MB body) of
            None \<Rightarrow> Inl (OtherError ''parsing validation response'')
          | Some r \<Rightarrow>
              if \<not> vr_Valid r then Inl (bearer_error ErrInvalidToken ''token validation failed'')
              else Inr (createPrincipal (Some r)))"

definition bearer_Validate :: "(string \<Rightarrow> call_outcome) \<Rightarrow> bearer_auth \<Rightarrow> string \<Rightarrow> auth_err + principal" where
  "bearer_Validate endpoint ba authHeader =
     (if \<not> ba_isServer ba then Inl (OtherError ''Validate called on client-mode authenticator'')
      else case extractBearerToken authHeader of
        Inl e \<Rightarrow> Inl e
      | Inr token \<Rightarrow>
          if ba_validTokens ba \<noteq> [] \<and> validateTokenLocally token (ba_validTokens ba) then Inr (createPrincipal None)
          else if ba_validationEndpoint ba \<noteq> [] then validateTokenRemotely endpoint token
          else Inl (bearer_error ErrInvalidToken ''token not recognized''))"

text \<open>The header an outgoing request gets.\<close>

definition bearer_Authenticate :: "bearer_auth \<Rightarrow> auth_err + string" where
  "bearer_Authenticate ba =
     (if ba_isServer ba then Inl (OtherError ''Authenticate called on server-mode authenticator'')
      else if ba_token ba = [] then Inl (Sentinel ErrMissingCredentials)
      else Inr (''Bearer '' @ ba_token ba))"

definition bearer_Refresh :: "(string \<Rightarrow> string) \<Rightarrow> bearer_auth \<Rightarrow> auth_err option \<times> bearer_auth" where
  "bearer_Refresh getenv ba =
     (if ba_isServer ba \<or> ba_tokenEnv ba = [] then (None, ba)
      else if getenv (ba_tokenEnv ba) = [] then (Some (Sentinel ErrTokenRefreshFailed), ba)
      else (None, ba\<lparr>ba_token := getenv (ba_tokenEnv ba)\<rparr>))"

definition UpdateValidTokens :: "string list \<Rightarrow> bearer_auth \<Rightarrow> bearer_auth" where
  "UpdateValidTokens tokens ba = (if ba_isServer ba then ba\<lparr>ba_validTokens := tokens\<rparr> else ba)"

definition SetToken :: "string \<Rightarrow> bearer_auth \<Rightarrow> bearer_auth" where
  "SetToken token ba = (if ba_isServer ba then ba else ba\<lparr>ba_token := token\<rparr>)"

section \<open>OAuth\<close>

text \<open>A token of the OAuth library; without an expiry it does not expire.\<close>

record oauth_token =
  ot_AccessToken :: string
  ot_TokenType :: string
  ot_RefreshToken :: string
  ot_Expiry :: "instant option"

record oauth_auth =
  oa_isServer :: bool
  oa_config :: oauth_auth_config
  oa_httpTimeout :: duration
  oa_has_verifier :: bool
  oa_tokenURL :: string
  oa_currentToken :: "oauth_token option"
  oa_pkceVerifier :: string

record oauth_discovery =
  od_Issuer :: string
  od_AuthorizationEndpoint :: string
  od_TokenEndpoint :: string
  od_JWKSURI :: string
  od_IntrospectionEndpoint :: string
  od_UserinfoEndpoint :: string

definition discovery_field :: "string \<Rightarrow> json \<Rightarrow> oauth_discovery \<Rightarrow> oauth_discovery option" where
  "discovery_field k v d =
     (if key_is k ''issuer'' then map_option (\<lambda>s. d\<lparr>od_Issuer := s\<rparr>) (decode_string v (od_Issuer d))
      else if key_is k ''authorization_endpoint'' then
        map_option (\<lambda>s. d\<lparr>od_AuthorizationEndpoint := s\<rparr>) (decode_string v (od_AuthorizationEndpoint d))
      else if key_is k ''token_endpoint'' then
        map_option (\<lambda>s. d\<lparr>od_TokenEndpoint := s\<rparr>) (decode_string v (od_TokenEndpoint d))
      else if key_is k ''jwks_uri'' then map_option (\<lambda>s. d\<lparr>od_JWKSURI := s\<rparr>) (decode_string v (od_JWKSURI d))
      else if key_is k ''introspection_endpoint'' then
        map_option (\<lambda>s. d\<lparr>od_IntrospectionEndpoint := s\<rparr>) (decode_string v (od_IntrospectionEndpoint d))
      else if key_is k ''userinfo_endpoint'' then
        map_option (\<lambda>s. d\<lparr>od_UserinfoEndpoint := s\<rparr>) (decode_string v (od_UserinfoEndpoint d))
      else Some d)"

text \<open>The address the document is fetched from, and the fetching; \<open>get\<close> is the call.\<close>

definition discovery_address :: "string \<Rightarrow> string" where
  "discovery_address u =
     (if \<not> has_suffix u ''/.well-known/openid-configuration'' \<and>
         \<not> has_suffix u ''/.well-known/oauth-authorization-server''
      then trim_suffix u ''/'' @ ''/.well-known/openid-configuration''
      else u)"

definition fetchDiscovery :: "(string \<Rightarrow> call_outcome) \<Rightarrow> string \<Rightarrow> auth_err + oauth_discovery" where
  "fetchDiscovery get u =
     (case get (discovery_address u) of
        NoReply \<Rightarrow> Inl (OtherError ''fetching discovery document'')
      | Reply status body \<Rightarrow>
          if status \<noteq> 200 then Inl (OtherError (''discovery endpoint returned status '' @ show_int status))
          else case body of
            None \<Rightarrow> Inl (OtherError ''reading discovery document'')
          | Some b \<Rightarrow>
             (case unmarshal discovery_field
                 \<lparr>od_Issuer = [], od_AuthorizationEndpoint = [], od_TokenEndpoint = [], od_JWKSURI = [],
                  od_IntrospectionEndpoint = [], od_UserinfoEndpoint = []\<rparr> (body_1MB b) of
                None \<Rightarrow> Inl (OtherError ''parsing discovery document'')
              | Some d \<Rightarrow> Inr d))"

definition new_oauth_auth :: "bool \<Rightarrow> oauth_auth_config \<Rightarrow> oauth_auth" where
  "new_oauth_auth isServer c =
     \<lparr>oa_isServer = isServer, oa_config = c, oa_httpTimeout = or_zero (oac_HTTPTimeout c) (30 * second),
      oa_has_verifier = False, oa_tokenURL = [], oa_currentToken = None, oa_pkceVerifier = []\<rparr>"

text \<open>\<open>provider\<close>: whether the OIDC library finds its provider at a discovery address.\<close>

definition setupServerMode :: "(string \<Rightarrow> bool) \<Rightarrow> oauth_auth \<Rightarrow> auth_err + oauth_auth" where
  "setupServerMode provider oa =
     (if oac_DiscoveryURL (oa_config oa) \<noteq> [] then
        (if provider (oac_DiscoveryURL (oa_config oa)) then Inr (oa\<lparr>oa_has_verifier := True\<rparr>)
         else Inl (OtherError ''creating OIDC provider''))
      else if oac_JWKSURL (oa_config oa) \<noteq> [] then Inr (oa\<lparr>oa_has_verifier := True\<rparr>)
      else if oac_IntrospectionURL (oa_config oa) \<noteq> [] then Inr oa
      else Inl (Noting (Sentinel ErrInvalidConfiguration) ''server mode requires discovery_url, jwks_url, or introspection_url''))"

text \<open>
  A token source of the OAuth library is a step of its own state: what \<open>Token()\<close> returns and the state
  after it.
\<close>

type_synonym 's token_source = "instant \<Rightarrow> 's \<Rightarrow> (string + oauth_token) \<times> 's"

definition setupClientMode ::
  "(string \<Rightarrow> call_outcome) \<Rightarrow> 's token_source \<Rightarrow> instant \<Rightarrow> oauth_auth \<times> 's \<Rightarrow> auth_err + oauth_auth \<times> 's" where
  "setupClientMode get source now st =
     (let c = oa_config (fst st)
      in case (if oac_DiscoveryURL c \<noteq> [] then map_sum id od_TokenEndpoint (fetchDiscovery get (oac_DiscoveryURL c))
               else Inr (oac_TokenURL c)) of
           Inl e \<Rightarrow> Inl (Wrapping ''fetching OAuth discovery'' e)
         | Inr tokenURL \<Rightarrow>
             if tokenURL = []
             then Inl (Noting (Sentinel ErrInvalidConfiguration) ''client mode requires token_url or discovery_url'')
             else case source now (snd st) of
               (Inl e, s) \<Rightarrow> Inl (Wrapping ''obtaining initial access token'' (OtherError e))
             | (Inr t, s) \<Rightarrow> Inr ((fst st)\<lparr>oa_tokenURL := tokenURL, oa_currentToken := Some t\<rparr>, s))"

text \<open>In server mode the state of the token source, which is not made there, is left as it is.\<close>

definition NewOAuthAuthenticator ::
  "(string \<Rightarrow> bool) \<Rightarrow> (string \<Rightarrow> call_outcome) \<Rightarrow> 's token_source \<Rightarrow> instant \<Rightarrow> 's \<Rightarrow> oauth_auth_config option \<Rightarrow>
    bool \<Rightarrow> auth_err + oauth_auth \<times> 's" where
  "NewOAuthAuthenticator provider get source now s cfg isServer =
     (case cfg of
        None \<Rightarrow> Inl (Noting (Sentinel ErrInvalidConfiguration) ''oauth config is nil'')
      | Some c \<Rightarrow>
          if isServer then map_sum id (\<lambda>oa. (oa, s)) (setupServerMode provider (new_oauth_auth True c))
          else setupClientMode get source now (new_oauth_auth False c, s))"

text \<open>What the verifier of the OIDC library says of a token; the claims are \<open>None\<close> if they do not decode.\<close>

record id_token =
  jw_Subject :: string
  jw_Issuer :: string
  jw_Audience :: "string list"
  jw_Claims :: "(string \<times> json) list option"

definition claim_scopes :: "(string \<times> json) list \<Rightarrow> string list" where
  "claim_scopes ms =
     (let get = (\<lambda>k. map_of (rev (map (\<lambda>(k, v). (unquote k, v)) ms)) k)
      in case get ''scope'' of
           Some (JStr t) \<Rightarrow> split_on CHR '' '' (unquote t)
         | _ \<Rightarrow>
            (case get ''scopes'' of
               Some (JArr vs) \<Rightarrow> concat (map (\<lambda>v. case v of JStr t \<Rightarrow> [unquote t] | _ \<Rightarrow> []) vs)
             | _ \<Rightarrow> []))"

definition validateJWT :: "(string \<Rightarrow> id_token option) \<Rightarrow> string \<Rightarrow> auth_err + principal" where
  "validateJWT verify token =
     (case verify token of
        None \<Rightarrow> Inl (bearer_error ErrInvalidToken ''JWT verification failed'')
      | Some t \<Rightarrow>
         (case jw_Claims t of
            None \<Rightarrow> Inl (OtherError ''extracting claims'')
          | Some ms \<Rightarrow>
              Inr \<lparr>pr_ID = jw_Subject t, pr_Type = PrincipalTypeService, pr_Claims = ms, pr_Scopes = claim_scopes ms,
                pr_Metadata = fmupd ''audience'' (join_with '','' (jw_Audience t))
                  (fmupd ''issuer'' (jw_Issuer t) fmempty)\<rparr>))"

record introspection =
  is_Active :: bool
  is_Scope :: string
  is_ClientID :: string
  is_Username :: string
  is_TokenType :: string
  is_Exp :: int
  is_Iat :: int
  is_Nbf :: int
  is_Sub :: string
  is_Iss :: string
  is_Jti :: string

definition introspection_field :: "string \<Rightarrow> json \<Rightarrow> introspection \<Rightarrow> introspection option" where
  "introspection_field k v r =
     (if key_is k ''active'' then map_option (\<lambda>b. r\<lparr>is_Active := b\<rparr>) (decode_bool v (is_Active r))
      else if key_is k ''scope'' then map_option (\<lambda>s. r\<lparr>is_Scope := s\<rparr>) (decode_string v (is_Scope r))
      else if key_is k ''client_id'' then map_option (\<lambda>s. r\<lparr>is_ClientID := s\<rparr>) (decode_string v (is_ClientID r))
      else if key_is k ''username'' then map_option (\<lambda>s. r\<lparr>is_Username := s\<rparr>) (decode_string v (is_Username r))
      else if key_is k ''token_type'' then map_option (\<lambda>s. r\<lparr>is_TokenType := s\<rparr>) (decode_string v (is_TokenType r))
      else if key_is k ''exp'' then map_option (\<lambda>i. r\<lparr>is_Exp := i\<rparr>) (decode_int v (is_Exp r))
      else if key_is k ''iat'' then map_option (\<lambda>i. r\<lparr>is_Iat := i\<rparr>) (decode_int v (is_Iat r))
      else if key_is k ''nbf'' then map_option (\<lambda>i. r\<lparr>is_Nbf := i\<rparr>) (decode_int v (is_Nbf r))
      else if key_is k ''sub'' then map_option (\<lambda>s. r\<lparr>is_Sub := s\<rparr>) (decode_string v (is_Sub r))
      else if key_is k ''aud'' then (if any_ok v then Some r else None)
      else if key_is k ''iss'' then map_option (\<lambda>s. r\<lparr>is_Iss := s\<rparr>) (decode_string v (is_Iss r))
      else if key_is k ''jti'' then map_option (\<lambda>s. r\<lparr>is_Jti := s\<rparr>) (decode_string v (is_Jti r))
      else Some r)"

definition parse_introspection :: "string \<Rightarrow> introspection option" where
  "parse_introspection body =
     unmarshal introspection_field
       \<lparr>is_Active = False, is_Scope = [], is_ClientID = [], is_Username = [], is_TokenType = [], is_Exp = 0,
        is_Iat = 0, is_Nbf = 0, is_Sub = [], is_Iss = [], is_Jti = []\<rparr> body"

definition parse_claims :: "string \<Rightarrow> (string \<times> json) list option" where
  "parse_claims body =
     (case parse_json body of
        None \<Rightarrow> None
      | Some v \<Rightarrow> map_option (\<lambda>c. case c of None \<Rightarrow> [] | Some ms \<Rightarrow> ms) (decode_claims v None))"

definition introspected :: "introspection \<Rightarrow> (string \<times> json) list \<Rightarrow> principal" where
  "introspected r ms =
     \<lparr>pr_ID = (if is_Sub r \<noteq> [] then is_Sub r else if is_Username r \<noteq> [] then is_Username r else is_ClientID r),
      pr_Type = PrincipalTypeService, pr_Claims = ms,
      pr_Scopes = (if is_Scope r \<noteq> [] then split_on CHR '' '' (is_Scope r) else []),
      pr_Metadata = fold (\<lambda>(k, v) m. if v \<noteq> [] then fmupd k v m else m)
        [(''issuer'', is_Iss r), (''client_id'', is_ClientID r), (''jti'', is_Jti r)] fmempty\<rparr>"

definition validateByIntrospection :: "(string \<Rightarrow> call_outcome) \<Rightarrow> string \<Rightarrow> auth_err + principal" where
  "validateByIntrospection introspect token =
     (case introspect token of
        NoReply \<Rightarrow> Inl (OtherError ''calling introspection endpoint'')
      | Reply status body \<Rightarrow>
          if status \<noteq> 200 then Inl (OtherError (''introspection endpoint returned status '' @ show_int status))
          else case body of
            None \<Rightarrow> Inl (OtherError ''reading introspection response'')
          | Some b \<Rightarrow>
             (case (parse_introspection (body_1MB b), parse_claims (body_1MB b)) of
                (None, _) \<Rightarrow> Inl (OtherError ''parsing introspection response'')
              | (_, None) \<Rightarrow> Inl (OtherError ''parsing introspection claims'')
              | (Some r, Some ms) \<Rightarrow>
                  if \<not> is_Active r then Inl (bearer_error ErrInvalidToken ''token is not active'')
                  else Inr (introspected r ms)))"

definition oauth_Validate ::
  "(string \<Rightarrow> id_token option) \<Rightarrow> (string \<Rightarrow> call_outcome) \<Rightarrow> oauth_auth \<Rightarrow> string \<Rightarrow> auth_err + principal" where
  "oauth_Validate verify introspect oa authHeader =
     (if \<not> oa_isServer oa then Inl (OtherError ''Validate called on client-mode authenticator'')
      else case extractBearerToken authHeader of
        Inl e \<Rightarrow> Inl e
      | Inr token \<Rightarrow>
          let byIntrospection =
            (if oac_IntrospectionURL (oa_config oa) \<noteq> [] then validateByIntrospection introspect token
             else Inl (bearer_error ErrInvalidToken ''no validation method available''))
          in if oa_has_verifier oa then
               (case validateJWT verify token of
                  Inr p \<Rightarrow> Inr p
                | Inl e \<Rightarrow> if oac_IntrospectionURL (oa_config oa) = [] then Inl e else byIntrospection)
             else byIntrospection)"

text \<open>The token of outgoing requests; \<open>valid\<close> is \<open>Token.Valid\<close> of the library at an instant.\<close>

definition getToken ::
  "(instant \<Rightarrow> oauth_token \<Rightarrow> bool) \<Rightarrow> 's token_source \<Rightarrow> instant \<Rightarrow> oauth_auth \<times> 's \<Rightarrow>
    (auth_err + oauth_token) \<times> oauth_auth \<times> 's" where
  "getToken valid source now st =
     (case oa_currentToken (fst st) of
        Some t \<Rightarrow>
          if valid now t then (Inr t, st)
          else (case source now (snd st) of
            (Inl e, s) \<Rightarrow> (Inl (Wrapping ''refreshing token'' (OtherError e)), fst st, s)
          | (Inr t', s) \<Rightarrow> (Inr t', (fst st)\<lparr>oa_currentToken := Some t'\<rparr>, s))
      | None \<Rightarrow>
         (case source now (snd st) of
            (Inl e, s) \<Rightarrow> (Inl (Wrapping ''refreshing token'' (OtherError e)), fst st, s)
          | (Inr t', s) \<Rightarrow> (Inr t', (fst st)\<lparr>oa_currentToken := Some t'\<rparr>, s)))"

definition oauth_Authenticate ::
  "(instant \<Rightarrow> oauth_token \<Rightarrow> bool) \<Rightarrow> 's token_source \<Rightarrow> instant \<Rightarrow> oauth_auth \<times> 's \<Rightarrow>
    (auth_err + string) \<times> oauth_auth \<times> 's" where
  "oauth_Authenticate valid source now st =
     (if oa_isServer (fst st) then (Inl (OtherError ''Authenticate called on server-mode authenticator''), st)
      else case getToken valid source now st of
        (Inl e, st') \<Rightarrow> (Inl (Wrapping ''getting access token'' e), st')
      | (Inr t, st') \<Rightarrow> (Inr (''Bearer '' @ ot_AccessToken t), st'))"

definition oauth_Refresh ::
  "'s token_source \<Rightarrow> instant \<Rightarrow> oauth_auth \<times> 's \<Rightarrow> auth_err option \<times> oauth_auth \<times> 's" where
  "oauth_Refresh source now st =
     (if oa_isServer (fst st) then (None, st)
      else case source now (snd st) of
        (Inl e, s) \<Rightarrow> (Some (Noting (Sentinel ErrTokenRefreshFailed) e), fst st, s)
      | (Inr t, s) \<Rightarrow> (None, (fst st)\<lparr>oa_currentToken := Some t\<rparr>, s))"

definition IsTokenExpiringSoon :: "instant \<Rightarrow> duration \<Rightarrow> oauth_auth \<Rightarrow> bool" where
  "IsTokenExpiringSoon now soon oa =
     (if oa_isServer oa then False
      else case oa_currentToken oa of
        None \<Rightarrow> True
      | Some t \<Rightarrow> (case ot_Expiry t of None \<Rightarrow> False | Some x \<Rightarrow> x - now < soon))"

subsection \<open>The authorization code flow of a client\<close>

definition GeneratePKCEVerifier :: "char list option \<Rightarrow> string option" where
  "GeneratePKCEVerifier rnd = map_option encodeBase64URL rnd"

definition GeneratePKCEChallenge :: "string \<Rightarrow> string" where
  "GeneratePKCEChallenge v = encodeBase64URL (sha256 v)"

definition SetupPKCE :: "char list option \<Rightarrow> oauth_auth \<Rightarrow> string option \<times> oauth_auth" where
  "SetupPKCE rnd oa =
     (case GeneratePKCEVerifier rnd of
        None \<Rightarrow> (None, oa)
      | Some v \<Rightarrow> (Some (GeneratePKCEChallenge v), oa\<lparr>oa_pkceVerifier := v\<rparr>))"

definition GetPKCEVerifier :: "oauth_auth \<Rightarrow> string" where "GetPKCEVerifier oa = oa_pkceVerifier oa"

definition ClearPKCEVerifier :: "oauth_auth \<Rightarrow> oauth_auth" where
  "ClearPKCEVerifier oa = oa\<lparr>oa_pkceVerifier := []\<rparr>"

text \<open>
  \<open>BuildAuthorizationURL\<close>: the address and the parameters that are set in its query; writing them out
  as a URL is left to the library.
\<close>

definition BuildAuthorizationURL ::
  "(string \<Rightarrow> call_outcome) \<Rightarrow> char list option \<Rightarrow> string \<Rightarrow> string \<Rightarrow> oauth_auth \<Rightarrow>
    (auth_err + (url \<times> (string \<times> string) list)) \<times> oauth_auth" where
  "BuildAuthorizationURL get rnd state redirectURI oa =
     (let c = oa_config oa
      in case (if oac_AuthorizationURL c = [] \<and> oac_DiscoveryURL c \<noteq> []
               then map_sum id od_AuthorizationEndpoint (fetchDiscovery get (oac_DiscoveryURL c))
               else Inr (oac_AuthorizationURL c)) of
           Inl e \<Rightarrow> (Inl (Wrapping ''fetching discovery'' e), oa)
         | Inr authURL \<Rightarrow>
             if authURL = [] then (Inl (OtherError ''authorization URL not configured''), oa)
             else case url_Parse authURL of
               None \<Rightarrow> (Inl (OtherError ''parsing authorization URL''), oa)
             | Some u \<Rightarrow>
                 let q = [(''response_type'', ''code''), (''client_id'', oac_ClientID c),
                          (''redirect_uri'', redirectURI), (''state'', state)] @
                       (if oac_Scopes c \<noteq> [] then [(''scope'', join_with '' '' (oac_Scopes c))] else []) @
                       (if oac_Resource c \<noteq> [] then [(''resource'', oac_Resource c)] else [])
                 in if \<not> oac_UsePKCE c then (Inr (u, q), oa)
                    else (case SetupPKCE rnd oa of
                      (None, oa') \<Rightarrow> (Inl (OtherError ''setting up PKCE''), oa')
                    | (Some challenge, oa') \<Rightarrow>
                        (Inr (u, q @ [(''code_challenge'', challenge), (''code_challenge_method'', ''S256'')]), oa')))"

record token_reply =
  tk_AccessToken :: string
  tk_TokenType :: string
  tk_ExpiresIn :: int
  tk_RefreshToken :: string
  tk_Scope :: string

definition token_reply_field :: "string \<Rightarrow> json \<Rightarrow> token_reply \<Rightarrow> token_reply option" where
  "token_reply_field k v r =
     (if key_is k ''access_token'' then map_option (\<lambda>s. r\<lparr>tk_AccessToken := s\<rparr>) (decode_string v (tk_AccessToken r))
      else if key_is k ''token_type'' then map_option (\<lambda>s. r\<lparr>tk_TokenType := s\<rparr>) (decode_string v (tk_TokenType r))
      else if key_is k ''expires_in'' then map_option (\<lambda>i. r\<lparr>tk_ExpiresIn := i\<rparr>) (decode_int v (tk_ExpiresIn r))
      else if key_is k ''refresh_token'' then map_option (\<lambda>s. r\<lparr>tk_RefreshToken := s\<rparr>) (decode_string v (tk_RefreshToken r))
      else if key_is k ''scope'' then map_option (\<lambda>s. r\<lparr>tk_Scope := s\<rparr>) (decode_string v (tk_Scope r))
      else Some r)"

text \<open>A product of durations, in 64 bits.\<close>

definition wrap64 :: "int \<Rightarrow> int" where
  "wrap64 x = (x + 2 ^ 63) mod 2 ^ 64 - 2 ^ 63"

definition token_of_reply :: "instant \<Rightarrow> token_reply \<Rightarrow> oauth_token" where
  "token_of_reply now r =
     \<lparr>ot_AccessToken = tk_AccessToken r, ot_TokenType = tk_TokenType r, ot_RefreshToken = tk_RefreshToken r,
      ot_Expiry = (if tk_ExpiresIn r > 0 then Some (now + wrap64 (tk_ExpiresIn r * second)) else None)\<rparr>"

text \<open>The form of the token request.\<close>

definition exchange_form :: "string \<Rightarrow> string \<Rightarrow> oauth_auth \<Rightarrow> (string \<times> string) list" where
  "exchange_form code redirectURI oa =
     [(''grant_type'', ''authorization_code''), (''code'', code), (''redirect_uri'', redirectURI),
      (''client_id'', oac_ClientID (oa_config oa))] @
     (if oac_ClientSecret (oa_config oa) \<noteq> [] then [(''client_secret'', oac_ClientSecret (oa_config oa))] else []) @
     (if GetPKCEVerifier oa \<noteq> [] then [(''code_verifier'', GetPKCEVerifier oa)] else [])"

text \<open>\<open>post\<close>: what posting a form to an address meets.\<close>

definition ExchangeAuthorizationCode ::
  "(string \<Rightarrow> call_outcome) \<Rightarrow> (string \<Rightarrow> (string \<times> string) list \<Rightarrow> call_outcome) \<Rightarrow> instant \<Rightarrow> string \<Rightarrow> string \<Rightarrow>
    oauth_auth \<Rightarrow> (auth_err + oauth_token) \<times> oauth_auth" where
  "ExchangeAuthorizationCode get post now code redirectURI oa =
     (let c = oa_config oa
      in case (if oac_TokenURL c = [] \<and> oac_DiscoveryURL c \<noteq> []
               then map_sum id od_TokenEndpoint (fetchDiscovery get (oac_DiscoveryURL c))
               else Inr (oac_TokenURL c)) of
           Inl e \<Rightarrow> (Inl (Wrapping ''fetching discovery'' e), oa)
         | Inr tokenURL \<Rightarrow>
             if tokenURL = [] then (Inl (OtherError ''token URL not configured''), oa)
             else
               let oa1 = (if GetPKCEVerifier oa \<noteq> [] then ClearPKCEVerifier oa else oa)
               in case post tokenURL (exchange_form code redirectURI oa) of
                    NoReply \<Rightarrow> (Inl (OtherError ''executing token request''), oa1)
                  | Reply status None \<Rightarrow> (Inl (OtherError ''reading token response''), oa1)
                  | Reply status (Some body) \<Rightarrow>
                      if status \<noteq> 200 then
                        (Inl (OtherError (''token endpoint returned status '' @ show_int status @ '': '' @ body_1MB body)), oa1)
                      else case unmarshal token_reply_field
                          \<lparr>tk_AccessToken = [], tk_TokenType = [], tk_ExpiresIn = 0, tk_RefreshToken = [], tk_Scope = []\<rparr>
                          (body_1MB body) of
                        None \<Rightarrow> (Inl (OtherError ''parsing token response''), oa1)
                      | Some r \<Rightarrow> (Inr (token_of_reply now r), oa1\<lparr>oa_currentToken := Some (token_of_reply now r)\<rparr>))"

section \<open>Choosing an authenticator\<close>

datatype auth_kind = NoAuth | BearerAuth bearer_auth | OAuthAuth oauth_auth

definition NewAuthenticator ::
  "(string \<Rightarrow> string) \<Rightarrow> (string \<Rightarrow> bool) \<Rightarrow> (string \<Rightarrow> call_outcome) \<Rightarrow> 's token_source \<Rightarrow> instant \<Rightarrow> 's \<Rightarrow>
    auth_config option \<Rightarrow> bool \<Rightarrow> auth_err + auth_kind \<times> 's" where
  "NewAuthenticator getenv provider get source now s cfg isServer =
     (case cfg of
        None \<Rightarrow> Inr (NoAuth, s)
      | Some a \<Rightarrow>
          if auc_Type a = ''none'' \<or> auc_Type a = [] then Inr (NoAuth, s)
          else if auc_Type a = ''bearer'' then
            (case auc_Bearer a of
               None \<Rightarrow> Inl (Noting (Sentinel ErrInvalidConfiguration) ''bearer config is nil'')
             | Some b \<Rightarrow> map_sum id (\<lambda>ba. (BearerAuth ba, s)) (NewBearerAuthenticator getenv (Some b) isServer))
          else if auc_Type a = ''oauth'' then
            (case auc_OAuth a of
               None \<Rightarrow> Inl (Noting (Sentinel ErrInvalidConfiguration) ''oauth config is nil'')
             | Some c \<Rightarrow> map_sum id (\<lambda>(oa, s'). (OAuthAuth oa, s'))
                 (NewOAuthAuthenticator provider get source now s (Some c) isServer))
          else Inl (Noting (Sentinel ErrInvalidConfiguration) (''unknown auth type '' @ auc_Type a)))"

text \<open>\<open>Validate\<close> of whichever authenticator there is: the endpoints it calls are one record.\<close>

record auth_services =
  as_validation :: "string \<Rightarrow> call_outcome"
  as_verify :: "string \<Rightarrow> id_token option"
  as_introspection :: "string \<Rightarrow> call_outcome"

definition auth_Validate :: "auth_services \<Rightarrow> auth_kind \<Rightarrow> string \<Rightarrow> auth_err + principal" where
  "auth_Validate services k authHeader =
     (case k of
        NoAuth \<Rightarrow> Inr anonymous
      | BearerAuth ba \<Rightarrow> bearer_Validate (as_validation services) ba authHeader
      | OAuthAuth oa \<Rightarrow> oauth_Validate (as_verify services) (as_introspection services) oa authHeader)"

end
