(* ===== verification/Oidc.thy ===== *)
theory Oidc
  imports Auth_Requests
begin

text \<open>
  The client of an upstream identity provider (\<open>internal/authserver/oidc.go\<close>, \<open>federated.go\<close>): discovery
  and key set with their caches, identity tokens, and who of the provider's users is let in with which
  scopes.  HTTP calls and the RSA verification of \<open>crypto/rsa\<close> are parameters; texts of errors that come
  from libraries are left out of the messages.
\<close>

section \<open>Discovery and keys\<close>

text \<open>
  How a call of the client ends: with a value, with an error, or with the death of the process (the Go
  runtime stops it when a mutex is unlocked that is not locked).
\<close>

datatype 'a upstream = Upstream 'a | Failing string | Crash

definition up_bind :: "'a upstream \<times> 's \<Rightarrow> ('a \<Rightarrow> 's \<Rightarrow> 'b upstream \<times> 's) \<Rightarrow> 'b upstream \<times> 's" where
  "up_bind r f = (case r of (Upstream a, s) \<Rightarrow> f a s | (Failing e, s) \<Rightarrow> (Failing e, s) | (Crash, s) \<Rightarrow> (Crash, s))"

definition up_within :: "string \<Rightarrow> 'a upstream \<times> 's \<Rightarrow> 'a upstream \<times> 's" where
  "up_within what r = (case r of (Failing e, s) \<Rightarrow> (Failing (what @ '': '' @ e), s) | _ \<Rightarrow> r)"

record oidc_document =
  di_Issuer :: string
  di_AuthorizationEndpoint :: string
  di_TokenEndpoint :: string
  di_UserinfoEndpoint :: string
  di_JwksURI :: string
  di_ScopesSupported :: "string list"

record jwk =
  jk_Kty :: string
  jk_Use :: string
  jk_Kid :: string
  jk_Alg :: string
  jk_N :: string
  jk_E :: string
  jk_Crv :: string
  jk_X :: string
  jk_Y :: string

text \<open>The cached documents, the key set with the time of its fetching.\<close>

record oidc_client =
  oi_issuer :: string
  oi_discovery :: "oidc_document option"
  oi_jwks :: "(jwk list \<times> instant) option"

definition NewOIDCClient :: "string \<Rightarrow> oidc_client" where
  "NewOIDCClient issuer = \<lparr>oi_issuer = issuer, oi_discovery = None, oi_jwks = None\<rparr>"

definition document_field :: "string \<Rightarrow> json \<Rightarrow> oidc_document \<Rightarrow> oidc_document option" where
  "document_field k v d =
     (if key_is k ''issuer'' then map_option (\<lambda>s. d\<lparr>di_Issuer := s\<rparr>) (decode_string v (di_Issuer d))
      else if key_is k ''authorization_endpoint'' then
        map_option (\<lambda>s. d\<lparr>di_AuthorizationEndpoint := s\<rparr>) (decode_string v (di_AuthorizationEndpoint d))
      else if key_is k ''token_endpoint'' then
        map_option (\<lambda>s. d\<lparr>di_TokenEndpoint := s\<rparr>) (decode_string v (di_TokenEndpoint d))
      else if key_is k ''userinfo_endpoint'' then
        map_option (\<lambda>s. d\<lparr>di_UserinfoEndpoint := s\<rparr>) (decode_string v (di_UserinfoEndpoint d))
      else if key_is k ''jwks_uri'' then map_option (\<lambda>s. d\<lparr>di_JwksURI := s\<rparr>) (decode_string v (di_JwksURI d))
      else if key_is k ''scopes_supported'' then
        map_option (\<lambda>s. d\<lparr>di_ScopesSupported := s\<rparr>) (decode_string_slice v (di_ScopesSupported d))
      else Some d)"

definition zero_document :: oidc_document where
  "zero_document =
     \<lparr>di_Issuer = [], di_AuthorizationEndpoint = [], di_TokenEndpoint = [], di_UserinfoEndpoint = [],
      di_JwksURI = [], di_ScopesSupported = []\<rparr>"

definition jwk_field :: "string \<Rightarrow> json \<Rightarrow> jwk \<Rightarrow> jwk option" where
  "jwk_field k v j =
     (if key_is k ''kty'' then map_option (\<lambda>s. j\<lparr>jk_Kty := s\<rparr>) (decode_string v (jk_Kty j))
      else if key_is k ''use'' then map_option (\<lambda>s. j\<lparr>jk_Use := s\<rparr>) (decode_string v (jk_Use j))
      else if key_is k ''kid'' then map_option (\<lambda>s. j\<lparr>jk_Kid := s\<rparr>) (decode_string v (jk_Kid j))
      else if key_is k ''alg'' then map_option (\<lambda>s. j\<lparr>jk_Alg := s\<rparr>) (decode_string v (jk_Alg j))
      else if key_is k ''n'' then map_option (\<lambda>s. j\<lparr>jk_N := s\<rparr>) (decode_string v (jk_N j))
      else if key_is k ''e'' then map_option (\<lambda>s. j\<lparr>jk_E := s\<rparr>) (decode_string v (jk_E j))
      else if key_is k ''crv'' then map_option (\<lambda>s. j\<lparr>jk_Crv := s\<rparr>) (decode_string v (jk_Crv j))
      else if key_is k ''x'' then map_option (\<lambda>s. j\<lparr>jk_X := s\<rparr>) (decode_string v (jk_X j))
      else if key_is k ''y'' then map_option (\<lambda>s. j\<lparr>jk_Y := s\<rparr>) (decode_string v (jk_Y j))
      else Some j)"

definition zero_jwk :: jwk where
  "zero_jwk =
     \<lparr>jk_Kty = [], jk_Use = [], jk_Kid = [], jk_Alg = [], jk_N = [], jk_E = [], jk_Crv = [], jk_X = [], jk_Y = []\<rparr>"

fun decode_jwks :: "json list \<Rightarrow> jwk list \<Rightarrow> jwk list option" where
  "decode_jwks [] old = Some []"
| "decode_jwks (v # vs) old =
     (let j0 = (case old of [] \<Rightarrow> zero_jwk | j # _ \<Rightarrow> j)
      in case (case v of JNull \<Rightarrow> Some j0 | JObj ms \<Rightarrow> decode_members jwk_field ms j0 | _ \<Rightarrow> None) of
           None \<Rightarrow> None
         | Some j \<Rightarrow> map_option (\<lambda>js. j # js) (decode_jwks vs (drop 1 old)))"

definition key_set_field :: "string \<Rightarrow> json \<Rightarrow> jwk list \<Rightarrow> jwk list option" where
  "key_set_field k v js =
     (if key_is k ''keys'' then
        (case v of JNull \<Rightarrow> Some [] | JArr vs \<Rightarrow> decode_jwks vs js | _ \<Rightarrow> None)
      else Some js)"

text \<open>A document fetched with status 200; the two texts are those of the messages.\<close>

definition fetch_document ::
  "string \<Rightarrow> string \<Rightarrow> (string \<Rightarrow> json \<Rightarrow> 'r \<Rightarrow> 'r option) \<Rightarrow> 'r \<Rightarrow> call_outcome \<Rightarrow> 'r upstream" where
  "fetch_document endpoint what f zero oc =
     (case oc of
        NoReply \<Rightarrow> Failing (''fetching '' @ what)
      | Reply status body \<Rightarrow>
          if status \<noteq> 200 then Failing (endpoint @ '' endpoint returned status '' @ show_int status)
          else case body of
            None \<Rightarrow> Failing (''decoding '' @ what)
          | Some b \<Rightarrow> (case decode_first f zero b of None \<Rightarrow> Failing (''decoding '' @ what) | Some d \<Rightarrow> Upstream d))"

definition Discover :: "(string \<Rightarrow> call_outcome) \<Rightarrow> oidc_client \<Rightarrow> oidc_document upstream \<times> oidc_client" where
  "Discover get c =
     (case oi_discovery c of
        Some d \<Rightarrow> (Upstream d, c)
      | None \<Rightarrow>
         (case fetch_document ''discovery'' ''discovery document'' document_field zero_document
             (get (oi_issuer c @ ''/.well-known/openid-configuration'')) of
            Upstream d \<Rightarrow>
              if di_Issuer d \<noteq> oi_issuer c
              then (Failing (''issuer mismatch: expected '' @ oi_issuer c @ '', got '' @ di_Issuer d), c)
              else (Upstream d, c\<lparr>oi_discovery := Some d\<rparr>)
          | Failing e \<Rightarrow> (Failing e, c)
          | Crash \<Rightarrow> (Crash, c)))"

definition hour :: duration where "hour = 60 * minute"

text \<open>
  \<open>GetJWKS\<close>.  When the document has to be discovered first, the lock is given back for that; on an
  error the function then returns without taking it again, and the deferred unlock kills the process.
\<close>

definition GetJWKS :: "(string \<Rightarrow> call_outcome) \<Rightarrow> instant \<Rightarrow> oidc_client \<Rightarrow> jwk list upstream \<times> oidc_client" where
  "GetJWKS get now c =
     (case (case oi_jwks c of Some (js, t) \<Rightarrow> if now - t < hour then Some js else None | None \<Rightarrow> None) of
        Some js \<Rightarrow> (Upstream js, c)
      | None \<Rightarrow>
         (case (case oi_discovery c of
                  Some d \<Rightarrow> (Upstream d, c)
                | None \<Rightarrow> (case Discover get c of (Failing e, c1) \<Rightarrow> (Crash, c1) | r \<Rightarrow> r)) of
            (Upstream d, c1) \<Rightarrow>
              (case fetch_document ''JWKS'' ''JWKS'' key_set_field [] (get (di_JwksURI d)) of
                 Upstream js \<Rightarrow> (Upstream js, c1\<lparr>oi_jwks := Some (js, now)\<rparr>)
               | Failing e \<Rightarrow> (Failing e, c1)
               | Crash \<Rightarrow> (Crash, c1))
          | (Failing e, c1) \<Rightarrow> (Failing e, c1)
          | (Crash, c1) \<Rightarrow> (Crash, c1)))"

text \<open>Modulus and exponent of a key; the exponent is taken in 64 bits.\<close>

definition be_value :: "char list \<Rightarrow> nat" where
  "be_value bs = foldl (\<lambda>n c. 256 * n + of_char c) 0 bs"

definition GetRSAPublicKey :: "jwk \<Rightarrow> string + nat \<times> int" where
  "GetRSAPublicKey j =
     (if jk_Kty j \<noteq> ''RSA'' then Inl (''key type is not RSA: '' @ jk_Kty j)
      else case decodeBase64URL (jk_N j) of
        None \<Rightarrow> Inl ''decoding modulus''
      | Some n \<Rightarrow>
         (case decodeBase64URL (jk_E j) of
            None \<Rightarrow> Inl ''decoding exponent''
          | Some e \<Rightarrow> Inr (be_value n, wrap64 (int (be_value e)))))"

section \<open>Identity tokens\<close>

record id_claims =
  ic_Issuer :: string
  ic_Subject :: string
  ic_Audience :: "json option"
  ic_ExpiresAt :: int
  ic_IssuedAt :: int
  ic_Nonce :: string
  ic_Email :: string
  ic_EmailVerified :: bool
  ic_Name :: string
  ic_HD :: string

definition id_claims_field :: "string \<Rightarrow> json \<Rightarrow> id_claims \<Rightarrow> id_claims option" where
  "id_claims_field k v c =
     (if key_is k ''iss'' then map_option (\<lambda>s. c\<lparr>ic_Issuer := s\<rparr>) (decode_string v (ic_Issuer c))
      else if key_is k ''sub'' then map_option (\<lambda>s. c\<lparr>ic_Subject := s\<rparr>) (decode_string v (ic_Subject c))
      else if key_is k ''aud'' then (if any_ok v then Some (c\<lparr>ic_Audience := decode_any v\<rparr>) else None)
      else if key_is k ''exp'' then map_option (\<lambda>i. c\<lparr>ic_ExpiresAt := i\<rparr>) (decode_int v (ic_ExpiresAt c))
      else if key_is k ''iat'' then map_option (\<lambda>i. c\<lparr>ic_IssuedAt := i\<rparr>) (decode_int v (ic_IssuedAt c))
      else if key_is k ''nonce'' then map_option (\<lambda>s. c\<lparr>ic_Nonce := s\<rparr>) (decode_string v (ic_Nonce c))
      else if key_is k ''email'' then map_option (\<lambda>s. c\<lparr>ic_Email := s\<rparr>) (decode_string v (ic_Email c))
      else if key_is k ''email_verified'' then
        map_option (\<lambda>b. c\<lparr>ic_EmailVerified := b\<rparr>) (decode_bool v (ic_EmailVerified c))
      else if key_is k ''name'' then map_option (\<lambda>s. c\<lparr>ic_Name := s\<rparr>) (decode_string v (ic_Name c))
      else if key_is k ''hd'' then map_option (\<lambda>s. c\<lparr>ic_HD := s\<rparr>) (decode_string v (ic_HD c))
      else Some c)"

definition zero_id_claims :: id_claims where
  "zero_id_claims =
     \<lparr>ic_Issuer = [], ic_Subject = [], ic_Audience = None, ic_ExpiresAt = 0, ic_IssuedAt = 0, ic_Nonce = [],
      ic_Email = [], ic_EmailVerified = False, ic_Name = [], ic_HD = []\<rparr>"

fun GetAudience :: "json option \<Rightarrow> string list" where
  "GetAudience (Some (JStr t)) = [unquote t]"
| "GetAudience (Some (JArr vs)) = map (\<lambda>v. case v of JStr t \<Rightarrow> unquote t | _ \<Rightarrow> []) vs"
| "GetAudience _ = []"

record token_header =
  th_Alg :: string
  th_Kid :: string

definition header_field :: "string \<Rightarrow> json \<Rightarrow> token_header \<Rightarrow> token_header option" where
  "header_field k v h =
     (if key_is k ''alg'' then map_option (\<lambda>s. h\<lparr>th_Alg := s\<rparr>) (decode_string v (th_Alg h))
      else if key_is k ''kid'' then map_option (\<lambda>s. h\<lparr>th_Kid := s\<rparr>) (decode_string v (th_Kid h))
      else Some h)"

text \<open>
  What an exchange with the provider meets: the answers to the calls, two instants, and the RSA
  verification (algorithm, modulus and exponent, signed text, signature).
\<close>

record upstream_env =
  ue_get :: "string \<Rightarrow> call_outcome"
  ue_post :: "string \<Rightarrow> (string \<times> string) list \<Rightarrow> call_outcome"
  ue_now :: instant
  ue_later :: instant
  ue_rsa :: "string \<Rightarrow> nat \<times> int \<Rightarrow> string \<Rightarrow> string \<Rightarrow> bool"

definition verifyRSASignature :: "upstream_env \<Rightarrow> string \<Rightarrow> nat \<times> int \<Rightarrow> string \<Rightarrow> string option" where
  "verifyRSASignature e token key alg =
     (case split_on CHR ''.'' token of
        [h, p, s] \<Rightarrow>
          (case decodeBase64URL s of
             None \<Rightarrow> Some ''decoding signature''
           | Some signature \<Rightarrow>
               if alg \<noteq> ''RS256'' \<and> alg \<noteq> ''RS384'' \<and> alg \<noteq> ''RS512'' then Some (''unsupported RSA algorithm: '' @ alg)
               else if ue_rsa e alg key (h @ ''.'' @ p) signature then None else Some ''crypto/rsa: verification error'')
      | _ \<Rightarrow> Some ''invalid token format'')"

text \<open>\<open>verifySignature\<close> with the key set at hand.\<close>

definition check_key :: "upstream_env \<Rightarrow> string \<Rightarrow> string \<Rightarrow> string \<Rightarrow> jwk list \<Rightarrow> unit upstream" where
  "check_key e token kid alg jwks =
     (case find (\<lambda>j. jk_Kid j = kid) jwks of
        None \<Rightarrow> Failing (''key '' @ kid @ '' not found in JWKS'')
      | Some key \<Rightarrow>
          if alg = ''RS256'' \<or> alg = ''RS384'' \<or> alg = ''RS512'' then
            (case GetRSAPublicKey key of
               Inl err \<Rightarrow> Failing err
             | Inr k \<Rightarrow> (case verifyRSASignature e token k alg of None \<Rightarrow> Upstream () | Some err \<Rightarrow> Failing err))
          else Failing (''unsupported algorithm: '' @ alg))"

definition verifySignature ::
  "upstream_env \<Rightarrow> oidc_client \<Rightarrow> string \<Rightarrow> string \<Rightarrow> string \<Rightarrow> unit upstream \<times> oidc_client" where
  "verifySignature e c token kid alg =
     up_bind (up_within ''fetching JWKS'' (GetJWKS (ue_get e) (ue_later e) c))
       (\<lambda>jwks c1. (check_key e token kid alg jwks, c1))"

text \<open>The header and the claims of a token, before they are believed.\<close>

definition read_token :: "string \<Rightarrow> string + token_header \<times> id_claims" where
  "read_token idToken =
     (case split_on CHR ''.'' idToken of
        [h, p, s] \<Rightarrow>
          (case decodeBase64URL h of
             None \<Rightarrow> Inl ''decoding token header''
           | Some hb \<Rightarrow>
              (case unmarshal header_field \<lparr>th_Alg = [], th_Kid = []\<rparr> hb of
                 None \<Rightarrow> Inl ''parsing token header''
               | Some header \<Rightarrow>
                  (case decodeBase64URL p of
                     None \<Rightarrow> Inl ''decoding token claims''
                   | Some pb \<Rightarrow>
                      (case unmarshal id_claims_field zero_id_claims pb of
                         None \<Rightarrow> Inl ''parsing token claims''
                       | Some claims \<Rightarrow> Inr (header, claims)))))
      | _ \<Rightarrow> Inl ''invalid ID token format'')"

definition claims_problem :: "federated_auth_config \<Rightarrow> instant \<Rightarrow> string \<Rightarrow> id_claims \<Rightarrow> string option" where
  "claims_problem cfg now nonce claims =
     first_error
       [check (ic_Issuer claims \<noteq> fdc_UpstreamIssuer cfg)
          (''invalid issuer: expected '' @ fdc_UpstreamIssuer cfg @ '', got '' @ ic_Issuer claims),
        check (fdc_ClientID cfg \<notin> set (GetAudience (ic_Audience claims))) ''token audience does not include client_id'',
        check (now div second > ic_ExpiresAt claims) ''token has expired'',
        check (nonce \<noteq> [] \<and> ic_Nonce claims \<noteq> nonce) ''nonce mismatch'']"

definition ValidateIDToken ::
  "upstream_env \<Rightarrow> federated_auth_config \<Rightarrow> oidc_client \<Rightarrow> string \<Rightarrow> string \<Rightarrow> id_claims upstream \<times> oidc_client" where
  "ValidateIDToken e cfg c idToken nonce =
     (case read_token idToken of
        Inl err \<Rightarrow> (Failing err, c)
      | Inr (header, claims) \<Rightarrow>
         (case claims_problem cfg (ue_now e) nonce claims of
            Some err \<Rightarrow> (Failing err, c)
          | None \<Rightarrow>
              up_bind (up_within ''signature verification failed'' (verifySignature e c idToken (th_Kid header) (th_Alg header)))
                (\<lambda>_ c1. (Upstream claims, c1))))"

section \<open>The federated authenticator\<close>

text \<open>The configuration with its secret resolved, and the client of the provider.\<close>

definition NewFederatedAuthenticator ::
  "(string \<Rightarrow> string) \<Rightarrow> federated_auth_config \<Rightarrow> string + federated_auth_config \<times> oidc_client" where
  "NewFederatedAuthenticator getenv cfg =
     (let clientSecret = (if fdc_ClientSecret cfg = [] \<and> fdc_ClientSecretEnv cfg \<noteq> [] then getenv (fdc_ClientSecretEnv cfg)
                          else fdc_ClientSecret cfg)
      in if fdc_UpstreamIssuer cfg = [] then Inl ''upstream_issuer is required for federated mode''
         else if fdc_ClientID cfg = [] then Inl ''client_id is required for federated mode''
         else if clientSecret = [] then Inl ''client_secret or client_secret_env is required for federated mode''
         else Inr (cfg\<lparr>fdc_ClientSecret := clientSecret\<rparr>, NewOIDCClient (fdc_UpstreamIssuer cfg)))"

text \<open>The endpoint and the parameters written after it.\<close>

definition GetAuthorizationURL ::
  "(string \<Rightarrow> call_outcome) \<Rightarrow> federated_auth_config \<Rightarrow> oidc_client \<Rightarrow> string \<Rightarrow> string \<Rightarrow> string \<Rightarrow>
    (string \<times> (string \<times> string) list) upstream \<times> oidc_client" where
  "GetAuthorizationURL get cfg c state nonce redirectURI =
     up_bind (up_within ''discovering upstream IdP'' (Discover get c)) (\<lambda>disc c1.
       (Upstream (di_AuthorizationEndpoint disc,
          [(''client_id'', fdc_ClientID cfg), (''response_type'', ''code''), (''redirect_uri'', redirectURI),
           (''state'', state), (''nonce'', nonce),
           (''scope'', join_with '' '' (if fdc_Scopes cfg = [] then [''openid'', ''email'', ''profile''] else fdc_Scopes cfg))]),
        c1))"

record upstream_tokens =
  ut_AccessToken :: string
  ut_TokenType :: string
  ut_ExpiresIn :: int
  ut_RefreshToken :: string
  ut_IDToken :: string
  ut_Scope :: string

definition upstream_tokens_field :: "string \<Rightarrow> json \<Rightarrow> upstream_tokens \<Rightarrow> upstream_tokens option" where
  "upstream_tokens_field k v r =
     (if key_is k ''access_token'' then map_option (\<lambda>s. r\<lparr>ut_AccessToken := s\<rparr>) (decode_string v (ut_AccessToken r))
      else if key_is k ''token_type'' then map_option (\<lambda>s. r\<lparr>ut_TokenType := s\<rparr>) (decode_string v (ut_TokenType r))
      else if key_is k ''expires_in'' then map_option (\<lambda>i. r\<lparr>ut_ExpiresIn := i\<rparr>) (decode_int v (ut_ExpiresIn r))
      else if key_is k ''refresh_token'' then map_option (\<lambda>s. r\<lparr>ut_RefreshToken := s\<rparr>) (decode_string v (ut_RefreshToken r))
      else if key_is k ''id_token'' then map_option (\<lambda>s. r\<lparr>ut_IDToken := s\<rparr>) (decode_string v (ut_IDToken r))
      else if key_is k ''scope'' then map_option (\<lambda>s. r\<lparr>ut_Scope := s\<rparr>) (decode_string v (ut_Scope r))
      else Some r)"

definition zero_upstream_tokens :: upstream_tokens where
  "zero_upstream_tokens =
     \<lparr>ut_AccessToken = [], ut_TokenType = [], ut_ExpiresIn = 0, ut_RefreshToken = [], ut_IDToken = [], ut_Scope = []\<rparr>"

record token_error =
  te_Error :: string
  te_Description :: string

definition token_error_field :: "string \<Rightarrow> json \<Rightarrow> token_error \<Rightarrow> token_error option" where
  "token_error_field k v r =
     (if key_is k ''error'' then map_option (\<lambda>s. r\<lparr>te_Error := s\<rparr>) (decode_string v (te_Error r))
      else if key_is k ''error_description'' then map_option (\<lambda>s. r\<lparr>te_Description := s\<rparr>) (decode_string v (te_Description r))
      else Some r)"

definition token_reply_result :: "call_outcome \<Rightarrow> upstream_tokens upstream" where
  "token_reply_result oc =
     (case oc of
        NoReply \<Rightarrow> Failing ''exchanging code''
      | Reply status body \<Rightarrow>
          if status \<noteq> 200 then
            (case Option.bind body (decode_first token_error_field \<lparr>te_Error = [], te_Description = []\<rparr>) of
               Some r \<Rightarrow>
                 if te_Error r \<noteq> [] then Failing (''token exchange failed: '' @ te_Error r @ '' - '' @ te_Description r)
                 else Failing (''token exchange failed with status '' @ show_int status)
             | None \<Rightarrow> Failing (''token exchange failed with status '' @ show_int status))
          else case Option.bind body (decode_first upstream_tokens_field zero_upstream_tokens) of
            None \<Rightarrow> Failing ''decoding token response''
          | Some r \<Rightarrow> Upstream r)"

definition ExchangeCode ::
  "upstream_env \<Rightarrow> federated_auth_config \<Rightarrow> oidc_client \<Rightarrow> string \<Rightarrow> string \<Rightarrow> upstream_tokens upstream \<times> oidc_client" where
  "ExchangeCode e cfg c code redirectURI =
     up_bind (up_within ''discovering upstream IdP'' (Discover (ue_get e) c)) (\<lambda>disc c1.
       (token_reply_result (ue_post e (di_TokenEndpoint disc)
          [(''grant_type'', ''authorization_code''), (''code'', code), (''redirect_uri'', redirectURI),
           (''client_id'', fdc_ClientID cfg), (''client_secret'', fdc_ClientSecret cfg)]), c1))"

record federated_user =
  fu_Subject :: string
  fu_Email :: string
  fu_EmailVerified :: bool
  fu_Name :: string
  fu_Scopes :: "string list"
  fu_AccessToken :: string
  fu_RefreshToken :: string
  fu_IDToken :: string

definition isAllowedDomain :: "federated_auth_config \<Rightarrow> string \<Rightarrow> bool" where
  "isAllowedDomain cfg email =
     (if email = [] then False
      else case split_on CHR ''@'' email of
        [_, d] \<Rightarrow> list_ex (\<lambda>allowed. to_lower allowed = to_lower d) (fdc_AllowedDomains cfg)
      | _ \<Rightarrow> False)"

definition add_scopes :: "string list \<Rightarrow> string list \<Rightarrow> string list" where
  "add_scopes extra scopes = fold (\<lambda>s ss. if s \<in> set ss then ss else ss @ [s]) extra scopes"

definition determineScopes :: "federated_auth_config \<Rightarrow> id_claims \<Rightarrow> string list" where
  "determineScopes cfg claims =
     (let identifier = (if ic_Email claims = [] then ic_Subject claims else ic_Email claims)
      in if list_ex (\<lambda>admin. admin = identifier \<or> admin = ic_Subject claims) (fdc_AdminUsers cfg)
         then add_scopes (fdc_AdminScopes cfg) (fdc_DefaultScopes cfg)
         else fdc_DefaultScopes cfg)"

text \<open>Who is let in, once the token is believed.\<close>

definition admit_claims :: "federated_auth_config \<Rightarrow> upstream_tokens \<Rightarrow> id_claims \<Rightarrow> federated_user upstream" where
  "admit_claims cfg r claims =
     (if fdc_AllowedDomains cfg \<noteq> [] \<and> \<not> isAllowedDomain cfg (ic_Email claims) then Failing ''email domain not allowed''
      else Upstream
        \<lparr>fu_Subject = ic_Subject claims, fu_Email = ic_Email claims, fu_EmailVerified = ic_EmailVerified claims,
         fu_Name = ic_Name claims, fu_Scopes = determineScopes cfg claims, fu_AccessToken = ut_AccessToken r,
         fu_RefreshToken = ut_RefreshToken r, fu_IDToken = ut_IDToken r\<rparr>)"

definition federated_Authenticate ::
  "upstream_env \<Rightarrow> federated_auth_config \<Rightarrow> oidc_client \<Rightarrow> string \<Rightarrow> string \<Rightarrow> string \<Rightarrow>
    federated_user upstream \<times> oidc_client" where
  "federated_Authenticate e cfg c code nonce redirectURI =
     up_bind (up_within ''exchanging authorization code'' (ExchangeCode e cfg c code redirectURI)) (\<lambda>r c1.
       if ut_IDToken r = [] then (Failing ''no ID token in response'', c1)
       else up_bind (up_within ''validating ID token'' (ValidateIDToken e cfg c1 (ut_IDToken r) nonce))
         (\<lambda>claims c2. (admit_claims cfg r claims, c2)))"

end
