(* ===== verification/Auth_Storage.thy ===== *)
theory Auth_Storage
  imports Bridge_Prelude
begin

text \<open>
  What the authorization server stores (\<open>internal/authserver/storage.go\<close>) and the store in memory
  (\<open>internal/authserver/storage_memory.go\<close>): authorization codes and refresh tokens that expire, and
  registered clients, each in a bounded map.  The contract the handlers rely on is a locale, proved
  for both maps of expiring values.
\<close>

section \<open>Records\<close>

record auth_code =
  ac_Code :: string
  ac_ClientID :: string
  ac_UserID :: string
  ac_Username :: string
  ac_RedirectURI :: string
  ac_Scope :: string
  ac_CodeChallenge :: string
  ac_CodeChallengeMethod :: string
  ac_State :: string
  ac_Nonce :: string
  ac_ExpiresAt :: instant
  ac_CreatedAt :: instant
  ac_UpstreamAccessToken :: string
  ac_UpstreamRefreshToken :: string
  ac_UpstreamIDToken :: string

record refresh_token =
  rt_Token :: string
  rt_ClientID :: string
  rt_UserID :: string
  rt_Username :: string
  rt_Scope :: string
  rt_ExpiresAt :: instant
  rt_CreatedAt :: instant
  rt_UpstreamRefreshToken :: string

record oauth_client =
  cl_ClientID :: string
  cl_ClientSecret :: string
  cl_ClientName :: string
  cl_RedirectURIs :: "string list"
  cl_GrantTypes :: "string list"
  cl_TokenEndpointAuthMethod :: string
  cl_CreatedAt :: instant

text \<open>\<open>time.Now().After(t)\<close>\<close>

definition code_IsExpired :: "instant \<Rightarrow> auth_code \<Rightarrow> bool" where
  "code_IsExpired now ac \<longleftrightarrow> now > ac_ExpiresAt ac"

definition refresh_IsExpired :: "instant \<Rightarrow> refresh_token \<Rightarrow> bool" where
  "refresh_IsExpired now rt \<longleftrightarrow> now > rt_ExpiresAt rt"

definition IsPublicClient :: "oauth_client \<Rightarrow> bool" where
  "IsPublicClient c \<longleftrightarrow> cl_TokenEndpointAuthMethod c = ''none'' \<or> cl_ClientSecret c = []"

definition HasRedirectURI :: "string \<Rightarrow> oauth_client \<Rightarrow> bool" where
  "HasRedirectURI uri c \<longleftrightarrow> uri \<in> set (cl_RedirectURIs c)"

definition HasGrantType :: "string \<Rightarrow> oauth_client \<Rightarrow> bool" where
  "HasGrantType g c \<longleftrightarrow> g \<in> set (cl_GrantTypes c)"

section \<open>The store in memory\<close>

record memory_storage =
  mem_authCodes :: "(string, auth_code) fmap"
  mem_refreshTokens :: "(string, refresh_token) fmap"
  mem_clients :: "(string, oauth_client) fmap"

definition maxAuthCodes :: nat where "maxAuthCodes = 10000"
definition maxRefreshTokens :: nat where "maxRefreshTokens = 50000"
definition maxClients :: nat where "maxClients = 1000"

definition NewMemoryStorage :: memory_storage where
  "NewMemoryStorage = \<lparr>mem_authCodes = fmempty, mem_refreshTokens = fmempty, mem_clients = fmempty\<rparr>"

text \<open>Storing returns \<open>None\<close> for \<open>ErrStorageFull\<close>.\<close>

definition StoreAuthorizationCode :: "auth_code \<Rightarrow> memory_storage \<Rightarrow> memory_storage option" where
  "StoreAuthorizationCode ac ms =
     (if fmsize (mem_authCodes ms) \<ge> maxAuthCodes then None
      else Some (ms\<lparr>mem_authCodes := fmupd (ac_Code ac) ac (mem_authCodes ms)\<rparr>))"

definition GetAuthorizationCode :: "instant \<Rightarrow> string \<Rightarrow> memory_storage \<Rightarrow> auth_code option" where
  "GetAuthorizationCode now code ms =
     (case fmlookup (mem_authCodes ms) code of
        None \<Rightarrow> None
      | Some ac \<Rightarrow> if code_IsExpired now ac then None else Some ac)"

definition DeleteAuthorizationCode :: "string \<Rightarrow> memory_storage \<Rightarrow> memory_storage" where
  "DeleteAuthorizationCode code ms = ms\<lparr>mem_authCodes := fmdrop code (mem_authCodes ms)\<rparr>"

definition StoreRefreshToken :: "refresh_token \<Rightarrow> memory_storage \<Rightarrow> memory_storage option" where
  "StoreRefreshToken rt ms =
     (if fmsize (mem_refreshTokens ms) \<ge> maxRefreshTokens then None
      else Some (ms\<lparr>mem_refreshTokens := fmupd (rt_Token rt) rt (mem_refreshTokens ms)\<rparr>))"

definition GetRefreshToken :: "instant \<Rightarrow> string \<Rightarrow> memory_storage \<Rightarrow> refresh_token option" where
  "GetRefreshToken now token ms =
     (case fmlookup (mem_refreshTokens ms) token of
        None \<Rightarrow> None
      | Some rt \<Rightarrow> if refresh_IsExpired now rt then None else Some rt)"

definition DeleteRefreshToken :: "string \<Rightarrow> memory_storage \<Rightarrow> memory_storage" where
  "DeleteRefreshToken token ms = ms\<lparr>mem_refreshTokens := fmdrop token (mem_refreshTokens ms)\<rparr>"

definition DeleteRefreshTokensForUser :: "string \<Rightarrow> memory_storage \<Rightarrow> memory_storage" where
  "DeleteRefreshTokensForUser user ms =
     ms\<lparr>mem_refreshTokens := fmdelete_if (\<lambda>_ rt. rt_UserID rt = user) (mem_refreshTokens ms)\<rparr>"

definition StoreClient :: "oauth_client \<Rightarrow> memory_storage \<Rightarrow> memory_storage option" where
  "StoreClient c ms =
     (if fmsize (mem_clients ms) \<ge> maxClients then None
      else Some (ms\<lparr>mem_clients := fmupd (cl_ClientID c) c (mem_clients ms)\<rparr>))"

definition GetClient :: "string \<Rightarrow> memory_storage \<Rightarrow> oauth_client option" where
  "GetClient i ms = fmlookup (mem_clients ms) i"

definition DeleteClient :: "string \<Rightarrow> memory_storage \<Rightarrow> memory_storage" where
  "DeleteClient i ms = ms\<lparr>mem_clients := fmdrop i (mem_clients ms)\<rparr>"

definition cleanupExpired :: "instant \<Rightarrow> memory_storage \<Rightarrow> memory_storage" where
  "cleanupExpired now ms =
     ms\<lparr>mem_authCodes := fmdelete_if (\<lambda>_ ac. now > ac_ExpiresAt ac) (mem_authCodes ms),
       mem_refreshTokens := fmdelete_if (\<lambda>_ rt. now > rt_ExpiresAt rt) (mem_refreshTokens ms)\<rparr>"

section \<open>The contract of a store of one-time values\<close>

text \<open>
  What a grant relies on: a stored value is found under its key until it expires or is deleted, and an
  operation on one key leaves the others alone.
\<close>

locale one_time_store =
  fixes get :: "instant \<Rightarrow> string \<Rightarrow> 's \<Rightarrow> 'v option"
    and put :: "'v \<Rightarrow> 's \<Rightarrow> 's option"
    and del :: "string \<Rightarrow> 's \<Rightarrow> 's"
    and sweep :: "instant \<Rightarrow> 's \<Rightarrow> 's"
    and key :: "'v \<Rightarrow> string"
    and expired :: "instant \<Rightarrow> 'v \<Rightarrow> bool"
  assumes get_put: "put v s = Some s' \<Longrightarrow>
      get now k s' = (if k = key v then (if expired now v then None else Some v) else get now k s)"
    and get_del: "get now k (del k' s) = (if k = k' then None else get now k s)"
    and get_live: "get now k s = Some v \<Longrightarrow> \<not> expired now v"
    and get_sweep: "get now k (sweep t s) = get now k s \<or> get now k (sweep t s) = None"
begin

text \<open>
  Histories of a store: values put in, keys deleted, expired ones swept, and changes to what the
  state holds beside this store.
\<close>

inductive history :: "'s \<Rightarrow> 'v list \<Rightarrow> 's \<Rightarrow> bool" where
  start: "history s [] s"
| put: "history s vs s' \<Longrightarrow> put v s' = Some s'' \<Longrightarrow> history s (vs @ [v]) s''"
| del: "history s vs s' \<Longrightarrow> history s vs (del k s')"
| sweep: "history s vs s' \<Longrightarrow> history s vs (sweep t s')"
| other: "history s vs s' \<Longrightarrow> (\<And>now k. get now k s'' = get now k s') \<Longrightarrow> history s vs s''"

lemma found_was_put:
  "history s vs s' \<Longrightarrow> get now k s' = Some v \<Longrightarrow> get now k s = Some v \<or> v \<in> set vs \<and> key v = k"
proof (induction rule: history.induct)
  case (start s)
  then show ?case by simp
next
  case (put s vs s' v' s'')
  then show ?case using get_put [OF put.hyps(2), of now k] by (auto split: if_splits)
next
  case (del s vs s' k')
  then show ?case using get_del [of now k k' s'] by (auto split: if_splits)
next
  case (sweep s vs s' t)
  then show ?case using get_sweep [of now k t s'] by auto
next
  case (other s vs s' s'')
  then show ?case by simp
qed

lemma history_trans: "history s' ws s'' \<Longrightarrow> history s vs s' \<Longrightarrow> history s (vs @ ws) s''"
proof (induction rule: history.induct)
  case (put s' ws t v t')
  then show ?case using history.put [of s "vs @ ws" t v t'] by simp
qed (auto intro: history.intros)

lemma deleted_stays_deleted:
  assumes "history (del k s) vs s'" and "list_all (\<lambda>v. key v \<noteq> k) vs"
  shows "get now k s' = None"
proof (cases "get now k s'")
  case (Some v)
  then show ?thesis
    using found_was_put [OF assms(1) Some] get_del [of now k k s] assms(2) by (auto simp: list_all_iff)
qed simp

end

interpretation codes: one_time_store GetAuthorizationCode StoreAuthorizationCode DeleteAuthorizationCode
    cleanupExpired ac_Code code_IsExpired
  by unfold_locales
     (auto simp: GetAuthorizationCode_def StoreAuthorizationCode_def DeleteAuthorizationCode_def
       cleanupExpired_def split: option.splits if_splits)

interpretation refreshes: one_time_store GetRefreshToken StoreRefreshToken DeleteRefreshToken
    cleanupExpired rt_Token refresh_IsExpired
  by unfold_locales
     (auto simp: GetRefreshToken_def StoreRefreshToken_def DeleteRefreshToken_def
       cleanupExpired_def split: option.splits if_splits)

section \<open>Bounds\<close>

definition storage_inv :: "memory_storage \<Rightarrow> bool" where
  "storage_inv ms \<longleftrightarrow>
     fmsize (mem_authCodes ms) \<le> maxAuthCodes \<and> fmsize (mem_refreshTokens ms) \<le> maxRefreshTokens \<and>
     fmsize (mem_clients ms) \<le> maxClients \<and>
     (\<forall>k ac. fmlookup (mem_authCodes ms) k = Some ac \<longrightarrow> ac_Code ac = k) \<and>
     (\<forall>k rt. fmlookup (mem_refreshTokens ms) k = Some rt \<longrightarrow> rt_Token rt = k) \<and>
     (\<forall>k c. fmlookup (mem_clients ms) k = Some c \<longrightarrow> cl_ClientID c = k)"

lemma storage_inv_ops:
  assumes "storage_inv ms"
  shows "StoreAuthorizationCode ac ms = Some ms' \<Longrightarrow> storage_inv ms'"
    and "StoreRefreshToken rt ms = Some ms' \<Longrightarrow> storage_inv ms'"
    and "StoreClient c ms = Some ms' \<Longrightarrow> storage_inv ms'"
    and "storage_inv (DeleteAuthorizationCode k ms)"
    and "storage_inv (DeleteRefreshToken k ms)"
    and "storage_inv (DeleteRefreshTokensForUser u ms)"
    and "storage_inv (DeleteClient k ms)"
    and "storage_inv (cleanupExpired now ms)"
  using assms
  by (auto simp: storage_inv_def StoreAuthorizationCode_def StoreRefreshToken_def StoreClient_def
      DeleteAuthorizationCode_def DeleteRefreshToken_def DeleteRefreshTokensForUser_def DeleteClient_def
      cleanupExpired_def fmsize_upd split: if_splits option.splits
      intro: le_trans [OF fmsize_drop_le] le_trans [OF fmsize_delete_if_le])

lemma storage_inv_new: "storage_inv NewMemoryStorage"
  by (simp add: storage_inv_def NewMemoryStorage_def)

end
