(* ===== verification/Oauth_Authorize.thy ===== *)
theory Oauth_Authorize
  imports Go_Url Pkce Auth_Storage Config_Types
begin

text \<open>
  The authorization endpoint of the built-in mode (\<open>internal/authserver/authorize.go\<close>), with the
  errors it answers (\<open>errors.go\<close>) and the users it authenticates (\<open>builtin.go\<close>): which redirect URIs
  are allowed, the login form with its one-time tokens, and the issue of an authorization code.
  bcrypt is a parameter; time and random bytes are arguments of each exchange.
\<close>

section \<open>OAuth errors\<close>

record oauth_error =
  oe_Code :: string
  oe_Description :: string
  oe_URI :: string
  oe_State :: string
  oe_HTTPStatus :: nat

definition NewOAuthError :: "string \<Rightarrow> string \<Rightarrow> nat \<Rightarrow> oauth_error" where
  "NewOAuthError code description status =
     \<lparr>oe_Code = code, oe_Description = description, oe_URI = [], oe_State = [], oe_HTTPStatus = status\<rparr>"

definition WithState :: "string \<Rightarrow> oauth_error \<Rightarrow> oauth_error" where
  "WithState state e = e\<lparr>oe_State := state\<rparr>"

definition oauth_error_Error :: "oauth_error \<Rightarrow> string" where
  "oauth_error_Error e = (if oe_Description e \<noteq> [] then oe_Code e @ '': '' @ oe_Description e else oe_Code e)"

definition ErrInvalidRequest :: "string \<Rightarrow> oauth_error" where
  "ErrInvalidRequest d = NewOAuthError ''invalid_request'' d 400"

definition ErrUnauthorizedClient :: "string \<Rightarrow> oauth_error" where
  "ErrUnauthorizedClient d = NewOAuthError ''unauthorized_client'' d 401"

definition ErrAccessDenied :: "string \<Rightarrow> oauth_error" where
  "ErrAccessDenied d = NewOAuthError ''access_denied'' d 403"

definition ErrUnsupportedResponseType :: "string \<Rightarrow> oauth_error" where
  "ErrUnsupportedResponseType d = NewOAuthError ''unsupported_response_type'' d 400"

definition ErrInvalidScope :: "string \<Rightarrow> oauth_error" where
  "ErrInvalidScope d = NewOAuthError ''invalid_scope'' d 400"

definition ErrServerError :: "string \<Rightarrow> oauth_error" where
  "ErrServerError d = NewOAuthError ''server_error'' d 500"

definition ErrTemporarilyUnavailable :: "string \<Rightarrow> oauth_error" where
  "ErrTemporarilyUnavailable d = NewOAuthError ''temporarily_unavailable'' d 503"

definition ErrInvalidClient :: "string \<Rightarrow> oauth_error" where
  "ErrInvalidClient d = NewOAuthError ''invalid_client'' d 401"

definition ErrInvalidGrant :: "string \<Rightarrow> oauth_error" where
  "ErrInvalidGrant d = NewOAuthError ''invalid_grant'' d 400"

definition ErrUnsupportedGrantType :: "string \<Rightarrow> oauth_error" where
  "ErrUnsupportedGrantType d = NewOAuthError ''unsupported_grant_type'' d 400"

definition ErrInvalidRedirectURI :: "string \<Rightarrow> oauth_error" where
  "ErrInvalidRedirectURI d = NewOAuthError ''invalid_redirect_uri'' d 400"

section \<open>Requests and answers\<close>

record authorize_request =
  ar_ResponseType :: string
  ar_ClientID :: string
  ar_RedirectURI :: string
  ar_Scope :: string
  ar_State :: string
  ar_CodeChallenge :: string
  ar_CodeChallengeMethod :: string
  ar_Nonce :: string

record token_response =
  tr_AccessToken :: string
  tr_TokenType :: string
  tr_ExpiresIn :: int
  tr_RefreshToken :: string
  tr_Scope :: string

text \<open>
  What the endpoints answer.  A redirect is the URI it parses and the parameters it sets on the
  query of that URI, in the order of the code; a form is its request, the message it shows and its
  one-time token.  A panic of the handler is an answer of its own (\<open>net/http\<close> closes the connection).
\<close>

datatype oauth_answer =
    JsonError nat oauth_error
  | PlainError nat string
  | RedirectTo string "(string \<times> string) list"
  | LoginForm authorize_request string string
  | TokenJson token_response
  | Registered oauth_client
  | Panics

definition WriteJSONError :: "oauth_error \<Rightarrow> oauth_answer" where
  "WriteJSONError e = (if oe_HTTPStatus e = 0 then JsonError 400 e else JsonError (oe_HTTPStatus e) e)"

definition error_params :: "oauth_error \<Rightarrow> (string \<times> string) list" where
  "error_params e =
     [(''error'', oe_Code e)] @
     (if oe_Description e \<noteq> [] then [(''error_description'', oe_Description e)] else []) @
     (if oe_State e \<noteq> [] then [(''state'', oe_State e)] else [])"

definition RedirectWithError :: "string \<Rightarrow> oauth_error \<Rightarrow> oauth_answer" where
  "RedirectWithError uri e =
     (case url_Parse uri of None \<Rightarrow> WriteJSONError e | Some u \<Rightarrow> RedirectTo uri (error_params e))"

text \<open>Parameters of a request, in order; \<open>Get\<close> and \<open>FormValue\<close> take the first value.\<close>

type_synonym params = "(string \<times> string) list"

definition param :: "params \<Rightarrow> string \<Rightarrow> string" where
  "param ps k = (case map_of ps k of None \<Rightarrow> [] | Some v \<Rightarrow> v)"

section \<open>Users\<close>

record user_info =
  ui_ID :: string
  ui_Username :: string
  ui_Scopes :: "string list"

record builtin_user =
  bu_username :: string
  bu_passwordHash :: string
  bu_scopes :: "string list"

type_synonym user_table = "(string, builtin_user) fmap"

text \<open>
  \<open>NewBuiltInAuthenticator\<close>, with the environment and \<open>bcrypt.GenerateFromPassword\<close> as arguments; a
  name given twice keeps its last entry.
\<close>

fun add_users ::
  "(string \<Rightarrow> string) \<Rightarrow> (string \<Rightarrow> string option) \<Rightarrow> user_config list \<Rightarrow> user_table \<Rightarrow> string + user_table" where
  "add_users getenv hash [] t = Inr t"
| "add_users getenv hash (u # us) t =
     (case (if uc_PasswordHash u \<noteq> [] then Inr (uc_PasswordHash u)
            else if uc_PasswordEnv u \<noteq> [] then
              (if getenv (uc_PasswordEnv u) = []
               then Inl (''password environment variable is empty: '' @ uc_PasswordEnv u)
               else case hash (getenv (uc_PasswordEnv u)) of
                      None \<Rightarrow> Inl (''failed to hash password for user: '' @ uc_Username u)
                    | Some h \<Rightarrow> Inr h)
            else Inl (''no password configured for user: '' @ uc_Username u)) of
        Inl e \<Rightarrow> Inl e
      | Inr h \<Rightarrow>
          add_users getenv hash us
            (fmupd (uc_Username u)
               \<lparr>bu_username = uc_Username u, bu_passwordHash = h, bu_scopes = uc_Scopes u\<rparr> t))"

definition NewBuiltInAuthenticator ::
  "(string \<Rightarrow> string) \<Rightarrow> (string \<Rightarrow> string option) \<Rightarrow> user_config list \<Rightarrow> string + user_table" where
  "NewBuiltInAuthenticator getenv hash us = add_users getenv hash us fmempty"

definition user_info_of :: "builtin_user \<Rightarrow> user_info" where
  "user_info_of u = \<lparr>ui_ID = bu_username u, ui_Username = bu_username u, ui_Scopes = bu_scopes u\<rparr>"

text \<open>\<open>Authenticate\<close>, with \<open>bcrypt.CompareHashAndPassword\<close> as an argument.\<close>

definition Authenticate ::
  "(string \<Rightarrow> string \<Rightarrow> bool) \<Rightarrow> user_table \<Rightarrow> string \<Rightarrow> string \<Rightarrow> user_info option" where
  "Authenticate bcrypt users username password =
     (case fmlookup users username of
        None \<Rightarrow> None
      | Some u \<Rightarrow> if bcrypt (bu_passwordHash u) password then Some (user_info_of u) else None)"

definition GetUser :: "user_table \<Rightarrow> string \<Rightarrow> user_info option" where
  "GetUser users userID = map_option user_info_of (fmlookup users userID)"

definition FilterScopes :: "string list \<Rightarrow> string list \<Rightarrow> string list" where
  "FilterScopes requested allowed = filter (\<lambda>s. s \<in> set allowed) requested"

definition ValidateClientSecret :: "string \<Rightarrow> string \<Rightarrow> bool" where
  "ValidateClientSecret provided stored = (if stored = [] then True else provided = stored)"

section \<open>Redirect URIs\<close>

definition parseLoopbackURI :: "string \<Rightarrow> url option" where
  "parseLoopbackURI uri =
     (case url_Parse uri of
        None \<Rightarrow> None
      | Some u \<Rightarrow>
          if u_Scheme u \<noteq> ''http'' \<or> u_Opaque u \<noteq> [] \<or> u_User u \<noteq> None \<or> u_Fragment u \<noteq> [] \<or>
             contains uri ''#'' then None
          else if Hostname u \<in> set loopback_hosts then Some u
          else None)"

fun allowed_in :: "string \<Rightarrow> url option \<Rightarrow> string list \<Rightarrow> bool" where
  "allowed_in uri parsed [] = False"
| "allowed_in uri parsed (allowed # rest) =
     (if allowed = uri then True
      else case parsed of
        None \<Rightarrow> allowed_in uri parsed rest
      | Some u \<Rightarrow>
         (case parseLoopbackURI allowed of
            Some a \<Rightarrow>
              if EscapedPath a = EscapedPath u \<and> u_RawQuery a = u_RawQuery u then True
              else allowed_in uri parsed rest
          | None \<Rightarrow> allowed_in uri parsed rest))"

definition isAllowedRedirectURI :: "string \<Rightarrow> string list \<Rightarrow> bool" where
  "isAllowedRedirectURI uri allowed = allowed_in uri (parseLoopbackURI uri) allowed"

definition checkRegisteredClient ::
  "memory_storage \<Rightarrow> bool \<Rightarrow> string \<Rightarrow> string \<Rightarrow> oauth_error option" where
  "checkRegisteredClient st requireRegistered clientID redirectURI =
     (case GetClient clientID st of
        None \<Rightarrow> if requireRegistered then Some (ErrInvalidRequest ''unknown client_id'') else None
      | Some c \<Rightarrow>
          if \<not> isAllowedRedirectURI redirectURI (cl_RedirectURIs c)
          then Some (ErrInvalidRequest ''redirect_uri is not registered for this client'')
          else None)"

text \<open>\<open>validateAuthorizeRequest\<close>: the error and the request with its method filled in.\<close>

definition validateAuthorizeRequest ::
  "authorize_request \<Rightarrow> string list \<Rightarrow> oauth_error option \<times> authorize_request" where
  "validateAuthorizeRequest req allowed =
     (if ar_ResponseType req \<noteq> ''code'' then
        (Some (ErrUnsupportedResponseType ''only 'code' response type is supported''), req)
      else if ar_ClientID req = [] then (Some (ErrInvalidRequest ''client_id is required''), req)
      else if ar_RedirectURI req = [] then (Some (ErrInvalidRequest ''redirect_uri is required''), req)
      else if \<not> isAllowedRedirectURI (ar_RedirectURI req) allowed then
        (Some (ErrInvalidRequest ''redirect_uri is not allowed''), req)
      else if ar_CodeChallenge req = [] then
        (Some (ErrInvalidRequest ''code_challenge is required (PKCE)''), req)
      else
        let req = (if ar_CodeChallengeMethod req = [] then req\<lparr>ar_CodeChallengeMethod := ''S256''\<rparr> else req)
        in if \<not> ValidateCodeChallengeMethod (ar_CodeChallengeMethod req) then
             (Some (ErrInvalidRequest ''only S256 code_challenge_method is supported''), req)
           else if \<not> ValidateCodeChallenge (ar_CodeChallenge req) then
             (Some (ErrInvalidRequest ''invalid code_challenge format''), req)
           else (None, req))"

definition request_of_params :: "params \<Rightarrow> authorize_request" where
  "request_of_params q =
     \<lparr>ar_ResponseType = param q ''response_type'', ar_ClientID = param q ''client_id'',
      ar_RedirectURI = param q ''redirect_uri'', ar_Scope = param q ''scope'', ar_State = param q ''state'',
      ar_CodeChallenge = param q ''code_challenge'', ar_CodeChallengeMethod = param q ''code_challenge_method'',
      ar_Nonce = param q ''nonce''\<rparr>"

section \<open>The handler\<close>

text \<open>
  What the server is configured with, and the state its endpoints share: the store and the one-time
  tokens of the login forms with their expiry.
\<close>

record oauth_config =
  oc_Issuer :: string
  oc_AllowedRedirectURIs :: "string list"
  oc_ScopesSupported :: "string list"
  oc_AuthCodeLifetime :: duration
  oc_TokenLifetime :: duration
  oc_RefreshTokenLifetime :: duration
  oc_AllowDynamicRegistration :: bool

record oauth_state =
  os_storage :: memory_storage
  os_csrf :: "(string, instant) fmap"

text \<open>
  What an exchange gets from outside: the clock when it starts and when it prepares its answer, and
  the random bytes of the values it generates (\<open>None\<close>, the source failed).
\<close>

record exchange_env =
  ee_now :: instant
  ee_later :: instant
  ee_csrf :: "char list option"
  ee_value :: "char list option"
  ee_jti :: "char list"

definition csrfTokenExpiry :: duration where "csrfTokenExpiry = 10 * 60 * second"

definition hex_of :: "char list \<Rightarrow> string" where
  "hex_of b = concat (map (\<lambda>c. [hex_digit ((of_char c :: nat) div 16), hex_digit (of_char c mod 16)]) b)"

definition generateCSRFToken ::
  "instant \<Rightarrow> char list option \<Rightarrow> (string, instant) fmap \<Rightarrow> (string option \<times> (string, instant) fmap)" where
  "generateCSRFToken now b tokens =
     (case b of
        None \<Rightarrow> (None, tokens)
      | Some b \<Rightarrow>
          (Some (hex_of b),
           fmupd (hex_of b) (now + csrfTokenExpiry) (fmdelete_if (\<lambda>_ expiry. now > expiry) tokens)))"

definition validateCSRFToken ::
  "instant \<Rightarrow> string \<Rightarrow> (string, instant) fmap \<Rightarrow> bool \<times> (string, instant) fmap" where
  "validateCSRFToken now token tokens =
     (if token = [] then (False, tokens)
      else case fmlookup tokens token of
        None \<Rightarrow> (False, tokens)
      | Some expiry \<Rightarrow> (now < expiry, fmdrop token tokens))"

definition showLoginForm ::
  "exchange_env \<Rightarrow> authorize_request \<Rightarrow> string \<Rightarrow> oauth_state \<Rightarrow> oauth_answer \<times> oauth_state" where
  "showLoginForm e req msg st =
     (case generateCSRFToken (ee_later e) (ee_csrf e) (os_csrf st) of
        (None, tokens) \<Rightarrow> (PlainError 500 ''Internal server error'', st\<lparr>os_csrf := tokens\<rparr>)
      | (Some t, tokens) \<Rightarrow> (LoginForm req msg t, st\<lparr>os_csrf := tokens\<rparr>))"

definition checkClient :: "oauth_config \<Rightarrow> oauth_state \<Rightarrow> string \<Rightarrow> string \<Rightarrow> oauth_error option" where
  "checkClient cfg st clientID uri =
     checkRegisteredClient (os_storage st) (oc_AllowDynamicRegistration cfg) clientID uri"

definition canRedirectError :: "oauth_config \<Rightarrow> oauth_state \<Rightarrow> string \<Rightarrow> string \<Rightarrow> bool" where
  "canRedirectError cfg st clientID uri \<longleftrightarrow>
     uri \<noteq> [] \<and> isAllowedRedirectURI uri (oc_AllowedRedirectURIs cfg) \<and> checkClient cfg st clientID uri = None"

definition authorize_handleGet ::
  "oauth_config \<Rightarrow> exchange_env \<Rightarrow> params \<Rightarrow> oauth_state \<Rightarrow> oauth_answer \<times> oauth_state" where
  "authorize_handleGet cfg e q st =
     (case validateAuthorizeRequest (request_of_params q) (oc_AllowedRedirectURIs cfg) of
        (Some err, req) \<Rightarrow>
          if canRedirectError cfg st (ar_ClientID req) (param q ''redirect_uri'')
          then (RedirectWithError (param q ''redirect_uri'') err, st)
          else (WriteJSONError err, st)
      | (None, req) \<Rightarrow>
          (case checkClient cfg st (ar_ClientID req) (ar_RedirectURI req) of
             Some err \<Rightarrow> (WriteJSONError err, st)
           | None \<Rightarrow> showLoginForm e req [] st))"

text \<open>The scopes granted: those requested that the user has, or else those the server supports.\<close>

definition granted_scopes :: "oauth_config \<Rightarrow> user_info \<Rightarrow> string \<Rightarrow> string list" where
  "granted_scopes cfg ui scope =
     (let granted = FilterScopes (Go_Strings.fields scope) (ui_Scopes ui)
      in if granted = [] then FilterScopes (oc_ScopesSupported cfg) (ui_Scopes ui) else granted)"

definition new_auth_code ::
  "oauth_config \<Rightarrow> exchange_env \<Rightarrow> string \<Rightarrow> authorize_request \<Rightarrow> user_info \<Rightarrow> auth_code" where
  "new_auth_code cfg e code req ui =
     \<lparr>ac_Code = code, ac_ClientID = ar_ClientID req, ac_UserID = ui_ID ui, ac_Username = ui_Username ui,
      ac_RedirectURI = ar_RedirectURI req,
      ac_Scope = join_with '' '' (granted_scopes cfg ui (ar_Scope req)),
      ac_CodeChallenge = ar_CodeChallenge req, ac_CodeChallengeMethod = ar_CodeChallengeMethod req,
      ac_State = ar_State req, ac_Nonce = ar_Nonce req,
      ac_ExpiresAt = ee_later e + oc_AuthCodeLifetime cfg, ac_CreatedAt = ee_later e,
      ac_UpstreamAccessToken = [], ac_UpstreamRefreshToken = [], ac_UpstreamIDToken = []\<rparr>"

text \<open>After the credentials are accepted: the code is generated, stored, and sent to the client.\<close>

definition issue_code ::
  "oauth_config \<Rightarrow> exchange_env \<Rightarrow> authorize_request \<Rightarrow> user_info \<Rightarrow> oauth_state \<Rightarrow> oauth_answer \<times> oauth_state" where
  "issue_code cfg e req ui st =
     (case GenerateAuthorizationCode (ee_value e) of
        None \<Rightarrow>
          (RedirectWithError (ar_RedirectURI req)
             (WithState (ar_State req) (ErrServerError ''failed to generate authorization code'')), st)
      | Some code \<Rightarrow>
         (case StoreAuthorizationCode (new_auth_code cfg e code req ui) (os_storage st) of
            None \<Rightarrow>
              (RedirectWithError (ar_RedirectURI req)
                 (WithState (ar_State req) (ErrServerError ''failed to store authorization code'')), st)
          | Some s \<Rightarrow>
             (case url_Parse (ar_RedirectURI req) of
                None \<Rightarrow> (Panics, st\<lparr>os_storage := s\<rparr>)
              | Some u \<Rightarrow>
                  (RedirectTo (ar_RedirectURI req)
                     ([(''code'', code)] @ (if ar_State req \<noteq> [] then [(''state'', ar_State req)] else [])),
                   st\<lparr>os_storage := s\<rparr>))))"

text \<open>\<open>handlePost\<close> after the form's token is accepted.\<close>

definition login ::
  "oauth_config \<Rightarrow> (string \<Rightarrow> string \<Rightarrow> user_info option) \<Rightarrow> exchange_env \<Rightarrow> params \<Rightarrow> oauth_state \<Rightarrow>
    oauth_answer \<times> oauth_state" where
  "login cfg authenticate e form st =
     (case validateAuthorizeRequest (request_of_params form) (oc_AllowedRedirectURIs cfg) of
        (Some err, req) \<Rightarrow>
          if canRedirectError cfg st (ar_ClientID req) (ar_RedirectURI req)
          then (RedirectWithError (ar_RedirectURI req) (WithState (ar_State req) err), st)
          else (WriteJSONError err, st)
      | (None, req) \<Rightarrow>
          (case checkClient cfg st (ar_ClientID req) (ar_RedirectURI req) of
             Some err \<Rightarrow> (WriteJSONError err, st)
           | None \<Rightarrow>
               if param form ''username'' = [] \<or> param form ''password'' = [] then
                 showLoginForm e req ''Username and password are required'' st
               else case authenticate (param form ''username'') (param form ''password'') of
                 None \<Rightarrow> showLoginForm e req ''Invalid username or password'' st
               | Some ui \<Rightarrow> issue_code cfg e req ui st))"

text \<open>\<open>form\<close> is \<open>None\<close> when it cannot be parsed.\<close>

definition authorize_handlePost ::
  "oauth_config \<Rightarrow> (string \<Rightarrow> string \<Rightarrow> user_info option) \<Rightarrow> exchange_env \<Rightarrow> params option \<Rightarrow> oauth_state \<Rightarrow>
    oauth_answer \<times> oauth_state" where
  "authorize_handlePost cfg authenticate e form st =
     (case form of
        None \<Rightarrow> (WriteJSONError (ErrInvalidRequest ''failed to parse form''), st)
      | Some form \<Rightarrow>
         (case validateCSRFToken (ee_now e) (param form ''csrf_token'') (os_csrf st) of
            (False, tokens) \<Rightarrow>
              (WriteJSONError (ErrInvalidRequest ''invalid or expired form submission''), st\<lparr>os_csrf := tokens\<rparr>)
          | (True, tokens) \<Rightarrow> login cfg authenticate e form (st\<lparr>os_csrf := tokens\<rparr>)))"

text \<open>\<open>ServeHTTP\<close>, on the method, the query of a GET and the form of a POST.\<close>

datatype oauth_method = MGet | MPost | MOther

definition authorize_ServeHTTP ::
  "oauth_config \<Rightarrow> (string \<Rightarrow> string \<Rightarrow> user_info option) \<Rightarrow> exchange_env \<Rightarrow> oauth_method \<Rightarrow> params \<Rightarrow>
    params option \<Rightarrow> oauth_state \<Rightarrow> oauth_answer \<times> oauth_state" where
  "authorize_ServeHTTP cfg authenticate e m q form st =
     (case m of
        MGet \<Rightarrow> authorize_handleGet cfg e q st
      | MPost \<Rightarrow> authorize_handlePost cfg authenticate e form st
      | MOther \<Rightarrow> (PlainError 405 ''Method not allowed'', st))"

section \<open>Where the endpoint redirects to\<close>

text \<open>
  A URI is safe for a list of allowed ones when it is one of them, or when its text is plain http to a
  loopback host at any port and its path and query are those of an allowed loopback URI.
\<close>

definition safe_redirect :: "string \<Rightarrow> string list \<Rightarrow> bool" where
  "safe_redirect uri allowed \<longleftrightarrow>
     uri \<in> set allowed \<or>
     (\<exists>a \<in> set allowed. \<exists>ua u host.
        parseLoopbackURI a = Some ua \<and> url_Parse uri = Some u \<and>
        loopback_authority host \<and> url_shape ''http'' host uri \<and>
        EscapedPath u = EscapedPath ua \<and> u_RawQuery u = u_RawQuery ua)"

lemma contains_single: "contains s [c] \<longleftrightarrow> c \<in> set s"
  by (induction s) (auto simp: has_prefix_def)

lemma parseLoopbackURI_shape:
  assumes "parseLoopbackURI uri = Some u"
  shows "url_Parse uri = Some u \<and> loopback_authority (u_Host u) \<and> url_shape ''http'' (u_Host u) uri"
proof -
  have p: "url_Parse uri = Some u" and s: "u_Scheme u = ''http''" "u_User u = None"
    and h: "Hostname u \<in> set loopback_hosts" and f: "CHR ''#'' \<notin> set uri"
    using assms by (auto simp: parseLoopbackURI_def contains_single split: option.splits if_splits)
  have l: "plain_host (u_Host u)" "loopback_authority (u_Host u)" using Hostname_loopback [OF h] by simp_all
  have "u_Host u \<noteq> []"
  proof
    assume "u_Host u = []"
    then have "Hostname u = []"
      by (simp add: Hostname_def strip_port_def cut_last_def has_prefix_def Let_def)
    then show False using h by (simp add: loopback_hosts_def)
  qed
  then have "url_shape ''http'' (u_Host u) uri"
    using parse_nofrag_shape [of uri u] p s l f url_Parse_no_fragment [of uri] by simp
  then show ?thesis using p l by simp
qed

lemma allowed_in_iff:
  "allowed_in uri parsed allowed \<longleftrightarrow>
     uri \<in> set allowed \<or>
     (\<exists>a \<in> set allowed. \<exists>ua u. parsed = Some u \<and> parseLoopbackURI a = Some ua \<and>
        EscapedPath u = EscapedPath ua \<and> u_RawQuery u = u_RawQuery ua)"
  by (induction uri parsed allowed rule: allowed_in.induct) (auto split: option.splits)

lemma isAllowedRedirectURI_safe:
  assumes "isAllowedRedirectURI uri allowed"
  shows "safe_redirect uri allowed"
proof (cases "uri \<in> set allowed")
  case False
  then obtain a ua u where a: "a \<in> set allowed" "parseLoopbackURI uri = Some u" "parseLoopbackURI a = Some ua"
    "EscapedPath u = EscapedPath ua" "u_RawQuery u = u_RawQuery ua"
    using assms by (auto simp: isAllowedRedirectURI_def allowed_in_iff)
  then show ?thesis using parseLoopbackURI_shape [OF a(2)] unfolding safe_redirect_def by blast
qed (simp add: safe_redirect_def)

text \<open>What the checks before a redirect say of its request.\<close>

lemma validateAuthorizeRequest_ok:
  "validateAuthorizeRequest req allowed = (None, req') \<Longrightarrow>
     isAllowedRedirectURI (ar_RedirectURI req') allowed \<and> ar_RedirectURI req' = ar_RedirectURI req \<and>
     ar_ClientID req' = ar_ClientID req \<and> ar_Scope req' = ar_Scope req \<and> ar_State req' = ar_State req \<and>
     ar_CodeChallenge req' = ar_CodeChallenge req \<and> ar_CodeChallengeMethod req' = ''S256'' \<and>
     ValidateCodeChallenge (ar_CodeChallenge req') \<and> ar_ClientID req' \<noteq> [] \<and> ar_RedirectURI req' \<noteq> []"
  by (auto simp: validateAuthorizeRequest_def Let_def ValidateCodeChallengeMethod_def split: if_splits)

lemma validateAuthorizeRequest_frame:
  "validateAuthorizeRequest req allowed = (r, req') \<Longrightarrow>
     ar_RedirectURI req' = ar_RedirectURI req \<and> ar_ClientID req' = ar_ClientID req"
  by (auto simp: validateAuthorizeRequest_def Let_def split: if_splits)

lemma request_of_params_sel [simp]:
  "ar_ClientID (request_of_params q) = param q ''client_id''"
  "ar_RedirectURI (request_of_params q) = param q ''redirect_uri''"
  "ar_Scope (request_of_params q) = param q ''scope''"
  "ar_State (request_of_params q) = param q ''state''"
  "ar_CodeChallenge (request_of_params q) = param q ''code_challenge''"
  by (simp_all add: request_of_params_def)

text \<open>The client's own list, or no registration needed.\<close>

definition client_allows :: "oauth_config \<Rightarrow> oauth_state \<Rightarrow> string \<Rightarrow> string \<Rightarrow> bool" where
  "client_allows cfg st clientID uri \<longleftrightarrow>
     (case GetClient clientID (os_storage st) of
        None \<Rightarrow> \<not> oc_AllowDynamicRegistration cfg
      | Some c \<Rightarrow> isAllowedRedirectURI uri (cl_RedirectURIs c))"

lemma checkClient_None: "checkClient cfg st i uri = None \<longleftrightarrow> client_allows cfg st i uri"
  by (simp add: checkClient_def checkRegisteredClient_def client_allows_def split: option.splits)

lemma WriteJSONError_not_redirect [simp]: "WriteJSONError e \<noteq> RedirectTo uri ps" "RedirectTo uri ps \<noteq> WriteJSONError e"
  by (simp_all add: WriteJSONError_def)

lemma RedirectWithError_to: "RedirectWithError u e = RedirectTo uri ps \<Longrightarrow> uri = u \<and> ps = error_params e"
  by (auto simp: RedirectWithError_def split: option.splits)

lemma showLoginForm_not_redirect: "showLoginForm e req msg st \<noteq> (RedirectTo uri ps, st')"
  by (auto simp: showLoginForm_def split: prod.splits option.splits)

lemma issue_code_to: "issue_code cfg e req ui st = (RedirectTo uri ps, st') \<Longrightarrow> uri = ar_RedirectURI req"
  by (auto simp: issue_code_def split: option.splits dest!: RedirectWithError_to)

lemma handleGet_redirects:
  "authorize_handleGet cfg e q st = (RedirectTo uri ps, st') \<Longrightarrow>
     isAllowedRedirectURI uri (oc_AllowedRedirectURIs cfg) \<and> client_allows cfg st (param q ''client_id'') uri"
  by (auto simp: authorize_handleGet_def canRedirectError_def checkClient_None showLoginForm_not_redirect
      split: prod.splits option.splits if_splits dest!: RedirectWithError_to
      dest: validateAuthorizeRequest_frame)

lemma login_redirects:
  "login cfg auth e form st = (RedirectTo uri ps, st') \<Longrightarrow>
     isAllowedRedirectURI uri (oc_AllowedRedirectURIs cfg) \<and> client_allows cfg st (param form ''client_id'') uri"
  by (auto simp: login_def canRedirectError_def checkClient_None showLoginForm_not_redirect
      split: prod.splits option.splits if_splits dest!: RedirectWithError_to issue_code_to
      dest: validateAuthorizeRequest_frame validateAuthorizeRequest_ok)

lemma client_allows_csrf [simp]: "client_allows cfg (st\<lparr>os_csrf := t\<rparr>) i uri = client_allows cfg st i uri"
  by (simp add: client_allows_def)

lemma handlePost_redirects:
  assumes "authorize_handlePost cfg auth e (Some form) st = (RedirectTo uri ps, st')"
  shows "isAllowedRedirectURI uri (oc_AllowedRedirectURIs cfg) \<and> client_allows cfg st (param form ''client_id'') uri"
proof -
  obtain tokens where "login cfg auth e form (st\<lparr>os_csrf := tokens\<rparr>) = (RedirectTo uri ps, st')"
    using assms by (auto simp: authorize_handlePost_def split: prod.splits bool.splits)
  then show ?thesis using login_redirects by fastforce
qed

text \<open>The parameters an exchange takes its request from.\<close>

definition request_params :: "oauth_method \<Rightarrow> params \<Rightarrow> params option \<Rightarrow> params" where
  "request_params m q form = (if m = MPost then (case form of None \<Rightarrow> [] | Some f \<Rightarrow> f) else q)"

text \<open>
  C3.  The authorization endpoint is no open redirector.  Whatever the request, the users and the
  state, when the endpoint redirects (with a code or with an error) the target is one of the
  configured URIs, or its text is \<open>http://\<close> followed by a loopback host (in brackets or not, with any
  port) and then the end, a path or a query, with the path and the query of a configured loopback URI;
  no user information, no other host.  The same holds of the list a registered client gave, and an
  unregistered client is redirected only when registration is not in use.
\<close>

theorem redirects_are_safe:
  assumes "authorize_ServeHTTP cfg auth e m q form st = (RedirectTo uri ps, st')"
  shows "safe_redirect uri (oc_AllowedRedirectURIs cfg) \<and>
    (case GetClient (param (request_params m q form) ''client_id'') (os_storage st) of
       None \<Rightarrow> \<not> oc_AllowDynamicRegistration cfg
     | Some c \<Rightarrow> safe_redirect uri (cl_RedirectURIs c))"
proof -
  have "isAllowedRedirectURI uri (oc_AllowedRedirectURIs cfg) \<and>
      client_allows cfg st (param (request_params m q form) ''client_id'') uri"
  proof (cases m)
    case MGet
    then show ?thesis
      using assms handleGet_redirects by (auto simp: authorize_ServeHTTP_def request_params_def)
  next
    case MPost
    then obtain f where "form = Some f"
      using assms by (cases form) (simp_all add: authorize_ServeHTTP_def authorize_handlePost_def)
    then show ?thesis
      using MPost assms handlePost_redirects by (auto simp: authorize_ServeHTTP_def request_params_def)
  next
    case MOther
    then show ?thesis using assms by (simp add: authorize_ServeHTTP_def)
  qed
  then show ?thesis
    using isAllowedRedirectURI_safe by (auto simp: client_allows_def split: option.splits)
qed

text \<open>A configuration, and two loopback URIs that differ in their port.\<close>

definition sample_oauth :: oauth_config where
  "sample_oauth =
     \<lparr>oc_Issuer = ''https://mcp.example'', oc_AllowedRedirectURIs = [''http://localhost/cb''],
      oc_ScopesSupported = [''mcp''], oc_AuthCodeLifetime = 600 * second, oc_TokenLifetime = 3600 * second,
      oc_RefreshTokenLifetime = 86400 * second, oc_AllowDynamicRegistration = False\<rparr>"

definition empty_oauth :: oauth_state where
  "empty_oauth = \<lparr>os_storage = NewMemoryStorage, os_csrf = fmempty\<rparr>"

lemmas url_eval = url_Parse_def parse_nofrag_def getScheme_def cut_query_def setPath_def parseAuthority_def
  parseHost_def zero_url_def control_byte_def byte_in_def has_prefix_def has_suffix_def to_lower_def lower_char_def
  shouldEscape_def alnum_def cut_last_def Let_def validOptionalPort_def is_digit_def char_of_def bit_iff_odd

lemma parse_sample_uri:
  "url_Parse ''http://localhost:81/cb'' =
     Some (zero_url\<lparr>u_Scheme := ''http'', u_Host := ''localhost:81'', u_Path := ''/cb''\<rparr>)"
  "url_Parse ''http://localhost/cb'' =
     Some (zero_url\<lparr>u_Scheme := ''http'', u_Host := ''localhost'', u_Path := ''/cb''\<rparr>)"
  by (simp_all add: url_eval)

lemma parseLoopback_sample:
  "parseLoopbackURI ''http://localhost:81/cb'' =
     Some (zero_url\<lparr>u_Scheme := ''http'', u_Host := ''localhost:81'', u_Path := ''/cb''\<rparr>)"
  "parseLoopbackURI ''http://localhost/cb'' =
     Some (zero_url\<lparr>u_Scheme := ''http'', u_Host := ''localhost'', u_Path := ''/cb''\<rparr>)"
  by (simp_all add: parseLoopbackURI_def parse_sample_uri contains_single Hostname_def strip_port_def
      cut_last_def validOptionalPort_def is_digit_def byte_in_def loopback_hosts_def has_prefix_def
      zero_url_def Let_def)

lemma sample_uri_allowed:
  "isAllowedRedirectURI ''http://localhost:81/cb'' [''http://localhost/cb'']"
  by (simp add: isAllowedRedirectURI_def parseLoopback_sample EscapedPath_def zero_url_def)

theorem redirects_are_safe_witness:
  "\<exists>st'. authorize_ServeHTTP sample_oauth (\<lambda>_ _. None) \<lparr>ee_now = 0, ee_later = 0, ee_csrf = None, ee_value = None, ee_jti = []\<rparr>
       MGet [(''client_id'', ''c''), (''redirect_uri'', ''http://localhost:81/cb'')] None empty_oauth =
     (RedirectTo ''http://localhost:81/cb''
        (error_params (ErrUnsupportedResponseType ''only 'code' response type is supported'')), st') \<and>
   safe_redirect ''http://localhost:81/cb'' (oc_AllowedRedirectURIs sample_oauth)"
proof -
  have r: "authorize_ServeHTTP sample_oauth (\<lambda>_ _. None) \<lparr>ee_now = 0, ee_later = 0, ee_csrf = None, ee_value = None, ee_jti = []\<rparr>
       MGet [(''client_id'', ''c''), (''redirect_uri'', ''http://localhost:81/cb'')] None empty_oauth =
     (RedirectTo ''http://localhost:81/cb''
        (error_params (ErrUnsupportedResponseType ''only 'code' response type is supported'')), empty_oauth)"
    using sample_uri_allowed
    by (simp add: authorize_ServeHTTP_def authorize_handleGet_def validateAuthorizeRequest_def request_of_params_def
        param_def canRedirectError_def checkClient_def checkRegisteredClient_def GetClient_def empty_oauth_def
        NewMemoryStorage_def sample_oauth_def RedirectWithError_def parse_sample_uri)
  then show ?thesis using redirects_are_safe [OF r] by blast
qed

end
