(* ===== verification/Oauth_Token.thy ===== *)
theory Oauth_Token
  imports Oauth_Authorize Jsonrpc
begin

text \<open>
  The token endpoint (\<open>internal/authserver/token.go\<close>), the claims of access tokens (\<open>jwt.go\<close>), the
  dynamic registration of clients (\<open>authserver.go\<close>) and the metadata documents (\<open>metadata.go\<close>).
  The signature of a token is a parameter.  An exchange of a code reads the store and later deletes
  from it under separate locks, so it is two steps; run alone it is one after the other.
\<close>

section \<open>Access tokens\<close>

record access_claims =
  at_Issuer :: string
  at_Subject :: string
  at_Audience :: "string list"
  at_IssuedAt :: int
  at_NotBefore :: int
  at_Expiry :: int
  at_ID :: string
  at_Scope :: string
  at_ClientID :: string

text \<open>\<open>jwt.NewNumericDate\<close>: whole seconds since the epoch.\<close>

definition NewNumericDate :: "instant \<Rightarrow> int" where
  "NewNumericDate t = t div second"

definition IssueAccessToken ::
  "(access_claims \<Rightarrow> string option) \<Rightarrow> instant \<Rightarrow> char list \<Rightarrow> string \<Rightarrow> string \<Rightarrow> string list \<Rightarrow> string \<Rightarrow>
    string \<Rightarrow> duration \<Rightarrow> (string \<times> string) option" where
  "IssueAccessToken sign now jti issuer subject audience scope clientID lifetime =
     map_option (\<lambda>t. (t, generateJTI jti))
       (sign \<lparr>at_Issuer = issuer, at_Subject = subject, at_Audience = audience,
              at_IssuedAt = NewNumericDate now, at_NotBefore = NewNumericDate now,
              at_Expiry = NewNumericDate (now + lifetime), at_ID = generateJTI jti,
              at_Scope = scope, at_ClientID = clientID\<rparr>)"

section \<open>The token endpoint\<close>

definition validateClientAuth :: "oauth_config \<Rightarrow> oauth_state \<Rightarrow> string \<Rightarrow> string \<Rightarrow> oauth_error option" where
  "validateClientAuth cfg st clientID clientSecret =
     (case GetClient clientID (os_storage st) of
        None \<Rightarrow> if oc_AllowDynamicRegistration cfg then Some (ErrInvalidClient ''unknown client_id'') else None
      | Some c \<Rightarrow>
          if \<not> ValidateClientSecret clientSecret (cl_ClientSecret c)
          then Some (ErrInvalidClient ''client authentication failed'') else None)"

definition new_refresh_token ::
  "oauth_config \<Rightarrow> exchange_env \<Rightarrow> string \<Rightarrow> string \<Rightarrow> string \<Rightarrow> string \<Rightarrow> string \<Rightarrow> refresh_token" where
  "new_refresh_token cfg e t userID username clientID scope =
     \<lparr>rt_Token = t, rt_ClientID = clientID, rt_UserID = userID, rt_Username = username, rt_Scope = scope,
      rt_ExpiresAt = ee_later e + oc_RefreshTokenLifetime cfg, rt_CreatedAt = ee_later e,
      rt_UpstreamRefreshToken = []\<rparr>"

text \<open>\<open>int(lifetime.Seconds())\<close> truncates towards zero.\<close>

definition whole_seconds :: "duration \<Rightarrow> int" where
  "whole_seconds d = (if 0 \<le> d then d div second else - (- d div second))"

definition issueTokens ::
  "oauth_config \<Rightarrow> (access_claims \<Rightarrow> string option) \<Rightarrow> exchange_env \<Rightarrow> string \<Rightarrow> string \<Rightarrow> string \<Rightarrow> string \<Rightarrow>
    oauth_state \<Rightarrow> oauth_answer \<times> oauth_state" where
  "issueTokens cfg sign e userID username clientID scope st =
     (case IssueAccessToken sign (ee_later e) (ee_jti e) (oc_Issuer cfg) userID [oc_Issuer cfg] scope clientID
             (oc_TokenLifetime cfg) of
        None \<Rightarrow> (WriteJSONError (ErrServerError ''failed to generate access token''), st)
      | Some (accessToken, _) \<Rightarrow>
         (case GenerateRefreshToken (ee_value e) of
            None \<Rightarrow> (WriteJSONError (ErrServerError ''failed to generate refresh token''), st)
          | Some t \<Rightarrow>
             (case StoreRefreshToken (new_refresh_token cfg e t userID username clientID scope) (os_storage st) of
                None \<Rightarrow> (WriteJSONError (ErrServerError ''failed to store refresh token''), st)
              | Some s \<Rightarrow>
                  (TokenJson \<lparr>tr_AccessToken = accessToken, tr_TokenType = ''Bearer'',
                              tr_ExpiresIn = whole_seconds (oc_TokenLifetime cfg), tr_RefreshToken = t,
                              tr_Scope = scope\<rparr>,
                   st\<lparr>os_storage := s\<rparr>))))"

subsection \<open>Authorization codes\<close>

text \<open>Up to \<open>GetAuthorizationCode\<close>: the answer, or the code that was found.\<close>

definition code_lookup ::
  "oauth_config \<Rightarrow> exchange_env \<Rightarrow> params \<Rightarrow> oauth_state \<Rightarrow> oauth_answer + auth_code" where
  "code_lookup cfg e form st =
     (if param form ''code'' = [] then Inl (WriteJSONError (ErrInvalidRequest ''code is required''))
      else if param form ''redirect_uri'' = [] then
        Inl (WriteJSONError (ErrInvalidRequest ''redirect_uri is required''))
      else if param form ''client_id'' = [] then
        Inl (WriteJSONError (ErrInvalidRequest ''client_id is required''))
      else if param form ''code_verifier'' = [] then
        Inl (WriteJSONError (ErrInvalidRequest ''code_verifier is required (PKCE)''))
      else if \<not> ValidateCodeVerifier (param form ''code_verifier'') then
        Inl (WriteJSONError (ErrInvalidRequest ''invalid code_verifier format''))
      else case validateClientAuth cfg st (param form ''client_id'') (param form ''client_secret'') of
        Some err \<Rightarrow> Inl (WriteJSONError err)
      | None \<Rightarrow>
         (case GetAuthorizationCode (ee_now e) (param form ''code'') (os_storage st) of
            None \<Rightarrow> Inl (WriteJSONError (ErrInvalidGrant ''authorization code not found or expired''))
          | Some ac \<Rightarrow> Inr ac))"

text \<open>From \<open>DeleteAuthorizationCode\<close> on.\<close>

definition code_redeem ::
  "oauth_config \<Rightarrow> (access_claims \<Rightarrow> string option) \<Rightarrow> exchange_env \<Rightarrow> params \<Rightarrow> auth_code \<Rightarrow> oauth_state \<Rightarrow>
    oauth_answer \<times> oauth_state" where
  "code_redeem cfg sign e form ac st0 =
     (let st = st0\<lparr>os_storage := DeleteAuthorizationCode (param form ''code'') (os_storage st0)\<rparr>
      in if ac_ClientID ac \<noteq> param form ''client_id'' then
           (WriteJSONError (ErrInvalidGrant ''client_id mismatch''), st)
         else if ac_RedirectURI ac \<noteq> param form ''redirect_uri'' then
           (WriteJSONError (ErrInvalidGrant ''redirect_uri mismatch''), st)
         else if \<not> ValidatePKCE (param form ''code_verifier'') (ac_CodeChallenge ac) (ac_CodeChallengeMethod ac) then
           (WriteJSONError (ErrInvalidGrant ''PKCE validation failed''), st)
         else issueTokens cfg sign e (ac_UserID ac) (ac_Username ac) (ac_ClientID ac) (ac_Scope ac) st)"

definition handleAuthorizationCode ::
  "oauth_config \<Rightarrow> (access_claims \<Rightarrow> string option) \<Rightarrow> exchange_env \<Rightarrow> params \<Rightarrow> oauth_state \<Rightarrow>
    oauth_answer \<times> oauth_state" where
  "handleAuthorizationCode cfg sign e form st =
     (case code_lookup cfg e form st of
        Inl a \<Rightarrow> (a, st)
      | Inr ac \<Rightarrow> code_redeem cfg sign e form ac st)"

subsection \<open>Refresh tokens\<close>

definition refresh_lookup ::
  "oauth_config \<Rightarrow> exchange_env \<Rightarrow> params \<Rightarrow> oauth_state \<Rightarrow> oauth_answer + refresh_token" where
  "refresh_lookup cfg e form st =
     (if param form ''refresh_token'' = [] then
        Inl (WriteJSONError (ErrInvalidRequest ''refresh_token is required''))
      else if param form ''client_id'' = [] then
        Inl (WriteJSONError (ErrInvalidRequest ''client_id is required''))
      else case validateClientAuth cfg st (param form ''client_id'') (param form ''client_secret'') of
        Some err \<Rightarrow> Inl (WriteJSONError err)
      | None \<Rightarrow>
         (case GetRefreshToken (ee_now e) (param form ''refresh_token'') (os_storage st) of
            None \<Rightarrow> Inl (WriteJSONError (ErrInvalidGrant ''refresh token not found or expired''))
          | Some rt \<Rightarrow>
              if rt_ClientID rt \<noteq> param form ''client_id'' then
                Inl (WriteJSONError (ErrInvalidGrant ''client_id mismatch''))
              else Inr rt))"

definition refresh_rotate ::
  "oauth_config \<Rightarrow> (access_claims \<Rightarrow> string option) \<Rightarrow> exchange_env \<Rightarrow> params \<Rightarrow> refresh_token \<Rightarrow> oauth_state \<Rightarrow>
    oauth_answer \<times> oauth_state" where
  "refresh_rotate cfg sign e form rt st =
     issueTokens cfg sign e (rt_UserID rt) (rt_Username rt) (rt_ClientID rt) (rt_Scope rt)
       (st\<lparr>os_storage := DeleteRefreshToken (param form ''refresh_token'') (os_storage st)\<rparr>)"

definition handleRefreshToken ::
  "oauth_config \<Rightarrow> (access_claims \<Rightarrow> string option) \<Rightarrow> exchange_env \<Rightarrow> params \<Rightarrow> oauth_state \<Rightarrow>
    oauth_answer \<times> oauth_state" where
  "handleRefreshToken cfg sign e form st =
     (case refresh_lookup cfg e form st of
        Inl a \<Rightarrow> (a, st)
      | Inr rt \<Rightarrow> refresh_rotate cfg sign e form rt st)"

definition token_ServeHTTP ::
  "oauth_config \<Rightarrow> (access_claims \<Rightarrow> string option) \<Rightarrow> exchange_env \<Rightarrow> oauth_method \<Rightarrow> params option \<Rightarrow>
    oauth_state \<Rightarrow> oauth_answer \<times> oauth_state" where
  "token_ServeHTTP cfg sign e m form st =
     (if m \<noteq> MPost then (PlainError 405 ''Method not allowed'', st)
      else case form of
        None \<Rightarrow> (WriteJSONError (ErrInvalidRequest ''failed to parse form''), st)
      | Some form \<Rightarrow>
          if param form ''grant_type'' = ''authorization_code'' then handleAuthorizationCode cfg sign e form st
          else if param form ''grant_type'' = ''refresh_token'' then handleRefreshToken cfg sign e form st
          else (WriteJSONError (ErrUnsupportedGrantType
                  (''grant_type must be 'authorization_code' or 'refresh_token'' @ [CHR 0x27])), st))"

definition ScopeFromString :: "string \<Rightarrow> string list" where
  "ScopeFromString scope = (if scope = [] then [] else Go_Strings.fields scope)"

definition ScopeToString :: "string list \<Rightarrow> string" where
  "ScopeToString scopes = join_with '' '' scopes"

section \<open>Registration\<close>

record register_request =
  rg_RedirectURIs :: "string list"
  rg_ClientName :: string
  rg_TokenEndpointAuthMethod :: string

definition register_field :: "string \<Rightarrow> json \<Rightarrow> register_request \<Rightarrow> register_request option" where
  "register_field k v r =
     (if key_is k ''redirect_uris'' then
        map_option (\<lambda>s. r\<lparr>rg_RedirectURIs := s\<rparr>) (decode_string_slice v (rg_RedirectURIs r))
      else if key_is k ''client_name'' then
        map_option (\<lambda>s. r\<lparr>rg_ClientName := s\<rparr>) (decode_string v (rg_ClientName r))
      else if key_is k ''token_endpoint_auth_method'' then
        map_option (\<lambda>s. r\<lparr>rg_TokenEndpointAuthMethod := s\<rparr>) (decode_string v (rg_TokenEndpointAuthMethod r))
      else Some r)"

definition register_limit :: nat where "register_limit = 64 * 1024"

definition decode_register :: "string \<Rightarrow> register_request option" where
  "decode_register body =
     decode_first register_field \<lparr>rg_RedirectURIs = [], rg_ClientName = [], rg_TokenEndpointAuthMethod = []\<rparr>
       (take register_limit body)"

definition new_client :: "exchange_env \<Rightarrow> char list \<Rightarrow> char list \<Rightarrow> register_request \<Rightarrow> oauth_client" where
  "new_client e idBytes secretBytes req =
     (let authMethod = (if rg_TokenEndpointAuthMethod req = [] then ''none'' else rg_TokenEndpointAuthMethod req)
      in \<lparr>cl_ClientID = GenerateClientID idBytes,
          cl_ClientSecret = (if authMethod \<noteq> ''none'' then GenerateClientSecret secretBytes else []),
          cl_ClientName = rg_ClientName req, cl_RedirectURIs = rg_RedirectURIs req,
          cl_GrantTypes = [''authorization_code'', ''refresh_token''],
          cl_TokenEndpointAuthMethod = authMethod, cl_CreatedAt = ee_later e\<rparr>)"

definition handleRegister ::
  "oauth_config \<Rightarrow> exchange_env \<Rightarrow> char list \<Rightarrow> char list \<Rightarrow> oauth_method \<Rightarrow> string \<Rightarrow> oauth_state \<Rightarrow>
    oauth_answer \<times> oauth_state" where
  "handleRegister cfg e idBytes secretBytes m body st =
     (if m \<noteq> MPost then (PlainError 405 ''Method not allowed'', st)
      else case decode_register body of
        None \<Rightarrow> (WriteJSONError (ErrInvalidRequest ''invalid JSON body''), st)
      | Some req \<Rightarrow>
          if rg_RedirectURIs req = [] then (WriteJSONError (ErrInvalidRequest ''redirect_uris is required''), st)
          else (case find (\<lambda>uri. \<not> isAllowedRedirectURI uri (oc_AllowedRedirectURIs cfg)) (rg_RedirectURIs req) of
             Some uri \<Rightarrow> (WriteJSONError (ErrInvalidRedirectURI (''redirect_uri is not allowed: '' @ uri)), st)
           | None \<Rightarrow>
              (case StoreClient (new_client e idBytes secretBytes req) (os_storage st) of
                 None \<Rightarrow> (WriteJSONError (ErrServerError ''failed to register client''), st)
               | Some s \<Rightarrow> (Registered (new_client e idBytes secretBytes req), st\<lparr>os_storage := s\<rparr>))))"

section \<open>Metadata\<close>

record oauth_metadata =
  md_Issuer :: string
  md_AuthorizationEndpoint :: string
  md_TokenEndpoint :: string
  md_JWKSURI :: string
  md_RegistrationEndpoint :: string
  md_ScopesSupported :: "string list"
  md_ResponseTypesSupported :: "string list"
  md_ResponseModesSupported :: "string list"
  md_GrantTypesSupported :: "string list"
  md_TokenEndpointAuthMethodsSupported :: "string list"
  md_CodeChallengeMethodsSupported :: "string list"

definition BuildMetadata :: "string \<Rightarrow> string list \<Rightarrow> bool \<Rightarrow> oauth_metadata" where
  "BuildMetadata issuer0 scopes allowDynamicRegistration =
     (let issuer = trim_suffix issuer0 ''/''
      in \<lparr>md_Issuer = issuer, md_AuthorizationEndpoint = issuer @ ''/oauth/authorize'',
          md_TokenEndpoint = issuer @ ''/oauth/token'', md_JWKSURI = issuer @ ''/oauth/jwks'',
          md_RegistrationEndpoint = (if allowDynamicRegistration then issuer @ ''/register'' else []),
          md_ScopesSupported = scopes, md_ResponseTypesSupported = [''code''],
          md_ResponseModesSupported = [''query''],
          md_GrantTypesSupported = [''authorization_code'', ''refresh_token''],
          md_TokenEndpointAuthMethodsSupported = [''none'', ''client_secret_post''],
          md_CodeChallengeMethodsSupported = [''S256'']\<rparr>)"

record resource_metadata =
  prm_Resource :: string
  prm_AuthorizationServers :: "string list"
  prm_BearerMethodsSupported :: "string list"

definition handleProtectedResourceMetadata :: "oauth_config \<Rightarrow> resource_metadata" where
  "handleProtectedResourceMetadata cfg =
     \<lparr>prm_Resource = oc_Issuer cfg, prm_AuthorizationServers = [oc_Issuer cfg],
      prm_BearerMethodsSupported = [''header'']\<rparr>"

section \<open>What an exchange does to the store\<close>

definition token_claims ::
  "oauth_config \<Rightarrow> exchange_env \<Rightarrow> string \<Rightarrow> string \<Rightarrow> string \<Rightarrow> access_claims" where
  "token_claims cfg e userID clientID scope =
     \<lparr>at_Issuer = oc_Issuer cfg, at_Subject = userID, at_Audience = [oc_Issuer cfg],
      at_IssuedAt = NewNumericDate (ee_later e), at_NotBefore = NewNumericDate (ee_later e),
      at_Expiry = NewNumericDate (ee_later e + oc_TokenLifetime cfg), at_ID = generateJTI (ee_jti e),
      at_Scope = scope, at_ClientID = clientID\<rparr>"

lemma WriteJSONError_neq [simp]: "WriteJSONError e \<noteq> TokenJson r" "TokenJson r \<noteq> WriteJSONError e"
  by (simp_all add: WriteJSONError_def)

text \<open>Tokens are issued exactly when the claims are signed, a value is generated and the store has room.\<close>

lemma issueTokens_TokenJson:
  "issueTokens cfg sign e u n c sc st = (TokenJson r, st') \<longleftrightarrow>
     (\<exists>a t s. sign (token_claims cfg e u c sc) = Some a \<and> GenerateRefreshToken (ee_value e) = Some t \<and>
        StoreRefreshToken (new_refresh_token cfg e t u n c sc) (os_storage st) = Some s \<and>
        r = \<lparr>tr_AccessToken = a, tr_TokenType = ''Bearer'', tr_ExpiresIn = whole_seconds (oc_TokenLifetime cfg),
             tr_RefreshToken = t, tr_Scope = sc\<rparr> \<and>
        st' = st\<lparr>os_storage := s\<rparr>)"
  by (auto simp: issueTokens_def IssueAccessToken_def token_claims_def split: option.splits)

lemma issueTokens_state:
  "issueTokens cfg sign e u n c sc st = (a, st') \<Longrightarrow>
     st' = st \<or> (\<exists>r. a = TokenJson r)"
  by (auto simp: issueTokens_def split: option.splits)

lemma code_lookup_found:
  assumes "code_lookup cfg e form st = Inr ac"
  shows "GetAuthorizationCode (ee_now e) (param form ''code'') (os_storage st) = Some ac"
    and "ValidateCodeVerifier (param form ''code_verifier'')"
    and "validateClientAuth cfg st (param form ''client_id'') (param form ''client_secret'') = None"
  using assms by (auto simp: code_lookup_def split: if_splits option.splits)

lemma code_lookup_not_tokens: "code_lookup cfg e form st = Inl a \<Longrightarrow> a \<noteq> TokenJson r"
  by (auto simp: code_lookup_def split: if_splits option.splits)

lemma refresh_lookup_found:
  assumes "refresh_lookup cfg e form st = Inr rt"
  shows "GetRefreshToken (ee_now e) (param form ''refresh_token'') (os_storage st) = Some rt"
    and "rt_ClientID rt = param form ''client_id''"
  using assms by (auto simp: refresh_lookup_def split: if_splits option.splits)

lemma refresh_lookup_not_tokens: "refresh_lookup cfg e form st = Inl a \<Longrightarrow> a \<noteq> TokenJson r"
  by (auto simp: refresh_lookup_def split: if_splits option.splits)

text \<open>A code that is redeemed passed every check of its own fields.\<close>

lemma code_redeem_TokenJson:
  "code_redeem cfg sign e form ac st = (TokenJson r, st') \<longleftrightarrow>
     ac_ClientID ac = param form ''client_id'' \<and> ac_RedirectURI ac = param form ''redirect_uri'' \<and>
     ValidatePKCE (param form ''code_verifier'') (ac_CodeChallenge ac) (ac_CodeChallengeMethod ac) \<and>
     issueTokens cfg sign e (ac_UserID ac) (ac_Username ac) (ac_ClientID ac) (ac_Scope ac)
       (st\<lparr>os_storage := DeleteAuthorizationCode (param form ''code'') (os_storage st)\<rparr>) = (TokenJson r, st')"
  by (auto simp: code_redeem_def Let_def)

lemma refresh_of_codes [simp]:
  "mem_refreshTokens (DeleteAuthorizationCode k ms) = mem_refreshTokens ms"
  "mem_clients (DeleteAuthorizationCode k ms) = mem_clients ms"
  "mem_authCodes (DeleteRefreshToken k ms) = mem_authCodes ms"
  "mem_clients (DeleteRefreshToken k ms) = mem_clients ms"
  by (simp_all add: DeleteAuthorizationCode_def DeleteRefreshToken_def)

lemma store_refresh_frame:
  "StoreRefreshToken rt ms = Some ms' \<Longrightarrow> mem_authCodes ms' = mem_authCodes ms \<and> mem_clients ms' = mem_clients ms"
  by (auto simp: StoreRefreshToken_def split: if_splits)

lemma GetAuthorizationCode_frame:
  "mem_authCodes ms' = mem_authCodes ms \<Longrightarrow> GetAuthorizationCode now k ms' = GetAuthorizationCode now k ms"
  by (simp add: GetAuthorizationCode_def)

lemma GetRefreshToken_frame:
  "mem_refreshTokens ms' = mem_refreshTokens ms \<Longrightarrow> GetRefreshToken now k ms' = GetRefreshToken now k ms"
  by (simp add: GetRefreshToken_def)

text \<open>After the exchange of a code, whatever its outcome, the code is no longer found.\<close>

lemma code_redeem_state:
  assumes "code_redeem cfg sign e form ac st = (a, st')"
  shows "mem_authCodes (os_storage st') = fmdrop (param form ''code'') (mem_authCodes (os_storage st))"
    and "mem_clients (os_storage st') = mem_clients (os_storage st)"
    and "os_csrf st' = os_csrf st"
proof -
  let ?st = "st\<lparr>os_storage := DeleteAuthorizationCode (param form ''code'') (os_storage st)\<rparr>"
  have "st' = ?st \<or> (\<exists>r. a = TokenJson r)"
    using assms issueTokens_state by (fastforce simp: code_redeem_def Let_def split: if_splits)
  then have "st' = ?st \<or> (\<exists>rt s. StoreRefreshToken rt (os_storage ?st) = Some s \<and> st' = ?st\<lparr>os_storage := s\<rparr>)"
    using assms unfolding code_redeem_TokenJson issueTokens_TokenJson
    by (auto simp: code_redeem_TokenJson issueTokens_TokenJson) blast
  then show "mem_authCodes (os_storage st') = fmdrop (param form ''code'') (mem_authCodes (os_storage st))"
    and "mem_clients (os_storage st') = mem_clients (os_storage st)"
    and "os_csrf st' = os_csrf st"
    by (auto simp: DeleteAuthorizationCode_def dest!: store_refresh_frame)
qed

lemma code_gone:
  assumes "code_redeem cfg sign e form ac st = (a, st')"
  shows "GetAuthorizationCode now (param form ''code'') (os_storage st') = None"
  by (simp add: GetAuthorizationCode_def code_redeem_state(1) [OF assms])

section \<open>A code is redeemed once, if its exchanges do not overlap\<close>

text \<open>
  C32.  Two exchanges of one code.  When the first has run to its end with tokens as its answer, the
  second is refused, whatever its clock.  But the code is read and deleted under separate locks: when
  the second has read it before the first deletes it, the second gets tokens as well, for the same
  user and scope, and both refresh tokens work.  The comment in the code calls it \<open>one-time use\<close>.
\<close>

theorem code_redeemed_twice:
  assumes first: "handleAuthorizationCode cfg sign e1 form st = (TokenJson r1, st1)"
    and second: "code_lookup cfg e2 form st = Inr ac"
    and room: "fmsize (mem_refreshTokens (os_storage st1)) < maxRefreshTokens"
    and signs: "sign (token_claims cfg e2 (ac_UserID ac) (ac_ClientID ac) (ac_Scope ac)) = Some a2"
    and random: "ee_value e2 = Some b2" "encodeBase64URL b2 \<noteq> tr_RefreshToken r1"
    and life: "0 < oc_RefreshTokenLifetime cfg" "ee_later e1 \<le> t \<and> ee_later e2 \<le> t"
      "t \<le> ee_later e1 + oc_RefreshTokenLifetime cfg \<and> t \<le> ee_later e2 + oc_RefreshTokenLifetime cfg"
  shows "(\<forall>e r. fst (handleAuthorizationCode cfg sign e form st1) \<noteq> TokenJson r) \<and>
    (\<exists>r2 st2. code_lookup cfg e1 form st = Inr ac \<and> code_redeem cfg sign e1 form ac st = (TokenJson r1, st1) \<and>
       code_redeem cfg sign e2 form ac st1 = (TokenJson r2, st2) \<and> tr_Scope r2 = tr_Scope r1 \<and>
       (\<forall>r \<in> {r1, r2}. \<exists>rt. GetRefreshToken t (tr_RefreshToken r) (os_storage st2) = Some rt \<and>
          rt_UserID rt = ac_UserID ac \<and> rt_Scope rt = ac_Scope ac))"
proof -
  obtain ac1 where l: "code_lookup cfg e1 form st = Inr ac1" and c: "code_redeem cfg sign e1 form ac1 st = (TokenJson r1, st1)"
    using first code_lookup_not_tokens by (auto simp: handleAuthorizationCode_def split: sum.splits)
  have ac: "ac1 = ac"
    using code_lookup_found(1) [OF l] code_lookup_found(1) [OF second]
    by (auto simp: GetAuthorizationCode_def split: option.splits if_splits)
  have once: "fst (handleAuthorizationCode cfg sign e form st1) \<noteq> TokenJson r" for e r
  proof
    assume "fst (handleAuthorizationCode cfg sign e form st1) = TokenJson r"
    then obtain x where "code_lookup cfg e form st1 = Inr x"
      using code_lookup_not_tokens by (auto simp: handleAuthorizationCode_def split: sum.splits)
    then show False using code_gone [OF c] code_lookup_found(1) by fastforce
  qed
  let ?rt1 = "new_refresh_token cfg e1 (tr_RefreshToken r1) (ac_UserID ac) (ac_Username ac) (ac_ClientID ac) (ac_Scope ac)"
  let ?rt2 = "new_refresh_token cfg e2 (encodeBase64URL b2) (ac_UserID ac) (ac_Username ac) (ac_ClientID ac) (ac_Scope ac)"
  let ?st = "st1\<lparr>os_storage := DeleteAuthorizationCode (param form ''code'') (os_storage st1)\<rparr>"
  let ?r2 = "\<lparr>tr_AccessToken = a2, tr_TokenType = ''Bearer'',
      tr_ExpiresIn = whole_seconds (oc_TokenLifetime cfg), tr_RefreshToken = encodeBase64URL b2, tr_Scope = ac_Scope ac\<rparr>"
  obtain s1 where s1: "StoreRefreshToken ?rt1 (DeleteAuthorizationCode (param form ''code'') (os_storage st)) = Some s1"
    and st1: "os_storage st1 = s1" and sc1: "tr_Scope r1 = ac_Scope ac"
    using c ac by (auto simp: code_redeem_TokenJson issueTokens_TokenJson)
  obtain s2 where s2: "StoreRefreshToken ?rt2 (os_storage ?st) = Some s2"
    using room by (simp add: StoreRefreshToken_def)
  have c2: "code_redeem cfg sign e2 form ac st1 = (TokenJson ?r2, ?st\<lparr>os_storage := s2\<rparr>)"
    using c ac signs random(1) s2
    by (simp add: code_redeem_TokenJson issueTokens_TokenJson GenerateRefreshToken_def)
  have k: "rt_Token ?rt1 = tr_RefreshToken r1" "rt_Token ?rt2 = encodeBase64URL b2"
    by (simp_all add: new_refresh_token_def)
  have live: "\<not> refresh_IsExpired t ?rt1" "\<not> refresh_IsExpired t ?rt2"
    using life by (simp_all add: refresh_IsExpired_def new_refresh_token_def)
  have g2: "GetRefreshToken t (encodeBase64URL b2) s2 = Some ?rt2"
    using refreshes.get_put [OF s2, of t "encodeBase64URL b2"] k live by simp
  have "GetRefreshToken t (tr_RefreshToken r1) s2 = GetRefreshToken t (tr_RefreshToken r1) (os_storage ?st)"
    using refreshes.get_put [OF s2, of t "tr_RefreshToken r1"] k random(2) by simp
  also have "\<dots> = GetRefreshToken t (tr_RefreshToken r1) s1"
    by (rule GetRefreshToken_frame) (simp add: st1)
  also have "\<dots> = Some ?rt1"
    using refreshes.get_put [OF s1, of t "tr_RefreshToken r1"] k live by simp
  finally have g1: "GetRefreshToken t (tr_RefreshToken r1) s2 = Some ?rt1" .
  have "\<forall>r \<in> {r1, ?r2}. \<exists>rt. GetRefreshToken t (tr_RefreshToken r) s2 = Some rt \<and>
      rt_UserID rt = ac_UserID ac \<and> rt_Scope rt = ac_Scope ac"
    using g1 g2 by (simp add: new_refresh_token_def)
  then show ?thesis using once l c c2 sc1 ac by auto
qed

text \<open>A stored code, the request for it, and a signer that always signs.\<close>

definition sample_verifier :: string where "sample_verifier = replicate 43 (CHR ''a'')"

definition sample_code :: auth_code where
  "sample_code =
     \<lparr>ac_Code = ''code'', ac_ClientID = ''client'', ac_UserID = ''alice'', ac_Username = ''alice'',
      ac_RedirectURI = ''http://localhost/cb'', ac_Scope = ''mcp'',
      ac_CodeChallenge = encodeBase64URL (sha256 sample_verifier), ac_CodeChallengeMethod = ''S256'',
      ac_State = [], ac_Nonce = [], ac_ExpiresAt = 600 * second, ac_CreatedAt = 0,
      ac_UpstreamAccessToken = [], ac_UpstreamRefreshToken = [], ac_UpstreamIDToken = []\<rparr>"

definition sample_env :: "instant \<Rightarrow> char list \<Rightarrow> exchange_env" where
  "sample_env now b = \<lparr>ee_now = now, ee_later = now, ee_csrf = Some b, ee_value = Some b, ee_jti = b\<rparr>"

definition sample_grant :: params where
  "sample_grant =
     [(''grant_type'', ''authorization_code''), (''code'', ''code''), (''redirect_uri'', ''http://localhost/cb''),
      (''client_id'', ''client''), (''code_verifier'', sample_verifier)]"

definition sample_store :: oauth_state where
  "sample_store =
     \<lparr>os_storage = NewMemoryStorage\<lparr>mem_authCodes := fmupd ''code'' sample_code fmempty\<rparr>, os_csrf = fmempty\<rparr>"

definition signs_all :: "access_claims \<Rightarrow> string option" where "signs_all c = Some (at_Subject c)"

lemma sample_verifier_ok: "ValidateCodeVerifier sample_verifier" "sample_verifier \<noteq> []"
  by (simp_all add: ValidateCodeVerifier_def sample_verifier_def list_all_iff isUnreservedChar_def byte_in_def)

lemma sample_lookup:
  "now \<le> 600 * second \<Longrightarrow> code_lookup sample_oauth (sample_env now b) sample_grant sample_store = Inr sample_code"
  using sample_verifier_ok
  by (simp add: code_lookup_def sample_grant_def param_def validateClientAuth_def GetClient_def sample_store_def
      NewMemoryStorage_def sample_oauth_def GetAuthorizationCode_def code_IsExpired_def sample_code_def sample_env_def)

definition sample_refresh :: "instant \<Rightarrow> char list \<Rightarrow> refresh_token" where
  "sample_refresh now b =
     new_refresh_token sample_oauth (sample_env now b) (encodeBase64URL b) ''alice'' ''alice'' ''client'' ''mcp''"

definition sample_tokens :: "char list \<Rightarrow> token_response" where
  "sample_tokens b =
     \<lparr>tr_AccessToken = ''alice'', tr_TokenType = ''Bearer'', tr_ExpiresIn = 3600,
      tr_RefreshToken = encodeBase64URL b, tr_Scope = ''mcp''\<rparr>"

definition sample_redeemed :: "instant \<Rightarrow> char list \<Rightarrow> oauth_state" where
  "sample_redeemed now b =
     \<lparr>os_storage = NewMemoryStorage\<lparr>mem_refreshTokens := fmupd (encodeBase64URL b) (sample_refresh now b) fmempty\<rparr>,
      os_csrf = fmempty\<rparr>"

lemma sample_code_redeem:
  "code_redeem sample_oauth signs_all (sample_env now b) sample_grant sample_code sample_store =
     (TokenJson (sample_tokens b), sample_redeemed now b)"
  using sample_verifier_ok
  by (simp add: code_redeem_TokenJson issueTokens_TokenJson
      sample_grant_def param_def sample_code_def sample_store_def NewMemoryStorage_def GenerateRefreshToken_def
      sample_env_def signs_all_def token_claims_def StoreRefreshToken_def maxRefreshTokens_def sample_tokens_def
      sample_redeemed_def sample_refresh_def DeleteAuthorizationCode_def whole_seconds_def sample_oauth_def
      second_def new_refresh_token_def fmdrop_upd_same)

lemma sample_redeem:
  "now \<le> 600 * second \<Longrightarrow>
   handleAuthorizationCode sample_oauth signs_all (sample_env now b) sample_grant sample_store =
     (TokenJson (sample_tokens b), sample_redeemed now b)"
  by (simp add: handleAuthorizationCode_def sample_lookup sample_code_redeem)

theorem code_redeemed_twice_witness:
  "\<exists>r2 st2. code_lookup sample_oauth (sample_env 1 [CHR 0x01]) sample_grant sample_store = Inr sample_code \<and>
     code_redeem sample_oauth signs_all (sample_env 2 [CHR 0x02]) sample_grant sample_code
       (sample_redeemed 1 [CHR 0x01]) = (TokenJson r2, st2)"
proof -
  let ?e1 = "sample_env 1 [CHR 0x01]" and ?e2 = "sample_env 2 [CHR 0x02]"
  have "fmsize (mem_refreshTokens (os_storage (sample_redeemed 1 [CHR 0x01]))) < maxRefreshTokens"
    by (simp add: sample_redeemed_def NewMemoryStorage_def maxRefreshTokens_def fmsize_upd)
  moreover have "encodeBase64URL [CHR 0x02] \<noteq> tr_RefreshToken (sample_tokens [CHR 0x01])"
    by (simp add: sample_tokens_def base64_char_def Let_def char_of_def bit_iff_odd)
  ultimately show ?thesis
    using code_redeemed_twice [of sample_oauth signs_all ?e1 sample_grant sample_store "sample_tokens [CHR 0x01]"
        "sample_redeemed 1 [CHR 0x01]" ?e2 sample_code "''alice''" "[CHR 0x02]" 2]
      sample_redeem [of 1] sample_lookup [of 1] sample_lookup [of 2]
    by (fastforce simp: second_def signs_all_def token_claims_def sample_code_def sample_env_def sample_oauth_def)
qed

section \<open>Refresh tokens rotate\<close>

lemma fmsize_store_refresh:
  "StoreRefreshToken rt ms = Some ms' \<Longrightarrow> fmsize (mem_refreshTokens ms') \<le> Suc (fmsize (mem_refreshTokens ms))"
  by (auto simp: StoreRefreshToken_def fmsize_upd split: if_splits option.splits)

text \<open>
  C19.  A refresh token that is found is rotated.  As long as claims are signed and random values are
  to be had, the exchange always succeeds (dropping the old token makes room, so even a full store is
  no error); the old token is then refused at any time, the new one is accepted until it expires, and
  it carries the user, the client and the scope of the old one; the store does not grow.
\<close>

theorem refresh_rotation:
  assumes found: "refresh_lookup cfg e form st = Inr rt"
    and inv: "storage_inv (os_storage st)"
    and signs: "\<And>c. sign c \<noteq> None"
    and random: "ee_value e = Some b" "encodeBase64URL b \<noteq> param form ''refresh_token''"
    and now: "ee_later e \<le> t" "t \<le> ee_later e + oc_RefreshTokenLifetime cfg"
  shows "\<exists>r st'. handleRefreshToken cfg sign e form st = (TokenJson r, st') \<and> tr_Scope r = rt_Scope rt \<and>
    (\<forall>t'. GetRefreshToken t' (param form ''refresh_token'') (os_storage st') = None) \<and>
    (\<exists>rt'. GetRefreshToken t (tr_RefreshToken r) (os_storage st') = Some rt' \<and> rt_UserID rt' = rt_UserID rt \<and>
       rt_ClientID rt' = rt_ClientID rt \<and> rt_Scope rt' = rt_Scope rt) \<and>
    fmsize (mem_refreshTokens (os_storage st')) \<le> fmsize (mem_refreshTokens (os_storage st)) \<and>
    storage_inv (os_storage st')"
proof -
  let ?old = "param form ''refresh_token''"
  let ?ms = "DeleteRefreshToken ?old (os_storage st)"
  let ?rt = "new_refresh_token cfg e (encodeBase64URL b) (rt_UserID rt) (rt_Username rt) (rt_ClientID rt) (rt_Scope rt)"
  obtain a where a: "sign (token_claims cfg e (rt_UserID rt) (rt_ClientID rt) (rt_Scope rt)) = Some a"
    using signs by blast
  have "fmlookup (mem_refreshTokens (os_storage st)) ?old = Some rt"
    using refresh_lookup_found(1) [OF found] by (simp add: GetRefreshToken_def split: option.splits if_splits)
  then have less: "Suc (fmsize (mem_refreshTokens ?ms)) \<le> fmsize (mem_refreshTokens (os_storage st))"
    using fmsize_pos [of "mem_refreshTokens (os_storage st)" ?old rt] by (simp add: DeleteRefreshToken_def fmsize_drop)
  then have "fmsize (mem_refreshTokens ?ms) < maxRefreshTokens" using inv by (simp add: storage_inv_def)
  then obtain ms' where put: "StoreRefreshToken ?rt ?ms = Some ms'" by (simp add: StoreRefreshToken_def)
  let ?r = "\<lparr>tr_AccessToken = a, tr_TokenType = ''Bearer'', tr_ExpiresIn = whole_seconds (oc_TokenLifetime cfg),
      tr_RefreshToken = encodeBase64URL b, tr_Scope = rt_Scope rt\<rparr>"
  have h: "handleRefreshToken cfg sign e form st = (TokenJson ?r, st\<lparr>os_storage := ms'\<rparr>)"
    using found a put random(1)
    by (simp add: handleRefreshToken_def refresh_rotate_def issueTokens_TokenJson GenerateRefreshToken_def)
  have k: "rt_Token ?rt = encodeBase64URL b" "\<not> refresh_IsExpired t ?rt"
    using now by (simp_all add: new_refresh_token_def refresh_IsExpired_def)
  have gone: "GetRefreshToken t' ?old ms' = None" for t'
    using refreshes.get_put [OF put, of t' ?old] refreshes.get_del [of t' ?old ?old "os_storage st"] random(2) k(1) by simp
  have new: "GetRefreshToken t (encodeBase64URL b) ms' = Some ?rt"
    using refreshes.get_put [OF put, of t "encodeBase64URL b"] k by simp
  have "storage_inv ms'" using storage_inv_ops(2) [OF storage_inv_ops(5) [OF inv] put] .
  moreover have "fmsize (mem_refreshTokens ms') \<le> fmsize (mem_refreshTokens (os_storage st))"
    using fmsize_store_refresh [OF put] less by simp
  ultimately show ?thesis using h gone new by (simp add: new_refresh_token_def)
qed

definition sample_refresh_grant :: params where
  "sample_refresh_grant =
     [(''grant_type'', ''refresh_token''), (''refresh_token'', encodeBase64URL [CHR 0x01]), (''client_id'', ''client'')]"

theorem refresh_rotation_witness:
  "\<exists>r st'. handleRefreshToken sample_oauth signs_all (sample_env 2 [CHR 0x02]) sample_refresh_grant
     (sample_redeemed 1 [CHR 0x01]) = (TokenJson r, st') \<and> tr_Scope r = ''mcp''"
proof -
  let ?rt = "sample_refresh 1 [CHR 0x01]"
  have differ: "encodeBase64URL [CHR 0x02] \<noteq> encodeBase64URL [CHR 0x01]"
    and ne: "encodeBase64URL [CHR 0x01] \<noteq> []"
    by (simp_all add: base64_char_def Let_def char_of_def bit_iff_odd)
  have l: "refresh_lookup sample_oauth (sample_env 2 [CHR 0x02]) sample_refresh_grant (sample_redeemed 1 [CHR 0x01]) = Inr ?rt"
    using ne by (simp add: refresh_lookup_def sample_refresh_grant_def param_def validateClientAuth_def GetClient_def
        sample_redeemed_def NewMemoryStorage_def sample_oauth_def GetRefreshToken_def refresh_IsExpired_def
        sample_refresh_def new_refresh_token_def sample_env_def second_def del: encodeBase64URL.simps)
  have inv: "storage_inv (os_storage (sample_redeemed 1 [CHR 0x01]))"
    by (simp add: storage_inv_def sample_redeemed_def NewMemoryStorage_def maxAuthCodes_def maxRefreshTokens_def
        maxClients_def fmsize_upd sample_refresh_def new_refresh_token_def del: encodeBase64URL.simps)
  show ?thesis
    using refresh_rotation [OF l inv, of signs_all "[CHR 0x02]" 2] differ
    by (simp add: signs_all_def sample_env_def sample_refresh_grant_def param_def sample_oauth_def second_def
        sample_refresh_def new_refresh_token_def del: encodeBase64URL.simps) blast
qed

end
