(* ===== verification/Rate_Limiter.thy ===== *)
theory Rate_Limiter
  imports Go_Url
begin

text \<open>
  The rate limiter of the authorization server (\<open>internal/authserver/ratelimit.go\<close>): a fixed window
  of time per client address, opened by the first request after the last window has expired.
\<close>

section \<open>The limiter\<close>

record rl_window =
  rw_count :: int
  rw_expiry :: instant

record rate_limiter =
  rl_maxRequests :: int
  rl_windowDuration :: duration
  rl_windows :: "(string, rl_window) fmap"

definition NewRateLimiter :: "int \<Rightarrow> duration \<Rightarrow> rate_limiter" where
  "NewRateLimiter n d = \<lparr>rl_maxRequests = n, rl_windowDuration = d, rl_windows = fmempty\<rparr>"

definition Allow :: "instant \<Rightarrow> string \<Rightarrow> rate_limiter \<Rightarrow> bool \<times> rate_limiter" where
  "Allow now ip rl =
     (let fresh = \<lparr>rw_count = 1, rw_expiry = now + rl_windowDuration rl\<rparr>
      in case fmlookup (rl_windows rl) ip of
           None \<Rightarrow> (True, rl\<lparr>rl_windows := fmupd ip fresh (rl_windows rl)\<rparr>)
         | Some w \<Rightarrow>
             if now > rw_expiry w then (True, rl\<lparr>rl_windows := fmupd ip fresh (rl_windows rl)\<rparr>)
             else (rw_count w + 1 \<le> rl_maxRequests rl,
                   rl\<lparr>rl_windows := fmupd ip (w\<lparr>rw_count := rw_count w + 1\<rparr>) (rl_windows rl)\<rparr>))"

definition rl_cleanup :: "instant \<Rightarrow> rate_limiter \<Rightarrow> rate_limiter" where
  "rl_cleanup now rl = rl\<lparr>rl_windows := fmdelete_if (\<lambda>_ w. now > rw_expiry w) (rl_windows rl)\<rparr>"

text \<open>\<open>net.SplitHostPort\<close>: the host, or \<open>None\<close> for an address it refuses.\<close>

definition SplitHostPort :: "string \<Rightarrow> (string \<times> string) option" where
  "SplitHostPort hostport =
     (case cut_last CHR '':'' hostport of
        None \<Rightarrow> None
      | Some (before, port) \<Rightarrow>
          if has_prefix hostport ''['' then
            (case cut_at CHR '']'' hostport of
               None \<Rightarrow> None
             | Some (open_host, rest) \<Rightarrow>
                 if before = open_host @ '']'' \<and> CHR ''['' \<notin> set (tl hostport) \<and> CHR '']'' \<notin> set rest
                 then Some (tl open_host, port) else None)
          else if CHR '':'' \<in> set before \<or> CHR ''['' \<in> set hostport \<or> CHR '']'' \<in> set hostport then None
          else Some (before, port))"

definition extractIP :: "string \<Rightarrow> string" where
  "extractIP remoteAddr = (case SplitHostPort remoteAddr of None \<Rightarrow> remoteAddr | Some (host, _) \<Rightarrow> host)"

text \<open>
  \<open>RateLimitMiddleware\<close>: the wrapped handler is \<open>next\<close>, and the refusal its third argument.
\<close>

definition RateLimitMiddleware ::
  "instant \<Rightarrow> string \<Rightarrow> 'a \<Rightarrow> ('s \<Rightarrow> 'a \<times> 's) \<Rightarrow> rate_limiter \<times> 's \<Rightarrow> 'a \<times> rate_limiter \<times> 's" where
  "RateLimitMiddleware now remoteAddr refusal next st =
     (case Allow now (extractIP remoteAddr) (fst st) of
        (False, rl) \<Rightarrow> (refusal, rl, snd st)
      | (True, rl) \<Rightarrow> (case next (snd st) of (a, s) \<Rightarrow> (a, rl, s)))"

section \<open>Runs\<close>

text \<open>A request of an address, or the periodic clean-up.\<close>

datatype rl_event = Request instant string | Sweep instant

fun rl_time :: "rl_event \<Rightarrow> instant" where
  "rl_time (Request t _) = t"
| "rl_time (Sweep t) = t"

fun rl_step :: "rl_event \<Rightarrow> rate_limiter \<Rightarrow> bool \<times> rate_limiter" where
  "rl_step (Request t ip) rl = Allow t ip rl"
| "rl_step (Sweep t) rl = (False, rl_cleanup t rl)"

text \<open>The decisions on the requests of one address, in order.\<close>

fun decisions :: "string \<Rightarrow> rl_event list \<Rightarrow> rate_limiter \<Rightarrow> bool list" where
  "decisions ip [] rl = []"
| "decisions ip (e # es) rl =
     (case e of
        Request t ip' \<Rightarrow> (if ip' = ip then [fst (rl_step e rl)] else [])
      | Sweep t \<Rightarrow> []) @ decisions ip es (snd (rl_step e rl))"

definition rl_run :: "rl_event list \<Rightarrow> rate_limiter \<Rightarrow> rate_limiter" where
  "rl_run es rl = fold (\<lambda>e rl. snd (rl_step e rl)) es rl"

definition admitted :: "string \<Rightarrow> rl_event list \<Rightarrow> rate_limiter \<Rightarrow> nat" where
  "admitted ip es rl = count_list (decisions ip es rl) True"

lemma admitted_Nil [simp]: "admitted ip [] rl = 0"
  by (simp add: admitted_def)

lemma admitted_Cons:
  "admitted ip (e # es) rl =
     (case e of Request t ip' \<Rightarrow> if ip' = ip \<and> fst (Allow t ip rl) then 1 else 0 | Sweep t \<Rightarrow> 0) +
     admitted ip es (snd (rl_step e rl))"
  by (auto simp: admitted_def split: rl_event.split)

lemma Allow_config [simp]:
  "rl_maxRequests (snd (Allow t ip rl)) = rl_maxRequests rl"
  "rl_windowDuration (snd (Allow t ip rl)) = rl_windowDuration rl"
  by (auto simp: Allow_def Let_def split: option.splits)

lemma rl_step_config [simp]:
  "rl_maxRequests (snd (rl_step e rl)) = rl_maxRequests rl"
  "rl_windowDuration (snd (rl_step e rl)) = rl_windowDuration rl"
  by (cases e; simp add: rl_cleanup_def)+

lemma rl_run_config [simp]:
  "rl_maxRequests (rl_run es rl) = rl_maxRequests rl"
  "rl_windowDuration (rl_run es rl) = rl_windowDuration rl"
  by (induction es arbitrary: rl) (simp_all add: rl_run_def)

text \<open>A window is opened by a request that it counts.\<close>

definition rl_inv :: "rate_limiter \<Rightarrow> bool" where
  "rl_inv rl \<longleftrightarrow> (\<forall>ip w. fmlookup (rl_windows rl) ip = Some w \<longrightarrow> 1 \<le> rw_count w)"

lemma rl_step_inv: "rl_inv rl \<Longrightarrow> rl_inv (snd (rl_step e rl))"
  by (cases e) (fastforce simp: rl_inv_def Allow_def rl_cleanup_def Let_def split: option.splits)+

lemma rl_run_inv: "rl_inv rl \<Longrightarrow> rl_inv (rl_run es rl)"
  by (induction es arbitrary: rl) (simp_all add: rl_run_def rl_step_inv)

lemma NewRateLimiter_inv: "rl_inv (NewRateLimiter n d)"
  by (simp add: rl_inv_def NewRateLimiter_def)

section \<open>The bound\<close>

text \<open>What an address can still be admitted in its window, if the window outlasts the events.\<close>

lemma admitted_in_window:
  assumes "fmlookup (rl_windows rl) ip = Some w" and "list_all (\<lambda>e. rl_time e \<le> rw_expiry w) es"
  shows "int (admitted ip es rl) \<le> max 0 (rl_maxRequests rl - rw_count w)"
  using assms
proof (induction es arbitrary: rl w)
  case Nil
  then show ?case by simp
next
  case (Cons e es)
  show ?case
  proof (cases "\<exists>t. e = Request t ip")
    case True
    then obtain t where e: "e = Request t ip" by blast
    let ?w = "w\<lparr>rw_count := rw_count w + 1\<rparr>"
    have a: "Allow t ip rl = (rw_count w + 1 \<le> rl_maxRequests rl, rl\<lparr>rl_windows := fmupd ip ?w (rl_windows rl)\<rparr>)"
      using Cons.prems e by (simp add: Allow_def Let_def)
    then show ?thesis
      using Cons.IH [of "snd (Allow t ip rl)" ?w] Cons.prems(2) e
      by (auto simp: admitted_Cons max_def split: if_splits)
  next
    case False
    then have "fmlookup (rl_windows (snd (rl_step e rl))) ip = Some w"
      using Cons.prems
      by (cases e) (auto simp: Allow_def rl_cleanup_def Let_def split: option.splits)
    then show ?thesis
      using Cons.IH [of "snd (rl_step e rl)" w] Cons.prems(2) False
      by (auto simp: admitted_Cons split: rl_event.split)
  qed
qed

lemma admitted_within:
  assumes "rl_inv rl" and "1 \<le> rl_maxRequests rl"
    and "list_all (\<lambda>e. a \<le> rl_time e \<and> rl_time e \<le> a + rl_windowDuration rl) es"
  shows "int (admitted ip es rl) \<le>
    rl_maxRequests rl + (case fmlookup (rl_windows rl) ip of None \<Rightarrow> 0 | Some w \<Rightarrow> max 0 (rl_maxRequests rl - rw_count w))"
  using assms
proof (induction es arbitrary: rl)
  case Nil
  then show ?case by (simp split: option.splits)
next
  case (Cons e es)
  have times: "list_all (\<lambda>e. a \<le> rl_time e \<and> rl_time e \<le> a + rl_windowDuration rl) es"
    using Cons.prems(3) by simp
  note IH = Cons.IH [OF rl_step_inv [OF Cons.prems(1)], of e]
  show ?case
  proof (cases "\<exists>t. e = Request t ip")
    case True
    then obtain t where e: "e = Request t ip" by blast
    let ?fresh = "\<lparr>rw_count = 1, rw_expiry = t + rl_windowDuration rl\<rparr>"
    show ?thesis
    proof (cases "case fmlookup (rl_windows rl) ip of None \<Rightarrow> True | Some w \<Rightarrow> t > rw_expiry w")
      case True
      then have a: "Allow t ip rl = (True, rl\<lparr>rl_windows := fmupd ip ?fresh (rl_windows rl)\<rparr>)"
        by (auto simp: Allow_def Let_def split: option.splits)
      have "list_all (\<lambda>e. rl_time e \<le> t + rl_windowDuration rl) es"
        using Cons.prems(3) e by (auto simp: list_all_iff)
      then have "int (admitted ip es (snd (Allow t ip rl))) \<le> max 0 (rl_maxRequests rl - 1)"
        using admitted_in_window [of "snd (Allow t ip rl)" ip ?fresh es] a by simp
      then show ?thesis using Cons.prems(2) e a by (auto simp: admitted_Cons max_def split: option.splits if_splits)
    next
      case False
      then obtain w where w: "fmlookup (rl_windows rl) ip = Some w" "t \<le> rw_expiry w"
        by (auto split: option.splits)
      then show ?thesis
        using IH e Cons.prems(2) times
        by (auto simp: admitted_Cons Allow_def Let_def max_def split: option.splits if_splits)
    qed
  next
    case False
    then have "fmlookup (rl_windows (snd (rl_step e rl))) ip \<in> {None, fmlookup (rl_windows rl) ip}"
      by (cases e) (auto simp: Allow_def rl_cleanup_def Let_def split: option.splits)
    then show ?thesis
      using IH Cons.prems(2) times False
      by (auto simp: admitted_Cons split: rl_event.split option.splits)
  qed
qed

text \<open>Requests of other addresses do not matter.\<close>

lemma Allow_other: "ip' \<noteq> ip \<Longrightarrow> fmlookup (rl_windows (snd (Allow t ip' rl))) ip = fmlookup (rl_windows rl) ip"
  by (auto simp: Allow_def Let_def split: option.splits)

lemma Allow_local:
  assumes "fmlookup (rl_windows rl) ip = fmlookup (rl_windows rl') ip"
    and "rl_maxRequests rl = rl_maxRequests rl'" and "rl_windowDuration rl = rl_windowDuration rl'"
  shows "fst (Allow t ip rl) = fst (Allow t ip rl') \<and>
    fmlookup (rl_windows (snd (Allow t ip rl))) ip = fmlookup (rl_windows (snd (Allow t ip rl'))) ip"
  using assms by (auto simp: Allow_def Let_def split: option.splits)

definition concerns :: "string \<Rightarrow> rl_event \<Rightarrow> bool" where
  "concerns ip e = (case e of Request t ip' \<Rightarrow> ip' = ip | Sweep t \<Rightarrow> True)"

lemma decisions_local:
  assumes "fmlookup (rl_windows rl) ip = fmlookup (rl_windows rl') ip"
    and "rl_maxRequests rl = rl_maxRequests rl'" and "rl_windowDuration rl = rl_windowDuration rl'"
  shows "decisions ip es rl = decisions ip (filter (concerns ip) es) rl'"
  using assms
proof (induction es arbitrary: rl rl')
  case Nil
  then show ?case by simp
next
  case (Cons e es)
  show ?case
  proof (cases e)
    case (Request t ip')
    then show ?thesis
      using Cons.IH [of "snd (Allow t ip' rl)" "if ip' = ip then snd (Allow t ip rl') else rl'"]
        Cons.prems Allow_local [OF Cons.prems, of t] Allow_other [of ip' ip t rl]
      by (simp add: concerns_def)
  next
    case (Sweep t)
    then show ?thesis
      using Cons.IH [of "rl_cleanup t rl" "rl_cleanup t rl'"] Cons.prems
      by (simp add: concerns_def rl_cleanup_def)
  qed
qed



end
