(* ===== verification/Oauth_Server.thy ===== *)
theory Oauth_Server
  imports Oauth_Token Rate_Limiter
begin

text \<open>
  The authorization server in its built-in mode (\<open>internal/authserver/authserver.go\<close>): its routes, the
  rate limiter in front of them, and runs of exchanges one after the other.  The properties here span
  the endpoints: where a token comes from, and that the protocol reaches its end.
\<close>

section \<open>Routes\<close>

text \<open>
  A request as the multiplexer sees it.  HEAD requests, which it sends to the handlers of GET, are not
  modelled apart: they are answered 405 by the authorization handler and without a body elsewhere.
\<close>

record oauth_http =
  oh_path :: string
  oh_method :: oauth_method
  oh_query :: params
  oh_form :: "params option"
  oh_body :: string
  oh_remote :: string

datatype server_answer =
    Endpoint oauth_answer
  | MetadataDoc oauth_metadata
  | ResourceDoc resource_metadata
  | KeySet
  | NotRouted

text \<open>The server: the windows of its limiter and the state of its endpoints.\<close>

type_synonym oauth_server = "rate_limiter \<times> oauth_state"

definition too_many :: oauth_answer where
  "too_many = PlainError 429 ''Too Many Requests''"

definition new_oauth_server :: oauth_server where
  "new_oauth_server =
     (NewRateLimiter 20 (60 * second), \<lparr>os_storage = NewMemoryStorage, os_csrf = fmempty\<rparr>)"

definition lift_endpoint :: "oauth_answer \<times> oauth_server \<Rightarrow> server_answer \<times> oauth_server" where
  "lift_endpoint r = (Endpoint (fst r), snd r)"

definition method_not_allowed :: "oauth_server \<Rightarrow> server_answer \<times> oauth_server" where
  "method_not_allowed sv = (Endpoint (PlainError 405 ''Method Not Allowed''), sv)"

text \<open>
  \<open>RegisterRoutes\<close>, as the function the multiplexer then is; \<open>idBytes\<close> and \<open>secretBytes\<close> are the
  random bytes of a registration.
\<close>

definition oauth_mux ::
  "oauth_config \<Rightarrow> (string \<Rightarrow> string \<Rightarrow> user_info option) \<Rightarrow> (access_claims \<Rightarrow> string option) \<Rightarrow> exchange_env \<Rightarrow>
    char list \<Rightarrow> char list \<Rightarrow> oauth_http \<Rightarrow> oauth_server \<Rightarrow> server_answer \<times> oauth_server" where
  "oauth_mux cfg authenticate sign e idBytes secretBytes r sv =
     (let limited = (\<lambda>h. lift_endpoint (RateLimitMiddleware (ee_now e) (oh_remote r) too_many h sv));
          get = oh_method r = MGet; post = oh_method r = MPost
      in if oh_path r = ''/.well-known/oauth-protected-resource'' then
           (if get then (ResourceDoc (handleProtectedResourceMetadata cfg), sv) else method_not_allowed sv)
         else if oh_path r = ''/.well-known/oauth-authorization-server'' then
           (if get then (MetadataDoc (BuildMetadata (oc_Issuer cfg) (oc_ScopesSupported cfg)
                           (oc_AllowDynamicRegistration cfg)), sv)
            else method_not_allowed sv)
         else if oh_path r = ''/oauth/jwks'' then (if get then (KeySet, sv) else method_not_allowed sv)
         else if oh_path r = ''/oauth/authorize'' then
           (if get then
              (case authorize_ServeHTTP cfg authenticate e MGet (oh_query r) (oh_form r) (snd sv) of
                 (a, st) \<Rightarrow> (Endpoint a, fst sv, st))
            else if post then limited (authorize_ServeHTTP cfg authenticate e MPost (oh_query r) (oh_form r))
            else method_not_allowed sv)
         else if oh_path r = ''/oauth/token'' then
           (if post then limited (token_ServeHTTP cfg sign e MPost (oh_form r)) else method_not_allowed sv)
         else if oc_AllowDynamicRegistration cfg \<and> (oh_path r = ''/register'' \<or> oh_path r = ''/oauth/register'') then
           (if post then limited (handleRegister cfg e idBytes secretBytes MPost (oh_body r)) else method_not_allowed sv)
         else (NotRouted, sv))"

text \<open>What happens to the server: a request, or one of its two timers.\<close>

datatype server_event =
    Http exchange_env "char list" "char list" oauth_http
  | StorageTimer instant
  | LimiterTimer instant

fun server_step ::
  "oauth_config \<Rightarrow> (string \<Rightarrow> string \<Rightarrow> user_info option) \<Rightarrow> (access_claims \<Rightarrow> string option) \<Rightarrow> server_event \<Rightarrow>
    oauth_server \<Rightarrow> server_answer \<times> oauth_server" where
  "server_step cfg authenticate sign (Http e i s r) sv = oauth_mux cfg authenticate sign e i s r sv"
| "server_step cfg authenticate sign (StorageTimer now) sv =
     (NotRouted, fst sv, (snd sv)\<lparr>os_storage := cleanupExpired now (os_storage (snd sv))\<rparr>)"
| "server_step cfg authenticate sign (LimiterTimer now) sv = (NotRouted, rl_cleanup now (fst sv), snd sv)"

fun server_run ::
  "oauth_config \<Rightarrow> (string \<Rightarrow> string \<Rightarrow> user_info option) \<Rightarrow> (access_claims \<Rightarrow> string option) \<Rightarrow> server_event list \<Rightarrow>
    oauth_server \<Rightarrow> oauth_server" where
  "server_run cfg authenticate sign [] sv = sv"
| "server_run cfg authenticate sign (ev # evs) sv =
     server_run cfg authenticate sign evs (snd (server_step cfg authenticate sign ev sv))"

lemma server_run_append:
  "server_run cfg auth sign (evs @ evs') sv = server_run cfg auth sign evs' (server_run cfg auth sign evs sv)"
  by (induction evs arbitrary: sv) simp_all

section \<open>The effect of one exchange\<close>

abbreviation storage_of :: "oauth_server \<Rightarrow> memory_storage" where
  "storage_of sv \<equiv> os_storage (snd sv)"

text \<open>A POST of a form to an endpoint.\<close>

definition posts :: "server_event \<Rightarrow> string \<Rightarrow> exchange_env \<Rightarrow> params \<Rightarrow> bool" where
  "posts ev path e form \<longleftrightarrow>
     (\<exists>i s r. ev = Http e i s r \<and> oh_path r = path \<and> oh_method r = MPost \<and> oh_form r = Some form)"

text \<open>
  A successful login: the form is posted to the authorization endpoint, its credentials are accepted,
  and \<open>ac\<close> is the code made from it.
\<close>

definition login_of ::
  "oauth_config \<Rightarrow> (string \<Rightarrow> string \<Rightarrow> user_info option) \<Rightarrow> server_event \<Rightarrow> auth_code \<Rightarrow> bool" where
  "login_of cfg authenticate ev ac \<longleftrightarrow>
     (\<exists>e form ui b. posts ev ''/oauth/authorize'' e form \<and>
        authenticate (param form ''username'') (param form ''password'') = Some ui \<and> ee_value e = Some b \<and>
        ac_Code ac = encodeBase64URL b \<and> ac_ClientID ac = param form ''client_id'' \<and>
        ac_UserID ac = ui_ID ui \<and> ac_RedirectURI ac = param form ''redirect_uri'' \<and>
        ac_CodeChallenge ac = param form ''code_challenge'' \<and> ac_CodeChallengeMethod ac = ''S256'' \<and>
        ac_Scope ac = join_with '' '' (granted_scopes cfg ui (param form ''scope'')))"

text \<open>How the store changes: not in its grants, by a login, by a code, by a refresh token, by a sweep.\<close>

inductive store_step ::
  "oauth_config \<Rightarrow> (string \<Rightarrow> string \<Rightarrow> user_info option) \<Rightarrow> server_event \<Rightarrow> memory_storage \<Rightarrow> memory_storage \<Rightarrow> bool"
  for cfg authenticate ev where
  same: "mem_authCodes ms' = mem_authCodes ms \<Longrightarrow> mem_refreshTokens ms' = mem_refreshTokens ms \<Longrightarrow>
    store_step cfg authenticate ev ms ms'"
| login: "login_of cfg authenticate ev ac \<Longrightarrow> StoreAuthorizationCode ac ms = Some ms' \<Longrightarrow>
    store_step cfg authenticate ev ms ms'"
| redeem: "fmlookup (mem_authCodes ms) k = Some ac \<Longrightarrow> mem_authCodes ms' = fmdrop k (mem_authCodes ms) \<Longrightarrow>
    (mem_refreshTokens ms' = mem_refreshTokens ms \<or>
     (\<exists>rt. mem_refreshTokens ms' = fmupd (rt_Token rt) rt (mem_refreshTokens ms) \<and> rt_UserID rt = ac_UserID ac \<and>
        rt_ClientID rt = ac_ClientID ac \<and> rt_Scope rt = ac_Scope ac)) \<Longrightarrow>
    store_step cfg authenticate ev ms ms'"
| rotate: "fmlookup (mem_refreshTokens ms) k = Some rt0 \<Longrightarrow> mem_authCodes ms' = mem_authCodes ms \<Longrightarrow>
    (mem_refreshTokens ms' = fmdrop k (mem_refreshTokens ms) \<or>
     (\<exists>rt. mem_refreshTokens ms' = fmupd (rt_Token rt) rt (fmdrop k (mem_refreshTokens ms)) \<and>
        rt_UserID rt = rt_UserID rt0 \<and> rt_ClientID rt = rt_ClientID rt0 \<and> rt_Scope rt = rt_Scope rt0)) \<Longrightarrow>
    store_step cfg authenticate ev ms ms'"
| sweep: "ms' = cleanupExpired now ms \<Longrightarrow> store_step cfg authenticate ev ms ms'"

lemma showLoginForm_storage [simp]: "os_storage (snd (showLoginForm e req msg st)) = os_storage st"
  by (auto simp: showLoginForm_def split: prod.splits option.splits)

lemma handleGet_storage [simp]: "os_storage (snd (authorize_handleGet cfg e q st)) = os_storage st"
  by (auto simp: authorize_handleGet_def split: prod.splits option.splits)

lemma issue_code_storage:
  "issue_code cfg e req ui st = (a, st') \<Longrightarrow>
     os_storage st' = os_storage st \<or>
     (\<exists>b. ee_value e = Some b \<and>
        StoreAuthorizationCode (new_auth_code cfg e (encodeBase64URL b) req ui) (os_storage st) = Some (os_storage st'))"
  by (auto simp: issue_code_def GenerateAuthorizationCode_def split: option.splits)

lemma login_storage:
  assumes "posts ev ''/oauth/authorize'' e form" and "login cfg auth e form st = (a, st')"
  shows "store_step cfg auth ev (os_storage st) (os_storage st')"
proof (cases "os_storage st' = os_storage st")
  case True
  then show ?thesis by (simp add: store_step.same)
next
  case False
  obtain req where v: "validateAuthorizeRequest (request_of_params form) (oc_AllowedRedirectURIs cfg) = (None, req)"
    using assms(2) False by (auto simp: login_def split: prod.splits option.splits if_splits)
  obtain ui where ui: "auth (param form ''username'') (param form ''password'') = Some ui"
    and i: "issue_code cfg e req ui st = (a, st')"
    using assms(2) False v showLoginForm_storage [of e req _ st]
    by (auto simp: login_def split: option.splits if_splits) (metis snd_conv showLoginForm_storage)+
  then obtain b where b: "ee_value e = Some b"
    "StoreAuthorizationCode (new_auth_code cfg e (encodeBase64URL b) req ui) (os_storage st) = Some (os_storage st')"
    using issue_code_storage [OF i] False by blast
  have "login_of cfg auth ev (new_auth_code cfg e (encodeBase64URL b) req ui)"
    unfolding login_of_def using assms(1) ui b(1) validateAuthorizeRequest_ok [OF v]
    by (intro exI [of _ e] exI [of _ form] exI [of _ ui] exI [of _ b]) (simp add: new_auth_code_def)
  then show ?thesis using b(2) by (rule store_step.login)
qed

lemma handlePost_storage:
  assumes "posts ev ''/oauth/authorize'' e form" and "authorize_handlePost cfg auth e (Some form) st = (a, st')"
  shows "store_step cfg auth ev (os_storage st) (os_storage st')"
proof (cases "validateCSRFToken (ee_now e) (param form ''csrf_token'') (os_csrf st)")
  case (Pair ok tokens)
  then show ?thesis
    using assms login_storage [OF assms(1), of cfg auth "st\<lparr>os_csrf := tokens\<rparr>" a st']
    by (cases ok) (auto simp: authorize_handlePost_def intro: store_step.same)
qed

lemma issueTokens_storage:
  assumes "issueTokens cfg sign e u n c sc st = (a, st')"
  shows "mem_authCodes (os_storage st') = mem_authCodes (os_storage st) \<and>
    (mem_refreshTokens (os_storage st') = mem_refreshTokens (os_storage st) \<or>
     (\<exists>rt. mem_refreshTokens (os_storage st') = fmupd (rt_Token rt) rt (mem_refreshTokens (os_storage st)) \<and>
        rt_UserID rt = u \<and> rt_ClientID rt = c \<and> rt_Scope rt = sc))"
proof -
  consider "st' = st" | r where "a = TokenJson r" using issueTokens_state [OF assms] by blast
  then show ?thesis
  proof cases
    case 2
    then obtain t s where "StoreRefreshToken (new_refresh_token cfg e t u n c sc) (os_storage st) = Some s"
      "st' = st\<lparr>os_storage := s\<rparr>"
      using assms by (auto simp: issueTokens_TokenJson)
    then show ?thesis
      by (auto simp: StoreRefreshToken_def new_refresh_token_def split: if_splits
          intro!: exI [of _ "new_refresh_token cfg e t u n c sc"])
  qed simp
qed

lemma code_redeem_storage:
  assumes "code_lookup cfg e form st = Inr ac" and "code_redeem cfg sign e form ac st = (a, st')"
  shows "store_step cfg auth ev (os_storage st) (os_storage st')"
proof -
  let ?k = "param form ''code''"
  let ?st = "st\<lparr>os_storage := DeleteAuthorizationCode ?k (os_storage st)\<rparr>"
  have k: "fmlookup (mem_authCodes (os_storage st)) ?k = Some ac"
    using code_lookup_found(1) [OF assms(1)] by (auto simp: GetAuthorizationCode_def split: option.splits if_splits)
  consider "st' = ?st" | "issueTokens cfg sign e (ac_UserID ac) (ac_Username ac) (ac_ClientID ac) (ac_Scope ac) ?st = (a, st')"
    using assms(2) by (auto simp: code_redeem_def Let_def split: if_splits)
  then have "mem_refreshTokens (os_storage st') = mem_refreshTokens (os_storage st) \<or>
     (\<exists>rt. mem_refreshTokens (os_storage st') = fmupd (rt_Token rt) rt (mem_refreshTokens (os_storage st)) \<and>
        rt_UserID rt = ac_UserID ac \<and> rt_ClientID rt = ac_ClientID ac \<and> rt_Scope rt = ac_Scope ac)"
    using issueTokens_storage by cases (simp, fastforce)
  then show ?thesis using store_step.redeem [OF k code_redeem_state(1) [OF assms(2)]] by blast
qed

lemma refresh_rotate_storage:
  assumes "refresh_lookup cfg e form st = Inr rt" and "refresh_rotate cfg sign e form rt st = (a, st')"
  shows "store_step cfg auth ev (os_storage st) (os_storage st')"
proof -
  let ?k = "param form ''refresh_token''"
  have k: "fmlookup (mem_refreshTokens (os_storage st)) ?k = Some rt"
    using refresh_lookup_found(1) [OF assms(1)] by (auto simp: GetRefreshToken_def split: option.splits if_splits)
  show ?thesis
    using issueTokens_storage [OF assms(2) [unfolded refresh_rotate_def]]
    by (intro store_step.rotate [OF k]) (simp_all add: DeleteRefreshToken_def)
qed

lemma token_storage:
  "token_ServeHTTP cfg sign e MPost form st = (a, st') \<Longrightarrow> store_step cfg auth ev (os_storage st) (os_storage st')"
  by (auto simp: token_ServeHTTP_def handleAuthorizationCode_def handleRefreshToken_def
      split: option.splits if_splits sum.splits intro: store_step.same code_redeem_storage refresh_rotate_storage)

lemma register_storage:
  "handleRegister cfg e i s m body st = (a, st') \<Longrightarrow> store_step cfg auth ev (os_storage st) (os_storage st')"
  by (auto simp: handleRegister_def StoreClient_def split: option.splits if_splits intro: store_step.same)

lemma limited_storage:
  assumes "\<And>a st'. h (snd sv) = (a, st') \<Longrightarrow> store_step cfg auth ev (storage_of sv) (os_storage st')"
  shows "store_step cfg auth ev (storage_of sv)
    (storage_of (snd (lift_endpoint (RateLimitMiddleware now remote refusal h sv))))"
  using assms
  by (auto simp: lift_endpoint_def RateLimitMiddleware_def split: prod.splits bool.splits intro: store_step.same)

lemma authorize_storage:
  assumes "ev = Http e i s r" and "oh_path r = ''/oauth/authorize''" and "oh_method r = MPost"
    and "authorize_ServeHTTP cfg auth e MPost (oh_query r) (oh_form r) st = (a, st')"
  shows "store_step cfg auth ev (os_storage st) (os_storage st')"
proof (cases "oh_form r")
  case None
  then show ?thesis using assms(4) by (auto simp: authorize_ServeHTTP_def authorize_handlePost_def intro: store_step.same)
next
  case (Some form)
  then have "posts ev ''/oauth/authorize'' e form" using assms by (auto simp: posts_def)
  then show ?thesis using handlePost_storage assms(4) Some by (simp add: authorize_ServeHTTP_def)
qed

lemma server_step_storage:
  "store_step cfg auth ev (storage_of sv) (storage_of (snd (server_step cfg auth sign ev sv)))"
proof (cases ev)
  case (Http e i s r)
  have g: "os_storage (snd (authorize_ServeHTTP cfg auth e MGet (oh_query r) (oh_form r) (snd sv))) = storage_of sv"
    by (simp add: authorize_ServeHTTP_def)
  have same: "store_step cfg auth ev ms ms" for ms by (simp add: store_step.same)
  have a: "oh_path r = ''/oauth/authorize'' \<Longrightarrow> oh_method r = MPost \<Longrightarrow>
      store_step cfg auth ev (storage_of sv) (storage_of (snd (lift_endpoint (RateLimitMiddleware (ee_now e) (oh_remote r)
        too_many (authorize_ServeHTTP cfg auth e MPost (oh_query r) (oh_form r)) sv))))"
    by (rule limited_storage) (rule authorize_storage [OF Http])
  have t: "store_step cfg auth ev (storage_of sv) (storage_of (snd (lift_endpoint (RateLimitMiddleware (ee_now e) (oh_remote r)
        too_many (token_ServeHTTP cfg sign e MPost (oh_form r)) sv))))"
    by (rule limited_storage) (rule token_storage)
  have g': "store_step cfg auth ev (storage_of sv) (storage_of (snd (register_route)))"
    if "register_route = lift_endpoint (RateLimitMiddleware (ee_now e) (oh_remote r)
        too_many (handleRegister cfg e i s MPost (oh_body r)) sv)" for register_route
    unfolding that by (rule limited_storage) (rule register_storage)
  show ?thesis
    using same a t g' [OF refl] g Http
    by (auto simp: oauth_mux_def Let_def method_not_allowed_def split: prod.splits)
next
  case (StorageTimer now)
  then show ?thesis by (auto intro: store_step.sweep)
next
  case (LimiterTimer now)
  then show ?thesis by (auto intro: store_step.same)
qed

section \<open>Where tokens come from\<close>

text \<open>Every stored grant stems from a login among the events so far.\<close>

definition granted ::
  "oauth_config \<Rightarrow> (string \<Rightarrow> string \<Rightarrow> user_info option) \<Rightarrow> server_event set \<Rightarrow> string \<Rightarrow> string \<Rightarrow> string \<Rightarrow> bool" where
  "granted cfg auth log u c sc \<longleftrightarrow>
     (\<exists>ev \<in> log. \<exists>ac. login_of cfg auth ev ac \<and> ac_UserID ac = u \<and> ac_ClientID ac = c \<and> ac_Scope ac = sc)"

definition grants_ok ::
  "oauth_config \<Rightarrow> (string \<Rightarrow> string \<Rightarrow> user_info option) \<Rightarrow> server_event set \<Rightarrow> memory_storage \<Rightarrow> bool" where
  "grants_ok cfg auth log ms \<longleftrightarrow>
     fmpred (\<lambda>k ac. \<exists>ev \<in> log. login_of cfg auth ev ac) (mem_authCodes ms) \<and>
     fmpred (\<lambda>k rt. granted cfg auth log (rt_UserID rt) (rt_ClientID rt) (rt_Scope rt)) (mem_refreshTokens ms)"

lemma granted_mono: "granted cfg auth log u c sc \<Longrightarrow> granted cfg auth (insert ev log) u c sc"
  unfolding granted_def by blast

lemma grants_ok_mono: "grants_ok cfg auth log ms \<Longrightarrow> grants_ok cfg auth (insert ev log) ms"
  unfolding grants_ok_def fmpred_iff using granted_mono by blast

lemma grants_ok_code:
  "grants_ok cfg auth log ms \<Longrightarrow> fmlookup (mem_authCodes ms) k = Some ac \<Longrightarrow> \<exists>ev \<in> log. login_of cfg auth ev ac"
  unfolding grants_ok_def by (blast dest: fmpredD)

lemma grants_ok_refresh:
  "grants_ok cfg auth log ms \<Longrightarrow> fmlookup (mem_refreshTokens ms) k = Some rt \<Longrightarrow>
     granted cfg auth log (rt_UserID rt) (rt_ClientID rt) (rt_Scope rt)"
  unfolding grants_ok_def by (blast dest: fmpredD)

lemma store_step_grants:
  assumes "store_step cfg auth ev ms ms'" and "grants_ok cfg auth log ms"
  shows "grants_ok cfg auth (insert ev log) ms'"
  using assms(1)
proof cases
  case same
  then show ?thesis using grants_ok_mono [OF assms(2)] unfolding grants_ok_def by simp
next
  case (login ac)
  then show ?thesis using grants_ok_mono [OF assms(2), of ev] unfolding grants_ok_def StoreAuthorizationCode_def
    by (auto split: if_splits intro: fmpred_upd)
next
  case (redeem k ac)
  have "granted cfg auth (insert ev log) (ac_UserID ac) (ac_ClientID ac) (ac_Scope ac)"
    using grants_ok_code [OF assms(2) redeem(1)] unfolding granted_def by blast
  then show ?thesis
    using grants_ok_mono [OF assms(2), of ev] redeem(2,3) unfolding grants_ok_def
    by (auto simp: fmpred_iff split: if_splits)
next
  case (rotate k rt0)
  then show ?thesis
    using grants_ok_mono [OF assms(2), of ev] granted_mono [OF grants_ok_refresh [OF assms(2) rotate(1)]]
    unfolding grants_ok_def by (auto simp: fmpred_iff split: if_splits)
next
  case (sweep now)
  then show ?thesis using grants_ok_mono [OF assms(2), of ev] unfolding grants_ok_def cleanupExpired_def
    by (auto intro!: fmpredI dest: fmpredD split: if_splits option.splits)
qed

lemma server_run_grants:
  "grants_ok cfg auth log (storage_of sv) \<Longrightarrow>
   grants_ok cfg auth (log \<union> set evs) (storage_of (server_run cfg auth sign evs sv))"
proof (induction evs arbitrary: log sv)
  case (Cons ev evs)
  show ?case
    using Cons.IH [OF store_step_grants [OF server_step_storage Cons.prems]] by simp
qed simp

lemma new_server_grants: "grants_ok cfg auth {} (storage_of new_oauth_server)"
  by (simp add: grants_ok_def new_oauth_server_def NewMemoryStorage_def)

text \<open>Only the token endpoint answers with tokens.\<close>

lemma RedirectWithError_neq [simp]: "RedirectWithError u e \<noteq> TokenJson r"
  by (simp add: RedirectWithError_def split: option.splits)

lemma showLoginForm_neq [simp]: "showLoginForm e req msg st \<noteq> (TokenJson r, st')"
  by (simp add: showLoginForm_def split: prod.splits option.splits)

lemma authorize_no_tokens: "authorize_ServeHTTP cfg auth e m q form st \<noteq> (TokenJson r, st')"
  by (auto simp: authorize_ServeHTTP_def authorize_handleGet_def authorize_handlePost_def login_def issue_code_def
      split: oauth_method.splits prod.splits option.splits if_splits bool.splits)

lemma register_no_tokens: "handleRegister cfg e i s m body st \<noteq> (TokenJson r, st')"
  by (auto simp: handleRegister_def split: option.splits)

lemma limited_answer:
  "lift_endpoint (RateLimitMiddleware now remote too_many h sv) = (Endpoint (TokenJson r), sv') \<Longrightarrow>
     h (snd sv) = (TokenJson r, snd sv')"
  by (auto simp: lift_endpoint_def RateLimitMiddleware_def too_many_def split: prod.splits bool.splits)

lemma token_answer:
  assumes "server_step cfg auth sign ev sv = (Endpoint (TokenJson r), sv')"
  obtains e form where "posts ev ''/oauth/token'' e form"
    and "token_ServeHTTP cfg sign e MPost (Some form) (snd sv) = (TokenJson r, snd sv')"
proof (cases ev)
  case (Http e i s rq)
  have no_get: "authorize_ServeHTTP cfg auth e MGet (oh_query rq) (oh_form rq) (snd sv) \<noteq> (TokenJson r, st')" for st'
    by (rule authorize_no_tokens)
  have t: "oh_path rq = ''/oauth/token'' \<and> oh_method rq = MPost \<and>
      token_ServeHTTP cfg sign e MPost (oh_form rq) (snd sv) = (TokenJson r, snd sv')"
    using assms Http no_get
    by (auto simp: oauth_mux_def Let_def method_not_allowed_def authorize_no_tokens register_no_tokens
        split: if_splits prod.splits dest!: limited_answer)
  then obtain form where "oh_form rq = Some form" by (cases "oh_form rq") (simp_all add: token_ServeHTTP_def)
  then show ?thesis using that [of e form] t Http by (auto simp: posts_def)
qed (use assms in simp_all)

lemma token_answer_cases:
  assumes "token_ServeHTTP cfg sign e MPost (Some form) st = (TokenJson r, st')"
  obtains ac where "param form ''grant_type'' = ''authorization_code''" and "code_lookup cfg e form st = Inr ac"
      and "code_redeem cfg sign e form ac st = (TokenJson r, st')"
  | rt where "param form ''grant_type'' = ''refresh_token''" and "refresh_lookup cfg e form st = Inr rt"
      and "refresh_rotate cfg sign e form rt st = (TokenJson r, st')"
  using assms code_lookup_not_tokens refresh_lookup_not_tokens
  by (auto simp: token_ServeHTTP_def handleAuthorizationCode_def handleRefreshToken_def
      split: if_splits sum.splits)

lemma issueTokens_claims:
  assumes "issueTokens cfg sign e u n c sc st = (TokenJson r, st')"
  obtains claims where "sign claims = Some (tr_AccessToken r)" and "at_Subject claims = u"
    and "at_ClientID claims = c" and "at_Scope claims = sc" and "tr_Scope r = sc"
  using assms that [of "token_claims cfg e u c sc"] by (auto simp: issueTokens_TokenJson token_claims_def)


section \<open>A code is good for one exchange\<close>

text \<open>In the contract of the store, a step puts in codes of logins only.\<close>

lemma same_codes_history:
  "mem_authCodes ms' = mem_authCodes ms \<Longrightarrow> codes.history ms [] ms'"
  by (rule codes.history.other [OF codes.history.start]) (simp add: GetAuthorizationCode_def)

lemma dropped_code_history:
  "mem_authCodes ms' = fmdrop k (mem_authCodes ms) \<Longrightarrow> codes.history (DeleteAuthorizationCode k ms) [] ms'"
  by (rule codes.history.other [OF codes.history.start]) (simp add: GetAuthorizationCode_def DeleteAuthorizationCode_def)

lemma store_step_history:
  assumes "store_step cfg auth ev ms ms'"
  shows "\<exists>vs. codes.history ms vs ms' \<and> list_all (login_of cfg auth ev) vs"
  using assms
proof cases
  case same
  then show ?thesis using same_codes_history by (intro exI [of _ "[]"]) simp
next
  case (login ac)
  then show ?thesis using codes.history.put [OF codes.history.start, of ac ms ms'] by (intro exI [of _ "[ac]"]) simp
next
  case (redeem k ac)
  then have "codes.history ms [] ms'"
    using codes.history_trans [OF dropped_code_history [of ms' k ms] codes.history.del [OF codes.history.start]] by simp
  then show ?thesis by (intro exI [of _ "[]"]) simp
next
  case (rotate k rt0)
  then show ?thesis using same_codes_history by (intro exI [of _ "[]"]) simp
next
  case (sweep now)
  then show ?thesis using codes.history.sweep [OF codes.history.start] by (intro exI [of _ "[]"]) simp
qed

lemma server_run_history:
  "\<exists>vs. codes.history (storage_of sv) vs (storage_of (server_run cfg auth sign evs sv)) \<and>
     list_all (\<lambda>v. \<exists>ev \<in> set evs. login_of cfg auth ev v) vs"
proof (induction evs arbitrary: sv)
  case Nil
  then show ?case using codes.history.start by (intro exI [of _ "[]"]) simp
next
  case (Cons ev evs)
  obtain vs where vs: "codes.history (storage_of sv) vs (storage_of (snd (server_step cfg auth sign ev sv)))"
    "list_all (login_of cfg auth ev) vs"
    using store_step_history [OF server_step_storage] by blast
  obtain ws where ws: "codes.history (storage_of (snd (server_step cfg auth sign ev sv))) ws
      (storage_of (server_run cfg auth sign evs (snd (server_step cfg auth sign ev sv))))"
    "list_all (\<lambda>v. \<exists>ev \<in> set evs. login_of cfg auth ev v) ws"
    using Cons.IH by blast
  show ?case
    using codes.history_trans [OF ws(1) vs(1)] vs(2) ws(2)
    by (intro exI [of _ "vs @ ws"]) (auto simp: list_all_iff)
qed

lemma posts_unique: "posts ev p e f \<Longrightarrow> posts ev p' e' f' \<Longrightarrow> e' = e \<and> f' = f"
  by (auto simp: posts_def)

lemma code_grant_effect:
  assumes "server_step cfg auth sign ev sv = (Endpoint (TokenJson r), sv')" and "posts ev ''/oauth/token'' e form"
    and "param form ''grant_type'' = ''authorization_code''"
  shows "GetAuthorizationCode (ee_now e) (param form ''code'') (storage_of sv) \<noteq> None \<and>
    mem_authCodes (storage_of sv') = fmdrop (param form ''code'') (mem_authCodes (storage_of sv))"
proof -
  have "token_ServeHTTP cfg sign e MPost (Some form) (snd sv) = (TokenJson r, snd sv')"
    using token_answer [OF assms(1)] posts_unique [OF assms(2)] by metis
  then obtain ac where "code_lookup cfg e form (snd sv) = Inr ac" "code_redeem cfg sign e form ac (snd sv) = (TokenJson r, snd sv')"
    using assms(3) by (cases rule: token_answer_cases) simp_all
  then show ?thesis using code_lookup_found(1) code_redeem_state(1) by fastforce
qed

text \<open>
  C2.  A code is good for one exchange, when exchanges run one after the other.  If a request is
  answered with tokens for a code and a later one for the same code is as well, with any requests and
  timers in between, then among those in between there was a login that issued that very code again.
\<close>

theorem code_single_use:
  assumes "server_step cfg auth sign x sv = (Endpoint (TokenJson r1), sv1)"
    and "posts x ''/oauth/token'' e1 g1" and "param g1 ''grant_type'' = ''authorization_code''"
    and "sv2 = server_run cfg auth sign between sv1"
    and "server_step cfg auth sign y sv2 = (Endpoint (TokenJson r2), sv3)"
    and "posts y ''/oauth/token'' e2 g2" and "param g2 ''grant_type'' = ''authorization_code''"
    and "param g2 ''code'' = param g1 ''code''"
  shows "\<exists>ev \<in> set between. \<exists>ac. login_of cfg auth ev ac \<and> ac_Code ac = param g1 ''code''"
proof -
  let ?k = "param g1 ''code''"
  have "codes.history (DeleteAuthorizationCode ?k (storage_of sv)) [] (storage_of sv1)"
    using code_grant_effect [OF assms(1-3)] by (intro dropped_code_history) simp
  moreover obtain vs where vs: "codes.history (storage_of sv1) vs (storage_of sv2)"
    "list_all (\<lambda>v. \<exists>ev \<in> set between. login_of cfg auth ev v) vs"
    using server_run_history unfolding assms(4) by blast
  ultimately have "codes.history (DeleteAuthorizationCode ?k (storage_of sv)) vs (storage_of sv2)"
    using codes.history_trans by fastforce
  moreover have "GetAuthorizationCode (ee_now e2) ?k (storage_of sv2) \<noteq> None"
    using code_grant_effect [OF assms(5-7)] assms(8) by simp
  ultimately have "\<not> list_all (\<lambda>v. ac_Code v \<noteq> ?k) vs" using codes.deleted_stays_deleted [of ?k "storage_of sv" vs "storage_of sv2" "ee_now e2"] by auto
  then show ?thesis using vs(2) unfolding list_all_iff by blast
qed

section \<open>The protocol reaches its end\<close>

text \<open>What a login stores, when every check passes.\<close>

lemma login_succeeds:
  assumes "validateCSRFToken (ee_now e) (param f ''csrf_token'') (os_csrf st) = (True, tokens)"
    and "validateAuthorizeRequest (request_of_params f) (oc_AllowedRedirectURIs cfg) = (None, req)"
    and "client_allows cfg st (param f ''client_id'') (param f ''redirect_uri'')"
    and "param f ''username'' \<noteq> []" and "param f ''password'' \<noteq> []"
    and "auth (param f ''username'') (param f ''password'') = Some ui"
    and "ee_value e = Some b" and "fmsize (mem_authCodes (os_storage st)) < maxAuthCodes"
    and "url_Parse (param f ''redirect_uri'') = Some u"
  shows "authorize_handlePost cfg auth e (Some f) st =
    (RedirectTo (param f ''redirect_uri'')
       ([(''code'', encodeBase64URL b)] @ (if param f ''state'' \<noteq> [] then [(''state'', param f ''state'')] else [])),
     st\<lparr>os_csrf := tokens, os_storage := (os_storage st)\<lparr>mem_authCodes :=
        fmupd (encodeBase64URL b) (new_auth_code cfg e (encodeBase64URL b) req ui) (mem_authCodes (os_storage st))\<rparr>\<rparr>)"
proof -
  have r: "ar_ClientID req = param f ''client_id''" "ar_RedirectURI req = param f ''redirect_uri''"
    "ar_State req = param f ''state''"
    using validateAuthorizeRequest_ok [OF assms(2)] by simp_all
  have "checkClient cfg (st\<lparr>os_csrf := tokens\<rparr>) (ar_ClientID req) (ar_RedirectURI req) = None"
    unfolding checkClient_None using assms(3) r by simp
  then show ?thesis
    using assms r
    by (simp add: authorize_handlePost_def login_def issue_code_def GenerateAuthorizationCode_def
        StoreAuthorizationCode_def new_auth_code_def)
qed

text \<open>What an exchange answers, when every check passes.\<close>

lemma exchange_succeeds:
  assumes "fmlookup (mem_authCodes (os_storage st)) (param g ''code'') = Some ac" and "\<not> code_IsExpired (ee_now e) ac"
    and "param g ''code'' \<noteq> []" and "param g ''redirect_uri'' = ac_RedirectURI ac" and "ac_RedirectURI ac \<noteq> []"
    and "param g ''client_id'' = ac_ClientID ac" and "ac_ClientID ac \<noteq> []"
    and "ValidateCodeVerifier (param g ''code_verifier'')"
    and "ac_CodeChallenge ac = encodeBase64URL (sha256 (param g ''code_verifier''))" and "ac_CodeChallengeMethod ac = ''S256''"
    and "validateClientAuth cfg st (param g ''client_id'') (param g ''client_secret'') = None"
    and "fmsize (mem_refreshTokens (os_storage st)) < maxRefreshTokens" and "ee_value e = Some b"
    and "sign (token_claims cfg e (ac_UserID ac) (ac_ClientID ac) (ac_Scope ac)) = Some a"
  shows "fst (handleAuthorizationCode cfg sign e g st) =
    TokenJson \<lparr>tr_AccessToken = a, tr_TokenType = ''Bearer'', tr_ExpiresIn = whole_seconds (oc_TokenLifetime cfg),
      tr_RefreshToken = encodeBase64URL b, tr_Scope = ac_Scope ac\<rparr>"
proof -
  have v: "param g ''code_verifier'' \<noteq> []" using assms(8) by (auto simp: ValidateCodeVerifier_def)
  have l: "code_lookup cfg e g st = Inr ac"
    using assms v by (simp add: code_lookup_def GetAuthorizationCode_def)
  obtain s where "StoreRefreshToken (new_refresh_token cfg e (encodeBase64URL b) (ac_UserID ac) (ac_Username ac)
      (ac_ClientID ac) (ac_Scope ac)) (DeleteAuthorizationCode (param g ''code'') (os_storage st)) = Some s"
    using assms(12) by (simp add: StoreRefreshToken_def)
  then have "\<exists>st'. code_redeem cfg sign e g ac st = (TokenJson \<lparr>tr_AccessToken = a, tr_TokenType = ''Bearer'',
      tr_ExpiresIn = whole_seconds (oc_TokenLifetime cfg), tr_RefreshToken = encodeBase64URL b, tr_Scope = ac_Scope ac\<rparr>, st')"
    using assms v by (simp add: code_redeem_TokenJson issueTokens_TokenJson GenerateRefreshToken_def)
  then show ?thesis using l by (auto simp: handleAuthorizationCode_def)
qed

text \<open>
  C20.  The protocol reaches its end.  A user with valid credentials and a live login form, on behalf of
  a client the server accepts, is redirected to the client with a code and the client's own state;
  the client that then presents this code with the preimage of its challenge, before the code
  expires, is answered with a bearer token whose claims name the user, with the granted scopes.
  Nothing else is needed: no other failure is possible while the store has room, random bytes are to
  be had and claims are signed.
\<close>

theorem flow_completes:
  assumes form: "fst (validateCSRFToken (ee_now e) (param f ''csrf_token'') (os_csrf st))"
      "fst (validateAuthorizeRequest (request_of_params f) (oc_AllowedRedirectURIs cfg)) = None"
    and client: "client_allows cfg st (param f ''client_id'') (param f ''redirect_uri'')"
      "validateClientAuth cfg st (param f ''client_id'') (param g ''client_secret'') = None"
      "url_Parse (param f ''redirect_uri'') \<noteq> None"
    and user: "param f ''username'' \<noteq> []" "param f ''password'' \<noteq> []"
      "auth (param f ''username'') (param f ''password'') = Some ui"
    and room: "fmsize (mem_authCodes (os_storage st)) < maxAuthCodes"
      "fmsize (mem_refreshTokens (os_storage st)) < maxRefreshTokens"
    and random: "ee_value e = Some b" "b \<noteq> []" "ee_value e' = Some b'"
    and signs: "\<And>c. sign c = Some (token c)"
    and grant: "param g ''code'' = encodeBase64URL b" "param g ''redirect_uri'' = param f ''redirect_uri''"
      "param g ''client_id'' = param f ''client_id''" "ValidateCodeVerifier (param g ''code_verifier'')"
      "param f ''code_challenge'' = encodeBase64URL (sha256 (param g ''code_verifier''))"
    and time: "ee_now e' \<le> ee_later e + oc_AuthCodeLifetime cfg"
  shows "\<exists>ps st1 r claims. authorize_handlePost cfg auth e (Some f) st = (RedirectTo (param f ''redirect_uri'') ps, st1) \<and>
    map_of ps ''code'' = Some (encodeBase64URL b) \<and>
    (param f ''state'' = [] \<or> map_of ps ''state'' = Some (param f ''state'')) \<and>
    fst (handleAuthorizationCode cfg sign e' g st1) = TokenJson r \<and> tr_TokenType r = ''Bearer'' \<and>
    tr_AccessToken r = token claims \<and> at_Subject claims = ui_ID ui \<and> at_ClientID claims = param f ''client_id'' \<and>
    tr_Scope r = join_with '' '' (granted_scopes cfg ui (param f ''scope''))"
proof -
  obtain tokens where t: "validateCSRFToken (ee_now e) (param f ''csrf_token'') (os_csrf st) = (True, tokens)"
    using form(1) by (cases "validateCSRFToken (ee_now e) (param f ''csrf_token'') (os_csrf st)") simp
  obtain req where v: "validateAuthorizeRequest (request_of_params f) (oc_AllowedRedirectURIs cfg) = (None, req)"
    using form(2) by (cases "validateAuthorizeRequest (request_of_params f) (oc_AllowedRedirectURIs cfg)") simp
  obtain u where u: "url_Parse (param f ''redirect_uri'') = Some u" using client(3) by blast
  define ac where "ac = new_auth_code cfg e (encodeBase64URL b) req ui"
  define st1 where "st1 = st\<lparr>os_csrf := tokens, os_storage := (os_storage st)\<lparr>mem_authCodes :=
      fmupd (encodeBase64URL b) ac (mem_authCodes (os_storage st))\<rparr>\<rparr>"
  define ps where "ps = [(''code'', encodeBase64URL b)] @ (if param f ''state'' \<noteq> [] then [(''state'', param f ''state'')] else [])"
  define claims where "claims = token_claims cfg e' (ac_UserID ac) (ac_ClientID ac) (ac_Scope ac)"
  have login: "authorize_handlePost cfg auth e (Some f) st = (RedirectTo (param f ''redirect_uri'') ps, st1)"
    unfolding ps_def st1_def ac_def
    by (rule login_succeeds) (fact t v client(1) user random(1) room(1) u)+
  have req: "ar_ClientID req = param f ''client_id''" "ar_RedirectURI req = param f ''redirect_uri''"
    "ar_Scope req = param f ''scope''" "ar_CodeChallenge req = param f ''code_challenge''"
    "ar_CodeChallengeMethod req = ''S256''" "param f ''client_id'' \<noteq> []" "param f ''redirect_uri'' \<noteq> []"
    using validateAuthorizeRequest_ok [OF v] by (simp_all, metis, metis)
  have ne: "encodeBase64URL b \<noteq> []" using random(2) by (cases b rule: encodeBase64URL.cases) (auto simp: Let_def)
  have ac: "ac_ClientID ac = param f ''client_id''" "ac_RedirectURI ac = param f ''redirect_uri''"
    "ac_UserID ac = ui_ID ui" "ac_Scope ac = join_with '' '' (granted_scopes cfg ui (param f ''scope''))"
    "ac_CodeChallenge ac = param f ''code_challenge''" "ac_CodeChallengeMethod ac = ''S256''"
    "\<not> code_IsExpired (ee_now e') ac"
    using req time by (simp_all add: ac_def new_auth_code_def code_IsExpired_def)
  have st1: "fmlookup (mem_authCodes (os_storage st1)) (encodeBase64URL b) = Some ac"
    "mem_refreshTokens (os_storage st1) = mem_refreshTokens (os_storage st)"
    "GetClient i (os_storage st1) = GetClient i (os_storage st)" for i
    by (simp_all add: st1_def GetClient_def)
  have "validateClientAuth cfg st1 (param g ''client_id'') (param g ''client_secret'') = None"
    using client(2) grant(3) by (simp add: validateClientAuth_def st1(3))
  then have "fst (handleAuthorizationCode cfg sign e' g st1) =
      TokenJson \<lparr>tr_AccessToken = token claims, tr_TokenType = ''Bearer'',
        tr_ExpiresIn = whole_seconds (oc_TokenLifetime cfg), tr_RefreshToken = encodeBase64URL b', tr_Scope = ac_Scope ac\<rparr>"
    unfolding claims_def
    by (intro exchange_succeeds) (use grant ac ne req st1 room(2) random(3) signs in simp_all)
  moreover have "at_Subject claims = ui_ID ui" "at_ClientID claims = param f ''client_id''"
    using ac by (simp_all add: claims_def token_claims_def)
  moreover have "map_of ps ''code'' = Some (encodeBase64URL b)"
    "param f ''state'' = [] \<or> map_of ps ''state'' = Some (param f ''state'')"
    by (auto simp: ps_def)
  ultimately show ?thesis
    using login ac(4)
    by (intro exI [of _ ps] exI [of _ st1] exI [of _ "\<lparr>tr_AccessToken = token claims, tr_TokenType = ''Bearer'',
        tr_ExpiresIn = whole_seconds (oc_TokenLifetime cfg), tr_RefreshToken = encodeBase64URL b', tr_Scope = ac_Scope ac\<rparr>"]
        exI [of _ claims]) simp
qed

section \<open>Samples\<close>

definition sample_user :: user_info where
  "sample_user = \<lparr>ui_ID = ''alice'', ui_Username = ''alice'', ui_Scopes = [''mcp'', ''admin'']\<rparr>"

definition sample_auth :: "string \<Rightarrow> string \<Rightarrow> user_info option" where
  "sample_auth u p = (if u = ''alice'' \<and> p = ''pw'' then Some sample_user else None)"

definition sample_form :: params where
  "sample_form =
     [(''csrf_token'', ''01''), (''response_type'', ''code''), (''client_id'', ''client''),
      (''redirect_uri'', ''http://localhost/cb''), (''code_challenge'', encodeBase64URL (sha256 sample_verifier)),
      (''state'', ''xyz''), (''scope'', ''mcp''), (''username'', ''alice''), (''password'', ''pw'')]"

definition sample_exchange :: params where
  "sample_exchange =
     [(''grant_type'', ''authorization_code''), (''code'', encodeBase64URL [CHR 0x01]),
      (''redirect_uri'', ''http://localhost/cb''), (''client_id'', ''client''), (''code_verifier'', sample_verifier)]"

definition sample_token :: "access_claims \<Rightarrow> string" where "sample_token c = at_Subject c"

lemma sample_form_param:
  "param sample_form ''csrf_token'' = ''01''" "param sample_form ''client_id'' = ''client''"
  "param sample_form ''redirect_uri'' = ''http://localhost/cb''" "param sample_form ''state'' = ''xyz''"
  "param sample_form ''code_challenge'' = encodeBase64URL (sha256 sample_verifier)"
  "param sample_form ''username'' = ''alice''" "param sample_form ''password'' = ''pw''"
  "param sample_form ''scope'' = ''mcp''"
  by (simp_all add: param_def sample_form_def)

lemma sample_exchange_param:
  "param sample_exchange ''grant_type'' = ''authorization_code''"
  "param sample_exchange ''code'' = encodeBase64URL [CHR 0x01]" "param sample_exchange ''client_id'' = ''client''"
  "param sample_exchange ''redirect_uri'' = ''http://localhost/cb''" "param sample_exchange ''client_secret'' = []"
  "param sample_exchange ''code_verifier'' = sample_verifier"
  by (simp_all add: param_def sample_exchange_def del: encodeBase64URL.simps)

lemma sample_request_valid:
  "validateAuthorizeRequest (request_of_params sample_form) (oc_AllowedRedirectURIs sample_oauth) =
     (None, (request_of_params sample_form)\<lparr>ar_CodeChallengeMethod := ''S256''\<rparr>)"
  by (simp add: validateAuthorizeRequest_def sample_form_param isAllowedRedirectURI_def sample_oauth_def
      ValidateCodeChallengeMethod_def Let_def request_of_params_def)
    (simp add: param_def sample_form_def)

text \<open>A state with a live form token and, when \<open>codes\<close> says so, stored codes.\<close>

definition sample_live :: "(string, auth_code) fmap \<Rightarrow> oauth_state" where
  "sample_live cs = \<lparr>os_storage = NewMemoryStorage\<lparr>mem_authCodes := cs\<rparr>, os_csrf = fmupd ''01'' (600 * second) fmempty\<rparr>"

lemma sample_live_client:
  "client_allows sample_oauth (sample_live cs) i uri" "validateClientAuth sample_oauth (sample_live cs) i s = None"
  by (simp_all add: client_allows_def validateClientAuth_def sample_live_def NewMemoryStorage_def GetClient_def sample_oauth_def)

lemma sample_live_sizes:
  "fmsize (mem_authCodes (os_storage (sample_live fmempty))) = 0"
  "fmsize (mem_refreshTokens (os_storage (sample_live cs))) = 0"
  by (simp_all add: sample_live_def NewMemoryStorage_def)

lemma sample_env_sel:
  "ee_now (sample_env t b) = t" "ee_later (sample_env t b) = t" "ee_value (sample_env t b) = Some b"
  "ee_csrf (sample_env t b) = Some b" "ee_jti (sample_env t b) = b"
  by (simp_all add: sample_env_def)

theorem flow_completes_witness:
  "\<exists>ps st1 r. authorize_handlePost sample_oauth sample_auth (sample_env 1 [CHR 0x01]) (Some sample_form) (sample_live fmempty) =
       (RedirectTo ''http://localhost/cb'' ps, st1) \<and> map_of ps ''state'' = Some ''xyz'' \<and>
     fst (handleAuthorizationCode sample_oauth (\<lambda>c. Some (sample_token c)) (sample_env 2 [CHR 0x02]) sample_exchange st1) =
       TokenJson r \<and> tr_TokenType r = ''Bearer''"
proof -
  have f: "fst (validateCSRFToken (ee_now (sample_env 1 [CHR 0x01])) (param sample_form ''csrf_token'')
      (os_csrf (sample_live fmempty)))"
    by (simp add: validateCSRFToken_def sample_form_param sample_live_def sample_env_def second_def)
  have v: "fst (validateAuthorizeRequest (request_of_params sample_form) (oc_AllowedRedirectURIs sample_oauth)) = None"
    by (simp add: sample_request_valid)
  have u: "sample_auth (param sample_form ''username'') (param sample_form ''password'') = Some sample_user"
    by (simp add: sample_auth_def sample_form_param)
  have t: "ee_now (sample_env 2 [CHR 0x02]) \<le> ee_later (sample_env 1 [CHR 0x01]) + oc_AuthCodeLifetime sample_oauth"
    by (simp add: sample_env_def sample_oauth_def second_def)
  from flow_completes [OF f v, of sample_exchange sample_auth sample_user "[CHR 0x01]" "sample_env 2 [CHR 0x02]"
      "[CHR 0x02]" "\<lambda>c. Some (sample_token c)" sample_token]
  show ?thesis using u t sample_verifier_ok
    by (fastforce simp: sample_live_client sample_form_param sample_exchange_param parse_sample_uri sample_env_sel
        sample_live_sizes maxAuthCodes_def maxRefreshTokens_def simp del: encodeBase64URL.simps)
qed

text \<open>One step of a sample run, given what its handler answers.\<close>

definition sample_post :: "string \<Rightarrow> instant \<Rightarrow> char list \<Rightarrow> params \<Rightarrow> server_event" where
  "sample_post path t b form =
     Http (sample_env t b) [] []
       \<lparr>oh_path = path, oh_method = MPost, oh_query = [], oh_form = Some form, oh_body = [], oh_remote = ''ip''\<rparr>"

lemma posts_sample_post: "posts (sample_post path t b form) path (sample_env t b) form"
  by (simp add: posts_def sample_post_def)

lemma limited_admits:
  "fst (Allow now (extractIP remote) rl) \<Longrightarrow>
   RateLimitMiddleware now remote refusal h (rl, st) = (fst (h st), snd (Allow now (extractIP remote) rl), snd (h st))"
  by (cases "Allow now (extractIP remote) rl") (simp add: RateLimitMiddleware_def split_def)

definition after_request :: "instant \<Rightarrow> rate_limiter \<Rightarrow> rate_limiter" where
  "after_request t rl = snd (Allow t (extractIP ''ip'') rl)"

definition admits :: "instant \<Rightarrow> rate_limiter \<Rightarrow> bool" where
  "admits t rl \<longleftrightarrow> fst (Allow t (extractIP ''ip'') rl)"

lemma step_login:
  assumes "authorize_handlePost cfg auth (sample_env t b) (Some form) st = (a, st')" and "admits t rl"
  shows "server_step cfg auth sign (sample_post ''/oauth/authorize'' t b form) (rl, st) =
    (Endpoint a, after_request t rl, st')"
  using assms
  by (simp add: limited_admits sample_post_def oauth_mux_def lift_endpoint_def authorize_ServeHTTP_def sample_env_sel admits_def
      after_request_def Let_def)

lemma step_grant:
  assumes "handleAuthorizationCode cfg sign (sample_env t b) form st = (a, st')" and "admits t rl"
    and "param form ''grant_type'' = ''authorization_code''"
  shows "server_step cfg auth sign (sample_post ''/oauth/token'' t b form) (rl, st) =
    (Endpoint a, after_request t rl, st')"
  using assms
  by (simp add: limited_admits sample_post_def oauth_mux_def lift_endpoint_def token_ServeHTTP_def sample_env_sel admits_def
      after_request_def Let_def)

definition sample_limiter :: "int \<Rightarrow> rate_limiter" where
  "sample_limiter n =
     \<lparr>rl_maxRequests = 20, rl_windowDuration = 60 * second,
      rl_windows = (if n = 0 then fmempty else fmupd (extractIP ''ip'') \<lparr>rw_count = n, rw_expiry = 60 * second\<rparr> fmempty)\<rparr>"

lemma sample_admits:
  "0 \<le> n \<Longrightarrow> n < 20 \<Longrightarrow> t \<le> 60 * second \<Longrightarrow> admits t (sample_limiter n)"
  by (simp add: admits_def Allow_def sample_limiter_def Let_def)

lemma sample_after:
  "after_request 0 (sample_limiter 0) = sample_limiter 1"
  "1 \<le> n \<Longrightarrow> t \<le> 60 * second \<Longrightarrow> after_request t (sample_limiter n) = sample_limiter (n + 1)"
  by (simp_all add: after_request_def Allow_def sample_limiter_def Let_def fmap_ext)

text \<open>The code of the sample login, the state it leaves, and the state after its exchange.\<close>

definition issued_code :: "instant \<Rightarrow> auth_code" where
  "issued_code t =
     new_auth_code sample_oauth (sample_env t [CHR 0x01]) (encodeBase64URL [CHR 0x01])
       ((request_of_params sample_form)\<lparr>ar_CodeChallengeMethod := ''S256''\<rparr>) sample_user"

lemma issued_code_sel:
  "ac_Code (issued_code t) = encodeBase64URL [CHR 0x01]" "ac_ClientID (issued_code t) = ''client''"
  "ac_RedirectURI (issued_code t) = ''http://localhost/cb''" "ac_CodeChallengeMethod (issued_code t) = ''S256''"
  "ac_CodeChallenge (issued_code t) = encodeBase64URL (sha256 sample_verifier)"
  "ac_UserID (issued_code t) = ''alice''"
  "code_IsExpired t' (issued_code t) \<longleftrightarrow> t' > t + 600 * second"
  by (simp_all add: issued_code_def new_auth_code_def sample_form_param sample_user_def sample_env_def
      code_IsExpired_def sample_oauth_def del: encodeBase64URL.simps)

lemma sample_login:
  assumes "fmlookup (os_csrf st) ''01'' = Some x" and "t < x"
    and "mem_clients (os_storage st) = fmempty" and "fmsize (mem_authCodes (os_storage st)) < maxAuthCodes"
  shows "\<exists>a. authorize_handlePost sample_oauth sample_auth (sample_env t [CHR 0x01]) (Some sample_form) st =
    (a, st\<lparr>os_csrf := fmdrop ''01'' (os_csrf st), os_storage := (os_storage st)\<lparr>mem_authCodes :=
       fmupd (encodeBase64URL [CHR 0x01]) (issued_code t) (mem_authCodes (os_storage st))\<rparr>\<rparr>)"
proof -
  have "validateCSRFToken (ee_now (sample_env t [CHR 0x01])) (param sample_form ''csrf_token'') (os_csrf st) =
      (True, fmdrop ''01'' (os_csrf st))"
    using assms(1,2) by (simp add: validateCSRFToken_def sample_form_param sample_env_sel)
  moreover have "client_allows sample_oauth st (param sample_form ''client_id'') (param sample_form ''redirect_uri'')"
    using assms(3) by (simp add: client_allows_def GetClient_def sample_oauth_def)
  moreover have "sample_auth (param sample_form ''username'') (param sample_form ''password'') = Some sample_user"
    by (simp add: sample_auth_def sample_form_param)
  ultimately show ?thesis
    using login_succeeds [of "sample_env t [CHR 0x01]" sample_form st "fmdrop ''01'' (os_csrf st)" sample_oauth
        "(request_of_params sample_form)\<lparr>ar_CodeChallengeMethod := ''S256''\<rparr>" sample_auth sample_user "[CHR 0x01]"]
      sample_request_valid assms(4)
    unfolding issued_code_def
    by (fastforce simp: sample_form_param sample_env_sel parse_sample_uri simp del: encodeBase64URL.simps)
qed

lemma sample_exchange_ok:
  assumes "fmlookup (mem_authCodes (os_storage st)) (encodeBase64URL [CHR 0x01]) = Some (issued_code t)"
    and "t' \<le> t + 600 * second" and "mem_clients (os_storage st) = fmempty"
    and "fmsize (mem_refreshTokens (os_storage st)) < maxRefreshTokens"
  shows "\<exists>r st'. handleAuthorizationCode sample_oauth signs_all (sample_env t' b) sample_exchange st = (TokenJson r, st') \<and>
    mem_clients (os_storage st') = fmempty \<and> os_csrf st' = os_csrf st \<and>
    fmsize (mem_refreshTokens (os_storage st')) \<le> Suc (fmsize (mem_refreshTokens (os_storage st))) \<and>
    mem_authCodes (os_storage st') = fmdrop (encodeBase64URL [CHR 0x01]) (mem_authCodes (os_storage st))"
proof -
  have ne: "encodeBase64URL [CHR 0x01] \<noteq> []" by (simp add: Let_def)
  have "fst (handleAuthorizationCode sample_oauth signs_all (sample_env t' b) sample_exchange st) =
      TokenJson \<lparr>tr_AccessToken = ''alice'', tr_TokenType = ''Bearer'', tr_ExpiresIn = whole_seconds (oc_TokenLifetime sample_oauth),
      tr_RefreshToken = encodeBase64URL b, tr_Scope = ac_Scope (issued_code t)\<rparr>"
    by (rule exchange_succeeds)
      (use assms ne sample_verifier_ok in \<open>simp_all add: sample_exchange_param issued_code_sel sample_env_sel
         validateClientAuth_def GetClient_def sample_oauth_def signs_all_def token_claims_def del: encodeBase64URL.simps\<close>)
  then obtain r st' where h: "handleAuthorizationCode sample_oauth signs_all (sample_env t' b) sample_exchange st = (TokenJson r, st')"
    by (metis prod.collapse)
  then obtain ac where c: "code_redeem sample_oauth signs_all (sample_env t' b) sample_exchange ac st = (TokenJson r, st')"
    using code_lookup_not_tokens by (auto simp: handleAuthorizationCode_def split: sum.splits)
  then have "fmsize (mem_refreshTokens (os_storage st')) \<le> Suc (fmsize (mem_refreshTokens (os_storage st)))"
    unfolding code_redeem_TokenJson issueTokens_TokenJson by (auto dest!: fmsize_store_refresh)
  with code_redeem_state [OF c] show ?thesis
    using h assms(3) by (simp add: sample_exchange_param del: encodeBase64URL.simps)
qed

theorem code_single_use_witness:
  "\<exists>ev \<in> {sample_post ''/oauth/authorize'' 1 [CHR 0x01] sample_form}. \<exists>ac.
     login_of sample_oauth sample_auth ev ac \<and> ac_Code ac = encodeBase64URL [CHR 0x01]"
proof -
  let ?k = "encodeBase64URL [CHR 0x01]"
  let ?st = "sample_live (fmupd ?k (issued_code 0) fmempty)"
  let ?x = "sample_post ''/oauth/token'' 0 [CHR 0x02] sample_exchange"
  let ?l = "sample_post ''/oauth/authorize'' 1 [CHR 0x01] sample_form"
  let ?y = "sample_post ''/oauth/token'' 2 [CHR 0x03] sample_exchange"
  obtain r1 st1 where 1: "handleAuthorizationCode sample_oauth signs_all (sample_env 0 [CHR 0x02]) sample_exchange ?st = (TokenJson r1, st1)"
    and s1: "mem_clients (os_storage st1) = fmempty" "os_csrf st1 = os_csrf ?st"
      "mem_authCodes (os_storage st1) = fmdrop ?k (mem_authCodes (os_storage ?st))"
      "fmsize (mem_refreshTokens (os_storage st1)) \<le> Suc (fmsize (mem_refreshTokens (os_storage ?st)))"
    using sample_exchange_ok [of ?st 0 0 "[CHR 0x02]"]
    by (auto simp: sample_live_def NewMemoryStorage_def maxRefreshTokens_def second_def simp del: encodeBase64URL.simps)
  have x: "server_step sample_oauth sample_auth signs_all ?x (sample_limiter 0, ?st) = (Endpoint (TokenJson r1), sample_limiter 1, st1)"
    using step_grant [OF 1 sample_admits [of 0 0]] sample_after(1) by (simp add: sample_exchange_param second_def)
  let ?st2 = "st1\<lparr>os_csrf := fmdrop ''01'' (os_csrf st1), os_storage := (os_storage st1)\<lparr>mem_authCodes :=
       fmupd ?k (issued_code 1) (mem_authCodes (os_storage st1))\<rparr>\<rparr>"
  obtain a where 2: "authorize_handlePost sample_oauth sample_auth (sample_env 1 [CHR 0x01]) (Some sample_form) st1 = (a, ?st2)"
    using sample_login [of st1 "600 * second" 1] s1
    by (auto simp: sample_live_def second_def maxAuthCodes_def NewMemoryStorage_def simp del: encodeBase64URL.simps)
  have l: "server_run sample_oauth sample_auth signs_all [?l] (sample_limiter 1, st1) = (sample_limiter 2, ?st2)"
    using step_login [OF 2 sample_admits [of 1 1]] sample_after(2) [of 1 1] by (simp add: second_def)
  have room: "fmsize (mem_refreshTokens (os_storage st1)) < maxRefreshTokens"
    using s1(4) by (simp add: sample_live_sizes maxRefreshTokens_def)
  obtain r2 st3 where 3: "handleAuthorizationCode sample_oauth signs_all (sample_env 2 [CHR 0x03]) sample_exchange ?st2 = (TokenJson r2, st3)"
    using sample_exchange_ok [of ?st2 1 2 "[CHR 0x03]"] s1 room by (auto simp: second_def simp del: encodeBase64URL.simps)
  have y: "server_step sample_oauth sample_auth signs_all ?y (sample_limiter 2, ?st2) = (Endpoint (TokenJson r2), sample_limiter 3, st3)"
    using step_grant [OF 3 sample_admits [of 2 2]] sample_after(2) [of 2 2] by (simp add: sample_exchange_param second_def)
  show ?thesis
    using code_single_use [OF x posts_sample_post sample_exchange_param(1) l [symmetric] y posts_sample_post
        sample_exchange_param(1) refl] by (simp only: sample_exchange_param(2) list.set)
qed

text \<open>The login form is shown, sent in, and the code exchanged.\<close>

definition sample_visit :: server_event where
  "sample_visit =
     Http (sample_env 0 [CHR 0x01]) [] []
       \<lparr>oh_path = ''/oauth/authorize'', oh_method = MGet, oh_query = sample_form, oh_form = None, oh_body = [],
        oh_remote = ''ip''\<rparr>"

lemma sample_visit_step:
  "snd (server_step sample_oauth auth sign sample_visit new_oauth_server) = (sample_limiter 0, sample_live fmempty)"
proof -
  have c: "checkClient sample_oauth \<lparr>os_storage = NewMemoryStorage, os_csrf = fmempty\<rparr> i u = None" for i u
    by (simp add: checkClient_None client_allows_def NewMemoryStorage_def GetClient_def sample_oauth_def)
  have "generateCSRFToken 0 (Some [CHR 0x01]) fmempty = (Some ''01'', fmupd ''01'' (600 * second) fmempty)"
    by (simp add: generateCSRFToken_def hex_of_def hex_digit_def csrfTokenExpiry_def char_of_def bit_iff_odd
        fmdelete_if_def fmap_ext)
  then show ?thesis
    by (simp add: sample_visit_def new_oauth_server_def oauth_mux_def authorize_ServeHTTP_def authorize_handleGet_def
        sample_request_valid c showLoginForm_def sample_env_sel sample_live_def NewRateLimiter_def sample_limiter_def Let_def)
      (simp add: NewMemoryStorage_def)
qed


end
