(* ===== verification/Federated.thy ===== *)
theory Federated
  imports Oidc Oauth_Server
begin

text \<open>
  Login at an upstream identity provider (\<open>internal/authserver/authorize_federated.go\<close>): the pending
  authorizations, the callback, and the authorization server in its federated mode.
\<close>

section \<open>The handler\<close>

record pending_auth =
  pd_request :: authorize_request
  pd_nonce :: string
  pd_created :: instant

text \<open>The store the token endpoint shares, the pending requests by state, the client of the provider.\<close>

record federated_state =
  fs_oauth :: oauth_state
  fs_pending :: "(string, pending_auth) fmap"
  fs_client :: oidc_client

record federated_env =
  fe_exchange :: exchange_env
  fe_state :: "char list option"
  fe_nonce :: "char list option"
  fe_upstream :: upstream_env

datatype federated_answer =
    Answer server_answer
  | ToUpstream string params
  | ProcessDies

abbreviation FAnswer :: "oauth_answer \<Rightarrow> federated_answer" where
  "FAnswer a \<equiv> Answer (Endpoint a)"

definition generateSecureToken :: "char list option \<Rightarrow> string option" where
  "generateSecureToken b = map_option encodeBase64URL b"

definition callbackURI :: "oauth_config \<Rightarrow> string" where
  "callbackURI cfg = oc_Issuer cfg @ ''/oauth/callback''"

definition federated_authorize ::
  "oauth_config \<Rightarrow> federated_auth_config \<Rightarrow> federated_env \<Rightarrow> authorize_request \<Rightarrow> federated_state \<Rightarrow>
    federated_answer \<times> federated_state" where
  "federated_authorize cfg fcfg e req st =
     (let failed = (\<lambda>what. FAnswer (RedirectWithError (ar_RedirectURI req) (WithState (ar_State req) (ErrServerError what))))
      in case generateSecureToken (fe_state e) of
           None \<Rightarrow> (failed ''failed to generate state'', st)
         | Some state \<Rightarrow>
            (case generateSecureToken (fe_nonce e) of
               None \<Rightarrow> (failed ''failed to generate nonce'', st)
             | Some nonce \<Rightarrow>
                 let st1 = st\<lparr>fs_pending := fmupd state
                       \<lparr>pd_request = req, pd_nonce = nonce, pd_created = ee_later (fe_exchange e)\<rparr> (fs_pending st)\<rparr>
                 in case GetAuthorizationURL (ue_get (fe_upstream e)) fcfg (fs_client st1) state nonce (callbackURI cfg) of
                      (Upstream (endpoint, ps), c) \<Rightarrow> (ToUpstream endpoint ps, st1\<lparr>fs_client := c\<rparr>)
                    | (Failing _, c) \<Rightarrow> (failed ''failed to build authorization URL'', st1\<lparr>fs_client := c\<rparr>)
                    | (Crash, c) \<Rightarrow> (ProcessDies, st1\<lparr>fs_client := c\<rparr>)))"

definition federated_ServeHTTP ::
  "oauth_config \<Rightarrow> federated_auth_config \<Rightarrow> federated_env \<Rightarrow> oauth_method \<Rightarrow> params \<Rightarrow> federated_state \<Rightarrow>
    federated_answer \<times> federated_state" where
  "federated_ServeHTTP cfg fcfg e m q st =
     (if m \<noteq> MGet then (FAnswer (PlainError 405 ''Method not allowed''), st)
      else case validateAuthorizeRequest (request_of_params q) (oc_AllowedRedirectURIs cfg) of
        (Some err, req) \<Rightarrow>
          if canRedirectError cfg (fs_oauth st) (ar_ClientID req) (param q ''redirect_uri'')
          then (FAnswer (RedirectWithError (param q ''redirect_uri'') err), st)
          else (FAnswer (WriteJSONError err), st)
      | (None, req) \<Rightarrow>
          (case checkClient cfg (fs_oauth st) (ar_ClientID req) (ar_RedirectURI req) of
             Some err \<Rightarrow> (FAnswer (WriteJSONError err), st)
           | None \<Rightarrow> federated_authorize cfg fcfg e req st))"

text \<open>The user of the code: by email, else by subject; and the scopes it carries.\<close>

definition federated_scopes :: "authorize_request \<Rightarrow> federated_user \<Rightarrow> string list" where
  "federated_scopes req u =
     (let granted = FilterScopes (Go_Strings.fields (ar_Scope req)) (fu_Scopes u)
      in if granted = [] then fu_Scopes u else granted)"

definition federated_code :: "oauth_config \<Rightarrow> exchange_env \<Rightarrow> string \<Rightarrow> authorize_request \<Rightarrow> federated_user \<Rightarrow> auth_code" where
  "federated_code cfg e code req u =
     \<lparr>ac_Code = code, ac_ClientID = ar_ClientID req,
      ac_UserID = (if fu_Email u \<noteq> [] then fu_Email u else fu_Subject u),
      ac_Username = (if fu_Name u \<noteq> [] then fu_Name u else if fu_Email u \<noteq> [] then fu_Email u else fu_Subject u),
      ac_RedirectURI = ar_RedirectURI req,
      ac_Scope = join_with '' '' (federated_scopes req u),
      ac_CodeChallenge = ar_CodeChallenge req, ac_CodeChallengeMethod = ar_CodeChallengeMethod req,
      ac_State = ar_State req, ac_Nonce = ar_Nonce req,
      ac_ExpiresAt = ee_later e + oc_AuthCodeLifetime cfg, ac_CreatedAt = ee_later e,
      ac_UpstreamAccessToken = fu_AccessToken u, ac_UpstreamRefreshToken = fu_RefreshToken u,
      ac_UpstreamIDToken = []\<rparr>"

text \<open>The callback after the provider has vouched for the user.\<close>

definition callback_code ::
  "oauth_config \<Rightarrow> exchange_env \<Rightarrow> authorize_request \<Rightarrow> federated_user \<Rightarrow> oauth_state \<Rightarrow> oauth_answer \<times> oauth_state" where
  "callback_code cfg e req u st =
     (let failed = (\<lambda>what. RedirectWithError (ar_RedirectURI req) (WithState (ar_State req) (ErrServerError what)))
      in case GenerateAuthorizationCode (ee_value e) of
           None \<Rightarrow> (failed ''failed to generate authorization code'', st)
         | Some code \<Rightarrow>
            (case StoreAuthorizationCode (federated_code cfg e code req u) (os_storage st) of
               None \<Rightarrow> (failed ''failed to store authorization code'', st)
             | Some s \<Rightarrow>
                (case url_Parse (ar_RedirectURI req) of
                   None \<Rightarrow> (Panics, st\<lparr>os_storage := s\<rparr>)
                 | Some _ \<Rightarrow>
                     (RedirectTo (ar_RedirectURI req)
                        ([(''code'', code)] @ (if ar_State req \<noteq> [] then [(''state'', ar_State req)] else [])),
                      st\<lparr>os_storage := s\<rparr>))))"

text \<open>From the deletion of the pending request on.\<close>

definition callback_finish ::
  "oauth_config \<Rightarrow> federated_auth_config \<Rightarrow> federated_env \<Rightarrow> params \<Rightarrow> pending_auth \<Rightarrow> federated_state \<Rightarrow>
    federated_answer \<times> federated_state" where
  "callback_finish cfg fcfg e q p st =
     (let st1 = st\<lparr>fs_pending := fmdrop (param q ''state'') (fs_pending st)\<rparr>; req = pd_request p
      in case federated_Authenticate (fe_upstream e) fcfg (fs_client st1) (param q ''code'') (pd_nonce p) (callbackURI cfg) of
           (Upstream u, c) \<Rightarrow>
             (case callback_code cfg (fe_exchange e) req u (fs_oauth st1) of
                (a, o1) \<Rightarrow> (FAnswer a, st1\<lparr>fs_client := c, fs_oauth := o1\<rparr>))
         | (Failing err, c) \<Rightarrow>
             (FAnswer (RedirectWithError (ar_RedirectURI req)
                (WithState (ar_State req) (ErrAccessDenied (''authentication failed: '' @ err)))), st1\<lparr>fs_client := c\<rparr>)
         | (Crash, c) \<Rightarrow> (ProcessDies, st1\<lparr>fs_client := c\<rparr>))"

definition HandleCallback ::
  "oauth_config \<Rightarrow> federated_auth_config \<Rightarrow> federated_env \<Rightarrow> oauth_method \<Rightarrow> params \<Rightarrow> federated_state \<Rightarrow>
    federated_answer \<times> federated_state" where
  "HandleCallback cfg fcfg e m q st =
     (let err = param q ''error''; pending = fmlookup (fs_pending st) (param q ''state'')
      in if m \<noteq> MGet then (FAnswer (PlainError 405 ''Method not allowed''), st)
         else if err \<noteq> [] then
           (case pending of
              Some p \<Rightarrow>
                (FAnswer (RedirectWithError (ar_RedirectURI (pd_request p))
                   \<lparr>oe_Code = err, oe_Description = param q ''error_description'', oe_URI = [],
                    oe_State = ar_State (pd_request p), oe_HTTPStatus = 0\<rparr>),
                 st\<lparr>fs_pending := fmdrop (param q ''state'') (fs_pending st)\<rparr>)
            | None \<Rightarrow> (FAnswer (WriteJSONError (NewOAuthError err (param q ''error_description'') 0)), st))
         else if param q ''code'' = [] then
           (FAnswer (WriteJSONError (ErrInvalidRequest ''missing authorization code'')), st)
         else case pending of
           None \<Rightarrow> (FAnswer (WriteJSONError (ErrInvalidRequest ''invalid or expired state'')), st)
         | Some p \<Rightarrow> callback_finish cfg fcfg e q p st)"

definition cleanupPending :: "instant \<Rightarrow> federated_state \<Rightarrow> federated_state" where
  "cleanupPending now st =
     st\<lparr>fs_pending := fmdelete_if (\<lambda>_ p. pd_created p < now - 10 * minute) (fs_pending st)\<rparr>"

section \<open>The server in federated mode\<close>

type_synonym federated_server = "rate_limiter \<times> federated_state"

definition new_federated_server :: "oidc_client \<Rightarrow> federated_server" where
  "new_federated_server c =
     (NewRateLimiter 20 (60 * second),
      \<lparr>fs_oauth = \<lparr>os_storage = NewMemoryStorage, os_csrf = fmempty\<rparr>, fs_pending = fmempty, fs_client = c\<rparr>)"

definition on_oauth ::
  "(oauth_state \<Rightarrow> oauth_answer \<times> oauth_state) \<Rightarrow> federated_state \<Rightarrow> federated_answer \<times> federated_state" where
  "on_oauth h st = (case h (fs_oauth st) of (a, o1) \<Rightarrow> (FAnswer a, st\<lparr>fs_oauth := o1\<rparr>))"

definition unlimited ::
  "(federated_state \<Rightarrow> federated_answer \<times> federated_state) \<Rightarrow> federated_server \<Rightarrow> federated_answer \<times> federated_server" where
  "unlimited h sv = (case h (snd sv) of (a, st) \<Rightarrow> (a, fst sv, st))"

lemma unlimited_state [simp]: "snd (snd (unlimited h sv)) = snd (h (snd sv))"
  by (simp add: unlimited_def split: prod.splits)

text \<open>\<open>RegisterRoutes\<close> of this mode; the limiter is in front of what is posted to.\<close>

definition federated_mux ::
  "oauth_config \<Rightarrow> federated_auth_config \<Rightarrow> (access_claims \<Rightarrow> string option) \<Rightarrow> federated_env \<Rightarrow>
    char list \<Rightarrow> char list \<Rightarrow> oauth_http \<Rightarrow> federated_server \<Rightarrow> federated_answer \<times> federated_server" where
  "federated_mux cfg fcfg sign e idBytes secretBytes r sv =
     (let limited = (\<lambda>h. RateLimitMiddleware (ee_now (fe_exchange e)) (oh_remote r) (FAnswer too_many) (on_oauth h) sv);
          refused = (FAnswer (PlainError 405 ''Method Not Allowed''), sv);
          get = oh_method r = MGet; post = oh_method r = MPost
      in if oh_path r = ''/.well-known/oauth-protected-resource'' then
           (if get then (Answer (ResourceDoc (handleProtectedResourceMetadata cfg)), sv) else refused)
         else if oh_path r = ''/.well-known/oauth-authorization-server'' then
           (if get then (Answer (MetadataDoc (BuildMetadata (oc_Issuer cfg) (oc_ScopesSupported cfg)
                           (oc_AllowDynamicRegistration cfg))), sv)
            else refused)
         else if oh_path r = ''/oauth/jwks'' then (if get then (Answer KeySet, sv) else refused)
         else if oh_path r = ''/oauth/authorize'' then
           (if get then unlimited (federated_ServeHTTP cfg fcfg e MGet (oh_query r)) sv else refused)
         else if oh_path r = ''/oauth/callback'' then
           (if get then unlimited (HandleCallback cfg fcfg e MGet (oh_query r)) sv else refused)
         else if oh_path r = ''/oauth/token'' then
           (if post then limited (token_ServeHTTP cfg sign (fe_exchange e) MPost (oh_form r)) else refused)
         else if oc_AllowDynamicRegistration cfg \<and> (oh_path r = ''/register'' \<or> oh_path r = ''/oauth/register'') then
           (if post then limited (handleRegister cfg (fe_exchange e) idBytes secretBytes MPost (oh_body r)) else refused)
         else (Answer NotRouted, sv))"

text \<open>What happens to the server: a request, or one of its three timers.\<close>

datatype federated_event =
    FHttp federated_env "char list" "char list" oauth_http
  | StoreSweep instant
  | PendingSweep instant
  | LimiterSweep instant

fun federated_step ::
  "oauth_config \<Rightarrow> federated_auth_config \<Rightarrow> (access_claims \<Rightarrow> string option) \<Rightarrow> federated_event \<Rightarrow> federated_server \<Rightarrow>
    federated_answer \<times> federated_server" where
  "federated_step cfg fcfg sign (FHttp e i s r) sv = federated_mux cfg fcfg sign e i s r sv"
| "federated_step cfg fcfg sign (StoreSweep now) sv =
     (Answer NotRouted, fst sv,
      (snd sv)\<lparr>fs_oauth := (fs_oauth (snd sv))\<lparr>os_storage := cleanupExpired now (os_storage (fs_oauth (snd sv)))\<rparr>\<rparr>)"
| "federated_step cfg fcfg sign (PendingSweep now) sv = (Answer NotRouted, fst sv, cleanupPending now (snd sv))"
| "federated_step cfg fcfg sign (LimiterSweep now) sv = (Answer NotRouted, rl_cleanup now (fst sv), snd sv)"

fun federated_run ::
  "oauth_config \<Rightarrow> federated_auth_config \<Rightarrow> (access_claims \<Rightarrow> string option) \<Rightarrow> federated_event list \<Rightarrow>
    federated_server \<Rightarrow> federated_server" where
  "federated_run cfg fcfg sign [] sv = sv"
| "federated_run cfg fcfg sign (ev # evs) sv =
     federated_run cfg fcfg sign evs (snd (federated_step cfg fcfg sign ev sv))"

section \<open>Where codes come from\<close>

text \<open>
  What the events so far say: an authorization was asked for, a callback was made, an environment was
  met; and from that, which documents and keys the provider has handed out, and which states and nonces
  were handed to it.
\<close>

definition asks :: "federated_event \<Rightarrow> federated_env \<Rightarrow> params \<Rightarrow> bool" where
  "asks ev e q \<longleftrightarrow> (\<exists>i s r. ev = FHttp e i s r \<and> oh_path r = ''/oauth/authorize'' \<and> oh_method r = MGet \<and> oh_query r = q)"

definition calls_back :: "federated_event \<Rightarrow> federated_env \<Rightarrow> params \<Rightarrow> bool" where
  "calls_back ev e q \<longleftrightarrow> (\<exists>i s r. ev = FHttp e i s r \<and> oh_path r = ''/oauth/callback'' \<and> oh_method r = MGet \<and> oh_query r = q)"

definition met :: "federated_env \<Rightarrow> federated_event list \<Rightarrow> bool" where
  "met e log \<longleftrightarrow> (\<exists>i s r. FHttp e i s r \<in> set log)"

definition known_document :: "federated_event list \<Rightarrow> string \<Rightarrow> oidc_document \<Rightarrow> bool" where
  "known_document log issuer d \<longleftrightarrow>
     (\<exists>e. met e log \<and> di_Issuer d = issuer \<and>
        fetch_document ''discovery'' ''discovery document'' document_field zero_document
          (ue_get (fe_upstream e) (issuer @ ''/.well-known/openid-configuration'')) = Upstream d)"

definition known_keys :: "federated_event list \<Rightarrow> string \<Rightarrow> jwk list \<Rightarrow> bool" where
  "known_keys log issuer js \<longleftrightarrow>
     (\<exists>e d. met e log \<and> known_document log issuer d \<and>
        fetch_document ''JWKS'' ''JWKS'' key_set_field [] (ue_get (fe_upstream e) (di_JwksURI d)) = Upstream js)"

definition client_ok :: "federated_event list \<Rightarrow> oidc_client \<Rightarrow> bool" where
  "client_ok log c \<longleftrightarrow>
     (\<forall>d. oi_discovery c = Some d \<longrightarrow> known_document log (oi_issuer c) d) \<and>
     (\<forall>js t. oi_jwks c = Some (js, t) \<longrightarrow> known_keys log (oi_issuer c) js)"

definition pending_from :: "oauth_config \<Rightarrow> federated_event list \<Rightarrow> string \<Rightarrow> pending_auth \<Rightarrow> bool" where
  "pending_from cfg log k p \<longleftrightarrow>
     (\<exists>ev \<in> set log. \<exists>e q sb nb. asks ev e q \<and> fe_state e = Some sb \<and> k = encodeBase64URL sb \<and>
        fe_nonce e = Some nb \<and> pd_nonce p = encodeBase64URL nb \<and>
        validateAuthorizeRequest (request_of_params q) (oc_AllowedRedirectURIs cfg) = (None, pd_request p))"

text \<open>
  A token of the provider with these claims, for the bridge, not expired, with this nonce, and signed with
  a key the provider has published.
\<close>

definition vouched ::
  "federated_auth_config \<Rightarrow> federated_event list \<Rightarrow> string \<Rightarrow> upstream_env \<Rightarrow> string \<Rightarrow> id_claims \<Rightarrow> bool" where
  "vouched fcfg log issuer e nonce claims \<longleftrightarrow>
     (\<exists>h p s header signature js key k. read_token (h @ ''.'' @ p @ ''.'' @ s) = Inr (header, claims) \<and>
        ic_Issuer claims = fdc_UpstreamIssuer fcfg \<and> fdc_ClientID fcfg \<in> set (GetAudience (ic_Audience claims)) \<and>
        ue_now e div second \<le> ic_ExpiresAt claims \<and> (nonce = [] \<or> ic_Nonce claims = nonce) \<and> known_keys log issuer js \<and> key \<in> set js \<and>
        jk_Kid key = th_Kid header \<and> GetRSAPublicKey key = Inr k \<and> decodeBase64URL s = Some signature \<and>
        ue_rsa e (th_Alg header) k (h @ ''.'' @ p) signature)"

definition code_from ::
  "oauth_config \<Rightarrow> federated_auth_config \<Rightarrow> string \<Rightarrow> federated_event list \<Rightarrow> auth_code \<Rightarrow> bool" where
  "code_from cfg fcfg issuer log ac \<longleftrightarrow>
     (\<exists>pre ev post e q p claims r u. log = pre @ ev # post \<and> calls_back ev e q \<and>
        pending_from cfg pre (param q ''state'') p \<and> vouched fcfg (pre @ [ev]) issuer (fe_upstream e) (pd_nonce p) claims \<and>
        admit_claims fcfg r claims = Upstream u \<and> ac = federated_code cfg (fe_exchange e) (ac_Code ac) (pd_request p) u)"

lemma met_mono: "met e log \<Longrightarrow> met e (log @ later)"
  by (auto simp: met_def)

lemma known_document_mono: "known_document log issuer d \<Longrightarrow> known_document (log @ later) issuer d"
  using met_mono unfolding known_document_def by blast

lemma known_keys_mono: "known_keys log issuer js \<Longrightarrow> known_keys (log @ later) issuer js"
  using met_mono known_document_mono unfolding known_keys_def by blast

lemma client_ok_mono: "client_ok log c \<Longrightarrow> client_ok (log @ later) c"
  using known_document_mono known_keys_mono unfolding client_ok_def by blast

lemma pending_from_mono: "pending_from cfg log k p \<Longrightarrow> pending_from cfg (log @ later) k p"
  unfolding pending_from_def set_append by blast

lemma code_from_mono: "code_from cfg fcfg issuer log ac \<Longrightarrow> code_from cfg fcfg issuer (log @ later) ac"
  unfolding code_from_def by (metis append.assoc append_Cons)

lemmas log_mono = met_mono known_document_mono known_keys_mono client_ok_mono pending_from_mono code_from_mono

subsection \<open>The client keeps to what the provider said\<close>

lemma up_bind_Upstream:
  "up_bind r f = (Upstream b, s') \<longleftrightarrow> (\<exists>a s. r = (Upstream a, s) \<and> f a s = (Upstream b, s'))"
  by (auto simp: up_bind_def split: prod.splits upstream.splits)

lemma up_within_Upstream [simp]: "up_within what r = (Upstream a, s) \<longleftrightarrow> r = (Upstream a, s)"
  by (auto simp: up_within_def split: prod.splits upstream.splits)

text \<open>An operation on the client keeps_to a log when it keeps its caches to what the log vouches for.\<close>

definition keeps_to :: "federated_event list \<Rightarrow> string \<Rightarrow> 'a upstream \<times> oidc_client \<Rightarrow> bool" where
  "keeps_to log issuer r \<longleftrightarrow> client_ok log (snd r) \<and> oi_issuer (snd r) = issuer"

lemma keeps_pair [simp]: "keeps_to log issuer (x, c) \<longleftrightarrow> client_ok log c \<and> oi_issuer c = issuer"
  by (simp add: keeps_to_def)

lemma keeps_within [simp]: "keeps_to log issuer (up_within what r) = keeps_to log issuer r"
  by (simp add: keeps_to_def up_within_def split: prod.splits upstream.splits)

lemma keeps_bind:
  "keeps_to log issuer r \<Longrightarrow> (\<And>a c. r = (Upstream a, c) \<Longrightarrow> client_ok log c \<Longrightarrow> oi_issuer c = issuer \<Longrightarrow> keeps_to log issuer (f a c)) \<Longrightarrow>
     keeps_to log issuer (up_bind r f)"
proof -
  assume r: "keeps_to log issuer r"
    and f: "\<And>a c. r = (Upstream a, c) \<Longrightarrow> client_ok log c \<Longrightarrow> oi_issuer c = issuer \<Longrightarrow> keeps_to log issuer (f a c)"
  obtain x c where x: "r = (x, c)" by (cases r)
  show "keeps_to log issuer (up_bind r f)"
  proof (cases x)
    case (Upstream a)
    then show ?thesis using f [of a c] r x by (simp add: up_bind_def keeps_to_def)
  qed (use r x in \<open>simp_all add: up_bind_def keeps_to_def\<close>)
qed

lemma Discover_keeps:
  assumes "client_ok log c" and "met e log"
  shows "keeps_to log (oi_issuer c) (Discover (ue_get (fe_upstream e)) c)"
    and "Discover (ue_get (fe_upstream e)) c = (Upstream d, c') \<Longrightarrow> known_document log (oi_issuer c) d"
proof -
  have k: "known_document log (oi_issuer c) d"
    if "fetch_document ''discovery'' ''discovery document'' document_field zero_document
          (ue_get (fe_upstream e) (oi_issuer c @ ''/.well-known/openid-configuration'')) = Upstream d"
      "di_Issuer d = oi_issuer c" for d
    using that assms(2) unfolding known_document_def by blast
  show "keeps_to log (oi_issuer c) (Discover (ue_get (fe_upstream e)) c)"
    using assms(1) k
    by (auto simp: Discover_def keeps_to_def client_ok_def split: option.splits upstream.splits)
  show "Discover (ue_get (fe_upstream e)) c = (Upstream d, c') \<Longrightarrow> known_document log (oi_issuer c) d"
    using assms(1) k
    by (auto simp: Discover_def client_ok_def split: option.splits upstream.splits if_splits)
qed

lemma GetJWKS_keeps:
  assumes "client_ok log c" and "met e log"
  shows "keeps_to log (oi_issuer c) (GetJWKS (ue_get (fe_upstream e)) now c)"
    and "GetJWKS (ue_get (fe_upstream e)) now c = (Upstream js, c') \<Longrightarrow> known_keys log (oi_issuer c) js"
proof -
  have k: "known_keys log (oi_issuer c) js"
    if "fetch_document ''JWKS'' ''JWKS'' key_set_field [] (ue_get (fe_upstream e) (di_JwksURI d)) = Upstream js"
      "known_document log (oi_issuer c) d" for js d
    using that assms(2) unfolding known_keys_def by blast
  obtain oc c1 where r: "(case oi_discovery c of
                  Some d \<Rightarrow> (Upstream d, c)
                | None \<Rightarrow> (case Discover (ue_get (fe_upstream e)) c of (Failing e, c1) \<Rightarrow> (Crash, c1) | r \<Rightarrow> r)) = (oc, c1)"
    by (cases "case oi_discovery c of
                  Some d \<Rightarrow> (Upstream d, c)
                | None \<Rightarrow> (case Discover (ue_get (fe_upstream e)) c of (Failing e, c1) \<Rightarrow> (Crash, c1) | r \<Rightarrow> r)")
  then have c1: "client_ok log c1" "oi_issuer c1 = oi_issuer c"
    and d: "\<And>d. oc = Upstream d \<Longrightarrow> known_document log (oi_issuer c) d"
    using assms(1) Discover_keeps [OF assms]
    by (auto simp: keeps_to_def client_ok_def split: option.splits upstream.splits prod.splits)
  let ?cached = "case oi_jwks c of Some (js, t) \<Rightarrow> if now - t < hour then Some js else None | None \<Rightarrow> None"
  have cached: "known_keys log (oi_issuer c) js" if "?cached = Some js" for js
    using assms(1) that by (auto simp: client_ok_def split: option.splits if_splits)
  have "keeps_to log (oi_issuer c) (GetJWKS (ue_get (fe_upstream e)) now c) \<and>
    (\<forall>js c'. GetJWKS (ue_get (fe_upstream e)) now c = (Upstream js, c') \<longrightarrow> known_keys log (oi_issuer c) js)"
  proof (cases ?cached)
    case (Some js)
    then show ?thesis using assms(1) cached by (simp add: GetJWKS_def keeps_to_def)
  next
    case None
    then show ?thesis
      using c1 d k by (cases oc) (auto simp: GetJWKS_def r keeps_to_def client_ok_def split: upstream.splits)
  qed
  then show "keeps_to log (oi_issuer c) (GetJWKS (ue_get (fe_upstream e)) now c)"
    and "GetJWKS (ue_get (fe_upstream e)) now c = (Upstream js, c') \<Longrightarrow> known_keys log (oi_issuer c) js"
    by blast+
qed

lemma check_key_ok:
  assumes "check_key e token kid alg js = Upstream ()"
  obtains key k where "find (\<lambda>j. jk_Kid j = kid) js = Some key" and "GetRSAPublicKey key = Inr k"
    and "verifyRSASignature e token k alg = None"
  using assms by (auto simp: check_key_def split: option.splits if_splits sum.splits)

lemma ValidateIDToken_keeps:
  assumes "client_ok log c" and "met e log" and issuer: "oi_issuer c = issuer"
  shows "keeps_to log issuer (ValidateIDToken (fe_upstream e) fcfg c token nonce)"
    and "ValidateIDToken (fe_upstream e) fcfg c token nonce = (Upstream claims, c') \<Longrightarrow>
      vouched fcfg log issuer (fe_upstream e) nonce claims"
proof -
  note k = GetJWKS_keeps [OF assms(1,2), unfolded issuer, of "ue_later (fe_upstream e)"]
  have v: "keeps_to log issuer (verifySignature (fe_upstream e) c token kid alg)" for kid alg
    unfolding verifySignature_def using k(1) by (intro keeps_bind) simp_all
  show "keeps_to log issuer (ValidateIDToken (fe_upstream e) fcfg c token nonce)"
    unfolding ValidateIDToken_def using assms(1) issuer v
    by (auto intro!: keeps_bind split: sum.splits option.splits prod.splits)
  assume "ValidateIDToken (fe_upstream e) fcfg c token nonce = (Upstream claims, c')"
  then obtain header c1 where t: "read_token token = Inr (header, claims)"
    and p: "claims_problem fcfg (ue_now (fe_upstream e)) nonce claims = None"
    and s: "verifySignature (fe_upstream e) c token (th_Kid header) (th_Alg header) = (Upstream (), c1)"
    by (auto simp: ValidateIDToken_def up_bind_Upstream split: sum.splits option.splits)
  from s obtain js where js: "GetJWKS (ue_get (fe_upstream e)) (ue_later (fe_upstream e)) c = (Upstream js, c1)"
    and f: "check_key (fe_upstream e) token (th_Kid header) (th_Alg header) js = Upstream ()"
    by (auto simp: verifySignature_def up_bind_Upstream)
  obtain key k where key: "find (\<lambda>j. jk_Kid j = th_Kid header) js = Some key" "GetRSAPublicKey key = Inr k"
    and rsa: "verifyRSASignature (fe_upstream e) token k (th_Alg header) = None"
    by (rule check_key_ok [OF f])
  from rsa obtain h p s signature where parts: "split_on CHR ''.'' token = [h, p, s]" "decodeBase64URL s = Some signature"
    and ok: "ue_rsa (fe_upstream e) (th_Alg header) k (h @ ''.'' @ p) signature"
    by (auto simp: verifyRSASignature_def split: list.splits option.splits if_splits)
  have token: "token = h @ ''.'' @ p @ ''.'' @ s"
    using arg_cong [OF parts(1), of "join_with ''.''"] by simp
  have "key \<in> set js \<and> jk_Kid key = th_Kid header" using key(1) by (auto simp: find_Some_iff)
  moreover have "ic_Issuer claims = fdc_UpstreamIssuer fcfg" "fdc_ClientID fcfg \<in> set (GetAudience (ic_Audience claims))"
    "ue_now (fe_upstream e) div second \<le> ic_ExpiresAt claims" "nonce = [] \<or> ic_Nonce claims = nonce"
    using p by (auto simp: claims_problem_def split: if_splits)
  ultimately show "vouched fcfg log issuer (fe_upstream e) nonce claims"
    unfolding vouched_def using t k(2) [OF js] key(2) parts(2) ok unfolding token by blast
qed

lemma federated_Authenticate_keeps:
  assumes "client_ok log c" and "met e log" and issuer: "oi_issuer c = issuer"
  shows "keeps_to log issuer (federated_Authenticate (fe_upstream e) fcfg c code nonce uri)"
    and "federated_Authenticate (fe_upstream e) fcfg c code nonce uri = (Upstream u, c') \<Longrightarrow>
      \<exists>claims r. vouched fcfg log issuer (fe_upstream e) nonce claims \<and> admit_claims fcfg r claims = Upstream u"
proof -
  have x: "keeps_to log issuer (ExchangeCode (fe_upstream e) fcfg c code uri)"
    unfolding ExchangeCode_def using Discover_keeps(1) [OF assms(1,2)] issuer
    by (intro keeps_bind) simp_all
  show "keeps_to log issuer (federated_Authenticate (fe_upstream e) fcfg c code nonce uri)"
    unfolding federated_Authenticate_def using x ValidateIDToken_keeps(1) [OF _ assms(2)]
    by (intro keeps_bind) (auto intro!: keeps_bind)
  assume "federated_Authenticate (fe_upstream e) fcfg c code nonce uri = (Upstream u, c')"
  then obtain r c1 claims c2 where r: "ExchangeCode (fe_upstream e) fcfg c code uri = (Upstream r, c1)"
    and v: "ValidateIDToken (fe_upstream e) fcfg c1 (ut_IDToken r) nonce = (Upstream claims, c2)"
    and a: "admit_claims fcfg r claims = Upstream u"
    by (auto simp: federated_Authenticate_def up_bind_Upstream split: if_splits)
  from x have "client_ok log c1" "oi_issuer c1 = issuer" by (simp_all add: keeps_to_def r)
  then show "\<exists>claims r. vouched fcfg log issuer (fe_upstream e) nonce claims \<and> admit_claims fcfg r claims = Upstream u"
    using ValidateIDToken_keeps(2) [OF _ assms(2) _ v] a by blast
qed

subsection \<open>The invariant\<close>

abbreviation codes_of :: "federated_state \<Rightarrow> (string, auth_code) fmap" where
  "codes_of st \<equiv> mem_authCodes (os_storage (fs_oauth st))"

definition federated_inv ::
  "oauth_config \<Rightarrow> federated_auth_config \<Rightarrow> string \<Rightarrow> federated_event list \<Rightarrow> federated_state \<Rightarrow> bool" where
  "federated_inv cfg fcfg issuer log st \<longleftrightarrow>
     fmpred (pending_from cfg log) (fs_pending st) \<and> client_ok log (fs_client st) \<and> oi_issuer (fs_client st) = issuer \<and>
     fmpred (\<lambda>k. code_from cfg fcfg issuer log) (codes_of st)"

lemma federated_inv_mono: "federated_inv cfg fcfg issuer log st \<Longrightarrow> federated_inv cfg fcfg issuer (log @ later) st"
  by (simp add: federated_inv_def fmpred_iff log_mono)

text \<open>The endpoints shared with the built-in mode add no codes.\<close>

lemma store_step_codes:
  assumes "store_step cfg (\<lambda>_ _. None) ev ms ms'" and "fmpred P (mem_authCodes ms)"
  shows "fmpred P (mem_authCodes ms')"
  using assms(1)
proof cases
  case (login ac)
  then show ?thesis by (simp add: login_of_def)
next
  case (sweep now)
  then show ?thesis using assms(2)
    by (auto simp: cleanupExpired_def intro!: fmpredI dest: fmpredD split: if_splits option.splits)
qed (use assms(2) in \<open>auto simp: fmpred_iff split: if_splits\<close>)

lemma on_oauth_inv:
  assumes "federated_inv cfg fcfg issuer log st"
    and "\<And>a o1. h (fs_oauth st) = (a, o1) \<Longrightarrow> store_step cfg (\<lambda>_ _. None) ev (os_storage (fs_oauth st)) (os_storage o1)"
  shows "federated_inv cfg fcfg issuer log (snd (on_oauth h st))"
proof -
  obtain a o1 where h: "h (fs_oauth st) = (a, o1)" by (cases "h (fs_oauth st)")
  show ?thesis
    using assms(1) store_step_codes [OF assms(2) [OF h]] by (simp add: on_oauth_def h federated_inv_def)
qed

lemma authorize_inv:
  assumes inv: "federated_inv cfg fcfg issuer log st" and ev: "asks ev e q" "ev \<in> set log" and m: "met e log"
  shows "federated_inv cfg fcfg issuer log (snd (federated_ServeHTTP cfg fcfg e MGet q st))"
proof (cases "\<exists>req sb nb. validateAuthorizeRequest (request_of_params q) (oc_AllowedRedirectURIs cfg) = (None, req) \<and>
    fe_state e = Some sb \<and> fe_nonce e = Some nb \<and> checkClient cfg (fs_oauth st) (ar_ClientID req) (ar_RedirectURI req) = None")
  case False
  then have "snd (federated_ServeHTTP cfg fcfg e MGet q st) = st"
    by (auto simp: federated_ServeHTTP_def federated_authorize_def generateSecureToken_def split: prod.splits option.splits)
  then show ?thesis using inv by simp
next
  case True
  then obtain req sb nb where v: "validateAuthorizeRequest (request_of_params q) (oc_AllowedRedirectURIs cfg) = (None, req)"
    and s: "fe_state e = Some sb" "fe_nonce e = Some nb"
    and c: "checkClient cfg (fs_oauth st) (ar_ClientID req) (ar_RedirectURI req) = None"
    by blast
  let ?p = "\<lparr>pd_request = req, pd_nonce = encodeBase64URL nb, pd_created = ee_later (fe_exchange e)\<rparr>"
  let ?url = "GetAuthorizationURL (ue_get (fe_upstream e)) fcfg (fs_client st) (encodeBase64URL sb) (encodeBase64URL nb) (callbackURI cfg)"
  have st': "snd (federated_ServeHTTP cfg fcfg e MGet q st) =
      st\<lparr>fs_pending := fmupd (encodeBase64URL sb) ?p (fs_pending st), fs_client := snd ?url\<rparr>"
    using v s c by (simp add: federated_ServeHTTP_def federated_authorize_def generateSecureToken_def Let_def
        split: prod.splits upstream.splits)
  have "keeps_to log issuer ?url"
    unfolding GetAuthorizationURL_def using inv Discover_keeps(1) [OF _ m, of "fs_client st"]
    by (intro keeps_bind) (auto simp: federated_inv_def)
  moreover have "pending_from cfg log (encodeBase64URL sb) ?p"
    unfolding pending_from_def using ev s v by (intro bexI [of _ ev] exI [of _ e] exI [of _ q]) auto
  ultimately show ?thesis
    using inv unfolding st' by (auto simp: federated_inv_def keeps_to_def intro: fmpred_upd)
qed

lemma callback_inv:
  assumes inv: "federated_inv cfg fcfg issuer pre st" and ev: "calls_back ev e q" and m: "met e (pre @ [ev])"
  shows "federated_inv cfg fcfg issuer (pre @ [ev]) (snd (HandleCallback cfg fcfg e MGet q st))"
proof -
  note inv' = federated_inv_mono [OF inv, of "[ev]"]
  have drop: "federated_inv cfg fcfg issuer (pre @ [ev]) (st\<lparr>fs_pending := fmdrop k (fs_pending st)\<rparr>)" for k
    using inv' by (auto simp: federated_inv_def fmpred_iff split: if_splits)
  have fin: "federated_inv cfg fcfg issuer (pre @ [ev]) (snd (callback_finish cfg fcfg e q p st))"
    if p: "fmlookup (fs_pending st) (param q ''state'') = Some p" for p
  proof -
    let ?auth = "federated_Authenticate (fe_upstream e) fcfg (fs_client st) (param q ''code'') (pd_nonce p) (callbackURI cfg)"
    have c: "client_ok (pre @ [ev]) (fs_client st)" "oi_issuer (fs_client st) = issuer"
      using inv' by (simp_all add: federated_inv_def)
    note a = federated_Authenticate_keeps [OF c(1) m c(2)]
    obtain x c1 where x: "?auth = (x, c1)" by (cases ?auth)
    then have c1: "client_ok (pre @ [ev]) c1" "oi_issuer c1 = issuer"
      using a(1) [of fcfg "param q ''code''" "pd_nonce p" "callbackURI cfg"] by simp_all
    have from_log: "pending_from cfg pre (param q ''state'') p"
      using inv p unfolding federated_inv_def by (blast dest: fmpredD)
    have "fmpred (\<lambda>k. code_from cfg fcfg issuer (pre @ [ev]))
        (mem_authCodes (os_storage (snd (callback_code cfg (fe_exchange e) (pd_request p) u (fs_oauth st)))))"
      if "x = Upstream u" for u
    proof -
      obtain claims r where "vouched fcfg (pre @ [ev]) issuer (fe_upstream e) (pd_nonce p) claims"
        "admit_claims fcfg r claims = Upstream u"
        using a(2) x \<open>x = Upstream u\<close> by blast
      then have "code_from cfg fcfg issuer (pre @ [ev]) (federated_code cfg (fe_exchange e) code (pd_request p) u)" for code
        unfolding code_from_def using ev from_log
        by (intro exI [of _ pre] exI [of _ ev] exI [of _ "[]"] exI [of _ e] exI [of _ q] exI [of _ p] exI [of _ claims]
            exI [of _ r] exI [of _ u]) (simp add: federated_code_def)
      then show ?thesis
        using inv' by (auto simp: callback_code_def federated_inv_def GenerateAuthorizationCode_def StoreAuthorizationCode_def
            split: option.splits if_splits intro: fmpred_upd)
    qed
    then show ?thesis
      using drop [of "param q ''state''"] x c1
      by (auto simp: callback_finish_def federated_inv_def Let_def split: upstream.splits prod.splits)
  qed
  show ?thesis
    using inv' drop fin by (simp add: HandleCallback_def Let_def split: option.splits)
qed

lemma federated_step_inv:
  assumes "federated_inv cfg fcfg issuer log (snd sv)"
  shows "federated_inv cfg fcfg issuer (log @ [ev]) (snd (snd (federated_step cfg fcfg sign ev sv)))"
proof (cases ev)
  case (FHttp e i s r)
  note inv = federated_inv_mono [OF assms, of "[ev]"]
  have m: "met e (log @ [ev])" by (auto simp: met_def FHttp)
  have limited: "federated_inv cfg fcfg issuer (log @ [ev])
      (snd (snd (RateLimitMiddleware now remote refusal (on_oauth h) sv)))"
    if "\<And>a o1. h (fs_oauth (snd sv)) = (a, o1) \<Longrightarrow>
        store_step cfg (\<lambda>_ _. None) (StorageTimer 0) (os_storage (fs_oauth (snd sv))) (os_storage o1)"
    for now remote refusal h
  proof -
    have "federated_inv cfg fcfg issuer (log @ [ev]) (snd (on_oauth h (snd sv)))" by (rule on_oauth_inv [OF inv that])
    then show ?thesis using inv by (auto simp: RateLimitMiddleware_def split: prod.splits bool.splits)
  qed
  note routes = limited [where h = "token_ServeHTTP cfg sign (fe_exchange e) MPost (oh_form r)", OF token_storage]
    limited [where h = "handleRegister cfg (fe_exchange e) i s MPost (oh_body r)", OF register_storage]
  have a: "federated_inv cfg fcfg issuer (log @ [ev]) (snd (federated_ServeHTTP cfg fcfg e MGet (oh_query r) (snd sv)))"
    if "oh_path r = ''/oauth/authorize''" "oh_method r = MGet"
    by (rule authorize_inv [OF inv _ _ m]) (use that FHttp in \<open>auto simp: asks_def\<close>)
  have c: "federated_inv cfg fcfg issuer (log @ [ev]) (snd (HandleCallback cfg fcfg e MGet (oh_query r) (snd sv)))"
    if "oh_path r = ''/oauth/callback''" "oh_method r = MGet"
    by (rule callback_inv [OF assms _ m]) (use that FHttp in \<open>auto simp: calls_back_def\<close>)
  show ?thesis
    using inv routes a c by (simp add: FHttp federated_mux_def Let_def)
next
  case (StoreSweep now)
  then show ?thesis
    using federated_inv_mono [OF assms, of "[ev]"] store_step_codes [OF store_step.sweep [OF refl]]
    by (simp add: federated_inv_def)
next
  case (PendingSweep now)
  then show ?thesis
    using federated_inv_mono [OF assms, of "[ev]"]
    by (auto simp: federated_inv_def cleanupPending_def fmpred_iff split: option.splits if_splits)
next
  case (LimiterSweep now)
  then show ?thesis using federated_inv_mono [OF assms, of "[ev]"] by simp
qed

lemma federated_run_inv:
  "federated_inv cfg fcfg issuer log (snd sv) \<Longrightarrow>
     federated_inv cfg fcfg issuer (log @ evs) (snd (federated_run cfg fcfg sign evs sv))"
proof (induction evs arbitrary: log sv)
  case (Cons ev evs)
  then show ?case
    using Cons.IH [OF federated_step_inv [OF Cons.prems, of ev sign]] by simp
qed simp

lemma new_federated_inv: "federated_inv cfg fcfg issuer [] (snd (new_federated_server (NewOIDCClient issuer)))"
  by (simp add: federated_inv_def new_federated_server_def NewMemoryStorage_def NewOIDCClient_def client_ok_def)

lemma federated_scopes_subset: "set (federated_scopes req u) \<subseteq> set (fu_Scopes u)"
  by (auto simp: federated_scopes_def FilterScopes_def Let_def)

text \<open>
  C11.  Every code of the federated mode stems from a login at the provider.  In any run of the server from
  its start, whoever sends what in whatever order: a stored code was made by a callback whose state is
  the random state of an earlier authorization request, from an identity token that names the provider
  as issuer and the bridge in its audience, has not expired, carries the random nonce of that same
  request, and is signed with a key the provider has published at the address its discovery document
  gives; the user is the one of the token, from an allowed domain if there are any, the scopes are among
  those this user may have, and client, redirect URI and code challenge are those of the request.
\<close>

theorem federated_codes_vouched:
  assumes "st = snd (federated_run cfg fcfg sign evs (new_federated_server (NewOIDCClient issuer)))"
    and "fmlookup (codes_of st) k = Some ac"
  shows "\<exists>pre ev post e q ask ae aq sb nb claims ss.
    evs = pre @ ev # post \<and> calls_back ev e q \<and> ask \<in> set pre \<and> asks ask ae aq \<and>
    fe_state ae = Some sb \<and> param q ''state'' = encodeBase64URL sb \<and> fe_nonce ae = Some nb \<and>
    vouched fcfg (pre @ [ev]) issuer (fe_upstream e) (encodeBase64URL nb) claims \<and>
    (fdc_AllowedDomains fcfg = [] \<or> isAllowedDomain fcfg (ic_Email claims)) \<and>
    ac_UserID ac = (if ic_Email claims \<noteq> [] then ic_Email claims else ic_Subject claims) \<and>
    ac_Scope ac = join_with '' '' ss \<and> set ss \<subseteq> set (determineScopes fcfg claims) \<and>
    ac_ClientID ac = param aq ''client_id'' \<and> ac_RedirectURI ac = param aq ''redirect_uri'' \<and>
    isAllowedRedirectURI (ac_RedirectURI ac) (oc_AllowedRedirectURIs cfg) \<and>
    ac_CodeChallenge ac = param aq ''code_challenge''"
proof -
  have "federated_inv cfg fcfg issuer evs st"
    using federated_run_inv [OF new_federated_inv, of cfg fcfg issuer evs sign] unfolding assms(1) by simp
  then have "code_from cfg fcfg issuer evs ac" using assms(2) unfolding federated_inv_def by (blast dest: fmpredD)
  then obtain pre ev post e q p claims r u where f: "evs = pre @ ev # post" "calls_back ev e q"
    "pending_from cfg pre (param q ''state'') p" "vouched fcfg (pre @ [ev]) issuer (fe_upstream e) (pd_nonce p) claims"
    and u: "admit_claims fcfg r claims = Upstream u"
    and ac: "ac = federated_code cfg (fe_exchange e) (ac_Code ac) (pd_request p) u"
    unfolding code_from_def by blast
  from f(3) obtain ask ae aq sb nb where a: "ask \<in> set pre" "asks ask ae aq" "fe_state ae = Some sb"
    "param q ''state'' = encodeBase64URL sb" "fe_nonce ae = Some nb" "pd_nonce p = encodeBase64URL nb"
    "validateAuthorizeRequest (request_of_params aq) (oc_AllowedRedirectURIs cfg) = (None, pd_request p)"
    unfolding pending_from_def by blast
  have user: "fu_Email u = ic_Email claims" "fu_Subject u = ic_Subject claims" "fu_Scopes u = determineScopes fcfg claims"
    "fdc_AllowedDomains fcfg = [] \<or> isAllowedDomain fcfg (ic_Email claims)"
    using u by (auto simp: admit_claims_def split: if_splits)
  have code: "ac_UserID ac = (if ic_Email claims \<noteq> [] then ic_Email claims else ic_Subject claims)"
    "ac_Scope ac = join_with '' '' (federated_scopes (pd_request p) u)" "ac_ClientID ac = ar_ClientID (pd_request p)"
    "ac_RedirectURI ac = ar_RedirectURI (pd_request p)" "ac_CodeChallenge ac = ar_CodeChallenge (pd_request p)"
    by (subst ac, simp add: federated_code_def user)+
  have req: "ar_ClientID (pd_request p) = param aq ''client_id''" "ar_RedirectURI (pd_request p) = param aq ''redirect_uri''"
    "isAllowedRedirectURI (ar_RedirectURI (pd_request p)) (oc_AllowedRedirectURIs cfg)"
    "ar_CodeChallenge (pd_request p) = param aq ''code_challenge''"
    using validateAuthorizeRequest_ok [OF a(7)] by (auto simp: request_of_params_def)
  have "set (federated_scopes (pd_request p) u) \<subseteq> set (determineScopes fcfg claims)"
    using federated_scopes_subset [of "pd_request p" u] by (simp add: user)
  then show ?thesis
    using f(1,2,4) a(1-5) user(4) code req unfolding a(6)
    by (intro exI [of _ pre] exI [of _ ev] exI [of _ post] exI [of _ e] exI [of _ q] exI [of _ ask] exI [of _ ae]
        exI [of _ aq] exI [of _ sb] exI [of _ nb] exI [of _ claims] exI [of _ "federated_scopes (pd_request p) u"]) simp
qed

section \<open>What the provider's word is taken for\<close>

text \<open>
  An email address counts whether or not the provider has verified it: the flag decides neither whether
  its domain is allowed nor the scopes, and the code that is issued names the address as the user.
\<close>

theorem unverified_email_counts:
  "admit_claims fcfg r (claims\<lparr>ic_EmailVerified := b\<rparr>) =
     (case admit_claims fcfg r claims of Upstream u \<Rightarrow> Upstream (u\<lparr>fu_EmailVerified := b\<rparr>) | failure \<Rightarrow> failure) \<and>
   federated_code cfg e code req (u\<lparr>fu_EmailVerified := b\<rparr>) = federated_code cfg e code req u \<and>
   ac_UserID (federated_code cfg e code req u) = (if fu_Email u = [] then fu_Subject u else fu_Email u)"
proof -
  have "fu_Scopes (u\<lparr>fu_EmailVerified := b\<rparr>) = fu_Scopes u" by simp
  then have "federated_scopes req (u\<lparr>fu_EmailVerified := b\<rparr>) = federated_scopes req u"
    unfolding federated_scopes_def by (rule arg_cong)
  then show ?thesis by (simp add: admit_claims_def determineScopes_def federated_code_def)
qed

lemma fetch_document_no_crash [simp]: "fetch_document a b f z oc \<noteq> Crash"
  by (simp add: fetch_document_def split: call_outcome.splits option.splits)

lemma Discover_no_crash [simp]: "Discover get c \<noteq> (Crash, c')"
  by (auto simp: Discover_def split: option.splits upstream.splits)

lemma Discover_keeps_document: "Discover get c = (Upstream d, c') \<Longrightarrow> oi_discovery c' = Some d"
  by (auto simp: Discover_def split: option.splits upstream.splits if_splits)

lemma up_bind_crash:
  "up_bind r f = (Crash, s') \<longleftrightarrow> r = (Crash, s') \<or> (\<exists>a s. r = (Upstream a, s) \<and> f a s = (Crash, s'))"
  by (auto simp: up_bind_def split: prod.splits upstream.splits)

lemma up_within_crash [simp]: "up_within what r = (Crash, s) \<longleftrightarrow> r = (Crash, s)"
  by (auto simp: up_within_def split: prod.splits upstream.splits)

lemma GetJWKS_crash:
  "GetJWKS get now c = (Crash, c') \<Longrightarrow> oi_discovery c = None \<and> (\<exists>err. Discover get c = (Failing err, c'))"
  by (auto simp: GetJWKS_def split: option.splits upstream.splits prod.splits if_splits)

lemma check_key_no_crash [simp]: "check_key e token kid alg js \<noteq> Crash"
  by (simp add: check_key_def split: option.split sum.split)

text \<open>
  When fetching the keys can kill the process: exactly when neither keys less than an hour old nor the
  discovery document are at hand and discovering it fails.  A login never comes to that, since the
  exchange of the code has fetched the document before the token is looked at.
\<close>

theorem key_fetch_crash:
  "(fst (GetJWKS get now c) = Crash) =
     ((case oi_jwks c of None \<Rightarrow> True | Some (js, t) \<Rightarrow> hour \<le> now - t) \<and> oi_discovery c = None \<and>
      (\<exists>err. fst (Discover get c) = Failing err)) \<and>
   fst (federated_Authenticate e fcfg c code nonce uri) \<noteq> Crash"
proof
  show "(fst (GetJWKS get now c) = Crash) =
     ((case oi_jwks c of None \<Rightarrow> True | Some (js, t) \<Rightarrow> hour \<le> now - t) \<and> oi_discovery c = None \<and>
      (\<exists>err. fst (Discover get c) = Failing err))"
    using Discover_no_crash [of get c "snd (Discover get c)"]
    by (cases "Discover get c") (auto simp: GetJWKS_def split: option.splits upstream.splits prod.splits if_splits)
  show "fst (federated_Authenticate e fcfg c code nonce uri) \<noteq> Crash"
  proof
    assume "fst (federated_Authenticate e fcfg c code nonce uri) = Crash"
    then obtain c' where "federated_Authenticate e fcfg c code nonce uri = (Crash, c')"
      by (cases "federated_Authenticate e fcfg c code nonce uri") simp
    then obtain r c1 where x: "ExchangeCode e fcfg c code uri = (Crash, c') \<or>
        ExchangeCode e fcfg c code uri = (Upstream r, c1) \<and> ValidateIDToken e fcfg c1 (ut_IDToken r) nonce = (Crash, c')"
      by (auto simp: federated_Authenticate_def up_bind_crash admit_claims_def split: if_splits)
    have "ExchangeCode e fcfg c code uri \<noteq> (Crash, c')"
      by (auto simp: ExchangeCode_def up_bind_crash token_reply_result_def split: call_outcome.splits option.splits if_splits)
    then have x1: "ExchangeCode e fcfg c code uri = (Upstream r, c1)"
      and v: "ValidateIDToken e fcfg c1 (ut_IDToken r) nonce = (Crash, c')"
      using x by blast+
    from x1 have d: "oi_discovery c1 \<noteq> None"
      by (auto simp: ExchangeCode_def up_bind_Upstream dest: Discover_keeps_document)
    from v have "GetJWKS (ue_get e) (ue_later e) c1 = (Crash, c')"
      by (auto simp: ValidateIDToken_def up_bind_crash verifySignature_def split: sum.splits option.splits)
    from GetJWKS_crash [OF this] d show False by simp
  qed
qed

section \<open>A login, from end to end\<close>

text \<open>A provider with one key, whose documents and token are written out as JSON.\<close>

definition idp_document :: json where
  "idp_document = JObj [(''issuer'', JText ''idp''), (''authorization_endpoint'', JText ''auth'')]"

definition idp_keys :: json where
  "idp_keys = JObj [(''keys'', JArr [JObj [(''kty'', JText ''RSA''), (''kid'', JText ''k'')]])]"

definition idp_header :: json where
  "idp_header = JObj [(''alg'', JText ''RS256''), (''kid'', JText ''k'')]"

definition idp_nonce :: string where "idp_nonce = encodeBase64URL ''n''"

definition idp_claims :: json where
  "idp_claims =
     JObj [(''iss'', JText ''idp''), (''aud'', JText ''bridge''), (''nonce'', JText idp_nonce),
       (''email'', JText ''ada'')]"

definition idp_token :: string where
  "idp_token = encodeBase64URL (show_json idp_header) @ ''.'' @ encodeBase64URL (show_json idp_claims) @ ''.'' @ []"

definition idp_reply :: json where
  "idp_reply = JObj [(''id_token'', JText idp_token)]"

definition idp_env :: upstream_env where
  "idp_env =
     \<lparr>ue_get = (\<lambda>u. Reply 200 (Some (show_json (if u = [] then idp_keys else idp_document)))),
      ue_post = (\<lambda>_ _. Reply 200 (Some (show_json idp_reply))), ue_now = 0, ue_later = 0, ue_rsa = (\<lambda>_ _ _ _. True)\<rparr>"

definition idp_config :: federated_auth_config where
  "idp_config =
     \<lparr>fdc_UpstreamIssuer = ''idp'', fdc_UpstreamDiscoveryURL = [], fdc_ClientID = ''bridge'', fdc_ClientSecret = ''s'',
      fdc_ClientSecretEnv = [], fdc_Scopes = [], fdc_AllowedDomains = [], fdc_DefaultScopes = [''mcp:read''],
      fdc_AdminUsers = [], fdc_AdminScopes = [], fdc_HTTPTimeout = 0\<rparr>"

lemma encodeBase64URL_ascii: "list_all (byte_in 0 0x7F) (encodeBase64URL s)"
  using encodeBase64URL_chars [of s] by (auto simp: list_all_iff isBase64URLChar_def byte_in_def)

lemma encodeBase64URL_no_dot: "CHR ''.'' \<notin> set (encodeBase64URL s)"
  using encodeBase64URL_chars [of s] by (auto simp: list_all_iff isBase64URLChar_def byte_in_def)

lemma unquote_ascii: "list_all (byte_in 0 0x7F) s \<Longrightarrow> unquote (quote_text s) = s"
  by (simp add: ascii_valid unquote_quote_text)

lemma decode_first_show:
  assumes "json_ok (JObj ms)" and "json_depth (JObj ms) \<le> max_depth"
  shows "decode_first f z (show_json (JObj ms)) = decode_members f ms z"
  using parse_value_show [OF assms, of "[]"] by (simp add: decode_first_def)

lemma idp_names [simp]:
  "field_name ''issuer''" "field_name ''authorization_endpoint''" "field_name ''keys''" "field_name ''kty''"
  "field_name ''kid''" "field_name ''alg''" "field_name ''iss''" "field_name ''aud''" "field_name ''nonce''"
  "field_name ''email''" "field_name ''id_token''"
  by (simp_all add: field_name_def byte_in_def)

lemma idp_texts [simp]:
  "unquote (quote_text ''idp'') = ''idp''" "unquote (quote_text ''auth'') = ''auth''"
  "unquote (quote_text ''RSA'') = ''RSA''" "unquote (quote_text ''k'') = ''k''"
  "unquote (quote_text ''RS256'') = ''RS256''" "unquote (quote_text ''bridge'') = ''bridge''"
  "unquote (quote_text ''ada'') = ''ada''" "unquote (quote_text idp_nonce) = idp_nonce"
  "unquote (quote_text idp_token) = idp_token"
  using encodeBase64URL_ascii by (intro unquote_ascii; simp add: byte_in_def idp_token_def idp_nonce_def del: encodeBase64URL.simps)+

lemma idp_decodes:
  "decode_first document_field zero_document (show_json idp_document) =
     Some (zero_document\<lparr>di_Issuer := ''idp'', di_AuthorizationEndpoint := ''auth''\<rparr>)"
  "decode_first key_set_field [] (show_json idp_keys) = Some [zero_jwk\<lparr>jk_Kty := ''RSA'', jk_Kid := ''k''\<rparr>]"
  "decode_first upstream_tokens_field zero_upstream_tokens (show_json idp_reply) =
     Some (zero_upstream_tokens\<lparr>ut_IDToken := idp_token\<rparr>)"
  "unmarshal header_field \<lparr>th_Alg = [], th_Kid = []\<rparr> (show_json idp_header) = Some \<lparr>th_Alg = ''RS256'', th_Kid = ''k''\<rparr>"
  "unmarshal id_claims_field zero_id_claims (show_json idp_claims) =
     Some (zero_id_claims\<lparr>ic_Issuer := ''idp'', ic_Audience := Some (JText ''bridge''), ic_Nonce := idp_nonce,
       ic_Email := ''ada''\<rparr>)"
  unfolding idp_document_def idp_keys_def idp_reply_def idp_header_def idp_claims_def
  by (subst decode_first_show unmarshal_show(1);
      simp add: JText_def max_depth_def document_field_def key_set_field_def jwk_field_def upstream_tokens_field_def
        header_field_def id_claims_field_def zero_document_def zero_jwk_def zero_upstream_tokens_def zero_id_claims_def)+

definition idp_server :: oauth_config where
  "idp_server =
     \<lparr>oc_Issuer = ''bridge'', oc_AllowedRedirectURIs = [''http://localhost/cb''], oc_ScopesSupported = [],
      oc_AuthCodeLifetime = 60 * second, oc_TokenLifetime = second, oc_RefreshTokenLifetime = second,
      oc_AllowDynamicRegistration = False\<rparr>"

definition idp_exchange :: federated_env where
  "idp_exchange =
     \<lparr>fe_exchange = \<lparr>ee_now = 0, ee_later = 0, ee_csrf = None, ee_value = Some ''c'', ee_jti = []\<rparr>,
      fe_state = Some ''s'', fe_nonce = Some ''n'', fe_upstream = idp_env\<rparr>"

definition idp_challenge :: string where "idp_challenge = encodeBase64URL (sha256 ''v'')"

definition idp_asks :: params where
  "idp_asks =
     [(''response_type'', ''code''), (''client_id'', ''x''), (''redirect_uri'', ''http://localhost/cb''),
      (''code_challenge'', idp_challenge)]"

definition idp_request :: "string \<Rightarrow> params \<Rightarrow> oauth_http" where
  "idp_request path q = \<lparr>oh_path = path, oh_method = MGet, oh_query = q, oh_form = None, oh_body = [], oh_remote = []\<rparr>"

definition idp_events :: "federated_event list" where
  "idp_events =
     [FHttp idp_exchange [] [] (idp_request ''/oauth/authorize'' idp_asks),
      FHttp idp_exchange [] [] (idp_request ''/oauth/callback'' [(''state'', encodeBase64URL ''s''), (''code'', ''u'')])]"

lemma idp_token_read: "read_token idp_token =
    Inr (\<lparr>th_Alg = ''RS256'', th_Kid = ''k''\<rparr>,
      zero_id_claims\<lparr>ic_Issuer := ''idp'', ic_Audience := Some (JText ''bridge''), ic_Nonce := idp_nonce, ic_Email := ''ada''\<rparr>)"
    "split_on CHR ''.'' idp_token = [encodeBase64URL (show_json idp_header), encodeBase64URL (show_json idp_claims), []]"
proof -
  show s: "split_on CHR ''.'' idp_token = [encodeBase64URL (show_json idp_header), encodeBase64URL (show_json idp_claims), []]"
    using encodeBase64URL_no_dot by (simp add: idp_token_def split_on_append_sep)
  show "read_token idp_token =
    Inr (\<lparr>th_Alg = ''RS256'', th_Kid = ''k''\<rparr>,
      zero_id_claims\<lparr>ic_Issuer := ''idp'', ic_Audience := Some (JText ''bridge''), ic_Nonce := idp_nonce, ic_Email := ''ada''\<rparr>)"
    by (simp add: read_token_def s decode_encodeBase64URL idp_decodes)
qed

definition idp_client :: oidc_client where
  "idp_client =
     \<lparr>oi_issuer = ''idp'', oi_discovery = Some (zero_document\<lparr>di_Issuer := ''idp'', di_AuthorizationEndpoint := ''auth''\<rparr>),
      oi_jwks = None\<rparr>"

definition idp_pending :: pending_auth where
  "idp_pending =
     \<lparr>pd_request = (request_of_params idp_asks)\<lparr>ar_CodeChallengeMethod := ''S256''\<rparr>, pd_nonce = idp_nonce, pd_created = 0\<rparr>"

definition idp_start :: federated_state where
  "idp_start = snd (new_federated_server (NewOIDCClient ''idp''))"

definition idp_waiting :: federated_state where
  "idp_waiting = idp_start\<lparr>fs_pending := fmupd (encodeBase64URL ''s'') idp_pending fmempty, fs_client := idp_client\<rparr>"

lemma idp_discover:
  "Discover (ue_get idp_env) (NewOIDCClient ''idp'') = (Upstream (the (oi_discovery idp_client)), idp_client)"
  "Discover (ue_get idp_env) idp_client = (Upstream (the (oi_discovery idp_client)), idp_client)"
  by (simp_all add: Discover_def NewOIDCClient_def idp_env_def fetch_document_def idp_decodes idp_client_def)

lemma idp_env_sel:
  "ue_post idp_env = (\<lambda>_ _. Reply 200 (Some (show_json idp_reply)))" "ue_now idp_env = 0" "ue_later idp_env = 0"
  "ue_rsa idp_env = (\<lambda>_ _ _ _. True)"
  by (simp_all add: idp_env_def)

lemma idp_challenge_ok: "ValidateCodeChallenge idp_challenge" "idp_challenge \<noteq> []"
  using ValidateCodeChallenge_sha256 [of "''v''"] encodeBase64URL_sha256_not_Nil [of "''v''"]
  by (simp_all add: idp_challenge_def del: encodeBase64URL.simps)

lemma idp_params:
  "param idp_asks ''response_type'' = ''code''" "param idp_asks ''client_id'' = ''x''"
  "param idp_asks ''redirect_uri'' = ''http://localhost/cb''" "param idp_asks ''code_challenge'' = idp_challenge"
  "param idp_asks ''code_challenge_method'' = []" "param idp_asks ''state'' = []" "param idp_asks ''scope'' = []"
  by (simp_all add: idp_asks_def param_def)

lemma idp_server_sel: "\<not> oc_AllowDynamicRegistration idp_server" "oc_AuthCodeLifetime idp_server = 60 * second"
  by (simp_all add: idp_server_def)

lemma idp_request_valid:
  "validateAuthorizeRequest (request_of_params idp_asks) (oc_AllowedRedirectURIs idp_server) =
     (None, pd_request idp_pending)"
  using idp_challenge_ok
  by (simp add: validateAuthorizeRequest_def request_of_params_def idp_params idp_server_def idp_pending_def Let_def
      isAllowedRedirectURI_def ValidateCodeChallengeMethod_def)

lemma idp_authorize:
  "snd (federated_ServeHTTP idp_server idp_config idp_exchange MGet idp_asks idp_start) = idp_waiting"
  by (simp add: federated_ServeHTTP_def idp_request_valid checkClient_def checkRegisteredClient_def GetClient_def
      idp_start_def new_federated_server_def NewMemoryStorage_def idp_server_sel federated_authorize_def
      generateSecureToken_def idp_exchange_def GetAuthorizationURL_def up_bind_def up_within_def idp_discover
      idp_waiting_def idp_pending_def idp_nonce_def Let_def del: encodeBase64URL.simps)

definition idp_user :: federated_user where
  "idp_user =
     \<lparr>fu_Subject = [], fu_Email = ''ada'', fu_EmailVerified = False, fu_Name = [], fu_Scopes = [''mcp:read''],
      fu_AccessToken = [], fu_RefreshToken = [], fu_IDToken = idp_token\<rparr>"

lemma idp_authenticate:
  "fst (federated_Authenticate idp_env idp_config idp_client ''u'' idp_nonce uri) = Upstream idp_user"
proof -
  have x: "ExchangeCode idp_env idp_config idp_client ''u'' uri = (Upstream (zero_upstream_tokens\<lparr>ut_IDToken := idp_token\<rparr>), idp_client)"
    by (simp add: ExchangeCode_def up_bind_def up_within_def idp_discover idp_env_sel token_reply_result_def idp_decodes)
  have n: "idp_token \<noteq> []" by (simp add: idp_token_def)
  have p: "claims_problem idp_config 0 idp_nonce
      (zero_id_claims\<lparr>ic_Issuer := ''idp'', ic_Audience := Some (JText ''bridge''), ic_Nonce := idp_nonce, ic_Email := ''ada''\<rparr>) = None"
    by (simp add: claims_problem_def idp_config_def JText_def zero_id_claims_def)
  have k: "GetJWKS (ue_get idp_env) 0 idp_client =
      (Upstream [zero_jwk\<lparr>jk_Kty := ''RSA'', jk_Kid := ''k''\<rparr>],
       idp_client\<lparr>oi_jwks := Some ([zero_jwk\<lparr>jk_Kty := ''RSA'', jk_Kid := ''k''\<rparr>], 0)\<rparr>)"
    by (simp add: GetJWKS_def idp_client_def idp_env_def fetch_document_def idp_decodes zero_document_def)
  show ?thesis
    by (simp add: idp_env_sel federated_Authenticate_def up_bind_def up_within_def x n ValidateIDToken_def idp_token_read
        verifySignature_def k p check_key_def GetRSAPublicKey_def zero_jwk_def decodeBase64URL_def
        verifyRSASignature_def be_value_def)
       (simp add: admit_claims_def idp_config_def zero_id_claims_def zero_upstream_tokens_def idp_user_def determineScopes_def)
qed

lemma idp_callback:
  "fmlookup (codes_of (snd (HandleCallback idp_server idp_config idp_exchange MGet
      [(''state'', encodeBase64URL ''s''), (''code'', ''u'')] idp_waiting))) (encodeBase64URL ''c'') =
     Some (federated_code idp_server (fe_exchange idp_exchange) (encodeBase64URL ''c'') (pd_request idp_pending) idp_user)"
proof -
  obtain c where a: "federated_Authenticate idp_env idp_config idp_client ''u'' idp_nonce (callbackURI idp_server) =
      (Upstream idp_user, c)"
    using idp_authenticate by (metis fst_conv surj_pair)
  show ?thesis
    by (simp add: HandleCallback_def param_def idp_waiting_def callback_finish_def idp_exchange_def idp_pending_def a
        callback_code_def GenerateAuthorizationCode_def StoreAuthorizationCode_def idp_start_def new_federated_server_def
        NewMemoryStorage_def maxAuthCodes_def federated_code_def Let_def del: encodeBase64URL.simps split: option.splits)
qed

theorem federated_codes_vouched_witness:
  "\<exists>ac ask aq. fmlookup (codes_of (snd (federated_run idp_server idp_config (\<lambda>_. None) idp_events
      (new_federated_server (NewOIDCClient ''idp''))))) (encodeBase64URL ''c'') = Some ac \<and>
    ask \<in> set idp_events \<and> (\<exists>ae. asks ask ae aq) \<and> ac_ClientID ac = param aq ''client_id''"
proof -
  have "snd (federated_run idp_server idp_config (\<lambda>_. None) idp_events (new_federated_server (NewOIDCClient ''idp''))) =
      snd (HandleCallback idp_server idp_config idp_exchange MGet
        [(''state'', encodeBase64URL ''s''), (''code'', ''u'')] idp_waiting)"
    using idp_authorize by (simp add: idp_events_def federated_mux_def idp_request_def idp_start_def Let_def del: encodeBase64URL.simps)
  with idp_callback obtain ac where ac: "fmlookup (codes_of (snd (federated_run idp_server idp_config (\<lambda>_. None) idp_events
      (new_federated_server (NewOIDCClient ''idp''))))) (encodeBase64URL ''c'') = Some ac"
    by metis
  from federated_codes_vouched [OF refl this] obtain pre ev post ask ae aq where
    e: "idp_events = pre @ ev # post" and a: "ask \<in> set pre" "asks ask ae aq" "ac_ClientID ac = param aq ''client_id''"
    by blast
  have "ask \<in> set idp_events" using a(1) by (subst e) simp
  then show ?thesis using ac a(2,3) by blast
qed

end
