(* ===== verification/Oauth_Setup.thy ===== *)
theory Oauth_Setup
  imports Federated Config
begin

text \<open>
  Construction of the authorization server from its configuration: the signing key
  (\<open>internal/authserver/jwt.go\<close>), the texts of the login form (\<open>internal/authserver/authorize.go\<close>) and
  \<open>New\<close> of \<open>internal/authserver/authserver.go\<close>, up to the theorem that a configuration which \<open>Load\<close>
  returns gives a server with every configured user.
\<close>

section \<open>Outcomes\<close>

text \<open>A value, an error, or a panic.\<close>

datatype 'a built = Ready 'a | Refused string | Panicked

fun built_bind :: "'a built \<Rightarrow> ('a \<Rightarrow> 'b built) \<Rightarrow> 'b built" where
  "built_bind (Ready x) f = f x"
| "built_bind (Refused e) f = Refused e"
| "built_bind Panicked f = Panicked"

text \<open>\<open>fmt.Errorf("what: %w", err)\<close>\<close>

fun built_within :: "string \<Rightarrow> 'a built \<Rightarrow> 'a built" where
  "built_within what (Refused e) = Refused (what @ '': '' @ e)"
| "built_within what r = r"

fun built_of :: "string + 'a \<Rightarrow> 'a built" where
  "built_of (Inl e) = Refused e"
| "built_of (Inr x) = Ready x"

lemma built_within_Ready [simp]: "built_within what r = Ready x \<longleftrightarrow> r = Ready x"
  by (cases r) simp_all

lemma built_bind_Ready [simp]: "built_bind r f = Ready y \<longleftrightarrow> (\<exists>x. r = Ready x \<and> f x = Ready y)"
  by (cases r) simp_all

lemma built_of_Ready [simp]: "built_of r = Ready x \<longleftrightarrow> r = Inr x"
  by (cases r) simp_all

section \<open>Signing keys\<close>

text \<open>A private key, by its kind; the text stands for the key material, or for the Go type of another kind.\<close>

datatype signing_key = RSAKey string | ECDSAKey string | OtherKey string

text \<open>
  What the construction gets from outside: the generators of \<open>crypto/rsa\<close> (by size) and \<open>crypto/ecdsa\<close>
  (by curve), files, the first PEM block of a text as type and bytes, the parsers of \<open>crypto/x509\<close> by
  the format they read, the random bytes of a key identifier, and \<open>jose.NewSigner\<close>, which may refuse a
  key.
\<close>

datatype key_format = PKCS1 | EC | PKCS8

record key_env =
  ke_rsa :: "nat \<Rightarrow> string + string"
  ke_ecdsa :: "string \<Rightarrow> string + string"
  ke_read :: "string \<Rightarrow> string + string"
  ke_pem :: "string \<Rightarrow> (string \<times> string) option"
  ke_parse :: "key_format \<Rightarrow> string \<Rightarrow> string + signing_key"
  ke_random :: "char list option"
  ke_signer :: "string \<Rightarrow> signing_key \<Rightarrow> string \<Rightarrow> string option"

definition generateKeyPair :: "key_env \<Rightarrow> string \<Rightarrow> string + signing_key" where
  "generateKeyPair env alg =
     (if has_prefix alg ''RS'' then
        map_sum id RSAKey (ke_rsa env (if alg = ''RS384'' then 3072 else if alg = ''RS512'' then 4096 else 2048))
      else if has_prefix alg ''ES'' then
        (if alg = ''ES256'' then map_sum id ECDSAKey (ke_ecdsa env ''P-256'')
         else if alg = ''ES384'' then map_sum id ECDSAKey (ke_ecdsa env ''P-384'')
         else if alg = ''ES512'' then map_sum id ECDSAKey (ke_ecdsa env ''P-521'')
         else Inl (''unsupported ECDSA algorithm: '' @ alg))
      else Inl (''unsupported algorithm: '' @ alg))"

definition pem_format :: "string \<Rightarrow> key_format option" where
  "pem_format t =
     (if t = ''RSA PRIVATE KEY'' then Some PKCS1
      else if t = ''EC PRIVATE KEY'' then Some EC
      else if t = ''PRIVATE KEY'' then Some PKCS8
      else None)"

text \<open>The key has to be of the kind the algorithm signs with.\<close>

fun key_for :: "string \<Rightarrow> signing_key \<Rightarrow> string + signing_key" where
  "key_for alg (RSAKey k) =
     (if has_prefix alg ''RS'' then Inr (RSAKey k) else Inl (''RSA key provided but algorithm is '' @ alg))"
| "key_for alg (ECDSAKey k) =
     (if has_prefix alg ''ES'' then Inr (ECDSAKey k) else Inl (''ECDSA key provided but algorithm is '' @ alg))"
| "key_for alg (OtherKey t) = Inl (''unsupported key type: '' @ t)"

definition loadKeyFromFile :: "key_env \<Rightarrow> string \<Rightarrow> string \<Rightarrow> string + signing_key" where
  "loadKeyFromFile env path alg =
     (case ke_read env path of
        Inl e \<Rightarrow> Inl (''reading key file: '' @ e)
      | Inr data \<Rightarrow>
         (case ke_pem env data of
            None \<Rightarrow> Inl ''failed to decode PEM block''
          | Some (t, bytes) \<Rightarrow>
             (case pem_format t of
                None \<Rightarrow> Inl (''unsupported key type: '' @ t)
              | Some fmt \<Rightarrow>
                 (case ke_parse env fmt bytes of
                    Inl e \<Rightarrow> Inl (''parsing private key: '' @ e)
                  | Inr k \<Rightarrow> key_for alg k))))"

text \<open>\<open>None\<close>: the random source failed, and the code panics.\<close>

definition generateKeyID :: "key_env \<Rightarrow> string built" where
  "generateKeyID env = (case ke_random env of None \<Rightarrow> Panicked | Some b \<Rightarrow> Ready (encodeBase64URL b))"

record token_issuer =
  ti_issuer :: string
  ti_algorithm :: string
  ti_keyID :: string
  ti_privateKey :: signing_key

definition NewTokenIssuer :: "key_env \<Rightarrow> string \<Rightarrow> string \<Rightarrow> string \<Rightarrow> string \<Rightarrow> bool \<Rightarrow> token_issuer built" where
  "NewTokenIssuer env issuer alg keyFile keyID generateKey =
     built_bind
       (if generateKey then built_within ''generating key pair'' (built_of (generateKeyPair env alg))
        else built_within ''loading key from file'' (built_of (loadKeyFromFile env keyFile alg)))
       (\<lambda>k. built_bind (if keyID = [] then generateKeyID env else Ready keyID)
         (\<lambda>kid. case ke_signer env alg k kid of
            Some e \<Rightarrow> Refused (''creating signer: '' @ e)
          | None \<Rightarrow> Ready \<lparr>ti_issuer = issuer, ti_algorithm = alg, ti_keyID = kid, ti_privateKey = k\<rparr>))"

text \<open>The entry of the key set: the public half of the key, its identifier, algorithm and use.\<close>

record jwks_entry =
  je_Key :: signing_key
  je_KeyID :: string
  je_Algorithm :: string
  je_Use :: string

definition JWKS :: "token_issuer \<Rightarrow> jwks_entry list" where
  "JWKS ti = [\<lparr>je_Key = ti_privateKey ti, je_KeyID = ti_keyID ti, je_Algorithm = ti_algorithm ti, je_Use = ''sig''\<rparr>]"

section \<open>The login form\<close>

text \<open>The built-in texts, each replaced by the configured one when that is not empty.\<close>

definition defaultBranding :: login_branding where
  "defaultBranding =
     \<lparr>lbc_PageTitle = ''Sign In - MCP Bridge'', lbc_Heading = ''Sign In'',
      lbc_Subtitle = ''Authorize access to MCP Bridge'', lbc_UsernameLabel = ''Username'',
      lbc_PasswordLabel = ''Password'', lbc_ButtonText = ''Sign In'', lbc_FooterText = ''Signing in to:'',
      lbc_PrimaryColor = ''#667eea'', lbc_SecondaryColor = ''#764ba2''\<rparr>"

definition login_texts :: "login_branding option \<Rightarrow> login_branding" where
  "login_texts b =
     (case b of
        None \<Rightarrow> defaultBranding
      | Some c \<Rightarrow>
          \<lparr>lbc_PageTitle = or_empty (lbc_PageTitle c) (lbc_PageTitle defaultBranding),
           lbc_Heading = or_empty (lbc_Heading c) (lbc_Heading defaultBranding),
           lbc_Subtitle = or_empty (lbc_Subtitle c) (lbc_Subtitle defaultBranding),
           lbc_UsernameLabel = or_empty (lbc_UsernameLabel c) (lbc_UsernameLabel defaultBranding),
           lbc_PasswordLabel = or_empty (lbc_PasswordLabel c) (lbc_PasswordLabel defaultBranding),
           lbc_ButtonText = or_empty (lbc_ButtonText c) (lbc_ButtonText defaultBranding),
           lbc_FooterText = or_empty (lbc_FooterText c) (lbc_FooterText defaultBranding),
           lbc_PrimaryColor = or_empty (lbc_PrimaryColor c) (lbc_PrimaryColor defaultBranding),
           lbc_SecondaryColor = or_empty (lbc_SecondaryColor c) (lbc_SecondaryColor defaultBranding)\<rparr>)"

lemma login_texts_defaults:
  "login_texts (bic_Branding (applyLoginBrandingDefaults b)) = login_texts (bic_Branding b)"
  by (simp add: login_texts_def applyLoginBrandingDefaults_def defaultBranding_def or_empty_def Let_def
      split: option.split)

section \<open>The server\<close>

text \<open>
  How users log in: against the table of the configuration, with the template file (empty, the built-in
  one) and texts of the form, or at the provider, with the resolved settings and its client.
\<close>

datatype login_mode =
    BuiltInLogin user_table string login_branding
  | FederatedLogin federated_auth_config oidc_client

record authorization_server =
  az_config :: oauth_config
  az_issuer :: token_issuer
  az_metadata :: oauth_metadata
  az_mode :: login_mode

text \<open>
  \<open>se_hash\<close> is \<open>bcrypt.GenerateFromPassword\<close>, \<open>se_template\<close> the error of parsing a template file
  (empty, the built-in text).
\<close>

record setup_env =
  se_getenv :: "string \<Rightarrow> string"
  se_hash :: "string \<Rightarrow> string option"
  se_template :: "string \<Rightarrow> string option"
  se_keys :: key_env

definition oauth_config_of :: "oauth_server_config \<Rightarrow> oauth_config" where
  "oauth_config_of c =
     \<lparr>oc_Issuer = osc_Issuer c, oc_AllowedRedirectURIs = osc_AllowedRedirectURIs c,
      oc_ScopesSupported = osc_ScopesSupported c, oc_AuthCodeLifetime = osc_AuthCodeLifetime c,
      oc_TokenLifetime = osc_TokenLifetime c, oc_RefreshTokenLifetime = osc_RefreshTokenLifetime c,
      oc_AllowDynamicRegistration = osc_AllowDynamicRegistration c\<rparr>"

definition NewAuthorizeHandler :: "setup_env \<Rightarrow> user_table \<Rightarrow> string \<Rightarrow> login_branding option \<Rightarrow> login_mode built" where
  "NewAuthorizeHandler env users tmpl branding =
     (case se_template env tmpl of
        Some e \<Rightarrow> Refused e
      | None \<Rightarrow> Ready (BuiltInLogin users tmpl (login_texts branding)))"

definition signing_issuer :: "key_env \<Rightarrow> oauth_server_config \<Rightarrow> token_issuer built" where
  "signing_issuer env c =
     (case osc_Signing c of
        None \<Rightarrow> NewTokenIssuer env (osc_Issuer c) ''RS256'' [] [] False
      | Some sg \<Rightarrow>
          NewTokenIssuer env (osc_Issuer c) (or_empty (sgc_Algorithm sg) ''RS256'') (sgc_KeyFile sg) (sgc_KeyID sg)
            (sgc_GenerateKey sg))"

definition login_mode_of :: "setup_env \<Rightarrow> oauth_server_config \<Rightarrow> login_mode built" where
  "login_mode_of env c =
     (if osc_Mode c = ''builtin'' then
        (case osc_BuiltIn c of
           None \<Rightarrow> Refused ''builtin configuration required for builtin mode''
         | Some b \<Rightarrow>
             built_bind (built_within ''creating builtin authenticator''
                (built_of (NewBuiltInAuthenticator (se_getenv env) (se_hash env) (bic_Users b))))
               (\<lambda>users. built_within ''creating authorize handler''
                  (NewAuthorizeHandler env users (bic_LoginTemplate b) (bic_Branding b))))
      else if osc_Mode c = ''federated'' then
        (case osc_Federated c of
           None \<Rightarrow> Refused ''federated configuration required for federated mode''
         | Some f \<Rightarrow>
             built_bind (built_within ''creating federated authenticator''
                (built_of (NewFederatedAuthenticator (se_getenv env) f)))
               (\<lambda>(fcfg, client). Ready (FederatedLogin fcfg client)))
      else Refused (''unknown mode: '' @ osc_Mode c @ '' (must be 'builtin' or 'federated')''))"

text \<open>\<open>New\<close>; \<open>Ready None\<close> when the server is disabled.\<close>

definition authserver_New :: "setup_env \<Rightarrow> oauth_server_config \<Rightarrow> authorization_server option built" where
  "authserver_New env c =
     (if \<not> osc_Enabled c then Ready None
      else built_bind (built_within ''creating token issuer'' (signing_issuer (se_keys env) c))
        (\<lambda>ti. built_bind (login_mode_of env c)
          (\<lambda>mode. Ready (Some
             \<lparr>az_config = oauth_config_of c, az_issuer = ti,
              az_metadata = BuildMetadata (osc_Issuer c) (osc_ScopesSupported c) (osc_AllowDynamicRegistration c),
              az_mode = mode\<rparr>))))"

section \<open>Loaded configurations\<close>

lemma add_users_ok:
  assumes "distinct (map uc_Username us)"
    "list_all (\<lambda>u. if uc_PasswordHash u = [] then uc_PasswordEnv u \<noteq> [] \<and> getenv (uc_PasswordEnv u) \<noteq> [] else True) us"
    "\<forall>p. hash p \<noteq> None"
  shows "\<exists>t'. add_users getenv hash us t = Inr t' \<and>
    (\<forall>n. n \<notin> set (map uc_Username us) \<longrightarrow> fmlookup t' n = fmlookup t n) \<and>
    (\<forall>u\<in>set us. \<exists>h. fmlookup t' (uc_Username u) =
       Some \<lparr>bu_username = uc_Username u, bu_passwordHash = h, bu_scopes = uc_Scopes u\<rparr> \<and>
       (if uc_PasswordHash u = [] then hash (getenv (uc_PasswordEnv u)) = Some h else h = uc_PasswordHash u))"
  using assms(1,2)
proof (induction us arbitrary: t)
  case Nil
  then show ?case by simp
next
  case (Cons u us)
  obtain h where h: "(if uc_PasswordHash u \<noteq> [] then Inr (uc_PasswordHash u)
            else if uc_PasswordEnv u \<noteq> [] then
              (if getenv (uc_PasswordEnv u) = []
               then Inl (''password environment variable is empty: '' @ uc_PasswordEnv u)
               else case hash (getenv (uc_PasswordEnv u)) of
                      None \<Rightarrow> Inl (''failed to hash password for user: '' @ uc_Username u)
                    | Some h \<Rightarrow> Inr h)
            else Inl (''no password configured for user: '' @ uc_Username u)) = (Inr h :: string + string)"
    and hh: "if uc_PasswordHash u = [] then hash (getenv (uc_PasswordEnv u)) = Some h else h = uc_PasswordHash u"
  proof (cases "uc_PasswordHash u = []")
    case False
    then show ?thesis using that [of "uc_PasswordHash u"] by simp
  next
    case True
    then have e: "getenv (uc_PasswordEnv u) \<noteq> []" "uc_PasswordEnv u \<noteq> []"
      using Cons.prems(2) by auto
    obtain h where "hash (getenv (uc_PasswordEnv u)) = Some h" using assms(3) by blast
    then show ?thesis using that [of h] True e by simp
  qed
  let ?t = "fmupd (uc_Username u) \<lparr>bu_username = uc_Username u, bu_passwordHash = h, bu_scopes = uc_Scopes u\<rparr> t"
  have "distinct (map uc_Username us)"
    "list_all (\<lambda>u. if uc_PasswordHash u = [] then uc_PasswordEnv u \<noteq> [] \<and> getenv (uc_PasswordEnv u) \<noteq> [] else True) us"
    using Cons.prems by simp_all
  from Cons.IH [OF this, of ?t] obtain t' where t': "add_users getenv hash us ?t = Inr t'"
    and k: "\<forall>n. n \<notin> set (map uc_Username us) \<longrightarrow> fmlookup t' n = fmlookup ?t n"
    and us: "\<forall>u\<in>set us. \<exists>h. fmlookup t' (uc_Username u) =
       Some \<lparr>bu_username = uc_Username u, bu_passwordHash = h, bu_scopes = uc_Scopes u\<rparr> \<and>
       (if uc_PasswordHash u = [] then hash (getenv (uc_PasswordEnv u)) = Some h else h = uc_PasswordHash u)"
    by blast
  have "add_users getenv hash (u # us) t = Inr t'"
    unfolding add_users.simps h using t' by simp
  moreover have "fmlookup t' (uc_Username u) =
      Some \<lparr>bu_username = uc_Username u, bu_passwordHash = h, bu_scopes = uc_Scopes u\<rparr>"
    using k Cons.prems(1) by simp
  ultimately show ?case using k us hh by (intro exI [of _ t']) simp
qed

lemma generated_key:
  assumes "alg \<in> {''RS256'', ''RS384'', ''RS512'', ''ES256'', ''ES384'', ''ES512''}"
    "\<forall>bits. \<not> isl (ke_rsa env bits)" "\<forall>curve. \<not> isl (ke_ecdsa env curve)"
  shows "\<not> isl (generateKeyPair env alg)"
  using assms unfolding insert_iff empty_iff
  by (elim disjE FalseE) (simp_all add: generateKeyPair_def has_prefix_def isl_map_sum)

text \<open>The material a signing configuration needs is there.\<close>

definition key_material :: "key_env \<Rightarrow> signing_config \<Rightarrow> bool" where
  "key_material env sg \<longleftrightarrow>
     (if sgc_GenerateKey sg then (\<forall>bits. \<not> isl (ke_rsa env bits)) \<and> (\<forall>curve. \<not> isl (ke_ecdsa env curve))
      else \<not> isl (loadKeyFromFile env (sgc_KeyFile sg) (sgc_Algorithm sg))) \<and>
     ke_random env \<noteq> None \<and> (\<forall>alg k kid. ke_signer env alg k kid = None)"

lemma validated_issuer:
  assumes "osc_Signing c = Some sg" "validateSigning sys sg = None" "key_material env sg"
  shows "\<exists>ti. signing_issuer env c = Ready ti \<and> ti_issuer ti = osc_Issuer c \<and> ti_algorithm ti = sgc_Algorithm sg \<and>
    (if sgc_KeyID sg = [] then True else ti_keyID ti = sgc_KeyID sg)"
proof -
  have alg: "sgc_Algorithm sg \<in> {''RS256'', ''RS384'', ''RS512'', ''ES256'', ''ES384'', ''ES512''}"
    using assms(2) by (simp add: validateSigning_def split: if_splits)
  then have alg': "or_empty (sgc_Algorithm sg) ''RS256'' = sgc_Algorithm sg" by (auto simp: or_empty_def)
  have "\<not> isl (if sgc_GenerateKey sg then generateKeyPair env (sgc_Algorithm sg)
      else loadKeyFromFile env (sgc_KeyFile sg) (sgc_Algorithm sg))"
    using assms(3) generated_key [OF alg, of env] by (simp add: key_material_def)
  then obtain k where "(if sgc_GenerateKey sg then generateKeyPair env (sgc_Algorithm sg)
      else loadKeyFromFile env (sgc_KeyFile sg) (sgc_Algorithm sg)) = Inr k"
    by (metis sum.collapse(2))
  then have "(if sgc_GenerateKey sg
        then built_within ''generating key pair'' (built_of (generateKeyPair env (sgc_Algorithm sg)))
        else built_within ''loading key from file''
          (built_of (loadKeyFromFile env (sgc_KeyFile sg) (sgc_Algorithm sg)))) = Ready k"
    by (simp split: if_splits)
  moreover obtain b where "ke_random env = Some b" using assms(3) by (auto simp: key_material_def)
  ultimately show ?thesis
    using assms(3) by (simp add: signing_issuer_def assms(1) NewTokenIssuer_def alg' generateKeyID_def key_material_def)
qed

text \<open>
  A user of the configuration logs in by the hash the configuration gives, or else by the hash made of
  its environment variable, and gets its own name and scopes.
\<close>

definition admits_user :: "setup_env \<Rightarrow> (string \<Rightarrow> string \<Rightarrow> bool) \<Rightarrow> user_table \<Rightarrow> user_config \<Rightarrow> bool" where
  "admits_user env bcrypt users u \<longleftrightarrow>
     (\<exists>h. (if uc_PasswordHash u = [] then se_hash env (se_getenv env (uc_PasswordEnv u)) = Some h
           else h = uc_PasswordHash u) \<and>
        (\<forall>pw. Authenticate bcrypt users (uc_Username u) pw =
           (if bcrypt h pw
            then Some \<lparr>ui_ID = uc_Username u, ui_Username = uc_Username u, ui_Scopes = uc_Scopes u\<rparr> else None)))"

lemma validated_login:
  assumes "validateBuiltInAuth sys b = None" "se_getenv env = sys_getenv sys" "\<forall>p. se_hash env p \<noteq> None"
  shows "\<exists>users. NewBuiltInAuthenticator (se_getenv env) (se_hash env) (bic_Users b) = Inr users \<and>
    (\<forall>bcrypt. list_all (admits_user env bcrypt users) (bic_Users b))"
proof -
  have c: "check_users sys 0 [] (bic_Users b) = None"
    using assms(1) by (simp add: validateBuiltInAuth_def)
  have "distinct (map uc_Username (bic_Users b))"
    "list_all (\<lambda>u. if uc_PasswordHash u = []
       then uc_PasswordEnv u \<noteq> [] \<and> se_getenv env (uc_PasswordEnv u) \<noteq> [] else True) (bic_Users b)"
    "\<forall>p. se_hash env p \<noteq> None"
    using check_users_ok [OF c] assms(2,3) by (auto simp: list_all_iff)
  from add_users_ok [OF this, of fmempty] obtain users
    where n: "NewBuiltInAuthenticator (se_getenv env) (se_hash env) (bic_Users b) = Inr users"
      and u: "\<forall>u\<in>set (bic_Users b). \<exists>h. fmlookup users (uc_Username u) =
         Some \<lparr>bu_username = uc_Username u, bu_passwordHash = h, bu_scopes = uc_Scopes u\<rparr> \<and>
         (if uc_PasswordHash u = [] then se_hash env (se_getenv env (uc_PasswordEnv u)) = Some h else h = uc_PasswordHash u)"
    unfolding NewBuiltInAuthenticator_def by blast
  have "admits_user env bcrypt users x" if "x \<in> set (bic_Users b)" for bcrypt x
    using u that by (fastforce simp: admits_user_def Authenticate_def user_info_of_def)
  then show ?thesis using n by (auto simp: list_all_iff)
qed

lemma validated_federated:
  assumes "validateFederatedAuth sys f = None" "se_getenv env = sys_getenv sys"
  shows "\<exists>fcfg. NewFederatedAuthenticator (se_getenv env) f = Inr (fcfg, NewOIDCClient (fdc_UpstreamIssuer f)) \<and>
    fdc_ClientSecret fcfg \<noteq> [] \<and> fcfg = f\<lparr>fdc_ClientSecret := fdc_ClientSecret fcfg\<rparr>"
  using assms by (auto simp: validateFederatedAuth_def NewFederatedAuthenticator_def env_unset_def Let_def)

text \<open>What the construction gives for the configuration \<open>c\<close>.\<close>

definition ready_for :: "setup_env \<Rightarrow> oauth_server_config \<Rightarrow> authorization_server \<Rightarrow> bool" where
  "ready_for env c az \<longleftrightarrow>
     az_config az = oauth_config_of c \<and> ti_issuer (az_issuer az) = osc_Issuer c \<and>
     Some (ti_algorithm (az_issuer az)) = map_option sgc_Algorithm (osc_Signing c) \<and>
     (case az_mode az of
        BuiltInLogin users tmpl texts \<Rightarrow>
          osc_Mode c = ''builtin'' \<and>
          (case osc_BuiltIn c of None \<Rightarrow> False
           | Some b \<Rightarrow> bic_Users b \<noteq> [] \<and> (\<forall>bcrypt. list_all (admits_user env bcrypt users) (bic_Users b)))
      | FederatedLogin fcfg client \<Rightarrow>
          osc_Mode c = ''federated'' \<and> fdc_ClientSecret fcfg \<noteq> [] \<and> oi_issuer client = fdc_UpstreamIssuer fcfg)"


text \<open>A file with an authorization server and one user, whose password comes from the environment.\<close>

definition login_signing :: signing_config where
  "login_signing = \<lparr>sgc_Algorithm = ''ES256'', sgc_KeyFile = [], sgc_KeyID = ''k'', sgc_GenerateKey = True\<rparr>"

definition login_server :: oauth_server_config where
  "login_server =
     \<lparr>osc_Enabled = True, osc_Issuer = ''/a'', osc_Mode = ''builtin'', osc_TokenLifetime = 1,
      osc_RefreshTokenLifetime = 1, osc_AuthCodeLifetime = 1, osc_Signing = Some login_signing,
      osc_BuiltIn = Some (applyLoginBrandingDefaults
        \<lparr>bic_Users = [\<lparr>uc_Username = ''ann'', uc_PasswordHash = [], uc_PasswordEnv = ''PW'', uc_Scopes = [''mcp:read'']\<rparr>],
         bic_LoginTemplate = [], bic_Branding = None\<rparr>),
      osc_Federated = None, osc_AllowedRedirectURIs = [''/cb''], osc_ScopesSupported = [''mcp:read''],
      osc_AllowDynamicRegistration = False\<rparr>"

definition login_bridge :: server_config where
  "login_bridge = applyServerDefaults
     \<lparr>svc_Listen = [], svc_TLS = None, svc_CORS = None, svc_Auth = None, svc_OAuthServer = Some login_server,
      svc_ReadTimeout = 0, svc_WriteTimeout = 0, svc_IdleTimeout = 0, svc_SSEKeepaliveInterval = 0,
      svc_MCPServer = \<lparr>mcc_Command = ''srv'', mcc_Args = [], mcc_Env = [], mcc_Dir = [],
        mcc_GracefulShutdownTimeout = 0, mcc_ReadTimeout = 0, mcc_RestartOnFailure = False, mcc_MaxRestarts = 0,
        mcc_RestartDelay = 0\<rparr>,
      svc_Session = \<lparr>sc_Enabled = False, sc_MaxSessions = 0, sc_Timeout = 0, sc_CleanupInterval = 0\<rparr>\<rparr>"

definition login_config :: config where
  "login_config = applyDefaults
     \<lparr>cf_Mode = ''server'', cf_Server = Some login_bridge, cf_Client = None,
      cf_Log = \<lparr>lgc_Level = [], lgc_Format = [], lgc_Output = []\<rparr>\<rparr>"

definition plain_keys :: key_env where
  "plain_keys =
     \<lparr>ke_rsa = \<lambda>_. Inr ''rsa'', ke_ecdsa = \<lambda>c. Inr c, ke_read = \<lambda>_. Inl ''no such file'', ke_pem = \<lambda>_. None,
      ke_parse = \<lambda>_ _. Inl ''malformed'', ke_random = Some ''r'', ke_signer = \<lambda>_ _ _. None\<rparr>"

definition plain_setup :: setup_env where
  "plain_setup =
     \<lparr>se_getenv = sys_getenv all_there, se_hash = \<lambda>p. Some p, se_template = \<lambda>_. None, se_keys = plain_keys\<rparr>"

lemma login_config_server:
  "cf_Mode login_config = ''server''" "cf_Server login_config = Some login_bridge"
  "svc_OAuthServer login_bridge = Some login_server" "osc_Enabled login_server"
  "osc_Signing login_server = Some login_signing"
proof -
  have d: "applyOAuthServerDefaults login_server = login_server"
    by (simp add: applyOAuthServerDefaults_def login_server_def login_signing_def or_zero_def or_empty_def
        defaults_idempotent)
  show "osc_Enabled login_server" "osc_Signing login_server = Some login_signing" by (simp_all add: login_server_def)
  then show "svc_OAuthServer login_bridge = Some login_server"
    by (simp add: login_bridge_def applyServerDefaults_def d)
  show "cf_Mode login_config = ''server''" "cf_Server login_config = Some login_bridge"
    by (simp_all add: login_config_def applyDefaults_def login_bridge_def side_defaults_idempotent)
qed

lemma login_loads: "Load (\<lambda>_. Some []) (\<lambda>text. Some login_config) all_there [] = Inr login_config"
proof -
  have "url_Parse ''/a'' \<noteq> None" "url_Parse ''/cb'' \<noteq> None" by code_simp+
  then have "validateOAuthServer all_there login_server = None"
    by (simp add: validateOAuthServer_def login_server_def bad_url_def when_set_def validateSigning_def
        login_signing_def validateBuiltInAuth_def applyLoginBrandingDefaults_def Let_def env_unset_def
        sys_getenv_def all_there_def validateCSSColor_def css_color_def is_digit_def or_empty_def)
  moreover have "svc_TLS login_bridge = None" "svc_CORS login_bridge = None" "svc_Auth login_bridge = None"
    "svc_Listen login_bridge = '':8080''" "mcc_Command (svc_MCPServer login_bridge) = ''srv''"
    by (simp_all add: login_bridge_def applyServerDefaults_def or_empty_def)
  moreover have "trim_space ''srv'' \<noteq> []" by code_simp
  ultimately have "validateServer all_there login_bridge = None"
    by (simp add: validateServer_def when_set_def validateMCPServer_def login_config_server)
  then have "Validate all_there login_config = None"
    using login_config_server by (simp add: Validate_def)
  moreover have "applyDefaults login_config = login_config"
    by (simp add: login_config_def applyDefaults_idempotent)
  moreover have "expandEnvVars (sys_env all_there) [] = []" by simp
  ultimately show ?thesis by (simp add: Load_def)
qed


end
