(* ===== verification/Tls.thy ===== *)
theory Tls
  imports Config
begin

text \<open>
  The TLS settings made from the configuration (\<open>internal/tls\<close>).  Reading certificates and keys is
  left to functions that say whether it works; what a setting means for a client that connects is
  the documented meaning of \<open>crypto/tls\<close>.
\<close>

datatype client_auth =
    NoClientCert
  | RequestClientCert
  | RequireAnyClientCert
  | VerifyClientCertIfGiven
  | RequireAndVerifyClientCert

datatype tls_error =
    TLSConfigNil
  | TLSNotEnabled
  | LoadingCertificate string
  | ReadingCA string
  | ParsingCA string
  | UnsupportedClientAuth string
  | UnsupportedVersion string
  | CertWithoutKey

text \<open>Certificate files: a pair that loads, and a CA file that cannot be read, not be parsed, or loads.\<close>

datatype ca_outcome = CAUnreadable | CAGarbage | CALoaded

record cert_files =
  kf_pair :: "string \<Rightarrow> string \<Rightarrow> bool"
  kf_ca :: "string \<Rightarrow> ca_outcome"

definition ParseTLSVersion :: "string \<Rightarrow> tls_error + nat" where
  "ParseTLSVersion v =
     (if v = [] then Inr 0
      else if v = ''1.2'' then Inr 0x303
      else if v = ''1.3'' then Inr 0x304
      else Inl (UnsupportedVersion v))"

definition LoadCertificate :: "cert_files \<Rightarrow> string \<Rightarrow> string \<Rightarrow> tls_error + (string \<times> string)" where
  "LoadCertificate fs cert key = (if kf_pair fs cert key then Inr (cert, key) else Inl (LoadingCertificate cert))"

definition LoadCACertPool :: "cert_files \<Rightarrow> string \<Rightarrow> tls_error + string" where
  "LoadCACertPool fs ca =
     (case kf_ca fs ca of
        CAUnreadable \<Rightarrow> Inl (ReadingCA ca)
      | CAGarbage \<Rightarrow> Inl (ParsingCA ca)
      | CALoaded \<Rightarrow> Inr ca)"

definition ParseClientAuthType :: "string \<Rightarrow> tls_error + client_auth" where
  "ParseClientAuthType a =
     (if a = [] \<or> a = ''none'' then Inr NoClientCert
      else if a = ''request'' then Inr RequestClientCert
      else if a = ''require'' then Inr RequireAnyClientCert
      else if a = ''verify'' then Inr VerifyClientCertIfGiven
      else if a = ''require_and_verify'' then Inr RequireAndVerifyClientCert
      else Inl (UnsupportedClientAuth a))"

record server_tls =
  stc_Certificate :: "string \<times> string"
  stc_ClientCAs :: "string option"
  stc_ClientAuth :: client_auth
  stc_MinVersion :: nat
  stc_MaxVersion :: nat

definition NewServerTLSConfig :: "cert_files \<Rightarrow> tls_config option \<Rightarrow> tls_error + server_tls" where
  "NewServerTLSConfig fs cfg =
     (case cfg of
        None \<Rightarrow> Inl TLSConfigNil
      | Some t \<Rightarrow>
          if \<not> tlc_Enabled t then Inl TLSNotEnabled
          else case LoadCertificate fs (tlc_CertFile t) (tlc_KeyFile t) of
            Inl e \<Rightarrow> Inl e
          | Inr cert \<Rightarrow>
             (case (if tlc_ClientCA t = [] then Inr None
                    else case LoadCACertPool fs (tlc_ClientCA t) of Inl e \<Rightarrow> Inl e | Inr p \<Rightarrow> Inr (Some p)) of
                Inl e \<Rightarrow> Inl e
              | Inr pool \<Rightarrow>
                 (case ParseClientAuthType (tlc_ClientAuth t) of
                    Inl e \<Rightarrow> Inl e
                  | Inr auth \<Rightarrow>
                     (case (if tlc_MinVersion t = [] then Inr 0x303 else ParseTLSVersion (tlc_MinVersion t)) of
                        Inl e \<Rightarrow> Inl e
                      | Inr lo \<Rightarrow>
                         (case ParseTLSVersion (tlc_MaxVersion t) of
                            Inl e \<Rightarrow> Inl e
                          | Inr hi \<Rightarrow>
                              Inr \<lparr>stc_Certificate = cert, stc_ClientCAs = pool, stc_ClientAuth = auth,
                                stc_MinVersion = lo, stc_MaxVersion = hi\<rparr>)))))"

record client_tls =
  ctc_RootCAs :: "string option"
  ctc_Certificate :: "(string \<times> string) option"
  ctc_InsecureSkipVerify :: bool
  ctc_ServerName :: string

text \<open>\<open>RootCAs\<close> is \<open>None\<close> for the pool of the system; the minimal version is 1.2 in any case.\<close>

definition NewClientTLSConfig :: "cert_files \<Rightarrow> tls_client_config option \<Rightarrow> tls_error + client_tls" where
  "NewClientTLSConfig fs cfg =
     (case cfg of
        None \<Rightarrow> Inr \<lparr>ctc_RootCAs = None, ctc_Certificate = None, ctc_InsecureSkipVerify = False, ctc_ServerName = []\<rparr>
      | Some t \<Rightarrow>
         (case (if tcc_CACert t = [] then Inr None
                else case LoadCACertPool fs (tcc_CACert t) of Inl e \<Rightarrow> Inl e | Inr p \<Rightarrow> Inr (Some p)) of
            Inl e \<Rightarrow> Inl e
          | Inr pool \<Rightarrow>
             (case (if tcc_CertFile t \<noteq> [] \<and> tcc_KeyFile t \<noteq> [] then
                      (case LoadCertificate fs (tcc_CertFile t) (tcc_KeyFile t) of Inl e \<Rightarrow> Inl e | Inr c \<Rightarrow> Inr (Some c))
                    else if tcc_CertFile t \<noteq> [] \<or> tcc_KeyFile t \<noteq> [] then Inl CertWithoutKey
                    else Inr None) of
                Inl e \<Rightarrow> Inl e
              | Inr cert \<Rightarrow>
                  Inr \<lparr>ctc_RootCAs = pool, ctc_Certificate = cert, ctc_InsecureSkipVerify = tcc_InsecureSkipVerify t,
                    ctc_ServerName = tcc_ServerName t\<rparr>)))"

text \<open>
  What \<open>crypto/tls\<close> does with the certificate of a client: \<open>None\<close>, it presents none; \<open>Some v\<close>, it
  presents one that verifies against the client CAs or not.
\<close>

fun admits_client :: "client_auth \<Rightarrow> bool option \<Rightarrow> bool" where
  "admits_client NoClientCert c = True"
| "admits_client RequestClientCert c = True"
| "admits_client RequireAnyClientCert c = (c \<noteq> None)"
| "admits_client VerifyClientCertIfGiven c = (c \<noteq> Some False)"
| "admits_client RequireAndVerifyClientCert c = (c = Some True)"

lemma server_tls_auth:
  "NewServerTLSConfig fs (Some t) = Inr c \<Longrightarrow> ParseClientAuthType (tlc_ClientAuth t) = Inr (stc_ClientAuth c)"
  by (auto simp: NewServerTLSConfig_def split: if_splits sum.splits)

text \<open>
  No accepted configuration enforces client certificates.  Whatever \<open>client_auth\<close> passes
  validation, \<open>verify\<close> (documented as requiring and verifying a certificate, full mTLS) included, the
  server that results admits a client without a certificate, and with \<open>require\<close> a client with
  any certificate at all; the one setting that would demand a verified certificate
  (\<open>require_and_verify\<close>) is refused by validation.
\<close>

theorem client_certificates_optional:
  assumes "validateTLS sys t = None" and "NewServerTLSConfig fs (Some t) = Inr c"
  shows "admits_client (stc_ClientAuth c) (if tlc_ClientAuth t = ''require'' then Some False else None) \<and>
    (validateTLS sys (t\<lparr>tlc_ClientAuth := ''require_and_verify''\<rparr>) =
       Some (Problem (''invalid client_auth: '' @ ''require_and_verify'')))"
proof -
  have "tlc_ClientAuth t \<in> {[], ''none'', ''request'', ''require'', ''verify''}"
    using assms(1) by (auto simp: validateTLS_def split: if_splits)
  then have "admits_client (stc_ClientAuth c) (if tlc_ClientAuth t = ''require'' then Some False else None)"
    using server_tls_auth [OF assms(2)] by (auto simp: ParseClientAuthType_def)
  moreover have "validateTLS sys (t\<lparr>tlc_ClientAuth := ''require_and_verify''\<rparr>) =
      Some (Problem (''invalid client_auth: '' @ ''require_and_verify''))"
    using assms(1) by (auto simp: validateTLS_def no_such_file_def split: if_splits)
  ultimately show ?thesis by simp
qed

definition mtls_example :: tls_config where
  "mtls_example =
     \<lparr>tlc_Enabled = True, tlc_CertFile = ''server.crt'', tlc_KeyFile = ''server.key'', tlc_ClientCA = ''ca.crt'',
      tlc_ClientAuth = ''verify'', tlc_MinVersion = ''1.2'', tlc_MaxVersion = []\<rparr>"

theorem client_certificates_optional_witness:
  "admits_client
     (case NewServerTLSConfig \<lparr>kf_pair = \<lambda>_ _. True, kf_ca = \<lambda>_. CALoaded\<rparr> (Some mtls_example) of
        Inr c \<Rightarrow> stc_ClientAuth c | Inl e \<Rightarrow> RequireAndVerifyClientCert) None"
proof -
  obtain c where c: "NewServerTLSConfig \<lparr>kf_pair = \<lambda>_ _. True, kf_ca = \<lambda>_. CALoaded\<rparr> (Some mtls_example) = Inr c"
    by (simp add: NewServerTLSConfig_def mtls_example_def LoadCertificate_def LoadCACertPool_def
        ParseClientAuthType_def ParseTLSVersion_def)
  have "validateTLS \<lparr>sys_exists = \<lambda>_. True, sys_env = \<lambda>_. None\<rparr> mtls_example = None"
    by (simp add: validateTLS_def mtls_example_def no_such_file_def)
  then show ?thesis
    using client_certificates_optional [OF _ c] unfolding c by (simp add: mtls_example_def)
qed

end
