(* ===== verification/Auth_Middleware.thy ===== *)
theory Auth_Middleware
  imports Auth_Requests
begin

text \<open>
  The middleware of the server (\<open>internal/auth/middleware.go\<close>, \<open>auth.go\<close>) over any authenticator: a
  locale states what it relies on, that an accepted request carried a bearer token the
  authenticator grants, and both authenticators are shown to provide it.
\<close>

section \<open>The middleware\<close>

record refusal =
  rf_status :: int
  rf_www :: "string option"
  rf_body :: string

definition json_error :: "string \<Rightarrow> string" where
  "json_error msg = CHR ''{'' # [quote_char] @ ''error'' @ [quote_char] @ '':'' @ [quote_char] @ msg @ [quote_char] @ ''}''"

record auth_middleware =
  am_realm :: string
  am_skipPaths :: "string list"

definition handleUnauthorized :: "auth_middleware \<Rightarrow> auth_err \<Rightarrow> refusal" where
  "handleUnauthorized m err =
     (let (status, www) =
        (case as_AuthError err of
           Some (e, realm, scheme) \<Rightarrow> (if errors_Is e ErrForbidden then 403 else 401, WWWAuthenticate realm scheme)
         | None \<Rightarrow> (if errors_Is err ErrForbidden then 403 else 401, ''Bearer''));
          msg = (if errors_Is err ErrInvalidToken then ''invalid token''
                 else if errors_Is err ErrTokenExpired then ''token expired''
                 else if errors_Is err ErrForbidden then ''access forbidden''
                 else ''authentication required'')
      in \<lparr>rf_status = status,
          rf_www = (if status = 401
                    then Some (if am_realm m \<noteq> [] \<and> www = ''Bearer''
                               then ''Bearer realm='' @ [quote_char] @ am_realm m @ [quote_char] else www)
                    else None),
          rf_body = json_error msg\<rparr>)"

text \<open>
  A request as the middleware sees it: path and \<open>Authorization\<close> header.  The handler behind it gets
  the principal, \<open>None\<close> on a path that is skipped; a custom handler of failures is not in use.
\<close>

definition Wrap ::
  "(string \<Rightarrow> auth_err + principal) \<Rightarrow> auth_middleware \<Rightarrow> (refusal \<Rightarrow> 'a) \<Rightarrow> string \<Rightarrow> string \<Rightarrow>
    (principal option \<Rightarrow> 'a) \<Rightarrow> 'a" where
  "Wrap validate m refuse path header next =
     (if path \<in> set (am_skipPaths m) then next None
      else case validate header of
        Inl err \<Rightarrow> refuse (handleUnauthorized m err)
      | Inr p \<Rightarrow> next (Some p))"

definition no_principal :: refusal where
  "no_principal = \<lparr>rf_status = 401, rf_www = None, rf_body = json_error ''authentication required'' @ [LF]\<rparr>"

definition require :: "(principal \<Rightarrow> bool) \<Rightarrow> string \<Rightarrow> (refusal \<Rightarrow> 'a) \<Rightarrow> (principal option \<Rightarrow> 'a) \<Rightarrow> principal option \<Rightarrow> 'a" where
  "require ok msg refuse next p =
     (case p of
        None \<Rightarrow> refuse no_principal
      | Some q \<Rightarrow> if \<not> ok q then refuse \<lparr>rf_status = 403, rf_www = None, rf_body = json_error msg\<rparr> else next p)"

definition RequireScopes :: "string list \<Rightarrow> (refusal \<Rightarrow> 'a) \<Rightarrow> (principal option \<Rightarrow> 'a) \<Rightarrow> principal option \<Rightarrow> 'a" where
  "RequireScopes scopes = require (\<lambda>q. HasAllScopes q scopes) ''insufficient scopes''"

definition RequireAnyScope :: "string list \<Rightarrow> (refusal \<Rightarrow> 'a) \<Rightarrow> (principal option \<Rightarrow> 'a) \<Rightarrow> principal option \<Rightarrow> 'a" where
  "RequireAnyScope scopes = require (\<lambda>q. HasAnyScope q scopes) ''insufficient scopes''"

definition RequirePrincipalType ::
  "principal_type \<Rightarrow> (refusal \<Rightarrow> 'a) \<Rightarrow> (principal option \<Rightarrow> 'a) \<Rightarrow> principal option \<Rightarrow> 'a" where
  "RequirePrincipalType t = require (\<lambda>q. pr_Type q = t) ''invalid principal type''"

definition Chain :: "(('r \<Rightarrow> 'a) \<Rightarrow> 'r \<Rightarrow> 'a) list \<Rightarrow> ('r \<Rightarrow> 'a) \<Rightarrow> 'r \<Rightarrow> 'a" where
  "Chain middlewares final = foldr (\<lambda>m h. m h) middlewares final"

definition HealthCheckSkipper :: "string list \<Rightarrow> string \<Rightarrow> bool" where
  "HealthCheckSkipper paths path \<longleftrightarrow> path \<notin> set paths"

definition ConditionalAuth ::
  "(string \<Rightarrow> auth_err + principal) \<Rightarrow> auth_middleware \<Rightarrow> (string \<Rightarrow> bool) \<Rightarrow> (refusal \<Rightarrow> 'a) \<Rightarrow> string \<Rightarrow> string \<Rightarrow>
    (principal option \<Rightarrow> 'a) \<Rightarrow> 'a" where
  "ConditionalAuth validate m condition refuse path header next =
     (if condition path then Wrap validate m refuse path header next else next None)"

definition RequirePrincipal :: "principal option \<Rightarrow> auth_err + principal" where
  "RequirePrincipal p = (case p of None \<Rightarrow> Inl (Sentinel ErrUnauthorized) | Some q \<Rightarrow> Inr q)"

section \<open>What an authenticator promises\<close>

text \<open>The token a header carries.\<close>

definition carries :: "string \<Rightarrow> string \<Rightarrow> bool" where
  "carries header token \<longleftrightarrow> extractBearerToken header = Inr token"

text \<open>
  An authenticator in server mode, \<open>grants\<close> being the tokens it takes and for whom: it accepts exactly
  the headers that carry such a token, and it tells a missing token from a bad one.
\<close>

locale authenticator =
  fixes validate :: "string \<Rightarrow> auth_err + principal"
    and grants :: "string \<Rightarrow> principal \<Rightarrow> bool"
  assumes accepts: "carries header token \<Longrightarrow> (validate header = Inr p) = grants token p"
    and refuses: "extractBearerToken header = Inl err \<Longrightarrow> validate header = Inl err"
begin

lemma accepted_iff: "validate header = Inr p \<longleftrightarrow> (\<exists>token. carries header token \<and> grants token p)"
proof (cases "extractBearerToken header")
  case (Inl err)
  then show ?thesis using refuses by (simp add: carries_def)
next
  case (Inr token)
  then show ?thesis using accepts [of header token p] by (auto simp: carries_def)
qed

text \<open>The handler behind the middleware runs for a granted token or on a skipped path, and only then.\<close>

lemma wrapped:
  "Wrap validate m Inl path header (\<lambda>p. Inr p) = Inr q \<longleftrightarrow>
     (if path \<in> set (am_skipPaths m) then q = None
      else \<exists>token p. carries header token \<and> grants token p \<and> q = Some p)"
proof (cases "validate header")
  case (Inl err)
  then show ?thesis using accepted_iff [of header] by (auto simp: Wrap_def)
next
  case (Inr p)
  have "p' = p" if "carries header token" "grants token p'" for token p'
    using that accepted_iff [of header p'] Inr by auto
  then show ?thesis using Inr accepted_iff [of header p] by (auto simp: Wrap_def)
qed

lemma no_header_refused:
  assumes "path \<notin> set (am_skipPaths m)"
  shows "Wrap validate m Inl path [] (\<lambda>p. Inr p) =
    Inl \<lparr>rf_status = 401, rf_www = Some (''Bearer realm='' @ [quote_char] @ ''MCP Bridge'' @ [quote_char]),
      rf_body = json_error ''authentication required''\<rparr>"
proof -
  have "validate [] = Inl (bearer_error ErrMissingCredentials ''missing Authorization header'')"
    by (rule refuses) (simp add: extractBearerToken_def)
  then show ?thesis
    using assms
    by (simp add: Wrap_def handleUnauthorized_def bearer_error_def NewAuthError_def WWWAuthenticate_def quote_char_def)
qed

end

section \<open>Both authenticators provide it\<close>

text \<open>What the bearer authenticator grants: its own tokens, and those its endpoint reports as valid.\<close>

definition bearer_grants :: "(string \<Rightarrow> call_outcome) \<Rightarrow> bearer_auth \<Rightarrow> string \<Rightarrow> principal \<Rightarrow> bool" where
  "bearer_grants endpoint ba token p \<longleftrightarrow>
     ba_isServer ba \<and>
     (if token \<in> set (ba_validTokens ba) then p = createPrincipal None
      else ba_validationEndpoint ba \<noteq> [] \<and>
        (\<exists>body r. endpoint token = Reply 200 (Some body) \<and> parse_validation (body_1MB body) = Some r \<and>
           vr_Valid r \<and> p = createPrincipal (Some r)))"

lemma validateTokenRemotely_Inr:
  "validateTokenRemotely endpoint token = Inr p \<longleftrightarrow>
     (\<exists>body r. endpoint token = Reply 200 (Some body) \<and> parse_validation (body_1MB body) = Some r \<and>
        vr_Valid r \<and> p = createPrincipal (Some r))"
  by (auto simp: validateTokenRemotely_def split: call_outcome.splits option.splits)

lemma validateTokenLocally_iff: "validateTokenLocally token tokens \<longleftrightarrow> token \<in> set tokens"
  by (auto simp: validateTokenLocally_def list_ex_iff)

text \<open>The authenticator a server makes of its configuration.\<close>

definition server_bearer :: "bearer_auth_config \<Rightarrow> bearer_auth" where
  "server_bearer c =
     \<lparr>ba_isServer = True, ba_validTokens = bac_ValidTokens c, ba_validationEndpoint = bac_ValidationEndpoint c,
      ba_token = [], ba_tokenEnv = bac_TokenEnv c\<rparr>"

lemma NewBearerAuthenticator_server:
  "NewBearerAuthenticator getenv (Some c) True = Inr ba \<Longrightarrow> ba = server_bearer c"
  by (auto simp: NewBearerAuthenticator_def server_bearer_def Let_def split: if_splits)

interpretation bearer: authenticator "bearer_Validate endpoint (server_bearer c)" "bearer_grants endpoint (server_bearer c)"
  for endpoint c
proof (unfold_locales, goal_cases)
  case (1 header token p)
  then show ?case
    by (auto simp: carries_def bearer_Validate_def bearer_grants_def validateTokenLocally_iff validateTokenRemotely_Inr
        server_bearer_def)
next
  case (2 header err)
  then show ?case by (simp add: bearer_Validate_def server_bearer_def)
qed

text \<open>What the OAuth authenticator grants: signed tokens that verify, else what is reported active.\<close>

definition oauth_grants ::
  "(string \<Rightarrow> id_token option) \<Rightarrow> (string \<Rightarrow> call_outcome) \<Rightarrow> oauth_auth \<Rightarrow> string \<Rightarrow> principal \<Rightarrow> bool" where
  "oauth_grants verify introspect oa token p \<longleftrightarrow>
     oa_isServer oa \<and>
     (case (if oa_has_verifier oa then validateJWT verify token else Inl (OtherError [])) of
        Inr q \<Rightarrow> p = q
      | Inl e \<Rightarrow> oac_IntrospectionURL (oa_config oa) \<noteq> [] \<and>
          (\<exists>body r ms. introspect token = Reply 200 (Some body) \<and> parse_introspection (body_1MB body) = Some r \<and>
             parse_claims (body_1MB body) = Some ms \<and> is_Active r \<and> p = introspected r ms))"

lemma validateByIntrospection_Inr:
  "validateByIntrospection introspect token = Inr p \<longleftrightarrow>
     (\<exists>body r ms. introspect token = Reply 200 (Some body) \<and> parse_introspection (body_1MB body) = Some r \<and>
        parse_claims (body_1MB body) = Some ms \<and> is_Active r \<and> p = introspected r ms)"
  by (auto simp: validateByIntrospection_def split: call_outcome.splits option.splits)

text \<open>The authenticator a server makes of its configuration, when its provider is found.\<close>

definition server_oauth :: "oauth_auth_config \<Rightarrow> oauth_auth" where
  "server_oauth c =
     (new_oauth_auth True c)\<lparr>oa_has_verifier := (oac_DiscoveryURL c \<noteq> [] \<or> oac_JWKSURL c \<noteq> [])\<rparr>"

lemma setupServerMode_server: "setupServerMode provider (new_oauth_auth True c) = Inr oa \<Longrightarrow> oa = server_oauth c"
  by (auto simp: setupServerMode_def server_oauth_def new_oauth_auth_def split: if_splits)

interpretation oauth: authenticator "oauth_Validate verify introspect (server_oauth c)"
    "oauth_grants verify introspect (server_oauth c)"
  for verify introspect c
proof (unfold_locales, goal_cases)
  case (1 header token p)
  then show ?case
    by (auto simp: carries_def oauth_Validate_def oauth_grants_def validateByIntrospection_Inr Let_def
        server_oauth_def new_oauth_auth_def split: sum.splits)
next
  case (2 header err)
  then show ?case by (simp add: oauth_Validate_def server_oauth_def new_oauth_auth_def)
qed

end
