(* ===== verification/Http_Routes.thy ===== *)
theory Http_Routes
  imports Mcp_Handler Oauth_Setup Tls Auth_Middleware
begin

text \<open>
  The HTTP server as a function of requests (\<open>internal/server/server.go\<close>, \<open>internal/cors/cors.go\<close>): the
  routes of Go's multiplexer, the middleware chain of authentication and CORS around them, and the
  construction of the server from its configuration.  The theorems say what authentication protects,
  whatever path is asked for and however it is encoded.
\<close>

section \<open>Requests\<close>

text \<open>
  A request as net/http hands it to a handler: the parsed target, the header fields (empty when
  absent) and what \<open>ParseForm\<close> makes of query and body.
\<close>

record web_request =
  wr_method :: string
  wr_url :: url
  wr_header :: "string \<Rightarrow> string"
  wr_query :: params
  wr_form :: "params option"
  wr_body :: "string option"
  wr_remote :: string

text \<open>What an exchange gets from outside: the inputs of the endpoints, and the services authentication calls.\<close>

record web_env =
  we_now :: instant
  we_sessionID :: "char list option list"
  we_forward :: forward_outcome
  we_flusher :: bool
  we_write :: "nat option"
  we_login :: federated_env
  we_clientID :: "char list"
  we_clientSecret :: "char list"
  we_bcrypt :: "string \<Rightarrow> string \<Rightarrow> bool"
  we_sign :: "access_claims \<Rightarrow> string option"
  we_services :: auth_services

section \<open>The multiplexer\<close>

text \<open>\<open>path.Clean\<close> on the elements of a rooted path: dots disappear, a double dot takes the last element.\<close>

definition clean_element :: "string list \<Rightarrow> string \<Rightarrow> string list" where
  "clean_element acc s =
     (if s = [] \<or> s = ''.'' then acc
      else if s = ''..'' then butlast acc
      else acc @ [s])"

definition path_Clean :: "string \<Rightarrow> string" where
  "path_Clean p =
     (let es = foldl clean_element [] (split_on CHR ''/'' p)
      in if es = [] then ''/'' else concat (map (\<lambda>s. CHR ''/'' # s) es))"

text \<open>\<open>cleanPath\<close>: rooted, cleaned, with its final slash kept.\<close>

definition cleanPath :: "string \<Rightarrow> string" where
  "cleanPath p =
     (if p = [] then ''/''
      else let p = (if hd p = CHR ''/'' then p else CHR ''/'' # p); np = path_Clean p
           in if last p = CHR ''/'' \<and> np \<noteq> ''/'' then np @ ''/'' else np)"

text \<open>
  The elements a path is matched by, each decoded (or left alone when it does not decode); a final
  slash is an element of its own.
\<close>

function path_segments :: "string \<Rightarrow> string list" where
  "path_segments [] = []"
| "path_segments (c # p) =
     (if p = [] then [''/'']
      else let seg = takeWhile (\<lambda>x. x \<noteq> CHR ''/'') p
           in (case url_unescape encodePath seg of None \<Rightarrow> seg | Some t \<Rightarrow> t) #
              path_segments (dropWhile (\<lambda>x. x \<noteq> CHR ''/'') p))"
  by pat_completeness auto
termination
proof (relation "measure length", simp)
  fix c :: char and p seg :: string
  have "length (dropWhile (\<lambda>x. x \<noteq> CHR ''/'') p) \<le> length p" by (rule length_dropWhile_le)
  then show "(dropWhile (\<lambda>x. x \<noteq> CHR ''/'') p, c # p) \<in> measure length" by simp
qed

declare path_segments.simps [simp del]

datatype endpoint = McpEndpoint | HealthEndpoint | ReadyEndpoint | OAuthEndpoint string

text \<open>The paths \<open>RegisterRoutes\<close> adds, by mode.\<close>

definition oauth_paths :: "authorization_server \<Rightarrow> string list" where
  "oauth_paths az =
     [''/.well-known/oauth-protected-resource'', ''/.well-known/oauth-authorization-server'', ''/oauth/jwks'',
      ''/oauth/authorize''] @
     (case az_mode az of FederatedLogin _ _ \<Rightarrow> [''/oauth/callback''] | _ \<Rightarrow> []) @ [''/oauth/token''] @
     (if oc_AllowDynamicRegistration (az_config az) then [''/oauth/register'', ''/register''] else [])"

text \<open>\<open>buildRouter\<close>, as the choice of an endpoint by path; every route tells methods apart itself.\<close>

definition route :: "authorization_server option \<Rightarrow> string \<Rightarrow> endpoint option" where
  "route az path =
     (let segs = path_segments path
      in if segs = [''mcp''] \<or> segs = [''/''] then Some McpEndpoint
         else if segs = [''health''] then Some HealthEndpoint
         else if segs = [''ready''] then Some ReadyEndpoint
         else case az of
           None \<Rightarrow> None
         | Some a \<Rightarrow> map_option OAuthEndpoint (find (\<lambda>p. path_segments p = segs) (oauth_paths a)))"

section \<open>CORS\<close>

record cors_options =
  co_AllowedOrigins :: "string list"
  co_AllowedMethods :: "string list"
  co_AllowedHeaders :: "string list"
  co_ExposedHeaders :: "string list"
  co_AllowCredentials :: bool
  co_MaxAge :: int

text \<open>\<open>NewHandler\<close>: \<open>None\<close> is the handler that passes everything through.\<close>

definition cors_NewHandler :: "cors_config option \<Rightarrow> cors_options option" where
  "cors_NewHandler cfg =
     (case cfg of
        None \<Rightarrow> None
      | Some c \<Rightarrow>
          if \<not> crc_Enabled c then None
          else Some
            \<lparr>co_AllowedOrigins = crc_AllowedOrigins c,
             co_AllowedMethods = (if crc_AllowedMethods c = []
                then [''GET'', ''POST'', ''PUT'', ''DELETE'', ''OPTIONS''] else crc_AllowedMethods c),
             co_AllowedHeaders = (if crc_AllowedHeaders c = []
                then [''Accept'', ''Authorization'', ''Content-Type'', ''X-Requested-With''] else crc_AllowedHeaders c),
             co_ExposedHeaders = crc_ExposedHeaders c, co_AllowCredentials = crc_AllowCredentials c,
             co_MaxAge = crc_MaxAge c\<rparr>)"

text \<open>
  The CORS library, by its options: the header fields it sets on the response to a request, and
  whether it answers the request itself, as a preflight.
\<close>

type_synonym cors_library = "cors_options \<Rightarrow> web_request \<Rightarrow> (string \<times> string) list \<times> bool"

section \<open>The server\<close>

text \<open>The running authorization server, in the state of its mode.\<close>

datatype login_state = BuiltInState oauth_server | FederatedState federated_server

definition login_start :: "authorization_server \<Rightarrow> login_state" where
  "login_start az =
     (case az_mode az of
        BuiltInLogin _ _ _ \<Rightarrow> BuiltInState new_oauth_server
      | FederatedLogin _ client \<Rightarrow> FederatedState (new_federated_server client))"

record http_server =
  hs_cfg :: server_config
  hs_handler :: handler
  hs_tls :: "server_tls option"
  hs_cors :: "cors_options option"
  hs_oauth :: "(authorization_server \<times> login_state) option"
  hs_auth :: auth_kind
  hs_middleware :: "auth_middleware option"
  hs_running :: bool
  hs_listening :: bool

text \<open>What is answered, apart from the header fields of CORS.\<close>

datatype web_answer =
    Refusal refusal
  | Preflight
  | Mcp "http_answer + waiting + sse_conn option"
  | Login federated_answer
  | Plain nat string
  | Moved string

record web_reply =
  wy_cors :: "(string \<times> string) list"
  wy_answer :: web_answer

section \<open>Endpoints\<close>

definition json_pair :: "string \<Rightarrow> string \<Rightarrow> string" where
  "json_pair k v = [quote_char] @ k @ [quote_char] @ '':'' @ v"

definition json_quoted :: "string \<Rightarrow> string" where
  "json_quoted s = [quote_char] @ s @ [quote_char]"

definition handleHealth :: "http_server \<Rightarrow> web_answer" where
  "handleHealth s =
     Plain 200 (CHR ''{'' #
       json_pair ''active_sessions'' (show_nat (SessionCount (h_sm (hs_handler s)))) @ '','' @
       json_pair ''max_sessions'' (show_int (MaxSessions (h_sm (hs_handler s)))) @ '','' @
       json_pair ''status'' (json_quoted ''healthy'') @ ''}'' @ [LF])"

definition handleReady :: "http_server \<Rightarrow> web_answer" where
  "handleReady s =
     (let not_ready = (\<lambda>why. Plain 503 (CHR ''{'' # json_pair ''status'' (json_quoted ''not_ready'') @ '','' @
                                json_pair ''reason'' (json_quoted why) @ ''}''))
      in if \<not> Running (h_pm (hs_handler s)) then not_ready ''mcp_subprocess_not_running''
         else if \<not> hs_running s then not_ready ''server_not_running''
         else Plain 200 (CHR ''{'' # json_pair ''status'' (json_quoted ''ready'') @ ''}''))"

definition mcp_request :: "web_request \<Rightarrow> http_request" where
  "mcp_request r =
     \<lparr>hr_method = (if wr_method r = ''POST'' then POST else if wr_method r = ''GET'' then GET
                   else if wr_method r = ''DELETE'' then DELETE else OtherMethod),
      hr_content_type = wr_header r ''Content-Type'', hr_accept = wr_header r ''Accept'',
      hr_session = wr_header r ''Mcp-Session-Id'', hr_body = wr_body r\<rparr>"

text \<open>The three routes of the MCP endpoint; the route of GET also takes HEAD.\<close>

definition mcp_endpoint :: "web_env \<Rightarrow> web_request \<Rightarrow> http_server \<Rightarrow> web_answer \<times> http_server" where
  "mcp_endpoint env r s =
     (let q = mcp_request r; h = hs_handler s
      in if wr_method r = ''POST'' then
           (case HandlePost (we_sessionID env) (we_now env) (we_forward env) q h of
              (Inl ans, h') \<Rightarrow> (Mcp (Inl ans), s\<lparr>hs_handler := h'\<rparr>)
            | (Inr w, h') \<Rightarrow> (Mcp (Inr (Inl w)), s\<lparr>hs_handler := h'\<rparr>))
         else if wr_method r = ''GET'' \<or> wr_method r = ''HEAD'' then
           (case HandleSSE_begin (we_flusher env) (we_write env) q h of
              (Inl ans, h') \<Rightarrow> (Mcp (Inl ans), s\<lparr>hs_handler := h'\<rparr>)
            | (Inr c, h') \<Rightarrow> (Mcp (Inr (Inr c)), s\<lparr>hs_handler := h'\<rparr>))
         else if wr_method r = ''DELETE'' then
           (case HandleSessionClose (we_write env) q h of (ans, h') \<Rightarrow> (Mcp (Inl ans), s\<lparr>hs_handler := h'\<rparr>))
         else (Plain 405 (''Method Not Allowed'' @ [LF]), s))"

text \<open>
  An endpoint of the authorization server: HEAD goes where GET goes, and there only the login
  endpoints look at the method again.
\<close>

definition login_http :: "string \<Rightarrow> web_request \<Rightarrow> oauth_http" where
  "login_http path r =
     \<lparr>oh_path = path,
      oh_method = (if wr_method r = ''GET'' \<or> wr_method r = ''HEAD'' then MGet
                   else if wr_method r = ''POST'' then MPost else MOther),
      oh_query = wr_query r, oh_form = wr_form r,
      oh_body = (case wr_body r of None \<Rightarrow> [] | Some b \<Rightarrow> b), oh_remote = wr_remote r\<rparr>"

definition login_serve ::
  "web_env \<Rightarrow> authorization_server \<Rightarrow> oauth_http \<Rightarrow> login_state \<Rightarrow> federated_answer \<times> login_state" where
  "login_serve env az q st =
     (case (az_mode az, st) of
        (BuiltInLogin users _ _, BuiltInState sv) \<Rightarrow>
          (case oauth_mux (az_config az) (Authenticate (we_bcrypt env) users) (we_sign env) (fe_exchange (we_login env))
                  (we_clientID env) (we_clientSecret env) q sv of
             (a, sv') \<Rightarrow> (Answer a, BuiltInState sv'))
      | (FederatedLogin fcfg _, FederatedState sv) \<Rightarrow>
          (case federated_mux (az_config az) fcfg (we_sign env) (we_login env) (we_clientID env) (we_clientSecret env) q sv of
             (a, sv') \<Rightarrow> (a, FederatedState sv'))
      | _ \<Rightarrow> (Answer NotRouted, st))"

definition login_endpoint :: "web_env \<Rightarrow> string \<Rightarrow> web_request \<Rightarrow> http_server \<Rightarrow> web_answer \<times> http_server" where
  "login_endpoint env path r s =
     (case hs_oauth s of
        None \<Rightarrow> (Plain 404 (''404 page not found'' @ [LF]), s)
      | Some (az, st) \<Rightarrow>
          if wr_method r = ''HEAD'' \<and> (path = ''/oauth/authorize'' \<or> path = ''/oauth/callback'')
          then (Login (FAnswer (PlainError 405 ''Method not allowed'')), s)
          else (case login_serve env az (login_http path r) st of
                  (a, st') \<Rightarrow> (Login a, s\<lparr>hs_oauth := Some (az, st')\<rparr>)))"

definition get_only :: "web_request \<Rightarrow> web_answer \<Rightarrow> web_answer" where
  "get_only r a =
     (if wr_method r = ''GET'' \<or> wr_method r = ''HEAD'' then a else Plain 405 (''Method Not Allowed'' @ [LF]))"

fun serve_endpoint :: "web_env \<Rightarrow> web_request \<Rightarrow> http_server \<Rightarrow> endpoint \<Rightarrow> web_answer \<times> http_server" where
  "serve_endpoint env r s McpEndpoint = mcp_endpoint env r s"
| "serve_endpoint env r s HealthEndpoint = (get_only r (handleHealth s), s)"
| "serve_endpoint env r s ReadyEndpoint = (get_only r (handleReady s), s)"
| "serve_endpoint env r s (OAuthEndpoint path) = login_endpoint env path r s"

text \<open>
  The multiplexer: a path that is not clean is redirected to the clean one, except for CONNECT; the
  asterisk is no path.
\<close>

definition mux_serve :: "web_env \<Rightarrow> web_request \<Rightarrow> http_server \<Rightarrow> web_answer \<times> http_server" where
  "mux_serve env r s =
     (let esc = EscapedPath (wr_url r);
          path = (if wr_method r = ''CONNECT'' then esc else cleanPath esc)
      in if esc = ''*'' then (Plain 400 [], s)
         else if path \<noteq> esc then
           (Moved (escape encodePath path @ (if u_RawQuery (wr_url r) = [] then [] else CHR ''?'' # u_RawQuery (wr_url r))), s)
         else case route (map_option fst (hs_oauth s)) path of
           None \<Rightarrow> (Plain 404 (''404 page not found'' @ [LF]), s)
         | Some e \<Rightarrow> serve_endpoint env r s e)"

text \<open>\<open>corsHandler.Wrap(mux)\<close>, and the chain of the server: authentication outside, CORS inside.\<close>

definition cors_serve :: "cors_library \<Rightarrow> web_env \<Rightarrow> web_request \<Rightarrow> http_server \<Rightarrow> web_reply \<times> http_server" where
  "cors_serve lib env r s =
     (case hs_cors s of
        None \<Rightarrow> (case mux_serve env r s of (a, s') \<Rightarrow> (\<lparr>wy_cors = [], wy_answer = a\<rparr>, s'))
      | Some opts \<Rightarrow>
         (case lib opts r of
            (hdrs, True) \<Rightarrow> (\<lparr>wy_cors = hdrs, wy_answer = Preflight\<rparr>, s)
          | (hdrs, False) \<Rightarrow> (case mux_serve env r s of (a, s') \<Rightarrow> (\<lparr>wy_cors = hdrs, wy_answer = a\<rparr>, s'))))"

definition serve :: "cors_library \<Rightarrow> web_env \<Rightarrow> web_request \<Rightarrow> http_server \<Rightarrow> web_reply \<times> http_server" where
  "serve lib env r s =
     (case hs_middleware s of
        None \<Rightarrow> cors_serve lib env r s
      | Some m \<Rightarrow>
          Wrap (auth_Validate (we_services env) (hs_auth s)) m (\<lambda>rf. (\<lparr>wy_cors = [], wy_answer = Refusal rf\<rparr>, s))
            (u_Path (wr_url r)) (wr_header r ''Authorization'') (\<lambda>_. cors_serve lib env r s))"

section \<open>Construction\<close>

text \<open>
  What construction gets from outside: that of the authorization server, the certificate files, and
  whether a provider of tokens is found at its address.
\<close>

record boot_env =
  be_setup :: setup_env
  be_certs :: cert_files
  be_provider :: "string \<Rightarrow> bool"

datatype boot_error =
    NoServerConfig
  | ConfiguringTLS tls_error
  | ConfiguringOAuth string
  | ConfiguringAuth auth_err
  | BootPanic

definition public_paths :: "bool \<Rightarrow> string list" where
  "public_paths oauth =
     [''/health'', ''/ready''] @
     (if oauth
      then [''/.well-known/oauth-authorization-server'', ''/.well-known/oauth-protected-resource'', ''/oauth/jwks'',
            ''/oauth/authorize'', ''/oauth/callback'', ''/oauth/token'', ''/oauth/register'', ''/register'']
      else [])"

definition process_config :: "mcp_server_config \<Rightarrow> manager_config" where
  "process_config c =
     \<lparr>mc_Command = mcc_Command c, mc_Args = mcc_Args c, mc_Env = mcc_Env c, mc_Dir = mcc_Dir c,
      mc_GracefulShutdownTimeout = mcc_GracefulShutdownTimeout c, mc_RestartOnFailure = mcc_RestartOnFailure c,
      mc_MaxRestarts = mcc_MaxRestarts c, mc_RestartDelay = mcc_RestartDelay c\<rparr>"

definition boot_tls :: "boot_env \<Rightarrow> server_config \<Rightarrow> boot_error + server_tls option" where
  "boot_tls be cfg =
     (case svc_TLS cfg of
        None \<Rightarrow> Inr None
      | Some t \<Rightarrow> if tlc_Enabled t then map_sum ConfiguringTLS Some (NewServerTLSConfig (be_certs be) (Some t)) else Inr None)"

definition boot_oauth :: "boot_env \<Rightarrow> server_config \<Rightarrow> boot_error + authorization_server option" where
  "boot_oauth be cfg =
     (case svc_OAuthServer cfg of
        None \<Rightarrow> Inr None
      | Some c \<Rightarrow>
          if osc_Enabled c then
            (case authserver_New (be_setup be) c of
               Ready az \<Rightarrow> Inr az
             | Refused e \<Rightarrow> Inl (ConfiguringOAuth e)
             | Panicked \<Rightarrow> Inl BootPanic)
          else Inr None)"

text \<open>A server makes no use of the token endpoint and token source that a client authenticates with.\<close>

definition boot_auth :: "boot_env \<Rightarrow> bool \<Rightarrow> server_config \<Rightarrow> boot_error + auth_kind \<times> auth_middleware option" where
  "boot_auth be oauth cfg =
     (case svc_Auth cfg of
        None \<Rightarrow> Inr (NoAuth, None)
      | Some a \<Rightarrow>
          if auc_Type a = [] \<or> auc_Type a = ''none'' then Inr (NoAuth, None)
          else map_sum ConfiguringAuth
            (\<lambda>(k, _). (k, Some \<lparr>am_realm = ''MCP Bridge'', am_skipPaths = public_paths oauth\<rparr>))
            (NewAuthenticator (se_getenv (be_setup be)) (be_provider be) (\<lambda>_. NoReply) (\<lambda>_ u. (Inl [], u)) 0 ()
               (Some a) True))"

definition NewServer :: "boot_env \<Rightarrow> server_config option \<Rightarrow> boot_error + http_server" where
  "NewServer be cfg =
     (case cfg of
        None \<Rightarrow> Inl NoServerConfig
      | Some c \<Rightarrow>
         (case boot_tls be c of
            Inl e \<Rightarrow> Inl e
          | Inr tls \<Rightarrow>
             (case boot_oauth be c of
                Inl e \<Rightarrow> Inl e
              | Inr az \<Rightarrow>
                 (case boot_auth be (az \<noteq> None) c of
                    Inl e \<Rightarrow> Inl e
                  | Inr (k, m) \<Rightarrow> Inr
                     \<lparr>hs_cfg = c,
                      hs_handler = NewMCPHandler (NewManager (process_config (svc_MCPServer c)))
                        (NewSessionManager (svc_Session c)) (mcc_ReadTimeout (svc_MCPServer c))
                        (svc_SSEKeepaliveInterval c),
                      hs_tls = tls, hs_cors = cors_NewHandler (svc_CORS c),
                      hs_oauth = map_option (\<lambda>a. (a, login_start a)) az, hs_auth = k, hs_middleware = m,
                      hs_running = False, hs_listening = False\<rparr>))))"

text \<open>What requests never change.\<close>

definition same_setup :: "http_server \<Rightarrow> http_server \<Rightarrow> bool" where
  "same_setup s0 s \<longleftrightarrow>
     hs_cfg s = hs_cfg s0 \<and> hs_tls s = hs_tls s0 \<and> hs_cors s = hs_cors s0 \<and> hs_auth s = hs_auth s0 \<and>
     hs_middleware s = hs_middleware s0 \<and> map_option fst (hs_oauth s) = map_option fst (hs_oauth s0)"

section \<open>What is protected\<close>

subsection \<open>Paths\<close>

lemma url_unescape_escape: "url_unescape encodePath (escape encodePath s) = Some s"
proof (induction s)
  case Nil
  then show ?case by simp
next
  case (Cons c s)
  have h: "hex_val (hex_upper n) = Some n" if "n < 16" for n
    using that by (cases "n < 10") (simp_all add: hex_upper_def hex_val_def Let_def is_digit_def byte_in_def)
  have "n div 16 < 16" if "n < 256" for n :: nat using that by arith
  then have "(of_char c :: nat) div 16 < 16" "(of_char c :: nat) mod 16 < 16" by simp_all
  from h [OF this(1)] h [OF this(2)] have "hex_pair (hex_upper ((of_char c :: nat) div 16)) (hex_upper (of_char c mod 16)) = Some (of_char c)"
    by (simp add: hex_pair_def)
  moreover have "shouldEscape CHR ''%'' encodePath" by (simp add: shouldEscape_def alnum_def byte_in_def)
  ultimately show ?case using Cons.IH by auto
qed

lemma EscapedPath_decodes: "url_unescape encodePath (EscapedPath u) = Some (u_Path u)"
  by (auto simp: EscapedPath_def url_unescape_escape)

lemma single_segment:
  assumes "path_segments esc = [x]" "url_unescape encodePath esc = Some t" "esc = CHR ''/'' # p"
  shows "t = CHR ''/'' # x \<or> p = [] \<and> t = ''/'' \<and> x = ''/''"
proof (cases "p = []")
  case True
  have "url_unescape encodePath ''/'' = Some ''/''" by simp
  then show ?thesis using assms True by (auto simp: path_segments.simps)
next
  case False
  define seg where "seg = takeWhile (\<lambda>x. x \<noteq> CHR ''/'') p"
  have "path_segments (dropWhile (\<lambda>x. x \<noteq> CHR ''/'') p) = []"
    and x: "(case url_unescape encodePath seg of None \<Rightarrow> seg | Some t \<Rightarrow> t) = x"
    using False assms(1) by (simp_all add: assms(3) path_segments.simps(2) Let_def flip: seg_def)
  then have "dropWhile (\<lambda>x. x \<noteq> CHR ''/'') p = []"
    by (cases "dropWhile (\<lambda>x. x \<noteq> CHR ''/'') p") (auto simp: path_segments.simps Let_def split: if_splits)
  then have "seg = p" unfolding seg_def by (metis append_Nil2 takeWhile_dropWhile_id)
  then show ?thesis using x assms(2) by (auto simp: assms(3))
qed

lemma path_Clean_rooted: "\<exists>p. path_Clean q = CHR ''/'' # p"
  by (cases "foldl clean_element [] (split_on CHR ''/'' q)") (simp_all add: path_Clean_def Let_def)

lemma cleanPath_rooted: "\<exists>p. cleanPath q = CHR ''/'' # p"
  using path_Clean_rooted [of q] path_Clean_rooted [of "CHR ''/'' # q"] by (auto simp: cleanPath_def Let_def)

text \<open>No encoding of a path that is skipped leads to the MCP endpoint.\<close>

lemma mcp_path:
  assumes "cleanPath (EscapedPath u) = EscapedPath u" "route az (EscapedPath u) = Some McpEndpoint"
  shows "u_Path u \<in> {''/mcp'', ''/'', ''//''}"
proof -
  obtain p where p: "EscapedPath u = CHR ''/'' # p" using assms(1) cleanPath_rooted by metis
  have "path_segments (EscapedPath u) = [''mcp''] \<or> path_segments (EscapedPath u) = [''/'']"
    using assms(2) by (auto simp: route_def Let_def split: if_splits option.splits)
  then show ?thesis using single_segment [OF _ EscapedPath_decodes p] by auto
qed

lemma not_mcp_unchanged:
  assumes "e \<noteq> McpEndpoint"
  shows "hs_handler (snd (serve_endpoint env r s e)) = hs_handler s \<and> (\<forall>x. fst (serve_endpoint env r s e) \<noteq> Mcp x)"
  using assms
  by (cases e) (auto simp: login_endpoint_def get_only_def handleHealth_def handleReady_def Let_def split: option.split prod.split)

text \<open>A request on a public path leaves sessions and subprocess alone.\<close>

lemma public_unchanged:
  assumes "u_Path (wr_url r) \<in> set (public_paths oauth)"
  shows "hs_handler (snd (mux_serve env r s)) = hs_handler s \<and> (\<forall>x. fst (mux_serve env r s) \<noteq> Mcp x)"
proof -
  have n: "u_Path (wr_url r) \<notin> {''/mcp'', ''/'', ''//''}"
    using assms by (auto simp: public_paths_def split: if_splits)
  have c: "hs_handler (snd (mcp_endpoint env r s)) = hs_handler s \<and> (\<forall>x. fst (mcp_endpoint env r s) \<noteq> Mcp x)"
    if "wr_method r = ''CONNECT''"
    using that by (simp add: mcp_endpoint_def Let_def)
  show ?thesis
    using n mcp_path [of "wr_url r" "map_option fst (hs_oauth s)"] c not_mcp_unchanged [of _ env r s]
    by (auto simp: mux_serve_def Let_def split: option.split) (metis serve_endpoint.simps(1))+
qed


subsection \<open>Tokens\<close>

fun granted_to :: "auth_services \<Rightarrow> auth_kind \<Rightarrow> string \<Rightarrow> principal \<Rightarrow> bool" where
  "granted_to services NoAuth token p = (p = anonymous)"
| "granted_to services (BearerAuth ba) token p = bearer_grants (as_validation services) ba token p"
| "granted_to services (OAuthAuth oa) token p = oauth_grants (as_verify services) (as_introspection services) oa token p"

text \<open>A header carries a token the authenticator takes.\<close>

definition authenticated :: "auth_services \<Rightarrow> auth_kind \<Rightarrow> string \<Rightarrow> bool" where
  "authenticated services k header \<longleftrightarrow> (\<exists>token p. carries header token \<and> granted_to services k token p)"

text \<open>The two kinds of authenticator a configured server has.\<close>

definition guards :: "auth_kind \<Rightarrow> bool" where
  "guards k \<longleftrightarrow> (\<exists>b. k = BearerAuth (server_bearer b)) \<or> (\<exists>c. k = OAuthAuth (server_oauth c))"

lemma guards_Wrap:
  assumes "guards k"
  shows "Wrap (auth_Validate services k) m refuse path header next =
    (if path \<in> set (am_skipPaths m) then next None
     else case auth_Validate services k header of Inl err \<Rightarrow> refuse (handleUnauthorized m err) | Inr p \<Rightarrow> next (Some p))"
    "(\<exists>p. auth_Validate services k header = Inr p) \<longleftrightarrow> authenticated services k header"
proof -
  show "Wrap (auth_Validate services k) m refuse path header next =
    (if path \<in> set (am_skipPaths m) then next None
     else case auth_Validate services k header of Inl err \<Rightarrow> refuse (handleUnauthorized m err) | Inr p \<Rightarrow> next (Some p))"
    by (simp add: Wrap_def)
  from assms consider b where "k = BearerAuth (server_bearer b)" | c where "k = OAuthAuth (server_oauth c)"
    by (auto simp: guards_def)
  then show "(\<exists>p. auth_Validate services k header = Inr p) \<longleftrightarrow> authenticated services k header"
  proof cases
    case 1
    then show ?thesis
      using bearer.accepted_iff [of "as_validation services" b header] by (auto simp: authenticated_def auth_Validate_def)
  next
    case 2
    then show ?thesis
      using oauth.accepted_iff [of "as_verify services" "as_introspection services" c header]
      by (auto simp: authenticated_def auth_Validate_def)
  qed
qed

lemma handleUnauthorized_status: "rf_status (handleUnauthorized m err) \<in> {401, 403}"
  by (simp add: handleUnauthorized_def Let_def split: option.split prod.split)

text \<open>A server whose configuration asks for authentication has it.\<close>

definition asks_for_tokens :: "server_config \<Rightarrow> bool" where
  "asks_for_tokens cfg \<longleftrightarrow> (case svc_Auth cfg of None \<Rightarrow> False | Some a \<Rightarrow> auc_Type a \<noteq> [] \<and> auc_Type a \<noteq> ''none'')"

lemma boot_auth_guards:
  assumes "boot_auth be oauth cfg = Inr (k, m)" "asks_for_tokens cfg"
  shows "guards k \<and> m = Some \<lparr>am_realm = ''MCP Bridge'', am_skipPaths = public_paths oauth\<rparr>"
proof -
  obtain a where a: "svc_Auth cfg = Some a" "auc_Type a \<noteq> []" "auc_Type a \<noteq> ''none''"
    using assms(2) by (auto simp: asks_for_tokens_def split: option.splits)
  obtain u where n: "NewAuthenticator (se_getenv (be_setup be)) (be_provider be) (\<lambda>_. NoReply)
      (\<lambda>_ u. (Inl [], u)) 0 () (Some a) True = Inr (k, u)"
    and m: "m = Some \<lparr>am_realm = ''MCP Bridge'', am_skipPaths = public_paths oauth\<rparr>"
    using assms(1) a by (auto simp: boot_auth_def map_sum_def split: sum.splits)
  have "guards k"
  proof (cases "auc_Type a = ''bearer''")
    case True
    then obtain b ba where "NewBearerAuthenticator (se_getenv (be_setup be)) (Some b) True = Inr ba" "k = BearerAuth ba"
      using n a by (auto simp: NewAuthenticator_def map_sum_def split: option.splits sum.splits)
    then show ?thesis using NewBearerAuthenticator_server by (auto simp: guards_def)
  next
    case False
    then obtain c oa where "setupServerMode (be_provider be) (new_oauth_auth True c) = Inr oa" "k = OAuthAuth oa"
      using n a by (auto simp: NewAuthenticator_def NewOAuthAuthenticator_def map_sum_def split: if_splits option.splits sum.splits)
    then show ?thesis using setupServerMode_server by (auto simp: guards_def)
  qed
  then show ?thesis using m by simp
qed

lemma NewServer_guards:
  assumes "NewServer be (Some cfg) = Inr s0" "asks_for_tokens cfg"
  shows "guards (hs_auth s0) \<and>
    hs_middleware s0 = Some \<lparr>am_realm = ''MCP Bridge'', am_skipPaths = public_paths (hs_oauth s0 \<noteq> None)\<rparr>"
  using assms boot_auth_guards [OF _ assms(2)] by (auto simp: NewServer_def split: sum.splits)


subsection \<open>Requests keep the setup\<close>

lemma mcp_endpoint_setup: "same_setup s0 s \<Longrightarrow> same_setup s0 (snd (mcp_endpoint env r s))"
  by (auto simp: mcp_endpoint_def same_setup_def Let_def split: sum.split prod.split)

lemma serve_endpoint_setup: "same_setup s0 s \<Longrightarrow> same_setup s0 (snd (serve_endpoint env r s e))"
  using mcp_endpoint_setup [of s0 s env r]
  by (cases e) (auto simp: login_endpoint_def same_setup_def split: option.split prod.split)

lemma cors_serve_setup:
  assumes "same_setup s0 s"
  shows "same_setup s0 (snd (cors_serve lib env r s))"
proof -
  have "same_setup s0 (snd (mux_serve env r s))"
    using assms serve_endpoint_setup by (simp add: mux_serve_def Let_def split: option.split)
  then show ?thesis
    using assms by (auto simp: cors_serve_def split: option.split prod.split bool.split)
qed

lemma cors_public_unchanged:
  assumes "u_Path (wr_url r) \<in> set (public_paths oauth)"
  shows "hs_handler (snd (cors_serve lib env r s)) = hs_handler s \<and> (\<forall>x. wy_answer (fst (cors_serve lib env r s)) \<noteq> Mcp x)"
  using public_unchanged [OF assms, of env s] by (auto simp: cors_serve_def split: option.split prod.split bool.split)

text \<open>Only the middleware refuses.\<close>

lemma cors_serve_no_refusal: "\<forall>rf. wy_answer (fst (cors_serve lib env r s)) \<noteq> Refusal rf"
proof
  fix rf
  have "fst (serve_endpoint env r s e) \<noteq> Refusal rf" for e
    by (cases e) (auto simp: mcp_endpoint_def login_endpoint_def get_only_def handleHealth_def handleReady_def Let_def
        split: sum.split prod.split option.split)
  then have "fst (mux_serve env r s) \<noteq> Refusal rf" by (auto simp: mux_serve_def Let_def split: option.split)
  then show "wy_answer (fst (cors_serve lib env r s)) \<noteq> Refusal rf"
    by (auto simp: cors_serve_def split: option.split prod.split bool.split)
qed

text \<open>
  C10.  A server whose configuration asks for authentication protects the subprocess.  A request is
  refused (with 401 or 403, and without effect) exactly when its path is not one of the public ones and
  its \<open>Authorization\<close> header carries no token that the authenticator grants; and a request without such
  a token changes no session, sends nothing to the subprocess and gets no answer of the MCP endpoint,
  whatever path it asks for, however that is encoded, whatever its method, and whatever the CORS
  library does.
\<close>

theorem bridge_needs_token:
  fixes env :: web_env and r :: web_request
  assumes boot: "NewServer be (Some cfg) = Inr s0" "asks_for_tokens cfg" and s: "same_setup s0 s"
  defines "token \<equiv> authenticated (we_services env) (hs_auth s0) (wr_header r ''Authorization'')"
    and "public \<equiv> u_Path (wr_url r) \<in> set (public_paths (hs_oauth s0 \<noteq> None))"
  shows "case serve lib env r s of (reply, s') \<Rightarrow>
    same_setup s0 s' \<and>
    (case wy_answer reply of
       Refusal rf \<Rightarrow> \<not> public \<and> \<not> token \<and> s' = s \<and> wy_cors reply = [] \<and> rf_status rf \<in> {401, 403}
     | a \<Rightarrow> (if token then True else public \<and> hs_handler s' = hs_handler s \<and> (\<nexists>x. a = Mcp x)))"
proof -
  have k: "guards (hs_auth s)" and m: "hs_middleware s = Some \<lparr>am_realm = ''MCP Bridge'',
      am_skipPaths = public_paths (hs_oauth s0 \<noteq> None)\<rparr>" and a: "hs_auth s = hs_auth s0"
    using NewServer_guards [OF boot] s by (simp_all add: same_setup_def)
  have keep: "same_setup s0 (snd (cors_serve lib env r s))" using s by (rule cors_serve_setup)
  have token: "(\<exists>p. auth_Validate (we_services env) (hs_auth s) (wr_header r ''Authorization'') = Inr p) \<longleftrightarrow> token"
    unfolding token_def a [symmetric] by (rule guards_Wrap(2) [OF k])
  show ?thesis
  proof (cases public)
    case True
    then have "serve lib env r s = cors_serve lib env r s" by (simp add: serve_def m Wrap_def public_def)
    then show ?thesis
      using keep cors_public_unchanged [of r "hs_oauth s0 \<noteq> None" lib env s] cors_serve_no_refusal [of lib env r s] True
      by (auto simp: public_def split: web_answer.split)
  next
    case False
    show ?thesis
    proof (cases "auth_Validate (we_services env) (hs_auth s) (wr_header r ''Authorization'')")
      case (Inl err)
      then have "\<not> token" using token by auto
      moreover have "serve lib env r s =
          (\<lparr>wy_cors = [], wy_answer = Refusal (handleUnauthorized (the (hs_middleware s)) err)\<rparr>, s)"
        using Inl False by (simp add: serve_def m Wrap_def public_def)
      ultimately show ?thesis using False s handleUnauthorized_status by simp
    next
      case (Inr p)
      then have token using token by auto
      moreover have "serve lib env r s = cors_serve lib env r s"
        using Inr False by (simp add: serve_def m Wrap_def public_def)
      ultimately show ?thesis
        using keep cors_serve_no_refusal [of lib env r s] by (auto split: web_answer.split)
    qed
  qed
qed

text \<open>A server that asks for the token \<open>t\<close>, with CORS, and requests to it.\<close>

definition guarded_bridge :: server_config where
  "guarded_bridge = login_bridge
     \<lparr>svc_OAuthServer := None,
      svc_CORS := Some \<lparr>crc_Enabled = True, crc_AllowedOrigins = [''*''], crc_AllowedMethods = [], crc_AllowedHeaders = [],
        crc_ExposedHeaders = [], crc_AllowCredentials = False, crc_MaxAge = 0\<rparr>,
      svc_Auth := Some \<lparr>auc_Type = ''bearer'',
        auc_Bearer = Some \<lparr>bac_ValidTokens = [''t''], bac_ValidationEndpoint = [], bac_Token = [], bac_TokenEnv = []\<rparr>,
        auc_OAuth = None\<rparr>\<rparr>"

definition plain_boot :: boot_env where
  "plain_boot =
     \<lparr>be_setup = plain_setup, be_certs = \<lparr>kf_pair = \<lambda>_ _. False, kf_ca = \<lambda>_. CAUnreadable\<rparr>, be_provider = \<lambda>_. False\<rparr>"

definition plain_env :: web_env where
  "plain_env =
     \<lparr>we_now = 0, we_sessionID = [Some ''s''], we_forward = ForwardOk, we_flusher = True, we_write = None,
      we_login = idp_exchange, we_clientID = [], we_clientSecret = [], we_bcrypt = (=), we_sign = (\<lambda>_. None),
      we_services = \<lparr>as_validation = \<lambda>_. NoReply, as_verify = \<lambda>_. None, as_introspection = \<lambda>_. NoReply\<rparr>\<rparr>"

definition plain_url :: "string \<Rightarrow> url" where
  "plain_url p =
     \<lparr>u_Scheme = [], u_Opaque = [], u_User = None, u_Host = [], u_Path = p, u_RawPath = [], u_ForceQuery = False,
      u_RawQuery = [], u_Fragment = []\<rparr>"

definition plain_request :: "string \<Rightarrow> string \<Rightarrow> string \<Rightarrow> web_request" where
  "plain_request m p auth =
     \<lparr>wr_method = m, wr_url = plain_url p, wr_header = (\<lambda>k. if k = ''Authorization'' then auth else []),
      wr_query = [], wr_form = None, wr_body = Some ''{}'', wr_remote = []\<rparr>"

lemma guarded_boots:
  "\<exists>s0. NewServer plain_boot (Some guarded_bridge) = Inr s0 \<and> hs_auth s0 = BearerAuth (server_bearer (the (auc_Bearer (the (svc_Auth guarded_bridge))))) \<and>
     hs_cors s0 \<noteq> None"
proof -
  have "svc_TLS login_bridge = None" by (simp add: login_bridge_def applyServerDefaults_def)
  then show ?thesis
    by (simp add: NewServer_def boot_tls_def boot_oauth_def boot_auth_def guarded_bridge_def NewAuthenticator_def
        NewBearerAuthenticator_def server_bearer_def cors_NewHandler_def plain_boot_def plain_setup_def sys_getenv_def all_there_def Let_def)
qed

lemma guarded_asks: "asks_for_tokens guarded_bridge"
  by (simp add: asks_for_tokens_def guarded_bridge_def)

lemma no_header_unauthenticated: "\<not> authenticated services k []"
  by (simp add: authenticated_def carries_def extractBearerToken_def)

theorem bridge_needs_token_witness:
  "\<exists>s0. NewServer plain_boot (Some guarded_bridge) = Inr s0 \<and>
     (\<exists>rf. wy_answer (fst (serve (\<lambda>_ _. ([], False)) plain_env (plain_request ''POST'' ''/mcp'' []) s0)) = Refusal rf) \<and>
     snd (serve (\<lambda>_ _. ([], False)) plain_env (plain_request ''POST'' ''/mcp'' []) s0) = s0"
proof -
  obtain s0 where s0: "NewServer plain_boot (Some guarded_bridge) = Inr s0" using guarded_boots by blast
  have "same_setup s0 s0" by (simp add: same_setup_def)
  from bridge_needs_token [OF s0 guarded_asks this, where lib = "\<lambda>_ _. ([], False)" and env = plain_env and
      r = "plain_request ''POST'' ''/mcp'' []"]
  have "case serve (\<lambda>_ _. ([], False)) plain_env (plain_request ''POST'' ''/mcp'' []) s0 of
      (reply, s') \<Rightarrow> (\<exists>rf. wy_answer reply = Refusal rf) \<and> s' = s0"
    using no_header_unauthenticated
    by (cases "wy_answer (fst (serve (\<lambda>_ _. ([], False)) plain_env (plain_request ''POST'' ''/mcp'' []) s0))")
       (simp_all add: plain_request_def plain_url_def public_paths_def split_def)
  then show ?thesis using s0 by (auto simp: split_def)
qed

text \<open>
  C37.  A server that asks for authentication refuses the browser's preflight.  The middleware of
  authentication is outside that of CORS and does not skip OPTIONS, and a preflight never carries
  credentials: on the MCP endpoint it is answered 401 without any CORS header, whatever the CORS
  library would have answered, so no browser gets to send its request.
\<close>

theorem preflight_refused:
  assumes boot: "NewServer be (Some cfg) = Inr s0" "asks_for_tokens cfg" and s: "same_setup s0 s"
    and r: "wr_method r = ''OPTIONS''" "u_Path (wr_url r) \<in> {''/'', ''/mcp''}" "wr_header r ''Authorization'' = []"
  shows "serve lib env r s =
    (\<lparr>wy_cors = [],
      wy_answer = Refusal \<lparr>rf_status = 401, rf_www = Some (''Bearer realm='' @ [quote_char] @ ''MCP Bridge'' @ [quote_char]),
        rf_body = json_error ''authentication required''\<rparr>\<rparr>, s)"
proof -
  have k: "guards (hs_auth s)" and m: "hs_middleware s = Some \<lparr>am_realm = ''MCP Bridge'',
      am_skipPaths = public_paths (hs_oauth s0 \<noteq> None)\<rparr>"
    using NewServer_guards [OF boot] s by (simp_all add: same_setup_def)
  have "u_Path (wr_url r) \<notin> set (public_paths (hs_oauth s0 \<noteq> None))"
    using r(2) by (auto simp: public_paths_def)
  moreover from k consider b where "hs_auth s = BearerAuth (server_bearer b)" | c where "hs_auth s = OAuthAuth (server_oauth c)"
    by (auto simp: guards_def)
  then have "auth_Validate (we_services env) (hs_auth s) [] =
      Inl (bearer_error ErrMissingCredentials ''missing Authorization header'')"
    by cases (simp_all add: auth_Validate_def bearer_Validate_def oauth_Validate_def extractBearerToken_def
        server_bearer_def server_oauth_def new_oauth_auth_def)
  ultimately show ?thesis
    by (simp add: serve_def m Wrap_def r(3) handleUnauthorized_def bearer_error_def NewAuthError_def WWWAuthenticate_def
        quote_char_def)
qed

theorem preflight_refused_witness:
  "\<exists>s0 rf. NewServer plain_boot (Some guarded_bridge) = Inr s0 \<and> hs_cors s0 \<noteq> None \<and>
     fst (serve (\<lambda>_ _. ([(''Access-Control-Allow-Origin'', ''*'')], True)) plain_env (plain_request ''OPTIONS'' ''/mcp'' []) s0) =
       \<lparr>wy_cors = [], wy_answer = Refusal rf\<rparr>"
proof -
  obtain s0 where s0: "NewServer plain_boot (Some guarded_bridge) = Inr s0" "hs_cors s0 \<noteq> None" using guarded_boots by blast
  have "same_setup s0 s0" by (simp add: same_setup_def)
  from preflight_refused [OF s0(1) guarded_asks this, of "plain_request ''OPTIONS'' ''/mcp'' []"
      "\<lambda>_ _. ([(''Access-Control-Allow-Origin'', ''*'')], True)" plain_env] s0
  show ?thesis by (simp add: plain_request_def plain_url_def)
qed

end
