(* ===== verification/Http_Server.thy ===== *)
theory Http_Server
  imports Http_Routes
begin

text \<open>
  The life of the server (\<open>internal/server/server.go\<close>): the phases of \<open>Start\<close> and \<open>Stop\<close>, the requests
  served in between, the goroutine that watches the events of the subprocess, and all interleavings of
  these with the goroutines of the process manager, as a step relation.
\<close>

section \<open>State\<close>

text \<open>
  Of net/http's server: not serving yet, serving, shut down for good.  A \<open>Start\<close> is about to start the
  process or about to listen; a \<open>Stop\<close> waits for open exchanges, or for the process with what the
  shutdown gave (\<open>True\<close>, its context ended first).
\<close>

datatype http_state = HttpNew | HttpServing | HttpClosed

datatype start_stage = StartProcess | StartListen | StartServing

datatype stop_stage = StopDraining | StopManager bool

record life =
  lf_server :: http_server
  lf_http :: http_state
  lf_once :: bool
  lf_done :: bool
  lf_starting :: "start_stage list"
  lf_stopping :: "stop_stage list"
  lf_watchers :: nat
  lf_posts :: "waiting list"
  lf_streams :: "sse_conn list"

definition new_life :: "http_server \<Rightarrow> life" where
  "new_life s =
     \<lparr>lf_server = s, lf_http = HttpNew, lf_once = False, lf_done = False, lf_starting = [], lf_stopping = [],
      lf_watchers = 0, lf_posts = [], lf_streams = []\<rparr>"

abbreviation handler_of :: "life \<Rightarrow> handler" where
  "handler_of l \<equiv> hs_handler (lf_server l)"

abbreviation manager_of :: "life \<Rightarrow> manager" where
  "manager_of l \<equiv> h_pm (handler_of l)"

definition on_handler :: "(handler \<Rightarrow> handler) \<Rightarrow> life \<Rightarrow> life" where
  "on_handler f l = l\<lparr>lf_server := (lf_server l)\<lparr>hs_handler := f (handler_of l)\<rparr>\<rparr>"

definition with_manager :: "manager \<Rightarrow> life \<Rightarrow> life" where
  "with_manager m = on_handler (\<lambda>h. h\<lparr>h_pm := m\<rparr>)"

definition on_sessions :: "(session_manager \<Rightarrow> session_manager) \<Rightarrow> life \<Rightarrow> life" where
  "on_sessions f = on_handler (\<lambda>h. h\<lparr>h_sm := f (h_sm h)\<rparr>)"

definition set_running :: "bool \<Rightarrow> life \<Rightarrow> life" where
  "set_running b l = l\<lparr>lf_server := (lf_server l)\<lparr>hs_running := b\<rparr>\<rparr>"

section \<open>Starting\<close>

datatype server_error =
    ServerIsRunning
  | StartingSubprocess manager_error
  | CreatingListener
  | ServingHTTP

text \<open>The check, and the reset of a server that has been stopped.\<close>

definition Start_enter :: "life \<Rightarrow> server_error + life" where
  "Start_enter l =
     (if hs_running (lf_server l) then Inl ServerIsRunning
      else let l1 = (if lf_done l then l\<lparr>lf_done := False, lf_once := False\<rparr> else l)
           in Inr (l1\<lparr>lf_starting := StartProcess # lf_starting l1\<rparr>))"

definition Start_process :: "start_outcome \<Rightarrow> instant \<Rightarrow> life \<Rightarrow> (server_error + unit) \<times> life" where
  "Start_process oc now l =
     (let l1 = l\<lparr>lf_starting := remove1 StartProcess (lf_starting l)\<rparr>
      in case Start oc now (manager_of l) of
           (Inl e, m) \<Rightarrow> (Inl (StartingSubprocess e), with_manager m l1)
         | (Inr _, m) \<Rightarrow>
             (Inr (), on_sessions StartCleanup (with_manager m
                (l1\<lparr>lf_starting := StartListen # lf_starting l1, lf_watchers := Suc (lf_watchers l1)\<rparr>))))"

text \<open>Without a listener the subprocess is stopped again, as far as a stop of five seconds goes.\<close>

definition Start_no_listener :: "life \<Rightarrow> life" where
  "Start_no_listener l =
     with_manager (snd (Stop_begin (manager_of l))) (l\<lparr>lf_starting := remove1 StartListen (lf_starting l)\<rparr>)"

text \<open>\<open>Serve\<close> on a server that has been shut down returns at once, and \<open>Start\<close> then returns no error.\<close>

definition Start_serve :: "life \<Rightarrow> (server_error + unit) option \<times> life" where
  "Start_serve l =
     (let l1 = set_running True (l\<lparr>lf_server := (lf_server l)\<lparr>hs_listening := True\<rparr>,
                                   lf_starting := remove1 StartListen (lf_starting l)\<rparr>)
      in if lf_http l = HttpClosed then (Some (Inr ()), l1)
         else (None, l1\<lparr>lf_http := HttpServing, lf_starting := StartServing # lf_starting l1\<rparr>))"

text \<open>\<open>Serve\<close> returns: after a shutdown, or because accepting connections failed.\<close>

definition Start_return :: "life \<Rightarrow> (server_error + unit) \<times> life" where
  "Start_return l =
     (if lf_http l = HttpClosed then Inr () else Inl ServingHTTP,
      l\<lparr>lf_starting := remove1 StartServing (lf_starting l)\<rparr>)"

section \<open>Stopping\<close>

text \<open>The first call only: not running any more, and the HTTP server takes no new connection.\<close>

definition Stop_enter :: "life \<Rightarrow> life option" where
  "Stop_enter l =
     (if lf_once l then None
      else Some (set_running False (l\<lparr>lf_once := True, lf_http := HttpClosed, lf_stopping := StopDraining # lf_stopping l\<rparr>)))"

text \<open>
  \<open>Shutdown\<close> is over, because no exchange is open or because the context ended; only then the sessions
  are closed, and the stop of the subprocess begins.
\<close>

definition Stop_drained :: "bool \<Rightarrow> life \<Rightarrow> life" where
  "Stop_drained timed_out l =
     (let l1 = on_sessions (CloseAllSessions \<circ> StopCleanup)
                 (l\<lparr>lf_stopping := StopManager timed_out # remove1 StopDraining (lf_stopping l)\<rparr>)
      in with_manager (snd (Stop_begin (manager_of l1))) l1)"

text \<open>The subprocess manager has returned from its stop and is closed; the server is done.\<close>

definition Stop_close :: "bool \<Rightarrow> life \<Rightarrow> life" where
  "Stop_close timed_out l =
     with_manager (snd (Close_begin (manager_of l)))
       (l\<lparr>lf_stopping := remove1 (StopManager timed_out) (lf_stopping l), lf_done := True\<rparr>)"

section \<open>Exchanges and events\<close>

text \<open>A request, with the exchange it leaves open.\<close>

definition take_request :: "cors_library \<Rightarrow> web_env \<Rightarrow> web_request \<Rightarrow> life \<Rightarrow> life" where
  "take_request lib env r l =
     (case serve lib env r (lf_server l) of
        (reply, s) \<Rightarrow>
          let l1 = l\<lparr>lf_server := s\<rparr>
          in case wy_answer reply of
               Mcp (Inr (Inl w)) \<Rightarrow> l1\<lparr>lf_posts := w # lf_posts l1\<rparr>
             | Mcp (Inr (Inr (Some c))) \<Rightarrow> l1\<lparr>lf_streams := c # lf_streams l1\<rparr>
             | _ \<Rightarrow> l1)"

text \<open>A POST gets its answer, runs into its timeout or loses its client; an event stream makes a turn.\<close>

definition post_turn :: "wait_event \<Rightarrow> bool \<Rightarrow> waiting \<Rightarrow> life \<Rightarrow> life" where
  "post_turn e flusher w l =
     on_handler (\<lambda>h. snd (handleRequest_end e flusher w h)) (l\<lparr>lf_posts := remove1 w (lf_posts l)\<rparr>)"

definition stream_turn :: "stream_event \<Rightarrow> nat option \<Rightarrow> sse_conn \<Rightarrow> life \<Rightarrow> life" where
  "stream_turn e wr c l =
     (case HandleSSE_step e wr c (handler_of l) of
        (goes_on, h) \<Rightarrow> on_handler (\<lambda>_. h) (if goes_on then l else l\<lparr>lf_streams := remove1 c (lf_streams l)\<rparr>))"

text \<open>
  \<open>monitorProcessEvents\<close> takes an event of the manager; when the restarts are used up it makes a
  goroutine that calls \<open>Stop\<close> (the events are logged otherwise).
\<close>

definition take_event :: "life \<Rightarrow> bool \<times> life" where
  "take_event l =
     (ev_Type (hd (Events (manager_of l))) = EventMaxRestartsReached,
      with_manager ((manager_of l)\<lparr>m_events := tl (m_events (manager_of l))\<rparr>) l)"

definition Done :: "life \<Rightarrow> bool" where "Done l = lf_done l"
definition server_Running :: "life \<Rightarrow> bool" where "server_Running l = hs_running (lf_server l)"

section \<open>Interleavings\<close>

datatype life_label =
    StartReturns "server_error + unit"
  | ProcessStarted pid
  | StopReturns bool
  | StopWanted
  | Silent

definition restart_label :: "pm_label \<Rightarrow> life_label" where
  "restart_label pl = (case pl of AutoRestart p \<Rightarrow> ProcessStarted p | _ \<Rightarrow> Silent)"

definition started_label :: "start_outcome \<Rightarrow> life_label" where
  "started_label oc = (case oc of Started p \<Rightarrow> ProcessStarted p | _ \<Rightarrow> Silent)"

text \<open>
  Every step of callers, clients, goroutines and the operating system.  How long the stop of the
  subprocess takes is left to the process manager, whose own steps go on in between.  A request is one
  step up to the wait for its response; one that is still before that wait when the time of a shutdown
  runs out is not followed further.  A watcher may end at any time, as its context is the caller's.
\<close>

inductive life_step :: "life \<Rightarrow> life_label \<Rightarrow> life \<Rightarrow> bool" where
  start_refused: "Start_enter l = Inl e \<Longrightarrow> life_step l (StartReturns (Inl e)) l"
| start_enter: "Start_enter l = Inr l' \<Longrightarrow> life_step l Silent l'"
| start_failed: "StartProcess \<in> set (lf_starting l) \<Longrightarrow> Start_process oc now l = (Inl e, l') \<Longrightarrow>
    life_step l (StartReturns (Inl e)) l'"
| start_process: "StartProcess \<in> set (lf_starting l) \<Longrightarrow> fresh_pid oc (manager_of l) \<Longrightarrow>
    Start_process oc now l = (Inr (), l') \<Longrightarrow> life_step l (started_label oc) l'"
| start_no_listener: "StartListen \<in> set (lf_starting l) \<Longrightarrow>
    life_step l (StartReturns (Inl CreatingListener)) (Start_no_listener l)"
| start_serve: "StartListen \<in> set (lf_starting l) \<Longrightarrow> Start_serve l = (res, l') \<Longrightarrow>
    life_step l (case res of None \<Rightarrow> Silent | Some x \<Rightarrow> StartReturns x) l'"
| start_return: "StartServing \<in> set (lf_starting l) \<Longrightarrow> Start_return l = (res, l') \<Longrightarrow>
    life_step l (StartReturns res) l'"
| stop_enter: "Stop_enter l = Some l' \<Longrightarrow> life_step l Silent l'"
| stop_drained: "StopDraining \<in> set (lf_stopping l) \<Longrightarrow> timed_out \<or> lf_posts l = [] \<and> lf_streams l = [] \<Longrightarrow>
    life_step l Silent (Stop_drained timed_out l)"
| stop_close: "StopManager timed_out \<in> set (lf_stopping l) \<Longrightarrow>
    life_step l (StopReturns timed_out) (Stop_close timed_out l)"
| request: "lf_http l = HttpServing \<Longrightarrow> life_step l Silent (take_request lib env r l)"
| post: "w \<in> set (lf_posts l) \<Longrightarrow> (e = ResponseReady \<Longrightarrow> h_chans (handler_of l) ! w_chan w \<noteq> None) \<Longrightarrow>
    life_step l Silent (post_turn e flusher w l)"
| stream: "c \<in> set (lf_streams l) \<Longrightarrow> life_step l Silent (stream_turn e wr c l)"
| read_line: "life_step l Silent (on_handler (handle_line wrs line) l)"
| session_tick: "life_step l Silent (on_sessions (cleanup_tick now) l)"
| process: "pm_step (manager_of l) pl m \<Longrightarrow> (\<And>x. pl \<noteq> UserStart x) \<Longrightarrow>
    life_step l (restart_label pl) (with_manager m l)"
| event: "0 < lf_watchers l \<Longrightarrow> \<not> lf_done l \<Longrightarrow> Events (manager_of l) \<noteq> [] \<Longrightarrow> take_event l = (full, l') \<Longrightarrow>
    life_step l (if full then StopWanted else Silent) l'"
| watcher_ends: "0 < lf_watchers l \<Longrightarrow>
    life_step l Silent (l\<lparr>lf_watchers := lf_watchers l - 1\<rparr>)"

inductive life_run :: "life \<Rightarrow> life_label list \<Rightarrow> life \<Rightarrow> bool" where
  begins: "life_run l [] l"
| goes_on: "life_run l ls l' \<Longrightarrow> life_step l' lab l'' \<Longrightarrow> life_run l (ls @ [lab]) l''"


text \<open>The labels of starts, restarts and served connections are no others.\<close>

lemma label_simps [simp]:
  "started_label oc \<noteq> StopReturns b" "started_label oc \<noteq> StartReturns x" "started_label oc = ProcessStarted p \<longleftrightarrow> oc = Started p"
  "restart_label pl \<noteq> StopReturns b" "restart_label pl \<noteq> StartReturns x" "restart_label pl = ProcessStarted p \<longleftrightarrow> pl = AutoRestart p"
  "(case res of None \<Rightarrow> Silent | Some x \<Rightarrow> StartReturns x) \<noteq> StopReturns b"
  "(case res of None \<Rightarrow> Silent | Some x \<Rightarrow> StartReturns x) \<noteq> ProcessStarted p"
  by (auto simp: started_label_def restart_label_def split: start_outcome.split pm_label.split option.split)

lemmas label_simps_sym [simp] = label_simps(1,2,4,5,7,8) [symmetric]

inductive_cases stop_returns_cases: "life_step l (StopReturns b) l'"
inductive_cases process_started_cases: "life_step l (ProcessStarted p) l'"

lemma stop_returns: "life_step l (StopReturns b) l' \<Longrightarrow> StopManager b \<in> set (lf_stopping l) \<and> l' = Stop_close b l"
  by (erule stop_returns_cases) (auto split: if_splits)

section \<open>The server drives the process manager by its steps\<close>

lemma manager_simps [simp]:
  "manager_of (with_manager m l) = m" "manager_of (on_sessions f l) = manager_of l"
  "manager_of (set_running b l) = manager_of l"
  by (simp_all add: with_manager_def on_handler_def on_sessions_def set_running_def)

lemma HandlePost_pm: "HandlePost rnd now oc r h = (res, h') \<Longrightarrow> h_pm h' = h_pm h"
  by (auto simp: HandlePost_def Let_def split: if_splits option.splits sum.splits prod.splits message_type.splits
      dest!: post_session_frame handleRequest_begin_frame handleNotification_frame)

lemma on_writer_pm: "on_writer a f h = (b, h') \<Longrightarrow> h_pm h' = h_pm h"
  by (auto simp: on_writer_def split: prod.splits sum.splits)

lemma unregister_pm [simp]: "h_pm (unregister sid h) = h_pm h"
  by (simp add: unregister_def)

lemma each_client_pm [simp]: "h_pm (each_client f h) = h_pm h"
  by (simp add: each_client_def)

lemma HandleSSE_begin_pm: "HandleSSE_begin flusher wr r h = (res, h') \<Longrightarrow> h_pm h' = h_pm h"
  by (auto simp: HandleSSE_begin_def Let_def split: if_splits option.splits prod.splits bool.splits dest!: on_writer_pm)

lemma HandleSSE_step_pm: "HandleSSE_step e wr c h = (res, h') \<Longrightarrow> h_pm h' = h_pm h"
  by (auto simp: HandleSSE_step_def Let_def split: stream_event.splits received_notification.splits prod.splits bool.splits dest!: on_writer_pm)

lemma HandleSessionClose_pm: "HandleSessionClose wr r h = (res, h') \<Longrightarrow> h_pm h' = h_pm h"
  using on_writer_pm [OF surjective_pairing]
  by (auto simp: HandleSessionClose_def Let_def split: if_splits option.splits)

lemma handleRequest_end_pm [simp]: "h_pm (snd (handleRequest_end e flusher w h)) = h_pm h"
  by (simp add: handleRequest_end_def forget_def Let_def split: wait_event.split)

lemma handle_line_pm [simp]: "h_pm (handle_line wrs line h) = h_pm h"
  by (simp add: handle_line_def routeResponse_def routeNotification_def Let_def
      split: sum.split message_type.split option.split)

lemma serve_pm: "h_pm (hs_handler (snd (serve lib env r s))) = h_pm (hs_handler s)"
proof -
  have m: "h_pm (hs_handler (snd (mcp_endpoint env r s))) = h_pm (hs_handler s)"
    by (auto simp: mcp_endpoint_def Let_def split: sum.split prod.split
        dest!: HandlePost_pm HandleSSE_begin_pm HandleSessionClose_pm)
  have "h_pm (hs_handler (snd (serve_endpoint env r s e))) = h_pm (hs_handler s)" for e
    using m not_mcp_unchanged [of e env r s] by (cases e) simp_all
  then have "h_pm (hs_handler (snd (mux_serve env r s))) = h_pm (hs_handler s)"
    by (simp add: mux_serve_def Let_def split: option.split)
  then have "h_pm (hs_handler (snd (cors_serve lib env r s))) = h_pm (hs_handler s)"
    by (auto simp: cors_serve_def split: option.split prod.split bool.split)
  then show ?thesis by (simp add: serve_def Wrap_def split: option.split sum.split)
qed

lemma take_request_pm [simp]: "manager_of (take_request lib env r l) = manager_of l"
  using serve_pm [of lib env r "lf_server l"]
  by (auto simp: take_request_def Let_def split: prod.split web_answer.split sum.split option.split)

lemma turns_pm [simp]:
  "manager_of (post_turn e flusher w l) = manager_of l" "manager_of (stream_turn se wr c l) = manager_of l"
  by (auto simp: post_turn_def stream_turn_def on_handler_def split: prod.split dest!: HandleSSE_step_pm)


text \<open>
  What a step of the server is for the process manager: nothing, or one step of it; a process is
  started exactly when the label says so.
\<close>

definition manager_moves :: "manager \<Rightarrow> life_label \<Rightarrow> manager \<Rightarrow> bool" where
  "manager_moves m lab m' \<longleftrightarrow>
     m' = m \<and> lab \<notin> range ProcessStarted \<or>
     (\<exists>pl. pm_step m pl m' \<and> (lab \<in> range ProcessStarted \<longleftrightarrow> pl = UserStart (Inr ()) \<or> pl \<in> range AutoRestart))"

lemma moves_quiet: "pm_step m Other m' \<Longrightarrow> lab \<notin> range ProcessStarted \<Longrightarrow> manager_moves m lab m'"
  unfolding manager_moves_def by blast

lemma StartListen_pm [simp]: "manager_of (snd (Start_serve l)) = manager_of l"
  by (simp add: Start_serve_def set_running_def Let_def)

lemma process_moves:
  assumes "Start_process oc now l = (res, l')" "res = Inr () \<Longrightarrow> fresh_pid oc (manager_of l)"
  shows "manager_moves (manager_of l) (case res of Inl e \<Rightarrow> StartReturns (Inl e) | Inr _ \<Rightarrow> started_label oc) (manager_of l')"
proof (cases "Start oc now (manager_of l)")
  case (Pair r m)
  show ?thesis
  proof (cases r)
    case (Inl e)
    then have l': "res = Inl (StartingSubprocess e)" "manager_of l' = m"
      using assms(1) Pair by (auto simp: Start_process_def Let_def)
    have "m = manager_of l \<or> fresh_pid oc (manager_of l)"
      using Pair Inl by (cases oc) (auto simp: Start_def startLocked_def fresh_pid_def split: if_splits)
    then show ?thesis
      using pm_step.user_start [of oc now "manager_of l" r m] Pair Inl l' by (auto simp: manager_moves_def)
  next
    case (Inr u)
    then have l': "res = Inr ()" "manager_of l' = m"
      using assms(1) Pair by (auto simp: Start_process_def Let_def)
    have "\<exists>p. oc = Started p" using Pair Inr by (cases oc) (auto simp: Start_def startLocked_def split: if_splits)
    then show ?thesis
      using pm_step.user_start [of oc now "manager_of l" r m] Pair Inr l' assms(2) by (auto simp: manager_moves_def)
  qed
qed

lemma life_step_manager: "life_step l lab l' \<Longrightarrow> manager_moves (manager_of l) lab (manager_of l')"
proof (induction rule: life_step.induct)
  case (start_refused l e)
  then show ?case by (auto simp: manager_moves_def)
next
  case (start_enter l l')
  then show ?case by (auto simp: manager_moves_def Start_enter_def Let_def split: if_splits)
next
  case (start_failed l oc now e l')
  then show ?case using process_moves [of oc now l "Inl e" l'] by simp
next
  case (start_process l oc now l')
  then show ?case using process_moves [of oc now l "Inr ()" l'] by simp
next
  case (start_no_listener l)
  then show ?case
    using pm_step.stop_begin [OF surjective_pairing] by (auto simp: Start_no_listener_def intro!: moves_quiet)
next
  case (start_serve l res l')
  then have "manager_of l' = manager_of l" using StartListen_pm [of l] by simp
  then show ?case by (auto simp: manager_moves_def)
next
  case (start_return l res l')
  then show ?case by (auto simp: manager_moves_def Start_return_def)
next
  case (stop_enter l l')
  then show ?case by (auto simp: manager_moves_def Stop_enter_def set_running_def split: if_splits)
next
  case (stop_drained l timed_out)
  then show ?case
    using pm_step.stop_begin [OF surjective_pairing] by (auto simp: Stop_drained_def Let_def on_sessions_def on_handler_def intro!: moves_quiet)
next
  case (stop_close timed_out l)
  then show ?case
    using pm_step.close_begin [OF surjective_pairing] by (auto simp: Stop_close_def intro!: moves_quiet)
next
  case (read_line l wrs line)
  then show ?case by (auto simp: manager_moves_def on_handler_def)
next
  case (process l pl m)
  then show ?case by (cases pl) (auto simp: manager_moves_def restart_label_def)
next
  case (event l full l')
  then show ?case
    using pm_step.receive_event [of "manager_of l"] by (auto simp: take_event_def Events_def intro!: moves_quiet)
qed (auto simp: manager_moves_def)

lemma life_run_manager:
  assumes "life_run l0 ls l" "manager_of l0 = NewManager cfg"
  shows "\<exists>pls. pm_run (NewManager cfg) pls (manager_of l)"
  using assms
proof (induction rule: life_run.induct)
  case (begins l)
  then show ?case using pm_run.start by metis
next
  case (goes_on l ls l' lab l'')
  then obtain pls where "pm_run (NewManager cfg) pls (manager_of l')" by blast
  then show ?case
    using life_step_manager [OF goes_on.hyps(2)] pm_run.step unfolding manager_moves_def by metis
qed


section \<open>Stopped for good\<close>

abbreviation sessions_of :: "life \<Rightarrow> (string, addr) fmap" where
  "sessions_of l \<equiv> sm_sessions (h_sm (handler_of l))"

lemma life_frame [simp]:
  "lf_http (with_manager m l) = lf_http l" "lf_stopping (with_manager m l) = lf_stopping l"
  "lf_posts (with_manager m l) = lf_posts l" "lf_streams (with_manager m l) = lf_streams l"
  "sessions_of (with_manager m l) = sessions_of l"
  "lf_http (on_handler f l) = lf_http l" "lf_stopping (on_handler f l) = lf_stopping l"
  "lf_posts (on_handler f l) = lf_posts l" "lf_streams (on_handler f l) = lf_streams l"
  "handler_of (on_handler f l) = f (handler_of l)"
  "lf_http (on_sessions g l) = lf_http l" "lf_stopping (on_sessions g l) = lf_stopping l"
  "lf_posts (on_sessions g l) = lf_posts l" "lf_streams (on_sessions g l) = lf_streams l"
  "sessions_of (on_sessions g l) = sm_sessions (g (h_sm (handler_of l)))"
  "lf_http (set_running b l) = lf_http l" "lf_stopping (set_running b l) = lf_stopping l"
  "lf_posts (set_running b l) = lf_posts l" "lf_streams (set_running b l) = lf_streams l"
  "handler_of (set_running b l) = handler_of l"
  by (simp_all add: with_manager_def on_handler_def on_sessions_def set_running_def)

lemma sessions_simps [simp]:
  "sm_sessions (at_session a f sm) = sm_sessions sm" "sm_sessions (BroadcastNotification data sm) = sm_sessions sm"
  "sm_sessions (StartCleanup sm) = sm_sessions sm" "sm_sessions (StopCleanup sm) = sm_sessions sm"
  "sm_sessions (CloseAllSessions sm) = fmempty"
  by (simp_all add: at_session_def BroadcastNotification_def StartCleanup_def StopCleanup_def CloseAllSessions_def)

lemma cleanup_tick_empty: "sm_sessions sm = fmempty \<Longrightarrow> sm_sessions (cleanup_tick now sm) = fmempty"
  by (simp add: cleanup_tick_def cleanupExpiredSessions_def fmdelete_if_def)

lemma h_sm_each_client [simp]: "h_sm (each_client f h) = h_sm h"
  by (simp add: each_client_def)

lemma h_sm_unregister [simp]: "h_sm (unregister sid h) = h_sm h"
  by (simp add: unregister_def)

lemma on_writer_sm: "on_writer a f h = (b, h') \<Longrightarrow> h_sm h' = h_sm h"
  by (auto simp: on_writer_def split: prod.splits sum.splits)

lemma handle_line_sessions [simp]: "sm_sessions (h_sm (handle_line wrs line h)) = sm_sessions (h_sm h)"
  by (simp add: handle_line_def routeResponse_def routeNotification_def Let_def
      split: sum.split message_type.split option.split)

lemma handleRequest_end_sessions [simp]: "sm_sessions (h_sm (snd (handleRequest_end e flusher w h))) = sm_sessions (h_sm h)"
  by (simp add: handleRequest_end_def forget_def Let_def split: wait_event.split)

lemma HandleSSE_step_sessions: "HandleSSE_step e wr c h = (res, h') \<Longrightarrow> sm_sessions (h_sm h') = sm_sessions (h_sm h)"
  by (auto simp: HandleSSE_step_def Let_def split: stream_event.splits received_notification.splits prod.splits bool.splits
      dest!: on_writer_sm)

text \<open>After the shutdown of the HTTP server exchanges only end, and no session is made.\<close>

lemma closed_step:
  assumes "life_step l lab l'" "lf_http l = HttpClosed"
  shows "lf_http l' = HttpClosed \<and> set (lf_posts l') \<subseteq> set (lf_posts l) \<and> set (lf_streams l') \<subseteq> set (lf_streams l) \<and>
    (sessions_of l = fmempty \<longrightarrow> sessions_of l' = fmempty)"
  using assms
proof (induction rule: life_step.induct)
  case (post w l e flusher)
  then show ?case using set_remove1_subset [of w "lf_posts l"] by (auto simp: post_turn_def)
next
  case (stream c l e wr)
  then show ?case
    using set_remove1_subset [of c "lf_streams l"]
    by (auto simp: stream_turn_def split: prod.split dest!: HandleSSE_step_sessions)
next
  case (session_tick l now)
  then show ?case by (simp add: cleanup_tick_empty)
qed (auto simp: Start_enter_def Start_process_def Start_no_listener_def Start_serve_def Start_return_def Stop_enter_def
    Stop_drained_def Stop_close_def take_event_def Let_def split: if_splits prod.splits sum.splits)


text \<open>
  What stops leave behind: the HTTP server is shut down as soon as one begins; when the shutdown went
  through no exchange is open, and afterwards there are no sessions.
\<close>

definition halted :: "life \<Rightarrow> bool \<Rightarrow> bool" where
  "halted l timed_out \<longleftrightarrow>
     lf_http l = HttpClosed \<and> sessions_of l = fmempty \<and> (timed_out \<or> lf_posts l = [] \<and> lf_streams l = [])"

definition stop_inv :: "life_label list \<Rightarrow> life \<Rightarrow> bool" where
  "stop_inv ls l \<longleftrightarrow>
     (lf_stopping l \<noteq> [] \<longrightarrow> lf_http l = HttpClosed) \<and>
     (\<forall>b. StopManager b \<in> set (lf_stopping l) \<longrightarrow> halted l b) \<and>
     (\<forall>b. StopReturns b \<in> set ls \<longrightarrow> halted l b \<and> m_closed (manager_of l))"

lemma halted_step:
  assumes "life_step l lab l'" "halted l b"
  shows "halted l' b"
proof -
  from assms have "set (lf_posts l') \<subseteq> set (lf_posts l)" "set (lf_streams l') \<subseteq> set (lf_streams l)"
    "lf_http l' = HttpClosed" "sessions_of l' = fmempty"
    using closed_step [OF assms(1)] by (simp_all add: halted_def)
  with assms(2) show ?thesis by (auto simp: halted_def)
qed

text \<open>Where the stages of stops come from.\<close>

lemma stages_step:
  assumes "life_step l lab l'"
  shows "(lf_stopping l' \<noteq> [] \<longrightarrow> lf_stopping l \<noteq> [] \<or> lf_http l' = HttpClosed) \<and>
    (\<forall>b. StopManager b \<in> set (lf_stopping l') \<longrightarrow>
       StopManager b \<in> set (lf_stopping l) \<or>
       StopDraining \<in> set (lf_stopping l) \<and> l' = Stop_drained b l \<and> (b \<or> lf_posts l = [] \<and> lf_streams l = []))"
  using assms
proof (induction rule: life_step.induct)
  case (stop_drained l timed_out)
  have "set (remove1 StopDraining (lf_stopping l)) \<subseteq> set (lf_stopping l)" by (rule set_remove1_subset)
  then show ?case using stop_drained by (auto simp: Stop_drained_def Let_def)
next
  case (stop_close timed_out l)
  have "set (remove1 (StopManager timed_out) (lf_stopping l)) \<subseteq> set (lf_stopping l)" by (rule set_remove1_subset)
  then show ?case by (auto simp: Stop_close_def)
qed (auto simp: Start_enter_def Start_process_def Start_no_listener_def Start_serve_def Start_return_def Stop_enter_def
    take_event_def take_request_def post_turn_def stream_turn_def Let_def
    split: if_splits prod.splits sum.splits web_answer.splits option.splits)

lemma Stop_drained_halted:
  "lf_http l = HttpClosed \<Longrightarrow> b \<or> lf_posts l = [] \<and> lf_streams l = [] \<Longrightarrow> halted (Stop_drained b l) b"
  by (simp add: halted_def Stop_drained_def Let_def)

lemma stop_inv_step:
  assumes step: "life_step l lab l'" and inv: "stop_inv ls l" and close: "close_inv (manager_of l)"
  shows "stop_inv (ls @ [lab]) l'"
proof -
  have http: "lf_stopping l' \<noteq> [] \<longrightarrow> lf_http l' = HttpClosed"
    using stages_step [OF step] inv closed_step [OF step] by (auto simp: stop_inv_def)
  have managers: "halted l' b" if b: "StopManager b \<in> set (lf_stopping l')" for b
  proof (cases "StopManager b \<in> set (lf_stopping l)")
    case True
    then show ?thesis using inv halted_step [OF step] by (simp add: stop_inv_def)
  next
    case False
    then have d: "StopDraining \<in> set (lf_stopping l)" "l' = Stop_drained b l" "b \<or> lf_posts l = [] \<and> lf_streams l = []"
      using stages_step [OF step] b by blast+
    then have "lf_http l = HttpClosed" using inv by (auto simp: stop_inv_def)
    then show ?thesis using Stop_drained_halted d by simp
  qed
  have closed: "m_closed (manager_of l')" if "m_closed (manager_of l)"
    using life_step_manager [OF step] pm_step_close [OF _ close] that unfolding manager_moves_def by metis
  have returns: "halted l' b \<and> m_closed (manager_of l')" if b: "StopReturns b \<in> set (ls @ [lab])" for b
  proof (cases "StopReturns b \<in> set ls")
    case True
    then show ?thesis using inv halted_step [OF step] closed by (simp add: stop_inv_def)
  next
    case False
    then have lab: "lab = StopReturns b" using b by simp
    have s: "StopManager b \<in> set (lf_stopping l)" "l' = Stop_close b l"
      using stop_returns step lab by blast+
    then have "halted l b" using inv by (simp add: stop_inv_def)
    then have "halted l' b" by (rule halted_step [OF step])
    moreover have "m_closed (manager_of l')"
      by (simp add: s(2) Stop_close_def Close_begin_def Stop_begin_def split: prod.split)
    ultimately show ?thesis by simp
  qed
  show ?thesis unfolding stop_inv_def using http managers returns by blast
qed

lemma life_run_stop_inv:
  assumes "life_run l0 ls l" "manager_of l0 = NewManager cfg" "lf_stopping l0 = []"
  shows "stop_inv ls l"
  using assms
proof (induction rule: life_run.induct)
  case (begins l)
  then show ?case by (simp add: stop_inv_def)
next
  case (goes_on l ls l' lab l'')
  obtain pls where "pm_run (NewManager cfg) pls (manager_of l')"
    using life_run_manager [OF goes_on.hyps(1) goes_on.prems(1)] by blast
  then have "close_inv (manager_of l')" by (rule pm_run_close)
  then show ?case using goes_on stop_inv_step by blast
qed

lemma new_life_manager:
  "NewServer be (Some cfg) = Inr s \<Longrightarrow> manager_of (new_life s) = NewManager (process_config (svc_MCPServer cfg))"
  by (auto simp: NewServer_def new_life_def NewMCPHandler_def split: sum.splits)

text \<open>
  C12.  A server that has been stopped stays stopped.  In every run of a constructed server, whatever the
  interleaving of starts, stops, requests, event streams and the goroutines of the process manager, once
  a \<open>Stop\<close> has returned no connection is taken any more, and if its shutdown did not run out of time no
  exchange is open and no session is left; no later step starts a subprocess, neither the automatic
  restart nor a new \<open>Start\<close>, which the closed process manager refuses.
\<close>

theorem stopped_for_good:
  assumes new: "NewServer be (Some cfg) = Inr s" and run: "life_run (new_life s) ls l"
    and stopped: "StopReturns timed_out \<in> set ls" and step: "life_step l lab l'"
  shows "lf_http l = HttpClosed \<and>
    (timed_out \<or> lf_posts l = [] \<and> lf_streams l = [] \<and> SessionCount (h_sm (handler_of l)) = 0) \<and>
    lab \<notin> range ProcessStarted \<and>
    fst (Start_process oc now l) = Inl (StartingSubprocess ManagerIsClosed)"
proof -
  note m = new_life_manager [OF new]
  have "lf_stopping (new_life s) = []" by (simp add: new_life_def)
  from life_run_stop_inv [OF run m this] stopped have h: "halted l timed_out" "m_closed (manager_of l)"
    by (auto simp: stop_inv_def)
  obtain pls where "pm_run (NewManager (process_config (svc_MCPServer cfg))) pls (manager_of l)"
    using life_run_manager [OF run m] by blast
  then have c: "close_inv (manager_of l)" by (rule pm_run_close)
  have "lab \<notin> range ProcessStarted"
    using life_step_manager [OF step] pm_step_close [OF _ c] h(2) unfolding manager_moves_def by blast
  moreover have "fst (Start_process oc now l) = Inl (StartingSubprocess ManagerIsClosed)"
    using h(2) by (simp add: Start_process_def Start_def Let_def)
  ultimately show ?thesis using h(1) by (auto simp: halted_def SessionCount_def)
qed


text \<open>A stop of a server that was never started, as a run.\<close>

lemma snoc_run: "life_run l0 ls l \<Longrightarrow> life_step l lab l' \<Longrightarrow> ls' = ls @ [lab] \<Longrightarrow> life_run l0 ls' l'"
  using life_run.goes_on by simp

lemma stop_run:
  assumes "life_run l0 ls l" "\<not> lf_once l" "lf_posts l = []" "lf_streams l = []"
  shows "\<exists>l1. Stop_enter l = Some l1 \<and>
    life_run l0 (ls @ [Silent, Silent, StopReturns False]) (Stop_close False (Stop_drained False l1))"
proof -
  obtain l1 where l1: "Stop_enter l = Some l1" using assms(2) by (simp add: Stop_enter_def)
  then have d: "StopDraining \<in> set (lf_stopping l1)" "lf_posts l1 = []" "lf_streams l1 = []"
    using assms by (auto simp: Stop_enter_def)
  have "life_run l0 (ls @ [Silent]) l1" by (rule snoc_run [OF assms(1) life_step.stop_enter [OF l1]]) simp
  then have "life_run l0 (ls @ [Silent, Silent]) (Stop_drained False l1)"
    by (rule snoc_run [OF _ life_step.stop_drained [OF d(1)]]) (simp_all add: d)
  moreover have "StopManager False \<in> set (lf_stopping (Stop_drained False l1))"
    by (simp add: Stop_drained_def Let_def)
  ultimately have "life_run l0 (ls @ [Silent, Silent, StopReturns False]) (Stop_close False (Stop_drained False l1))"
    by (rule snoc_run [OF _ life_step.stop_close]) simp
  then show ?thesis using l1 by blast
qed

theorem stopped_for_good_witness:
  "\<exists>s l. NewServer plain_boot (Some guarded_bridge) = Inr s \<and>
     life_run (new_life s) [Silent, Silent, StopReturns False] l \<and> lf_http l = HttpClosed \<and>
     fst (Start_process (Started 7) 0 l) = Inl (StartingSubprocess ManagerIsClosed)"
proof -
  obtain s where s: "NewServer plain_boot (Some guarded_bridge) = Inr s" using guarded_boots by blast
  have "\<not> lf_once (new_life s)" "lf_posts (new_life s) = []" "lf_streams (new_life s) = []"
    by (simp_all add: new_life_def)
  from stop_run [OF life_run.begins this] obtain l where r: "life_run (new_life s) [Silent, Silent, StopReturns False] l"
    by auto
  have "life_step l Silent (on_sessions (cleanup_tick 0) l)" by (rule life_step.session_tick)
  from stopped_for_good [OF s r _ this, of False "Started 7" 0] show ?thesis using s r by auto
qed



end
