(* ===== verification/Logging.thy ===== *)
theory Logging
  imports Config_Types Jsonrpc "HOL-Library.List_Lexorder" "HOL-Library.Char_ord"
begin

text \<open>
  The logger (\<open>internal/logging/logger.go\<close>): levels, fields, both formats, and the lines that reach an
  output.  The time stamp of a record, the order in which Go ranges over a map, and which runes the
  Unicode tables call printable are arguments.
\<close>

section \<open>Levels and formats\<close>

datatype level = LevelDebug | LevelInfo | LevelWarn | LevelError

fun level_rank :: "level \<Rightarrow> nat" where
  "level_rank LevelDebug = 0"
| "level_rank LevelInfo = 1"
| "level_rank LevelWarn = 2"
| "level_rank LevelError = 3"

text \<open>The levels are compared as the integers they are.\<close>

lemma level_rank_inject: "level_rank a = level_rank b \<Longrightarrow> a = b"
  by (cases a; cases b) simp_all

instantiation level :: linorder
begin

definition less_eq_level :: "level \<Rightarrow> level \<Rightarrow> bool" where "less_eq_level a b \<longleftrightarrow> level_rank a \<le> level_rank b"

definition less_level :: "level \<Rightarrow> level \<Rightarrow> bool" where "less_level a b \<longleftrightarrow> level_rank a < level_rank b"

instance
  by standard (auto simp: less_eq_level_def less_level_def intro: level_rank_inject)

end

fun level_String :: "level \<Rightarrow> string" where
  "level_String LevelDebug = ''DEBUG''"
| "level_String LevelInfo = ''INFO''"
| "level_String LevelWarn = ''WARN''"
| "level_String LevelError = ''ERROR''"

definition level_MarshalJSON :: "level \<Rightarrow> json" where
  "level_MarshalJSON l = JText (to_lower (level_String l))"

text \<open>The level, and whether the text names one.\<close>

definition ParseLevel :: "string \<Rightarrow> level \<times> bool" where
  "ParseLevel s =
     (let t = to_lower (trim_space s)
      in if t = ''debug'' then (LevelDebug, True)
         else if t = ''info'' then (LevelInfo, True)
         else if t = ''warn'' \<or> t = ''warning'' then (LevelWarn, True)
         else if t = ''error'' then (LevelError, True)
         else (LevelInfo, False))"

datatype log_format = FormatText | FormatJSON

definition parseFormat :: "string \<Rightarrow> log_format" where
  "parseFormat s = (if to_lower (trim_space s) = ''json'' then FormatJSON else FormatText)"

section \<open>Values\<close>

text \<open>
  What is logged as a key or a value: a string; an error, with its text and with what the JSON package
  makes of its structure; or anything else, with its \<open>%v\<close> text and its JSON encoding, if it has one.
  The errors of \<open>errors.New\<close> and \<open>fmt.Errorf\<close> have no exported field, so they are encoded as \<open>{}\<close>.
\<close>

datatype log_value =
    LogString string
  | LogError string json
  | LogOther string "json option"

definition plain_error :: "string \<Rightarrow> log_value" where
  "plain_error text = LogError text (JObj [])"

fun value_text :: "log_value \<Rightarrow> string" where
  "value_text (LogString s) = s"
| "value_text (LogError t e) = t"
| "value_text (LogOther t e) = t"

fun value_json :: "log_value \<Rightarrow> json option" where
  "value_json (LogString s) = Some (JText s)"
| "value_json (LogError t e) = Some e"
| "value_json (LogOther t e) = e"

text \<open>\<open>%q\<close>: \<open>strconv.Quote\<close>, with \<open>printable\<close> for the runes beyond ASCII.\<close>

definition lower_hex :: "nat \<Rightarrow> nat \<Rightarrow> string" where
  "lower_hex width n = map (\<lambda>i. hex_digit (n div 16 ^ (width - Suc i) mod 16)) [0..<width]"

definition quoted_ascii :: "char \<Rightarrow> string" where
  "quoted_ascii c =
     (if c = quote_char \<or> c = back_slash then [back_slash, c]
      else if c = CHR 0x07 then [back_slash, CHR ''a'']
      else if c = CHR 0x08 then [back_slash, CHR ''b'']
      else if c = CHR 0x0C then [back_slash, CHR ''f'']
      else if c = LF then [back_slash, CHR ''n'']
      else if c = CR then [back_slash, CHR ''r'']
      else if c = CHR 0x09 then [back_slash, CHR ''t'']
      else if c = CHR 0x0B then [back_slash, CHR ''v'']
      else if byte_in 0 31 c \<or> c = CHR 0x7F then [back_slash, CHR ''x''] @ lower_hex 2 (of_char c)
      else [c])"

text \<open>The code point of a well-formed sequence of bytes.\<close>

definition rune_value :: "string \<Rightarrow> nat" where
  "rune_value r =
     (case map (of_char :: char \<Rightarrow> nat) r of
        [a, b] \<Rightarrow> (a mod 32) * 64 + b mod 64
      | [a, b, c] \<Rightarrow> (a mod 16) * 4096 + (b mod 64) * 64 + c mod 64
      | [a, b, c, d] \<Rightarrow> (a mod 8) * 262144 + (b mod 64) * 4096 + (c mod 64) * 64 + d mod 64
      | _ \<Rightarrow> 0)"

definition quoted_rune :: "(nat \<Rightarrow> bool) \<Rightarrow> string \<Rightarrow> string" where
  "quoted_rune printable r =
     (if printable (rune_value r) then r
      else if rune_value r < 65536 then [back_slash, CHR ''u''] @ lower_hex 4 (rune_value r)
      else [back_slash, CHR ''U''] @ lower_hex 8 (rune_value r))"

function quoted_body :: "(nat \<Rightarrow> bool) \<Rightarrow> string \<Rightarrow> string" where
  "quoted_body printable [] = []"
| "quoted_body printable (c # s) =
     (if byte_in 0 0x7F c then quoted_ascii c @ quoted_body printable s
      else if utf8_width (c # s) = 0 then [back_slash, CHR ''x''] @ lower_hex 2 (of_char c) @ quoted_body printable s
      else quoted_rune printable (take (utf8_width (c # s)) (c # s)) @
        quoted_body printable (drop (utf8_width (c # s)) (c # s)))"
  by pat_completeness auto
termination
  by (relation "measure (\<lambda>(p, s). length s)") auto

declare quoted_body.simps(2) [simp del]

definition quoted :: "(nat \<Rightarrow> bool) \<Rightarrow> string \<Rightarrow> string" where
  "quoted printable s = quote_char # quoted_body printable s @ [quote_char]"

definition formatValue :: "(nat \<Rightarrow> bool) \<Rightarrow> log_value \<Rightarrow> string" where
  "formatValue printable v =
     (case v of
        LogString s \<Rightarrow> if list_ex (\<lambda>c. c = CHR '' '' \<or> c = CHR 0x09 \<or> c = LF) s then quoted printable s else s
      | _ \<Rightarrow> value_text v)"

section \<open>Loggers\<close>

text \<open>An output is a stream of the process or one of the files the process has opened.\<close>

datatype log_output = ToStdout | ToStderr | ToFile nat

text \<open>
  What the loggers share: for every opened file its path and whether it is still open, and the text
  written to the two streams and to the files by path.
\<close>

record log_world =
  lw_files :: "(string \<times> bool) list"
  lw_text :: "string \<Rightarrow> string"
  lw_stdout :: string
  lw_stderr :: string

record logger =
  lg_level :: level
  lg_format :: log_format
  lg_output :: log_output
  lg_fields :: "(string, log_value) fmap"
  lg_file :: "nat option"

text \<open>\<open>parseOutput\<close>; \<open>can_open\<close> tells whether the file opens.\<close>

definition parseOutput ::
  "(string \<Rightarrow> bool) \<Rightarrow> string \<Rightarrow> log_world \<Rightarrow> (log_output \<times> nat option) option \<times> log_world" where
  "parseOutput can_open s w =
     (let t = to_lower (trim_space s)
      in if t = [] \<or> t = ''stdout'' then (Some (ToStdout, None), w)
         else if t = ''stderr'' then (Some (ToStderr, None), w)
         else if can_open s
         then (Some (ToFile (length (lw_files w)), Some (length (lw_files w))), w\<lparr>lw_files := lw_files w @ [(s, True)]\<rparr>)
         else (None, w))"

definition NewLogger :: "(string \<Rightarrow> bool) \<Rightarrow> log_config \<Rightarrow> log_world \<Rightarrow> logger option \<times> log_world" where
  "NewLogger can_open cfg w =
     (case parseOutput can_open (lgc_Output cfg) w of
        (None, w1) \<Rightarrow> (None, w1)
      | (Some (out, file), w1) \<Rightarrow>
          (Some \<lparr>lg_level = fst (ParseLevel (lgc_Level cfg)), lg_format = parseFormat (lgc_Format cfg),
             lg_output = out, lg_fields = fmempty, lg_file = file\<rparr>, w1))"

definition logger_Close :: "logger \<Rightarrow> log_world \<Rightarrow> logger \<times> log_world" where
  "logger_Close l w =
     (case lg_file l of
        None \<Rightarrow> (l, w)
      | Some f \<Rightarrow> (l\<lparr>lg_file := None\<rparr>, w\<lparr>lw_files := (lw_files w)[f := (fst (lw_files w ! f), False)]\<rparr>))"

definition WithFields :: "(string, log_value) fmap \<Rightarrow> logger \<Rightarrow> logger" where
  "WithFields fs l = l\<lparr>lg_fields := lg_fields l ++\<^sub>f fs, lg_file := None\<rparr>"

definition WithError :: "string option \<Rightarrow> logger \<Rightarrow> logger" where
  "WithError err l =
     (case err of None \<Rightarrow> l | Some t \<Rightarrow> WithFields (fmupd ''error'' (LogString t) fmempty) l)"

definition SetLevel :: "level \<Rightarrow> logger \<Rightarrow> logger" where "SetLevel v l = l\<lparr>lg_level := v\<rparr>"

definition GetLevel :: "logger \<Rightarrow> level" where "GetLevel l = lg_level l"

text \<open>The pairs of a call over the fields of the logger; a last key without a value gets a mark.\<close>

fun add_keyvals :: "log_value list \<Rightarrow> (string, log_value) fmap \<Rightarrow> (string, log_value) fmap" where
  "add_keyvals (k # v # rest) m = add_keyvals rest (fmupd (value_text k) v m)"
| "add_keyvals [k] m = fmupd (value_text k) (LogString ''MISSING_VALUE'') m"
| "add_keyvals [] m = m"

definition mergeFields :: "log_value list \<Rightarrow> logger \<Rightarrow> (string, log_value) fmap" where
  "mergeFields keyvals l = add_keyvals keyvals (lg_fields l)"

text \<open>The JSON package writes the members of a map in the order of their keys.\<close>

definition entry_members :: "(string, log_value) fmap \<Rightarrow> (string \<times> log_value) list" where
  "entry_members m = map (\<lambda>k. (k, the (fmlookup m k))) (sorted_list_of_fset (fmdom m))"

definition log_entry :: "string \<Rightarrow> level \<Rightarrow> string \<Rightarrow> (string, log_value) fmap \<Rightarrow> (string, log_value) fmap" where
  "log_entry ts lvl msg fs =
     fmupd ''msg'' (LogString msg) (fmupd ''level'' (LogString (to_lower (level_String lvl)))
       (fmupd ''time'' (LogString ts) fmempty)) ++\<^sub>f fs"

definition formatJSON :: "(nat \<Rightarrow> bool) \<Rightarrow> string \<Rightarrow> level \<Rightarrow> string \<Rightarrow> (string, log_value) fmap \<Rightarrow> string" where
  "formatJSON printable ts lvl msg fs =
     (let ms = entry_members (log_entry ts lvl msg fs)
      in if list_all (\<lambda>(k, v). value_json v \<noteq> None) ms
         then show_json (JObj (map (\<lambda>(k, v). (quote_text k, the (value_json v))) ms))
         else ''{'' @ quote_char # ''time'' @ quote_char # '':'' @ quoted printable ts @
           '','' @ quote_char # ''level'' @ quote_char # '':'' @ quoted printable (to_lower (level_String lvl)) @
           '','' @ quote_char # ''msg'' @ quote_char # '':'' @ quoted printable msg @
           '','' @ quote_char # ''error'' @ quote_char # '':'' @ quote_char # ''json marshal failed'' @ quote_char # ''}'')"

text \<open>\<open>order\<close>: the keys in the order the range over the map meets them.\<close>

definition formatText ::
  "(nat \<Rightarrow> bool) \<Rightarrow> string list \<Rightarrow> string \<Rightarrow> level \<Rightarrow> string \<Rightarrow> (string, log_value) fmap \<Rightarrow> string" where
  "formatText printable order ts lvl msg fs =
     ts @ '' '' @ level_String lvl @ '' '' @ msg @
     concat (map (\<lambda>k. '' '' @ k @ ''='' @ formatValue printable (the (fmlookup fs k))) order)"

definition write_line :: "log_output \<Rightarrow> string \<Rightarrow> log_world \<Rightarrow> log_world" where
  "write_line out line w =
     (case out of
        ToStdout \<Rightarrow> w\<lparr>lw_stdout := lw_stdout w @ line @ [LF]\<rparr>
      | ToStderr \<Rightarrow> w\<lparr>lw_stderr := lw_stderr w @ line @ [LF]\<rparr>
      | ToFile f \<Rightarrow>
          (case lw_files w ! f of
             (path, open) \<Rightarrow>
               if open then w\<lparr>lw_text := (lw_text w)(path := lw_text w path @ line @ [LF])\<rparr> else w))"

text \<open>\<open>log\<close>; no logger (\<open>nil\<close>) logs nothing.\<close>

definition log_record ::
  "(nat \<Rightarrow> bool) \<Rightarrow> string list \<Rightarrow> string \<Rightarrow> level \<Rightarrow> string \<Rightarrow> log_value list \<Rightarrow> logger option \<Rightarrow> log_world \<Rightarrow> log_world" where
  "log_record printable order ts lvl msg keyvals l0 w =
     (case l0 of
        None \<Rightarrow> w
      | Some l \<Rightarrow>
          if lvl < lg_level l then w
          else
            let fs = mergeFields keyvals l
            in write_line (lg_output l)
                 (case lg_format l of
                    FormatJSON \<Rightarrow> formatJSON printable ts lvl msg fs
                  | FormatText \<Rightarrow> formatText printable order ts lvl msg fs) w)"

section \<open>What a JSON log says\<close>

definition loggable :: "log_value \<Rightarrow> bool" where
  "loggable v \<longleftrightarrow> (case value_json v of None \<Rightarrow> False | Some j \<Rightarrow> json_ok j \<and> json_depth j < max_depth)"

definition entry_ok :: "(string, log_value) fmap \<Rightarrow> bool" where
  "entry_ok m \<longleftrightarrow> (\<forall>(k, v) \<in> set (entry_members m). valid_utf8 k \<and> loggable v)"

definition entry_json :: "(string, log_value) fmap \<Rightarrow> json" where
  "entry_json m = JObj (map (\<lambda>(k, v). (quote_text k, the (value_json v))) (entry_members m))"

lemma entry_member: "(k, v) \<in> set (entry_members m) \<longleftrightarrow> fmlookup m k = Some v"
  by (auto simp: entry_members_def fmlookup_dom_iff)

lemma entry_okI: "(\<And>k v. fmlookup m k = Some v \<Longrightarrow> valid_utf8 k \<and> loggable v) \<Longrightarrow> entry_ok m"
  by (auto simp: entry_ok_def entry_member)

lemma entry_ok_cases:
  assumes "entry_ok m" and "fmlookup m k = Some v"
  obtains j where "value_json v = Some j" and "json_ok j" and "json_depth j < max_depth" and "valid_utf8 k"
  using assms entry_member [of k v m] by (auto simp: entry_ok_def loggable_def split: option.splits)

lemma loggable_text [simp]: "loggable (LogString s)"
  by (simp add: loggable_def max_depth_def JText_def)

lemma log_entry_ok: "entry_ok m \<Longrightarrow> entry_ok (log_entry ts lvl msg m)"
proof (rule entry_okI)
  fix k v
  assume m: "entry_ok m" and "fmlookup (log_entry ts lvl msg m) k = Some v"
  then have "fmlookup m k = Some v \<or> (k \<in> {''time'', ''level'', ''msg''} \<and> loggable v)"
    by (auto simp: log_entry_def split: if_splits)
  moreover have "valid_utf8 ''time''" "valid_utf8 ''level''" "valid_utf8 ''msg''"
    by (rule ascii_valid, simp add: byte_in_def)+
  ultimately show "valid_utf8 k \<and> loggable v"
    using m by (auto simp: entry_ok_def entry_member)
qed

lemma entry_json_printable:
  assumes "entry_ok m"
  shows "json_ok (entry_json m)" and "json_depth (entry_json m) \<le> max_depth"
proof -
  show "json_ok (entry_json m)"
    using assms by (auto simp: entry_json_def entry_member elim: entry_ok_cases)
  have "json_depth (the (value_json v)) < max_depth" if "(k, v) \<in> set (entry_members m)" for k v
    using assms that by (auto simp: entry_member elim: entry_ok_cases)
  then show "json_depth (entry_json m) \<le> max_depth"
    by (auto simp: entry_json_def max_depth_def less_eq_Suc_le [symmetric] image_iff)
qed

lemma entry_json_lookup:
  assumes "entry_ok m"
  shows "map_of (map (\<lambda>(k, v). (unquote k, v)) (map (\<lambda>(k, v). (quote_text k, the (value_json v))) (entry_members m))) k =
    Option.bind (fmlookup m k) value_json"
proof -
  let ?ks = "sorted_list_of_fset (fmdom m)"
  have "map (\<lambda>(k, v). (unquote k, v)) (map (\<lambda>(k, v). (quote_text k, the (value_json v))) (entry_members m)) =
    map (\<lambda>k. (k, the (value_json (the (fmlookup m k))))) ?ks"
    using assms by (auto simp: entry_members_def intro!: unquote_quote_text elim: entry_ok_cases)
  also have "map_of \<dots> k = (if k \<in> set ?ks then Some (the (value_json (the (fmlookup m k)))) else None)"
    by (induction ?ks) (auto simp: map_of_map_restrict)
  also have "\<dots> = Option.bind (fmlookup m k) value_json"
    using assms by (cases "fmlookup m k") (auto simp: fmlookup_dom_iff elim: entry_ok_cases)
  finally show ?thesis .
qed

lemma formatJSON_entry:
  "entry_ok m \<Longrightarrow> formatJSON printable ts lvl msg m = show_json (entry_json (log_entry ts lvl msg m))"
  using log_entry_ok [of m ts lvl msg]
  by (auto simp: formatJSON_def entry_json_def entry_ok_def loggable_def Let_def list_all_iff split: option.splits)

text \<open>A call of the logger: time stamp, level, message and key-value pairs; and the line it makes.\<close>

type_synonym log_call = "string \<times> level \<times> string \<times> log_value list"

definition call_line :: "(nat \<Rightarrow> bool) \<Rightarrow> logger \<Rightarrow> log_call \<Rightarrow> string" where
  "call_line printable l c = (case c of (ts, lvl, msg, kvs) \<Rightarrow> formatJSON printable ts lvl msg (mergeFields kvs l))"

definition log_calls :: "(nat \<Rightarrow> bool) \<Rightarrow> string list \<Rightarrow> logger \<Rightarrow> log_call list \<Rightarrow> log_world \<Rightarrow> log_world" where
  "log_calls printable order l =
     fold (\<lambda>(ts, lvl, msg, kvs) w. log_record printable order ts lvl msg kvs (Some l) w)"

text \<open>What a record says of a key: the field of that name, else the time, the level or the message.\<close>

definition record_says :: "logger \<Rightarrow> log_call \<Rightarrow> string \<Rightarrow> json option" where
  "record_says l c k =
     (case c of (ts, lvl, msg, kvs) \<Rightarrow>
        case fmlookup (mergeFields kvs l) k of
          Some v \<Rightarrow> value_json v
        | None \<Rightarrow> map_of [(''time'', JText ts), (''level'', level_MarshalJSON lvl), (''msg'', JText msg)] k)"

lemma log_entry_lookup:
  "fmlookup (log_entry ts lvl msg fs) k =
     (case fmlookup fs k of
        Some v \<Rightarrow> Some v
      | None \<Rightarrow> map_of [(''time'', LogString ts), (''level'', LogString (to_lower (level_String lvl))), (''msg'', LogString msg)] k)"
proof (cases "fmlookup fs k")
  case None
  then have "k |\<notin>| fmdom fs" by (rule fmdom_notI)
  then show ?thesis unfolding log_entry_def fmlookup_add by (simp add: None)
next
  case (Some v)
  then have "k |\<in>| fmdom fs" by (rule fmdomI)
  then show ?thesis unfolding log_entry_def fmlookup_add by (simp add: Some)
qed

lemma log_entry_says:
  "Option.bind (fmlookup (log_entry ts lvl msg (mergeFields kvs l)) k) value_json = record_says l (ts, lvl, msg, kvs) k"
  unfolding log_entry_lookup record_says_def
  by (cases "fmlookup (mergeFields kvs l) k") (simp_all add: level_MarshalJSON_def)

lemma call_line_sound:
  assumes "entry_ok (mergeFields kvs l)"
  shows "LF \<notin> set (call_line printable l (ts, lvl, msg, kvs))"
    and "\<exists>ms. parse_json (call_line printable l (ts, lvl, msg, kvs)) = Some (JObj ms) \<and>
      map_of (map (\<lambda>(k, v). (unquote k, v)) ms) = record_says l (ts, lvl, msg, kvs)"
proof -
  note e = log_entry_ok [OF assms, of ts lvl msg]
  have line: "call_line printable l (ts, lvl, msg, kvs) = show_json (entry_json (log_entry ts lvl msg (mergeFields kvs l)))"
    using assms by (simp add: call_line_def formatJSON_entry)
  show "LF \<notin> set (call_line printable l (ts, lvl, msg, kvs))"
    using entry_json_printable(1) [OF e] by (simp add: line show_json_no_LF)
  show "\<exists>ms. parse_json (call_line printable l (ts, lvl, msg, kvs)) = Some (JObj ms) \<and>
      map_of (map (\<lambda>(k, v). (unquote k, v)) ms) = record_says l (ts, lvl, msg, kvs)"
    using parse_json_show(1) [OF entry_json_printable [OF e]] entry_json_lookup [OF e]
    by (auto simp: line entry_json_def log_entry_says)
qed

text \<open>
  C14.  A run of calls of a JSON logger on standard output adds one line for each call at its level or above,
  in the order of the calls, and nothing else; each line is a JSON object without a line break, in
  which a key has the value of the call's pair or the logger's field of that name, and only else the
  time, the level and the message.
\<close>

theorem json_log_stream:
  assumes json: "lg_format l = FormatJSON" and out: "lg_output l = ToStdout"
    and ok: "\<And>ts lvl msg kvs. (ts, lvl, msg, kvs) \<in> set calls \<Longrightarrow> entry_ok (mergeFields kvs l)"
  shows "lw_stdout (log_calls printable order l calls w) =
      lw_stdout w @ concat (map (\<lambda>c. call_line printable l c @ [LF]) (filter (\<lambda>c. lg_level l \<le> fst (snd c)) calls)) \<and>
    (\<forall>c \<in> set calls. LF \<notin> set (call_line printable l c) \<and>
      (\<exists>ms. parse_json (call_line printable l c) = Some (JObj ms) \<and>
         map_of (map (\<lambda>(k, v). (unquote k, v)) ms) = record_says l c))"
proof (intro conjI ballI)
  show "lw_stdout (log_calls printable order l calls w) =
      lw_stdout w @ concat (map (\<lambda>c. call_line printable l c @ [LF]) (filter (\<lambda>c. lg_level l \<le> fst (snd c)) calls))"
    using json out
    by (induction calls arbitrary: w)
       (auto simp: log_calls_def log_record_def write_line_def call_line_def Let_def not_less)
  fix c
  assume c: "c \<in> set calls"
  obtain ts lvl msg kvs where eq: "c = (ts, lvl, msg, kvs)" by (cases c) auto
  from ok c have "entry_ok (mergeFields kvs l)" by (simp add: eq)
  then show "LF \<notin> set (call_line printable l c)"
    and "\<exists>ms. parse_json (call_line printable l c) = Some (JObj ms) \<and>
         map_of (map (\<lambda>(k, v). (unquote k, v)) ms) = record_says l c"
    unfolding eq by (rule call_line_sound)+
qed

definition sample_logger :: logger where
  "sample_logger = \<lparr>lg_level = LevelInfo, lg_format = FormatJSON, lg_output = ToStdout, lg_fields = fmempty, lg_file = None\<rparr>"

definition sample_calls :: "log_call list" where
  "sample_calls =
     [(''12:00'', LevelDebug, ''quiet'', []),
      (''12:01'', LevelWarn, ''restarting'', [LogString ''pid'', LogOther ''7'' (Some (JNum ''7''))])]"

definition quiet_world :: log_world where
  "quiet_world = \<lparr>lw_files = [], lw_text = (\<lambda>_. []), lw_stdout = [], lw_stderr = []\<rparr>"

lemma sample_calls_ok: "(ts, lvl, msg, kvs) \<in> set sample_calls \<Longrightarrow> entry_ok (mergeFields kvs sample_logger)"
proof (rule entry_okI)
  fix k v
  assume "(ts, lvl, msg, kvs) \<in> set sample_calls" and "fmlookup (mergeFields kvs sample_logger) k = Some v"
  then have "k = ''pid'' \<and> v = LogOther ''7'' (Some (JNum ''7''))"
    by (auto simp: sample_calls_def mergeFields_def sample_logger_def split: if_splits)
  moreover have "valid_utf8 ''pid''" by (rule ascii_valid) (simp add: byte_in_def)
  ultimately show "valid_utf8 k \<and> loggable v"
    by (simp add: loggable_def max_depth_def number_ok_def scan_number_def scan_unsigned_def scan_int_def
        scan_frac_def scan_exp_def scan_digits_def is_digit_def has_prefix_def)
qed

theorem json_log_stream_witness:
  "lw_stdout (log_calls (\<lambda>_. True) [] sample_logger sample_calls quiet_world) =
     call_line (\<lambda>_. True) sample_logger (''12:01'', LevelWarn, ''restarting'', [LogString ''pid'', LogOther ''7'' (Some (JNum ''7''))]) @ [LF]"
  using json_log_stream [of sample_logger sample_calls "\<lambda>_. True" "[]" quiet_world, OF _ _ sample_calls_ok]
  by (simp add: sample_logger_def sample_calls_def quiet_world_def less_eq_level_def)

lemma formatJSON_cong:
  assumes "fmdom (log_entry ts lvl msg m) = fmdom (log_entry ts lvl msg m')"
    and val: "\<And>k. value_json (the (fmlookup (log_entry ts lvl msg m) k)) = value_json (the (fmlookup (log_entry ts lvl msg m') k))"
  shows "formatJSON printable ts lvl msg m = formatJSON printable ts lvl msg m'"
proof -
  let ?ks = "sorted_list_of_fset (fmdom (log_entry ts lvl msg m'))"
  have m: "entry_members (log_entry ts lvl msg m) = map (\<lambda>k. (k, the (fmlookup (log_entry ts lvl msg m) k))) ?ks"
    and m': "entry_members (log_entry ts lvl msg m') = map (\<lambda>k. (k, the (fmlookup (log_entry ts lvl msg m') k))) ?ks"
    by (simp_all add: entry_members_def assms(1))
  show ?thesis
    unfolding formatJSON_def m m' Let_def by (simp add: val case_prod_beta comp_def)
qed

text \<open>
  An error given as a value.  In the text format the record says it; in the JSON format the record is
  the same whatever the error of \<open>errors.New\<close> or \<open>fmt.Errorf\<close> says: an empty object stands for it.
\<close>

theorem json_log_loses_errors:
  "formatJSON printable ts lvl msg (mergeFields [LogString k, plain_error text] l) =
     formatJSON printable ts lvl msg (mergeFields [LogString k, plain_error text'] l) \<and>
   formatText printable [k] ts lvl msg (mergeFields [LogString k, plain_error text] (l\<lparr>lg_fields := fmempty\<rparr>)) =
     ts @ '' '' @ level_String lvl @ '' '' @ msg @ '' '' @ k @ ''='' @ text"
proof
  show "formatJSON printable ts lvl msg (mergeFields [LogString k, plain_error text] l) =
     formatJSON printable ts lvl msg (mergeFields [LogString k, plain_error text'] l)"
    by (rule formatJSON_cong) (auto simp: log_entry_def mergeFields_def plain_error_def split: option.splits)
qed (simp add: formatText_def mergeFields_def formatValue_def plain_error_def)

end
