(* ===== verification/Client_Transport.thy ===== *)
theory Client_Transport
  imports Sse_Stream Stdio_Lines Config_Types
begin

text \<open>
  The HTTP transport of the client (\<open>internal/client/transport.go\<close>): a message is posted, with
  retries on network faults and a delay that grows between them.  What the network, the context
  and the authenticator do is an oracle; what was posted and how long the transport waited is part of
  its state.
\<close>

section \<open>Delays\<close>

text \<open>
  \<open>time.Duration(float64(delay) * multiplier)\<close>: two roundings to a double and a conversion that
  truncates; out of range it gives the least integer, as on amd64.
\<close>

definition float_mult :: "float64 \<Rightarrow> float64 \<Rightarrow> float64 option" where
  "float_mult x y =
     (case (x, y) of (Float64 s m e, Float64 t n f) \<Rightarrow>
        if e + f \<ge> 0 then to_float64 (s \<noteq> t) (m * n * 2 ^ nat (e + f)) 1
        else to_float64 (s \<noteq> t) (m * n) (2 ^ nat (- (e + f))))"

definition float_truncate :: "float64 \<Rightarrow> int" where
  "float_truncate x =
     (case x of Float64 s m e \<Rightarrow>
        let a = int (if e \<ge> 0 then m * 2 ^ nat e else m div 2 ^ nat (- e)); v = (if s then - a else a)
        in if - (2 ^ 63) \<le> v \<and> v < 2 ^ 63 then v else - (2 ^ 63))"

definition scale_delay :: "float64 \<Rightarrow> duration \<Rightarrow> duration" where
  "scale_delay mult delay =
     (case to_float64 (delay < 0) (nat (abs delay)) 1 of
        None \<Rightarrow> - (2 ^ 63)
      | Some d \<Rightarrow> (case float_mult d mult of None \<Rightarrow> - (2 ^ 63) | Some p \<Rightarrow> float_truncate p))"

definition next_delay :: "retry_config \<Rightarrow> duration \<Rightarrow> duration" where
  "next_delay rc delay =
     (let d = scale_delay (rc_Multiplier rc) delay in if d > rc_MaxDelay rc then rc_MaxDelay rc else d)"

section \<open>Errors\<close>

text \<open>
  Why a request fails or a context ends: the network, a cancelled context, a deadline (which is also
  what the client's own timeout is).
\<close>

datatype fault = Network string | Cancelled | Deadline

record http_error =
  he_StatusCode :: int
  he_Status :: string
  he_Body :: string

datatype client_error =
    ErrTransportClosed
  | CreatingRequest
  | Authenticating string
  | ErrRequestCancelled
  | RequestFailed int fault
  | ErrRetryExhausted
  | HTTPErr http_error
  | ReadingBody fault
  | ContextEnded fault
  | SendingSSE fault
  | SendingMessage client_error
  | SendingSSERequest client_error
  | RetriesNotEnabled
  | MaxRetriesExceeded int
  | WritingResponse stdio_error
  | ErrClientClosed

definition HTTPError_Error :: "http_error \<Rightarrow> string" where
  "HTTPError_Error e =
     ''HTTP '' @ show_int (he_StatusCode e) @ '' '' @ he_Status e @
     (if he_Body e \<noteq> [] then '': '' @ he_Body e else [])"

definition IsRetryable :: "http_error \<Rightarrow> bool" where
  "IsRetryable e \<longleftrightarrow> he_StatusCode e \<in> {408, 429, 500, 502, 503, 504}"

definition IsSessionExpired :: "http_error \<Rightarrow> bool" where
  "IsSessionExpired e \<longleftrightarrow> he_StatusCode e = 404 \<or> he_StatusCode e = 410"

definition IsUnauthorized :: "http_error \<Rightarrow> bool" where
  "IsUnauthorized e \<longleftrightarrow> he_StatusCode e = 401 \<or> he_StatusCode e = 403"

text \<open>\<open>errors.Is(err, context.Canceled)\<close> or \<open>context.DeadlineExceeded\<close>, through the wrappings.\<close>

fun ends_context :: "client_error \<Rightarrow> bool" where
  "ends_context (RequestFailed n f) = (f = Cancelled \<or> f = Deadline)"
| "ends_context (ReadingBody f) = (f = Cancelled \<or> f = Deadline)"
| "ends_context (ContextEnded f) = (f = Cancelled \<or> f = Deadline)"
| "ends_context (SendingSSE f) = (f = Cancelled \<or> f = Deadline)"
| "ends_context (SendingMessage e) = ends_context e"
| "ends_context (SendingSSERequest e) = ends_context e"
| "ends_context _ = False"

text \<open>\<open>errors.As(err, &httpErr)\<close>\<close>

fun as_http_error :: "client_error \<Rightarrow> http_error option" where
  "as_http_error (HTTPErr e) = Some e"
| "as_http_error (SendingMessage e) = as_http_error e"
| "as_http_error (SendingSSERequest e) = as_http_error e"
| "as_http_error _ = None"

section \<open>The transport\<close>

text \<open>
  A response: status, status line, the session header, the bytes of the body that arrive, and why
  reading it fails after them, if it does.
\<close>

record http_response =
  hp_StatusCode :: int
  hp_Status :: string
  hp_session :: string
  hp_body :: string
  hp_fault :: "fault option"

text \<open>
  The oracle: what the \<open>n\<close>-th request made meets, whether the context ends during the \<open>n\<close>-th wait,
  what the \<open>n\<close>-th call of the authenticator says, how the \<open>n\<close>-th message goes to standard output,
  whether the loop's \<open>n\<close>-th \<open>select\<close> takes the end of the context.
\<close>

record net =
  nt_do :: "nat \<Rightarrow> fault + http_response"
  nt_wait :: "nat \<Rightarrow> fault option"
  nt_auth :: "nat \<Rightarrow> string option"
  nt_out :: "nat \<Rightarrow> out_outcome \<times> out_outcome"
  nt_select :: "nat \<Rightarrow> fault option"

text \<open>A request as it is made: what it accepts, the session it names, its body.\<close>

record posted =
  po_accept :: string
  po_session :: string
  po_body :: string

record transport =
  tp_url :: string
  tp_timeout :: duration
  tp_max_idle :: int
  tp_idle_timeout :: duration
  tp_retry :: retry_config
  tp_has_auth :: bool
  tp_closed :: bool
  tp_posts :: "posted list"
  tp_waits :: "duration list"
  tp_auths :: nat

text \<open>\<open>NewTransport\<close> has defaults of its own.\<close>

datatype new_error = ConfigRequired | URLRequired | CreatingAuthenticator string | CreatingTLS string

definition NewTransport :: "client_config option \<Rightarrow> bool \<Rightarrow> new_error + transport" where
  "NewTransport cfg has_auth =
     (case cfg of
        None \<Rightarrow> Inl ConfigRequired
      | Some cf \<Rightarrow>
          if cc_URL cf = [] then Inl URLRequired
          else Inr \<lparr>tp_url = cc_URL cf,
                 tp_timeout = (if cc_Timeout cf = 0 then 30 * second else cc_Timeout cf),
                 tp_max_idle = (if cc_MaxIdleConns cf = 0 then 100 else cc_MaxIdleConns cf),
                 tp_idle_timeout = (if cc_IdleConnTimeout cf = 0 then 90 * second else cc_IdleConnTimeout cf),
                 tp_retry = cc_Retry cf, tp_has_auth = has_auth, tp_closed = False,
                 tp_posts = [], tp_waits = [], tp_auths = 0\<rparr>)"

definition shouldRetry :: "fault option \<Rightarrow> http_response option \<Rightarrow> bool" where
  "shouldRetry err resp =
     (case err of
        Some f \<Rightarrow> f \<noteq> Cancelled \<and> f \<noteq> Deadline
      | None \<Rightarrow>
         (case resp of
            Some r \<Rightarrow> hp_StatusCode r \<in> {408, 429, 500, 502, 503, 504}
          | None \<Rightarrow> False))"

text \<open>
  The loop of \<open>doWithRetry\<close> with the attempts left: the response, the last fault, or the end of the
  context (\<open>Inl (Inr f)\<close>).
\<close>

fun attempts :: "net \<Rightarrow> posted \<Rightarrow> nat \<Rightarrow> duration \<Rightarrow> transport \<Rightarrow> ((fault option + fault) + http_response) \<times> transport" where
  "attempts nt p 0 delay tp = (Inl (Inl None), tp)"
| "attempts nt p (Suc n) delay tp =
     (case nt_do nt (length (tp_posts tp)) of
        Inr resp \<Rightarrow> (Inr resp, tp\<lparr>tp_posts := tp_posts tp @ [p]\<rparr>)
      | Inl f \<Rightarrow>
          let tp1 = tp\<lparr>tp_posts := tp_posts tp @ [p]\<rparr>
          in if \<not> shouldRetry (Some f) None \<or> n = 0 then (Inl (Inl (Some f)), tp1)
             else let tp2 = tp1\<lparr>tp_waits := tp_waits tp1 @ [delay]\<rparr>
             in case nt_wait nt (length (tp_waits tp1)) of
                  Some c \<Rightarrow> (Inl (Inr c), tp2)
                | None \<Rightarrow> attempts nt p n (next_delay (tp_retry tp) delay) tp2)"

definition max_attempts :: "retry_config \<Rightarrow> int" where
  "max_attempts rc = (if rc_Enabled rc then rc_MaxRetries rc + 1 else 1)"

definition doWithRetry :: "net \<Rightarrow> posted \<Rightarrow> transport \<Rightarrow> (client_error + http_response) \<times> transport" where
  "doWithRetry nt p tp =
     (case attempts nt p (nat (max_attempts (tp_retry tp))) (rc_InitialDelay (tp_retry tp)) tp of
        (Inr resp, tp') \<Rightarrow> (Inr resp, tp')
      | (Inl (Inr c), tp') \<Rightarrow> (Inl (ContextEnded c), tp')
      | (Inl (Inl None), tp') \<Rightarrow> (Inl ErrRetryExhausted, tp')
      | (Inl (Inl (Some f)), tp') \<Rightarrow>
          (Inl (if f = Cancelled then ErrRequestCancelled else RequestFailed (max_attempts (tp_retry tp)) f), tp'))"

text \<open>The call of the authenticator, if there is one.\<close>

definition authenticate :: "net \<Rightarrow> transport \<Rightarrow> string option \<times> transport" where
  "authenticate nt tp =
     (if tp_has_auth tp then (nt_auth nt (tp_auths tp), tp\<lparr>tp_auths := Suc (tp_auths tp)\<rparr>) else (None, tp))"

definition is_success :: "int \<Rightarrow> bool" where
  "is_success status \<longleftrightarrow> \<not> (status < 200 \<or> status \<ge> 300)"

definition response_error :: "http_response \<Rightarrow> client_error" where
  "response_error r =
     HTTPErr \<lparr>he_StatusCode = hp_StatusCode r, he_Status = hp_Status r,
       he_Body = hp_body r\<rparr>"

text \<open>\<open>Send\<close>: the body and the session of the response, or the error and the session it came with.\<close>

definition Send ::
  "net \<Rightarrow> string \<Rightarrow> string \<Rightarrow> transport \<Rightarrow> ((client_error \<times> string) + (string \<times> string)) \<times> transport" where
  "Send nt msg sessionID tp =
     (if tp_closed tp then (Inl (ErrTransportClosed, []), tp)
      else case authenticate nt tp of
        (Some e, tp1) \<Rightarrow> (Inl (Authenticating e, []), tp1)
      | (None, tp1) \<Rightarrow>
         (case doWithRetry nt \<lparr>po_accept = ''application/json'', po_session = sessionID, po_body = msg\<rparr> tp1 of
            (Inl e, tp2) \<Rightarrow> (Inl (e, []), tp2)
          | (Inr r, tp2) \<Rightarrow>
              if \<not> is_success (hp_StatusCode r) then (Inl (response_error r, hp_session r), tp2)
              else (case hp_fault r of
                      Some f \<Rightarrow> (Inl (ReadingBody f, hp_session r), tp2)
                    | None \<Rightarrow> (Inr (hp_body r, hp_session r), tp2))))"

text \<open>
  \<open>SendWithSSE\<close>: one request without retries; the messages are those of the event stream that
  is the body (what was received of it, when reading it fails).
\<close>

definition SendWithSSE ::
  "net \<Rightarrow> string \<Rightarrow> string \<Rightarrow> transport \<Rightarrow> ((client_error \<times> string) + (string list \<times> string)) \<times> transport" where
  "SendWithSSE nt msg sessionID tp =
     (if tp_closed tp then (Inl (ErrTransportClosed, []), tp)
      else case authenticate nt tp of
        (Some e, tp1) \<Rightarrow> (Inl (Authenticating e, []), tp1)
      | (None, tp1) \<Rightarrow>
          let tp2 = tp1\<lparr>tp_posts := tp_posts tp1 @ [\<lparr>po_accept = ''text/event-stream'', po_session = sessionID, po_body = msg\<rparr>]\<rparr>
          in (case nt_do nt (length (tp_posts tp1)) of
                Inl f \<Rightarrow> (Inl (if f = Cancelled then ErrRequestCancelled else SendingSSE f, []), tp2)
              | Inr r \<Rightarrow>
                  if \<not> is_success (hp_StatusCode r) then (Inl (response_error r, hp_session r), tp2)
                  else (Inr (sse_messages (NewSSEReader (hp_body r) (if hp_fault r = None then SSE_EOF else SSEReadFailed)),
                             hp_session r), tp2)))"

definition transport_Close :: "transport \<Rightarrow> transport" where
  "transport_Close tp = tp\<lparr>tp_closed := True\<rparr>"

definition transport_Closed :: "transport \<Rightarrow> bool" where
  "transport_Closed tp = tp_closed tp"

section \<open>What a transport may do\<close>

text \<open>
  A step of the transport: it posted at most \<open>n\<close> messages, each naming a session and a body that
  \<open>P\<close> allows, waited at most \<open>D\<close> before each repetition, and kept its configuration.
\<close>

definition grew :: "(posted \<Rightarrow> bool) \<Rightarrow> nat \<Rightarrow> duration \<Rightarrow> transport \<Rightarrow> transport \<Rightarrow> bool" where
  "grew P n D tp tp' \<longleftrightarrow>
     (\<exists>ps ws. tp_posts tp' = tp_posts tp @ ps \<and> tp_waits tp' = tp_waits tp @ ws \<and>
        length ps \<le> n \<and> list_all P ps \<and> list_all (\<lambda>w. w \<le> D) ws \<and> tp_retry tp' = tp_retry tp)"

lemma grewI:
  "tp_posts tp' = tp_posts tp @ ps \<Longrightarrow> tp_waits tp' = tp_waits tp @ ws \<Longrightarrow> length ps \<le> n \<Longrightarrow> list_all P ps \<Longrightarrow>
   list_all (\<lambda>w. w \<le> D) ws \<Longrightarrow> tp_retry tp' = tp_retry tp \<Longrightarrow> grew P n D tp tp'"
  unfolding grew_def by blast

lemma grew_refl [simp]: "grew P n D tp tp"
  by (rule grewI [of _ _ "[]" "[]"]) simp_all

lemma grew_trans: "grew P n D a b \<Longrightarrow> grew P m D b c \<Longrightarrow> grew P (n + m) D a c"
  unfolding grew_def by (elim exE conjE, rule_tac x = "ps @ psa" in exI, rule_tac x = "ws @ wsa" in exI) simp

lemma grew_mono: "grew P n D a b \<Longrightarrow> n \<le> m \<Longrightarrow> grew P m D a b"
  unfolding grew_def by (elim exE conjE) (intro exI conjI, assumption+, simp_all)

lemma grew_retry: "grew P n D a b \<Longrightarrow> tp_retry b = tp_retry a"
  by (auto simp: grew_def)

lemma grew_wait: "d \<le> D \<Longrightarrow> grew P n D tp (tp\<lparr>tp_waits := tp_waits tp @ [d]\<rparr>)"
  by (rule grewI [of _ _ "[]" "[d]"]) simp_all

lemma grew_post: "P p \<Longrightarrow> grew P (Suc n) D tp (tp\<lparr>tp_posts := tp_posts tp @ [p]\<rparr>)"
  by (rule grewI [of _ _ "[p]" "[]"]) simp_all

lemma next_delay_le: "next_delay rc d \<le> rc_MaxDelay rc"
  by (simp add: next_delay_def Let_def)

definition top_delay :: "retry_config \<Rightarrow> duration" where
  "top_delay rc = max (rc_InitialDelay rc) (rc_MaxDelay rc)"

lemma next_delay_top: "next_delay rc d \<le> top_delay rc"
  using next_delay_le [of rc d] by (simp add: top_delay_def)

lemma attempts_grew:
  "P p \<Longrightarrow> d \<le> top_delay (tp_retry tp) \<Longrightarrow> grew P n (top_delay (tp_retry tp)) tp (snd (attempts nt p n d tp))"
proof (induction n arbitrary: d tp)
  case 0
  then show ?case by simp
next
  case (Suc n)
  define tp1 where "tp1 = tp\<lparr>tp_posts := tp_posts tp @ [p]\<rparr>"
  define tp2 where "tp2 = tp1\<lparr>tp_waits := tp_waits tp1 @ [d]\<rparr>"
  have r: "tp_retry tp1 = tp_retry tp" "tp_retry tp2 = tp_retry tp" by (simp_all add: tp1_def tp2_def)
  have 1: "grew P (Suc n) (top_delay (tp_retry tp)) tp tp1"
    using Suc.prems(1) by (simp add: tp1_def grew_post)
  have "grew P (Suc 0) (top_delay (tp_retry tp)) tp tp1"
    using Suc.prems(1) by (simp add: tp1_def grew_post)
  moreover have "grew P 0 (top_delay (tp_retry tp)) tp1 tp2"
    using Suc.prems(2) by (simp add: tp2_def grew_wait)
  ultimately have 2: "grew P (Suc 0) (top_delay (tp_retry tp)) tp tp2"
    using grew_trans [of P "Suc 0" _ tp tp1 0 tp2] by simp
  have 3: "grew P n (top_delay (tp_retry tp)) tp2 (snd (attempts nt p n (next_delay (tp_retry tp) d) tp2))"
    using Suc.IH [of "next_delay (tp_retry tp) d" tp2] Suc.prems(1) next_delay_top r by simp
  have "snd (attempts nt p (Suc n) d tp) =
    (case nt_do nt (length (tp_posts tp)) of Inr _ \<Rightarrow> tp1
     | Inl f \<Rightarrow> if \<not> shouldRetry (Some f) None \<or> n = 0 then tp1
        else (case nt_wait nt (length (tp_waits tp1)) of Some c \<Rightarrow> tp2
          | None \<Rightarrow> snd (attempts nt p n (next_delay (tp_retry tp) d) tp2)))"
    by (simp add: tp1_def tp2_def Let_def split: sum.splits option.splits)
  then show ?case
    using 1 grew_mono [OF 2, of "Suc n"] grew_trans [OF 2 3]
    by (simp split: sum.splits option.splits)
qed

lemma doWithRetry_grew:
  assumes "P p"
  shows "grew P (nat (max_attempts (tp_retry tp))) (top_delay (tp_retry tp)) tp (snd (doWithRetry nt p tp))"
proof -
  have "snd (doWithRetry nt p tp) =
    snd (attempts nt p (nat (max_attempts (tp_retry tp))) (rc_InitialDelay (tp_retry tp)) tp)"
    by (auto simp: doWithRetry_def split: prod.splits sum.splits option.splits)
  moreover have "rc_InitialDelay (tp_retry tp) \<le> top_delay (tp_retry tp)" by (simp add: top_delay_def)
  ultimately show ?thesis using attempts_grew [of P p] assms by simp
qed

lemma authenticate_grew: "grew P n D tp (snd (authenticate nt tp))"
  by (rule grewI [of _ _ "[]" "[]"]) (simp_all add: authenticate_def)

lemma authenticate_retry [simp]: "tp_retry (snd (authenticate nt tp)) = tp_retry tp"
  by (simp add: authenticate_def)

lemma Send_grew:
  assumes "P \<lparr>po_accept = ''application/json'', po_session = s, po_body = msg\<rparr>"
  shows "grew P (nat (max_attempts (tp_retry tp))) (top_delay (tp_retry tp)) tp (snd (Send nt msg s tp))"
proof -
  define tp1 where "tp1 = snd (authenticate nt tp)"
  define tp2 where "tp2 = snd (doWithRetry nt \<lparr>po_accept = ''application/json'', po_session = s, po_body = msg\<rparr> tp1)"
  have r: "tp_retry tp1 = tp_retry tp" by (simp add: tp1_def)
  have 1: "grew P 0 (top_delay (tp_retry tp)) tp tp1" by (simp add: tp1_def authenticate_grew)
  have 2: "grew P (nat (max_attempts (tp_retry tp))) (top_delay (tp_retry tp)) tp1 tp2"
    using doWithRetry_grew [of P _ tp1] assms r by (simp add: tp2_def)
  have "snd (Send nt msg s tp) \<in> {tp, tp1, tp2}"
    by (auto simp: Send_def tp1_def tp2_def split: prod.splits sum.splits option.splits)
  then show ?thesis using grew_mono [OF 1] grew_trans [OF 1 2] by auto
qed

end
