(* ===== verification/Client.thy ===== *)
theory Client
  imports Client_Transport Jsonrpc
begin

text \<open>
  The client (\<open>internal/client/client.go\<close>): it reads messages from standard input, sends each to the
  server, keeps the session the server names, and writes the responses to standard output; an
  expired session is given up and, when retries are on, failed messages are sent again.
\<close>

section \<open>State\<close>

record client =
  c_retry :: retry_config
  c_transport :: transport
  c_stdio :: stdio_handler
  c_writes :: nat
  c_sessionID :: string
  c_closed :: bool

text \<open>
  \<open>NewClient\<close>; what \<open>auth.NewAuthenticator\<close> and \<open>tls.NewClientTLSConfig\<close> return is given, when they
  are configured.
\<close>

definition NewClient ::
  "(string + unit) option \<Rightarrow> (string + unit) option \<Rightarrow> client_config option \<Rightarrow> new_error + client" where
  "NewClient auth tls cfg =
     (case cfg of
        None \<Rightarrow> Inl ConfigRequired
      | Some cf \<Rightarrow>
          if cc_URL cf = [] then Inl URLRequired
          else case (auth, tls) of
            (Some (Inl e), _) \<Rightarrow> Inl (CreatingAuthenticator e)
          | (_, Some (Inl e)) \<Rightarrow> Inl (CreatingTLS e)
          | _ \<Rightarrow>
             (case NewTransport cfg (auth \<noteq> None) of
                Inl e \<Rightarrow> Inl e
              | Inr tp \<Rightarrow>
                  Inr \<lparr>c_retry = cc_Retry cf, c_transport = tp, c_stdio = \<lparr>sh_out = [], sh_closed = False\<rparr>,
                    c_writes = 0, c_sessionID = [], c_closed = False\<rparr>))"

definition set_session :: "string \<Rightarrow> client \<Rightarrow> client" where
  "set_session s c = c\<lparr>c_sessionID := s\<rparr>"

definition client_SessionID :: "client \<Rightarrow> string" where "client_SessionID c = c_sessionID c"

text \<open>A message without an \<open>id\<close> member; \<open>null\<close> decodes into a map without members.\<close>

definition isNotification :: "string \<Rightarrow> bool" where
  "isNotification raw =
     (case parse_json raw of
        Some (JObj ms) \<Rightarrow> \<not> list_ex (\<lambda>(k, v). unquote k = ''id'') ms
      | Some JNull \<Rightarrow> True
      | _ \<Rightarrow> False)"

text \<open>Writing to standard output, and sending.\<close>

definition write_out :: "net \<Rightarrow> string \<Rightarrow> client \<Rightarrow> stdio_error option \<times> client" where
  "write_out nt data c =
     (let (oc1, oc2) = nt_out nt (c_writes c)
      in case stdio_WriteMessage oc1 oc2 data (c_stdio c) of
           (Inl e, h) \<Rightarrow> (Some e, c\<lparr>c_stdio := h, c_writes := Suc (c_writes c)\<rparr>)
         | (Inr _, h) \<Rightarrow> (None, c\<lparr>c_stdio := h, c_writes := Suc (c_writes c)\<rparr>))"

definition send :: "net \<Rightarrow> string \<Rightarrow> string \<Rightarrow> client \<Rightarrow> (client_error + string \<times> string) \<times> client" where
  "send nt msg sessionID c =
     (case Send nt msg sessionID (c_transport c) of
        (Inl (e, _), tp) \<Rightarrow> (Inl e, c\<lparr>c_transport := tp\<rparr>)
      | (Inr r, tp) \<Rightarrow> (Inr r, c\<lparr>c_transport := tp\<rparr>))"

text \<open>What is done with a response: nothing for a notification or when it is empty.\<close>

definition deliver :: "net \<Rightarrow> bool \<Rightarrow> string \<Rightarrow> client \<Rightarrow> client_error option \<times> client" where
  "deliver nt notif response c =
     (if notif \<or> response = [] then (None, c)
      else case write_out nt response c of
        (Some e, c') \<Rightarrow> (Some (WritingResponse e), c')
      | (None, c') \<Rightarrow> (None, c'))"

section \<open>Messages\<close>

text \<open>The loop of \<open>retryMessage\<close>, with the attempts left.\<close>

fun resend :: "net \<Rightarrow> string \<Rightarrow> string \<Rightarrow> nat \<Rightarrow> duration \<Rightarrow> client \<Rightarrow> client_error option \<times> client" where
  "resend nt msg sessionID 0 delay c = (Some (MaxRetriesExceeded (rc_MaxRetries (c_retry c))), c)"
| "resend nt msg sessionID (Suc n) delay c =
     (let tp = c_transport c;
          c1 = c\<lparr>c_transport := tp\<lparr>tp_waits := tp_waits tp @ [delay]\<rparr>\<rparr>
      in case nt_wait nt (length (tp_waits tp)) of
           Some f \<Rightarrow> (Some (ContextEnded f), c1)
         | None \<Rightarrow>
            (case send nt msg sessionID c1 of
               (Inr (response, s), c2) \<Rightarrow>
                 deliver nt (isNotification msg) response (if s \<noteq> [] then set_session s c2 else c2)
             | (Inl e, c2) \<Rightarrow> resend nt msg sessionID n (next_delay (c_retry c) delay) c2))"

definition retryMessage :: "net \<Rightarrow> string \<Rightarrow> string \<Rightarrow> client \<Rightarrow> client_error option \<times> client" where
  "retryMessage nt msg sessionID c =
     (if \<not> rc_Enabled (c_retry c) then (Some RetriesNotEnabled, c)
      else resend nt msg sessionID (nat (rc_MaxRetries (c_retry c))) (rc_InitialDelay (c_retry c)) c)"

definition handleSendError :: "net \<Rightarrow> string \<Rightarrow> client_error \<Rightarrow> client \<Rightarrow> client_error option \<times> client" where
  "handleSendError nt msg err c =
     (if (case as_http_error err of Some h \<Rightarrow> IsSessionExpired h | None \<Rightarrow> False)
      then retryMessage nt msg [] (set_session [] c)
      else if \<not> rc_Enabled (c_retry c) then (Some (SendingMessage err), c)
      else retryMessage nt msg (c_sessionID c) c)"

definition handleMessage :: "net \<Rightarrow> string \<Rightarrow> client \<Rightarrow> client_error option \<times> client" where
  "handleMessage nt msg c =
     (case send nt msg (c_sessionID c) c of
        (Inl e, c1) \<Rightarrow> handleSendError nt msg e c1
      | (Inr (response, s), c1) \<Rightarrow>
          deliver nt (isNotification msg) response
            (if s \<noteq> [] \<and> s \<noteq> c_sessionID c then set_session s c1 else c1))"

text \<open>The events of a streamed answer; an empty one is skipped.\<close>

fun deliver_events :: "net \<Rightarrow> bool \<Rightarrow> string list \<Rightarrow> client \<Rightarrow> client_error option \<times> client" where
  "deliver_events nt notif [] c = (None, c)"
| "deliver_events nt notif (ev # evs) c =
     (if ev = [] \<or> notif then deliver_events nt notif evs c
      else case write_out nt ev c of
        (Some e, c') \<Rightarrow> (Some (WritingResponse e), c')
      | (None, c') \<Rightarrow> deliver_events nt notif evs c')"

definition handleMessageWithSSE :: "net \<Rightarrow> string \<Rightarrow> client \<Rightarrow> client_error option \<times> client" where
  "handleMessageWithSSE nt msg c =
     (case SendWithSSE nt msg (c_sessionID c) (c_transport c) of
        (Inl (e, _), tp) \<Rightarrow> (Some (SendingSSERequest e), c\<lparr>c_transport := tp\<rparr>)
      | (Inr (events, s), tp) \<Rightarrow>
          (let c1 = c\<lparr>c_transport := tp\<rparr>
           in deliver_events nt (isNotification msg) events
                (if s \<noteq> [] \<and> s \<noteq> c_sessionID c then set_session s c1 else c1)))"

text \<open>
  The loop of \<open>Run\<close> and \<open>RunWithSSE\<close>, which differ in the handler of a message: the \<open>k\<close>-th
  \<open>select\<close> takes the end of the context or the next message of standard input (when that has ended,
  the end of the context still counts); an error of a message is logged unless it ends the context.
\<close>

fun run_loop ::
  "net \<Rightarrow> (string \<Rightarrow> client \<Rightarrow> client_error option \<times> client) \<Rightarrow> nat \<Rightarrow> string list \<Rightarrow> client \<Rightarrow>
   client_error option \<times> client" where
  "run_loop nt handle k [] c = (map_option ContextEnded (nt_select nt k), c)"
| "run_loop nt handle k (msg # msgs) c =
     (case nt_select nt k of
        Some f \<Rightarrow> (Some (ContextEnded f), c)
      | None \<Rightarrow>
         (case handle msg c of
            (Some e, c') \<Rightarrow> if ends_context e then (Some e, c') else run_loop nt handle (Suc k) msgs c'
          | (None, c') \<Rightarrow> run_loop nt handle (Suc k) msgs c'))"

definition Run :: "net \<Rightarrow> iteration list \<Rightarrow> client \<Rightarrow> client_error option \<times> client" where
  "Run nt stdin c =
     (if c_closed c then (Some ErrClientClosed, c)
      else run_loop nt (handleMessage nt) 0 (ReadMessages stdin) c)"

definition RunWithSSE :: "net \<Rightarrow> iteration list \<Rightarrow> client \<Rightarrow> client_error option \<times> client" where
  "RunWithSSE nt stdin c =
     (if c_closed c then (Some ErrClientClosed, c)
      else run_loop nt (handleMessageWithSSE nt) 0 (ReadMessages stdin) c)"

definition client_Close :: "client \<Rightarrow> client" where
  "client_Close c =
     (if c_closed c then c
      else c\<lparr>c_closed := True, c_transport := transport_Close (c_transport c), c_stdio := stdio_Close (c_stdio c)\<rparr>)"

section \<open>How much one message may cause\<close>

lemma client_transport_simps [simp]:
  "c_transport (set_session s c) = c_transport c" "c_retry (set_session s c) = c_retry c"
  "c_stdio (set_session s c) = c_stdio c" "c_writes (set_session s c) = c_writes c"
  "c_sessionID (set_session s c) = s" "c_closed (set_session s c) = c_closed c"
  by (simp_all add: set_session_def)

lemma write_out_keeps:
  "c_transport (snd (write_out nt d c)) = c_transport c \<and> c_retry (snd (write_out nt d c)) = c_retry c \<and>
   c_closed (snd (write_out nt d c)) = c_closed c"
  by (simp add: write_out_def split: prod.splits sum.splits)

lemma deliver_keeps:
  "c_transport (snd (deliver nt b r c)) = c_transport c \<and> c_retry (snd (deliver nt b r c)) = c_retry c \<and>
   c_closed (snd (deliver nt b r c)) = c_closed c"
  using write_out_keeps [of nt r c] by (auto simp: deliver_def split: prod.splits option.splits)

lemma send_snd: "snd (send nt msg s c) = c\<lparr>c_transport := snd (Send nt msg s (c_transport c))\<rparr>"
  by (simp add: send_def split: prod.splits sum.splits)

text \<open>The retry settings of a client and of its transport are those of one configuration.\<close>

definition one_config :: "client \<Rightarrow> bool" where
  "one_config c \<longleftrightarrow> tp_retry (c_transport c) = c_retry c"

definition sent :: "string \<Rightarrow> posted \<Rightarrow> bool" where
  "sent msg p \<longleftrightarrow> po_accept p = ''application/json'' \<and> po_body p = msg"

text \<open>A step of the client that causes at most \<open>n\<close> requests.\<close>

definition caused :: "(posted \<Rightarrow> bool) \<Rightarrow> nat \<Rightarrow> client \<Rightarrow> client \<Rightarrow> bool" where
  "caused P n c c' \<longleftrightarrow>
     grew P n (top_delay (c_retry c)) (c_transport c) (c_transport c') \<and> c_retry c' = c_retry c"

lemma caused_refl [simp]: "caused P n c c" by (simp add: caused_def)

lemma caused_trans: "caused P n a b \<Longrightarrow> caused P m b c \<Longrightarrow> caused P (n + m) a c"
  unfolding caused_def using grew_trans by metis

lemma caused_mono: "caused P n a b \<Longrightarrow> n \<le> m \<Longrightarrow> caused P m a b"
  unfolding caused_def using grew_mono by metis

lemma caused_one_config: "caused P n a b \<Longrightarrow> one_config a \<Longrightarrow> one_config b"
  by (auto simp: caused_def one_config_def dest: grew_retry)

lemma caused_weaken: "(\<And>p. P p \<Longrightarrow> Q p) \<Longrightarrow> caused P n a b \<Longrightarrow> caused Q n a b"
  unfolding caused_def grew_def by (metis list.pred_mono_strong)

lemma caused_set_session [simp]:
  "caused P n a (set_session s b) = caused P n a b" "caused P n (set_session s a) b = caused P n a b"
  by (simp_all add: caused_def)

lemma caused_deliver: "caused P n a b \<Longrightarrow> caused P n a (snd (deliver nt f r b))"
  by (simp add: caused_def deliver_keeps)

abbreviation rounds :: "client \<Rightarrow> nat" where
  "rounds c \<equiv> nat (max_attempts (c_retry c))"

lemma send_caused:
  "one_config c \<Longrightarrow> caused (sent msg) (rounds c) c (snd (send nt msg s c))"
  using Send_grew [of "sent msg" s msg "c_transport c" nt]
  by (simp add: caused_def send_snd one_config_def sent_def)

lemma resend_caused:
  "one_config c \<Longrightarrow> d \<le> top_delay (c_retry c) \<Longrightarrow>
   caused (sent msg) (n * rounds c) c (snd (resend nt msg s n d c))"
proof (induction n arbitrary: d c)
  case 0
  then show ?case by simp
next
  case (Suc n)
  define c1 where "c1 = c\<lparr>c_transport := (c_transport c)\<lparr>tp_waits := tp_waits (c_transport c) @ [d]\<rparr>\<rparr>"
  define c2 where "c2 = snd (send nt msg s c1)"
  have 1: "caused (sent msg) 0 c c1"
    using Suc.prems(2) by (simp add: caused_def c1_def grew_wait)
  then have o1: "one_config c1" using Suc.prems(1) caused_one_config by blast
  have r1: "c_retry c1 = c_retry c" by (simp add: c1_def)
  have 2: "caused (sent msg) (rounds c) c1 c2"
    using send_caused [OF o1, of msg nt s] r1 by (simp add: c2_def)
  then have o2: "one_config c2" using o1 caused_one_config by blast
  have r2: "c_retry c2 = c_retry c" using 2 r1 by (simp add: caused_def)
  have 12: "caused (sent msg) (rounds c) c c2" using caused_trans [OF 1 2] by simp
  have 3: "caused (sent msg) (n * rounds c) c2 (snd (resend nt msg s n (next_delay (c_retry c) d) c2))"
    using Suc.IH [OF o2] next_delay_top r2 by simp
  have 4: "caused (sent msg) (rounds c + n * rounds c) c c2"
    by (rule caused_mono [OF 12]) simp
  have w: "caused (sent msg) (rounds c + n * rounds c) c c1"
    by (rule caused_mono [OF 1]) simp
  have "snd (resend nt msg s (Suc n) d c) =
    (case nt_wait nt (length (tp_waits (c_transport c))) of
       Some f \<Rightarrow> c1
     | None \<Rightarrow>
        (case fst (send nt msg s c1) of
           Inr (response, s') \<Rightarrow> snd (deliver nt (isNotification msg) response (if s' \<noteq> [] then set_session s' c2 else c2))
         | Inl e \<Rightarrow> snd (resend nt msg s n (next_delay (c_retry c) d) c2)))"
    using r1 by (simp add: c1_def c2_def Let_def split: option.splits prod.splits sum.splits)
  then show ?case
    using w caused_deliver [OF 4] caused_deliver [of _ _ c "set_session _ c2"] 4 caused_trans [OF 12 3]
    by (simp split: option.splits sum.splits)
qed

lemma rounds_square: "rounds c + nat (rc_MaxRetries (c_retry c)) * rounds c \<le> rounds c * rounds c"
  if "rc_Enabled (c_retry c)"
proof (cases "0 \<le> rc_MaxRetries (c_retry c)")
  case True
  then have "rounds c = Suc (nat (rc_MaxRetries (c_retry c)))"
    using that by (simp add: max_attempts_def nat_add_distrib)
  then show ?thesis by simp
next
  case False
  then have "rounds c = 0" using that by (simp add: max_attempts_def)
  then show ?thesis by simp
qed

lemma handleSendError_caused:
  assumes "one_config c"
  shows "caused (sent msg) (if rc_Enabled (c_retry c) then nat (rc_MaxRetries (c_retry c)) * rounds c else 0)
    c (snd (handleSendError nt msg e c))"
  using resend_caused [of c "rc_InitialDelay (c_retry c)" msg "nat (rc_MaxRetries (c_retry c))"]
    resend_caused [of "set_session [] c" "rc_InitialDelay (c_retry c)" msg "nat (rc_MaxRetries (c_retry c))"]
    assms
  by (auto simp: handleSendError_def retryMessage_def top_delay_def one_config_def split: option.splits)

lemma handleMessage_caused:
  assumes "one_config c"
  shows "caused (sent msg) (rounds c * rounds c) c (snd (handleMessage nt msg c))"
proof -
  define c1 where "c1 = snd (send nt msg (c_sessionID c) c)"
  have 1: "caused (sent msg) (rounds c) c c1" using send_caused [OF assms] by (simp add: c1_def)
  have r: "c_retry c1 = c_retry c" using 1 by (simp add: caused_def)
  have sq: "rounds c \<le> rounds c * rounds c" by (cases "rounds c") simp_all
  show ?thesis
  proof (cases "fst (send nt msg (c_sessionID c) c)")
    case (Inl e)
    then have eq: "snd (handleMessage nt msg c) = snd (handleSendError nt msg e c1)"
      by (auto simp: handleMessage_def c1_def split: prod.splits)
    have 2: "caused (sent msg) (if rc_Enabled (c_retry c) then nat (rc_MaxRetries (c_retry c)) * rounds c else 0)
        c1 (snd (handleSendError nt msg e c1))"
      using handleSendError_caused [OF caused_one_config [OF 1 assms], of msg nt e] unfolding r .
    show ?thesis
      using caused_trans [OF 1 2] rounds_square [of c] sq unfolding eq
      by (auto intro: caused_mono)
  next
    case (Inr rs)
    then have "snd (handleMessage nt msg c) \<in>
      {snd (deliver nt (isNotification msg) (fst rs) (set_session (snd rs) c1)),
       snd (deliver nt (isNotification msg) (fst rs) c1)}"
      by (auto simp: handleMessage_def c1_def split: prod.splits)
    then show ?thesis
      using caused_deliver [OF caused_mono [OF 1 sq]]
        caused_deliver [of _ _ c "set_session (snd rs) c1"] caused_mono [OF 1 sq] by auto
  qed
qed

lemma run_loop_caused:
  "one_config c \<Longrightarrow>
   caused (\<lambda>p. \<exists>m \<in> set msgs. sent m p) (length msgs * (rounds c * rounds c)) c
     (snd (run_loop nt (handleMessage nt) k msgs c))"
proof (induction msgs arbitrary: k c)
  case Nil
  then show ?case by simp
next
  case (Cons m ms)
  let ?P = "\<lambda>p. \<exists>m' \<in> set (m # ms). sent m' p"
  define c1 where "c1 = snd (handleMessage nt m c)"
  have 1: "caused ?P (rounds c * rounds c) c c1"
    unfolding c1_def using caused_weaken [OF _ handleMessage_caused [OF Cons.prems]] by simp
  have o: "one_config c1" using caused_one_config [OF 1 Cons.prems] .
  have r: "c_retry c1 = c_retry c" using 1 by (simp add: caused_def)
  have 2: "caused ?P (length ms * (rounds c * rounds c)) c1 (snd (run_loop nt (handleMessage nt) (Suc k) ms c1))"
    using caused_weaken [OF _ Cons.IH [OF o, of "Suc k"], of ?P] r by auto
  have "snd (run_loop nt (handleMessage nt) k (m # ms) c) \<in>
    {c, c1, snd (run_loop nt (handleMessage nt) (Suc k) ms c1)}"
    by (auto simp: c1_def split: option.splits prod.splits)
  then show ?case
    using caused_mono [OF 1] caused_trans [OF 1 2] by auto
qed

text \<open>
  C21.  The requests one run of the client makes are bounded.  A client made by \<open>NewClient\<close> posts, over a
  whole run, at most (\<open>MaxRetries\<close> + 1) squared requests for each message of standard input when
  retries are on (each of the repetitions of \<open>retryMessage\<close> repeats the request itself in
  \<open>doWithRetry\<close>) and at most one when they are off; every body it posts is one of these messages, and it
  never waits longer than the larger of \<open>InitialDelay\<close> and \<open>MaxDelay\<close>.
\<close>

theorem requests_bounded:
  assumes "NewClient auth tls (Some cfg) = Inr c"
  shows "(let c' = snd (Run nt stdin c); rc = cc_Retry cfg;
              r = nat (if rc_Enabled rc then rc_MaxRetries rc + 1 else 1)
          in length (tp_posts (c_transport c')) \<le> length (ReadMessages stdin) * (r * r) \<and>
             list_all (\<lambda>p. po_body p \<in> set (ReadMessages stdin)) (tp_posts (c_transport c')) \<and>
             list_all (\<lambda>w. w \<le> max (rc_InitialDelay rc) (rc_MaxDelay rc)) (tp_waits (c_transport c')))"
proof -
  have new: "one_config c \<and> c_retry c = cc_Retry cfg \<and> tp_posts (c_transport c) = [] \<and>
      tp_waits (c_transport c) = [] \<and> \<not> c_closed c"
    using assms by (auto simp: NewClient_def NewTransport_def one_config_def split: if_splits option.splits sum.splits)
  then have "snd (Run nt stdin c) = snd (run_loop nt (handleMessage nt) 0 (ReadMessages stdin) c)"
    by (simp add: Run_def)
  then show ?thesis
    using run_loop_caused [of c "ReadMessages stdin" nt 0] new
    by (auto simp: caused_def grew_def Let_def max_attempts_def top_delay_def sent_def list_all_iff)
qed

definition plain_retry :: retry_config where
  "plain_retry =
     \<lparr>rc_Enabled = True, rc_MaxRetries = 2, rc_InitialDelay = second, rc_MaxDelay = 4 * second,
      rc_Multiplier = Float64 False 2 0\<rparr>"

definition plain_config :: client_config where
  "plain_config =
     \<lparr>cc_URL = ''https://mcp.example'', cc_TLS = None, cc_Auth = None, cc_Timeout = 0, cc_MaxIdleConns = 0, cc_IdleConnTimeout = 0,
      cc_Retry = plain_retry\<rparr>"

definition plain_client :: client where
  "plain_client = (case NewClient None None (Some plain_config) of Inr c \<Rightarrow> c)"

lemma plain_client: "NewClient None None (Some plain_config) = Inr plain_client"
  by (simp add: plain_client_def NewClient_def NewTransport_def plain_config_def)

lemma plain_stdio: "c_stdio plain_client = \<lparr>sh_out = [], sh_closed = False\<rparr>"
  by (simp add: plain_client_def NewClient_def NewTransport_def plain_config_def)

definition down_net :: net where
  "down_net =
     \<lparr>nt_do = \<lambda>_. Inl (Network ''connection refused''), nt_wait = \<lambda>_. None, nt_auth = \<lambda>_. None,
      nt_out = \<lambda>_. (OutOk, OutOk), nt_select = \<lambda>_. None\<rparr>"

lemma plain_input: "ReadMessages (byte_reads (''[]'' @ [LF])) = [''[]'']"
  using ReadMessages_lines [of "[''[]'']"] by (simp add: line_ok_def)

theorem requests_bounded_witness:
  "length (tp_posts (c_transport (snd (Run down_net (byte_reads (''[]'' @ [LF])) plain_client)))) \<le> 9"
  using requests_bounded [OF plain_client, of down_net "byte_reads (''[]'' @ [LF])"]
  unfolding plain_input by (simp add: Let_def plain_config_def plain_retry_def)

section \<open>A server that cannot be reached\<close>

definition unreachable :: "net \<Rightarrow> bool" where
  "unreachable nt \<longleftrightarrow>
     (\<forall>k. \<exists>e. nt_do nt k = Inl (Network e)) \<and> (\<forall>k. nt_wait nt k = None) \<and> (\<forall>k. nt_auth nt k = None)"

text \<open>The transport after posting \<open>p\<close> for \<open>n\<close> times, with some waits and calls of the authenticator.\<close>

definition posted_times :: "nat \<Rightarrow> posted \<Rightarrow> transport \<Rightarrow> transport \<Rightarrow> bool" where
  "posted_times n p tp tp' \<longleftrightarrow>
     (\<exists>ws a. tp' = tp\<lparr>tp_posts := tp_posts tp @ replicate n p, tp_waits := tp_waits tp @ ws, tp_auths := a\<rparr>)"

lemma posted_timesI:
  "tp' = tp\<lparr>tp_posts := tp_posts tp @ replicate n p, tp_waits := tp_waits tp @ ws, tp_auths := a\<rparr> \<Longrightarrow>
   posted_times n p tp tp'"
  unfolding posted_times_def by blast

lemma posted_times_trans:
  "posted_times n p a b \<Longrightarrow> posted_times m p b c \<Longrightarrow> posted_times (n + m) p a c"
  unfolding posted_times_def by (elim exE, rule_tac x = "ws @ wsa" in exI, rule_tac x = aaa in exI) (simp add: replicate_add)

lemma posted_times_keeps:
  "posted_times n p tp tp' \<Longrightarrow> tp_retry tp' = tp_retry tp \<and> tp_closed tp' = tp_closed tp"
  by (auto simp: posted_times_def)

lemma posted_times_wait: "posted_times 0 p tp (tp\<lparr>tp_waits := tp_waits tp @ [d]\<rparr>)"
  by (rule posted_timesI [where ws = "[d]" and a = "tp_auths tp"]) simp

lemma posted_times_auth: "posted_times 0 p tp (snd (authenticate nt tp))"
  by (rule posted_timesI [where ws = "[]" and a = "tp_auths (snd (authenticate nt tp))"]) (simp add: authenticate_def)

lemma attempts_unreachable:
  assumes "unreachable nt"
  shows "\<exists>f tp'. attempts nt p (Suc n) d tp = (Inl (Inl (Some (Network f))), tp') \<and> posted_times (Suc n) p tp tp'"
proof (induction n arbitrary: d tp)
  case 0
  obtain e where "nt_do nt (length (tp_posts tp)) = Inl (Network e)"
    using assms unfolding unreachable_def by blast
  then show ?case
    by (auto intro!: posted_timesI [where ws = "[]" and a = "tp_auths tp"])
next
  case (Suc n)
  define tp2 where
    "tp2 = tp\<lparr>tp_posts := tp_posts tp @ [p], tp_waits := tp_waits tp @ [d]\<rparr>"
  obtain e where e: "nt_do nt (length (tp_posts tp)) = Inl (Network e)"
    using assms unfolding unreachable_def by blast
  have w: "\<And>k. nt_wait nt k = None" using assms unfolding unreachable_def by blast
  have "attempts nt p (Suc (Suc n)) d tp = attempts nt p (Suc n) (next_delay (tp_retry tp) d) tp2"
    by (subst attempts.simps(2)) (simp add: e w tp2_def shouldRetry_def Let_def del: attempts.simps)
  moreover have "posted_times (Suc 0) p tp tp2"
    by (rule posted_timesI [where ws = "[d]" and a = "tp_auths tp"]) (simp add: tp2_def)
  ultimately show ?case
    using Suc.IH [of "next_delay (tp_retry tp) d" tp2] posted_times_trans [of "Suc 0" p tp tp2] by fastforce
qed

lemma Send_unreachable:
  assumes "unreachable nt" and "\<not> tp_closed tp" and "max_attempts (tp_retry tp) = int (Suc n)"
  shows "\<exists>f tp'. Send nt msg s tp = (Inl (RequestFailed (int (Suc n)) (Network f), []), tp') \<and>
    posted_times (Suc n) \<lparr>po_accept = ''application/json'', po_session = s, po_body = msg\<rparr> tp tp'"
proof -
  define p where "p = \<lparr>po_accept = ''application/json'', po_session = s, po_body = msg\<rparr>"
  define tp1 where "tp1 = snd (authenticate nt tp)"
  have a: "authenticate nt tp = (None, tp1)"
    using assms(1) by (auto simp: tp1_def authenticate_def unreachable_def)
  have 1: "posted_times 0 p tp tp1" unfolding tp1_def by (rule posted_times_auth)
  have r: "tp_retry tp1 = tp_retry tp" by (simp add: tp1_def)
  obtain f tp' where f: "attempts nt p (Suc n) (rc_InitialDelay (tp_retry tp)) tp1 = (Inl (Inl (Some (Network f))), tp')"
      "posted_times (Suc n) p tp1 tp'"
    using attempts_unreachable [OF assms(1)] by blast
  have "nat (max_attempts (tp_retry tp)) = Suc n" using assms(3) by simp
  then have "doWithRetry nt p tp1 = (Inl (RequestFailed (int (Suc n)) (Network f)), tp')"
    using f(1) assms(3) by (simp add: doWithRetry_def r del: attempts.simps of_nat_Suc)
  then have "Send nt msg s tp = (Inl (RequestFailed (int (Suc n)) (Network f), []), tp')"
    using a assms(2) by (simp add: Send_def p_def)
  then show ?thesis using posted_times_trans [OF 1 f(2)] unfolding p_def by auto
qed

lemma resend_unreachable:
  assumes "unreachable nt" and "\<not> tp_closed (c_transport c)" and "max_attempts (tp_retry (c_transport c)) = int (Suc k)"
  shows "\<exists>tp'. resend nt msg s n d c = (Some (MaxRetriesExceeded (rc_MaxRetries (c_retry c))), c\<lparr>c_transport := tp'\<rparr>) \<and>
    posted_times (n * Suc k) \<lparr>po_accept = ''application/json'', po_session = s, po_body = msg\<rparr> (c_transport c) tp'"
  using assms(2,3)
proof (induction n arbitrary: d c)
  case 0
  then show ?case
    by (auto intro!: exI [of _ "c_transport c"] posted_timesI [where ws = "[]" and a = "tp_auths (c_transport c)"])
next
  case (Suc n)
  let ?p = "\<lparr>po_accept = ''application/json'', po_session = s, po_body = msg\<rparr>"
  define tp1 where "tp1 = (c_transport c)\<lparr>tp_waits := tp_waits (c_transport c) @ [d]\<rparr>"
  have 1: "posted_times 0 ?p (c_transport c) tp1" unfolding tp1_def by (rule posted_times_wait)
  obtain f tp2 where f: "Send nt msg s tp1 = (Inl (RequestFailed (int (Suc k)) (Network f), []), tp2)"
      "posted_times (Suc k) ?p tp1 tp2"
    using Send_unreachable [OF assms(1), of tp1 k msg s] Suc.prems by (auto simp: tp1_def)
  have w: "nt_wait nt (length (tp_waits (c_transport c))) = None"
    using assms(1) by (simp add: unreachable_def)
  have step: "resend nt msg s (Suc n) d c = resend nt msg s n (next_delay (c_retry c) d) (c\<lparr>c_transport := tp2\<rparr>)"
    using f(1) w by (simp add: send_def tp1_def Let_def)
  have 2: "posted_times (Suc k) ?p (c_transport c) tp2" using posted_times_trans [OF 1 f(2)] by simp
  obtain tp' where tp': "resend nt msg s n (next_delay (c_retry c) d) (c\<lparr>c_transport := tp2\<rparr>) =
      (Some (MaxRetriesExceeded (rc_MaxRetries (c_retry c))), c\<lparr>c_transport := tp'\<rparr>)"
      "posted_times (n * Suc k) ?p tp2 tp'"
    using Suc.IH [of "c\<lparr>c_transport := tp2\<rparr>" "next_delay (c_retry c) d"] Suc.prems posted_times_keeps [OF 2] by auto
  have 3: "posted_times (Suc n * Suc k) ?p (c_transport c) tp'"
    using posted_times_trans [OF 2 tp'(2)] unfolding mult_Suc .
  show ?case
    unfolding step tp'(1) using 3 by (intro exI [of _ tp'] conjI) simp_all
qed

text \<open>
  C33.  The two layers of repetition multiply.  While the server cannot be reached, a client that may
  retry \<open>R\<close> times posts each message (\<open>R\<close> + 1) squared times, not \<open>R\<close> + 1 times, before it gives the
  message up with \<open>max retries (R) exceeded\<close>; nothing is written to standard output, so the
  peer of a request is left without any response, not even an error.
\<close>

theorem unreachable_squares:
  assumes "unreachable nt" and "one_config c" and "\<not> tp_closed (c_transport c)"
    and "rc_Enabled (c_retry c)" and "rc_MaxRetries (c_retry c) = int r"
  shows "(let (res, c') = handleMessage nt msg c
          in res = Some (MaxRetriesExceeded (int r)) \<and> c_stdio c' = c_stdio c \<and> c_sessionID c' = c_sessionID c \<and>
             tp_posts (c_transport c') = tp_posts (c_transport c) @
               replicate ((r + 1) ^ 2) \<lparr>po_accept = ''application/json'', po_session = c_sessionID c, po_body = msg\<rparr>)"
proof -
  let ?p = "\<lparr>po_accept = ''application/json'', po_session = c_sessionID c, po_body = msg\<rparr>"
  have A: "max_attempts (tp_retry (c_transport c)) = int (Suc r)"
    using assms(2,4,5) by (simp add: max_attempts_def one_config_def)
  obtain f tp1 where f: "Send nt msg (c_sessionID c) (c_transport c) = (Inl (RequestFailed (int (Suc r)) (Network f), []), tp1)"
      "posted_times (Suc r) ?p (c_transport c) tp1"
    using Send_unreachable [OF assms(1,3) A] by blast
  obtain tp' where tp': "resend nt msg (c_sessionID c) r (rc_InitialDelay (c_retry c)) (c\<lparr>c_transport := tp1\<rparr>) =
      (Some (MaxRetriesExceeded (int r)), c\<lparr>c_transport := tp'\<rparr>)" "posted_times (r * Suc r) ?p tp1 tp'"
    using resend_unreachable [OF assms(1), of "c\<lparr>c_transport := tp1\<rparr>" r msg "c_sessionID c" r]
      assms(3,5) A posted_times_keeps [OF f(2)] by fastforce
  have "handleMessage nt msg c = (Some (MaxRetriesExceeded (int r)), c\<lparr>c_transport := tp'\<rparr>)"
    using f(1) tp'(1) assms(4,5) by (simp add: handleMessage_def send_def handleSendError_def retryMessage_def)
  moreover have sq: "Suc r + r * Suc r = (r + 1) ^ 2" by (simp add: power2_eq_square)
  have "posted_times ((r + 1) ^ 2) ?p (c_transport c) tp'"
    unfolding sq [symmetric] by (rule posted_times_trans [OF f(2) tp'(2)])
  ultimately show ?thesis by (auto simp: posted_times_def)
qed

theorem unreachable_squares_witness:
  "length (tp_posts (c_transport (snd (handleMessage down_net ''[]'' plain_client)))) = 9"
  using unreachable_squares [of down_net plain_client 2 "''[]''"]
  by (simp add: unreachable_def down_net_def plain_client_def plain_config_def NewClient_def NewTransport_def
      one_config_def plain_retry_def split: prod.splits)

section \<open>Notifications are not answered\<close>

lemma resend_silent:
  "isNotification msg \<Longrightarrow> c_stdio (snd (resend nt msg s n d c)) = c_stdio c"
proof (induction n arbitrary: d c)
  case 0
  then show ?case by simp
next
  case (Suc n)
  then show ?case
    by (auto simp: Let_def deliver_def send_def split: option.splits prod.splits sum.splits)
qed

lemma handleMessage_silent:
  "isNotification msg \<Longrightarrow> c_stdio (snd (handleMessage nt msg c)) = c_stdio c"
  by (auto simp: handleMessage_def handleSendError_def retryMessage_def deliver_def send_def resend_silent
      split: option.splits prod.splits sum.splits)

lemma deliver_events_notification: "deliver_events nt True evs c = (None, c)"
  by (induction evs) simp_all

lemma handleMessageWithSSE_silent:
  "isNotification msg \<Longrightarrow> c_stdio (snd (handleMessageWithSSE nt msg c)) = c_stdio c"
  by (auto simp: handleMessageWithSSE_def deliver_events_notification Let_def split: prod.splits sum.splits)

lemma run_loop_silent:
  assumes "\<And>m c. m \<in> set msgs \<Longrightarrow> c_stdio (snd (handle m c)) = c_stdio c"
  shows "c_stdio (snd (run_loop nt handle k msgs c)) = c_stdio c"
  using assms
proof (induction msgs arbitrary: k c)
  case Nil
  then show ?case by simp
next
  case (Cons m ms)
  have 1: "c_stdio (snd (handle m c)) = c_stdio c" using Cons.prems by simp
  have 2: "c_stdio (snd (run_loop nt handle (Suc k) ms (snd (handle m c)))) = c_stdio (snd (handle m c))"
    using Cons.prems by (intro Cons.IH) simp
  show ?case
    using 1 2 by (auto split: option.splits prod.splits)
qed

text \<open>
  C22.  Notifications are never answered.  Whatever the server, the network and the retries do, a
  client whose input holds only notifications writes not one byte to standard output, in either
  mode.
\<close>

theorem notifications_silent:
  assumes "list_all isNotification (ReadMessages stdin)"
  shows "c_stdio (snd (Run nt stdin c)) = c_stdio c \<and> c_stdio (snd (RunWithSSE nt stdin c)) = c_stdio c"
proof -
  have "c_stdio (snd (run_loop nt (handleMessage nt) 0 (ReadMessages stdin) c)) = c_stdio c"
    using assms by (intro run_loop_silent handleMessage_silent) (simp add: list_all_iff)
  moreover have "c_stdio (snd (run_loop nt (handleMessageWithSSE nt) 0 (ReadMessages stdin) c)) = c_stdio c"
    using assms by (intro run_loop_silent handleMessageWithSSE_silent) (simp add: list_all_iff)
  ultimately show ?thesis by (simp add: Run_def RunWithSSE_def)
qed

text \<open>A server that answers everything with \<open>{}\<close>.\<close>

definition up_answer :: http_response where
  "up_answer = \<lparr>hp_StatusCode = 200, hp_Status = ''200 OK'', hp_session = ''s1'', hp_body = ''{}'', hp_fault = None\<rparr>"

definition up_net :: net where
  "up_net = down_net\<lparr>nt_do := \<lambda>_. Inr up_answer\<rparr>"

lemma null_input: "ReadMessages (byte_reads (''null'' @ [LF])) = [''null'']"
  using ReadMessages_lines [of "[''null'']"] by (simp add: line_ok_def)

lemma null_notification: "isNotification ''null''"
  by code_simp

theorem notifications_silent_witness:
  "sh_out (c_stdio (snd (Run up_net (byte_reads (''null'' @ [LF])) plain_client))) = []"
  using notifications_silent [of "byte_reads (''null'' @ [LF])" up_net plain_client]
  unfolding null_input plain_stdio by (simp add: null_notification)

section \<open>Sessions that expire, requests that time out\<close>

text \<open>A request of a transport without an authenticator that may be sent once.\<close>

definition single_shot :: "transport \<Rightarrow> bool" where
  "single_shot tp \<longleftrightarrow> \<not> tp_closed tp \<and> \<not> tp_has_auth tp \<and> 0 < max_attempts (tp_retry tp)"

definition the_post :: "string \<Rightarrow> string \<Rightarrow> transport \<Rightarrow> transport" where
  "the_post msg s tp =
     tp\<lparr>tp_posts := tp_posts tp @ [\<lparr>po_accept = ''application/json'', po_session = s, po_body = msg\<rparr>]\<rparr>"

lemma the_post_simps [simp]:
  "single_shot (the_post msg s tp) = single_shot tp" "length (tp_posts (the_post msg s tp)) = Suc (length (tp_posts tp))"
  "tp_retry (the_post msg s tp) = tp_retry tp" "tp_waits (the_post msg s tp) = tp_waits tp"
  by (simp_all add: the_post_def single_shot_def)

lemma doWithRetry_answer:
  assumes "0 < max_attempts (tp_retry tp)" and "nt_do nt (length (tp_posts tp)) = Inr r"
  shows "doWithRetry nt p tp = (Inr r, tp\<lparr>tp_posts := tp_posts tp @ [p]\<rparr>)"
proof -
  obtain n where "nat (max_attempts (tp_retry tp)) = Suc n" using assms(1) by (cases "nat (max_attempts (tp_retry tp))") auto
  then show ?thesis using assms(2) by (simp add: doWithRetry_def)
qed

lemma Send_answer:
  assumes "single_shot tp" and "nt_do nt (length (tp_posts tp)) = Inr r"
  shows "Send nt msg s tp =
    (if \<not> is_success (hp_StatusCode r) then Inl (response_error r, hp_session r)
     else case hp_fault r of Some f \<Rightarrow> Inl (ReadingBody f, hp_session r) | None \<Rightarrow> Inr (hp_body r, hp_session r),
     the_post msg s tp)"
  using assms doWithRetry_answer [of tp nt r]
  by (simp add: Send_def single_shot_def authenticate_def the_post_def split: option.splits)

lemma Send_deadline:
  assumes "single_shot tp" and "nt_do nt (length (tp_posts tp)) = Inl Deadline"
  shows "Send nt msg s tp = (Inl (RequestFailed (max_attempts (tp_retry tp)) Deadline, []), the_post msg s tp)"
proof -
  obtain n where n: "nat (max_attempts (tp_retry tp)) = Suc n"
    using assms(1) unfolding single_shot_def by (cases "nat (max_attempts (tp_retry tp))") auto
  have "doWithRetry nt p tp = (Inl (RequestFailed (max_attempts (tp_retry tp)) Deadline), tp\<lparr>tp_posts := tp_posts tp @ [p]\<rparr>)" for p
    using n assms(2) by (simp add: doWithRetry_def shouldRetry_def Let_def)
  then show ?thesis using assms(1) by (simp add: Send_def single_shot_def authenticate_def the_post_def)
qed

text \<open>
  What an expired session (404 or 410) costs.  The session is forgotten in any case, but the message
  is sent again without it only when retries are on; with retries off (which the comment in the
  code does not mention) the message is dropped with \<open>retries not enabled\<close> and never answered.
\<close>

theorem expired_session:
  assumes "single_shot (c_transport c)" and "one_config c" and "\<not> isNotification msg" and "\<not> sh_closed (c_stdio c)"
    and "nt_do nt (length (tp_posts (c_transport c))) = Inr old" and "hp_StatusCode old = 404 \<or> hp_StatusCode old = 410"
    and "nt_do nt (Suc (length (tp_posts (c_transport c)))) = Inr new" and "hp_StatusCode new = 200"
    and "hp_fault new = None" and "line_ok (hp_body new)"
    and "\<And>k. nt_wait nt k = None" and "\<And>k. nt_out nt k = (OutOk, OutOk)"
  shows "(let (res, c') = handleMessage nt msg c
          in if rc_Enabled (c_retry c) \<and> 0 < rc_MaxRetries (c_retry c)
             then res = None \<and> c_sessionID c' = hp_session new \<and>
                  sh_out (c_stdio c') = sh_out (c_stdio c) @ hp_body new @ [LF] \<and>
                  map po_session (tp_posts (c_transport c')) =
                    map po_session (tp_posts (c_transport c)) @ [c_sessionID c, []]
             else res = Some (if rc_Enabled (c_retry c) then MaxRetriesExceeded (rc_MaxRetries (c_retry c)) else RetriesNotEnabled) \<and>
                  c_sessionID c' = [] \<and> sh_out (c_stdio c') = sh_out (c_stdio c) \<and>
                  map po_session (tp_posts (c_transport c')) = map po_session (tp_posts (c_transport c)) @ [c_sessionID c])"
proof -
  let ?tp = "c_transport c"
  define c1 where "c1 = set_session [] (c\<lparr>c_transport := the_post msg (c_sessionID c) ?tp\<rparr>)"
  have old: "Send nt msg (c_sessionID c) ?tp = (Inl (response_error old, hp_session old), the_post msg (c_sessionID c) ?tp)"
    using Send_answer [OF assms(1,5)] assms(6) by (auto simp: is_success_def)
  have first: "handleMessage nt msg c = retryMessage nt msg [] c1"
    using assms(6) by (auto simp: handleMessage_def send_def old handleSendError_def response_error_def IsSessionExpired_def c1_def)
  define tp2 where "tp2 = (c_transport c1)\<lparr>tp_waits := tp_waits (c_transport c1) @ [rc_InitialDelay (c_retry c)]\<rparr>"
  have tp2: "single_shot tp2" "length (tp_posts tp2) = Suc (length (tp_posts ?tp))"
    using assms(1) by (simp_all add: tp2_def c1_def single_shot_def the_post_def)
  have new: "Send nt msg [] tp2 = (Inr (hp_body new, hp_session new), the_post msg [] tp2)"
    using Send_answer [of tp2 nt new msg "[]"] tp2 assms(7,8,9) by (simp add: is_success_def)
  show ?thesis
  proof (cases "rc_Enabled (c_retry c) \<and> 0 < rc_MaxRetries (c_retry c)")
    case True
    then obtain n where n: "nat (rc_MaxRetries (c_retry c)) = Suc n" by (cases "nat (rc_MaxRetries (c_retry c))") auto
    have body: "hp_body new \<noteq> []" "last (hp_body new) \<noteq> LF" using line_okD [OF assms(10)] by auto
    have "retryMessage nt msg [] c1 =
      deliver nt False (hp_body new) ((if hp_session new \<noteq> [] then set_session (hp_session new) else id) (c1\<lparr>c_transport := the_post msg [] tp2\<rparr>))"
      using True n new assms(3,11) by (simp add: retryMessage_def c1_def send_def tp2_def [unfolded c1_def, simplified, symmetric] Let_def)
    then show ?thesis
      using True body assms(4,12)
      by (simp add: first deliver_def write_out_def stdio_WriteMessage_def put_stdout_def c1_def tp2_def the_post_def)
  next
    case False
    then show ?thesis by (auto simp: first retryMessage_def c1_def the_post_def)
  qed
qed

definition expired_net :: net where
  "expired_net = down_net\<lparr>nt_do := \<lambda>k. Inr (if k = 0 then up_answer\<lparr>hp_StatusCode := 404\<rparr> else up_answer)\<rparr>"

definition once_client :: client where
  "once_client = plain_client\<lparr>c_retry := plain_retry\<lparr>rc_Enabled := False\<rparr>,
     c_transport := (c_transport plain_client)\<lparr>tp_retry := plain_retry\<lparr>rc_Enabled := False\<rparr>\<rparr>, c_sessionID := ''s0''\<rparr>"

lemma list_no_notification: "\<not> isNotification ''[]''"
  by code_simp

lemmas sample_client_defs =
  plain_client_def NewClient_def NewTransport_def plain_config_def plain_retry_def once_client_def
  expired_net_def up_net_def down_net_def up_answer_def

theorem expired_session_witness:
  "fst (handleMessage expired_net ''[]'' once_client) = Some RetriesNotEnabled \<and>
   sh_out (c_stdio (snd (handleMessage expired_net ''[]'' plain_client))) = ''{}'' @ [LF]"
proof -
  have "fst (handleMessage expired_net ''[]'' once_client) = Some RetriesNotEnabled"
    using expired_session [of once_client "''[]''" expired_net "up_answer\<lparr>hp_StatusCode := 404\<rparr>" up_answer]
    by (simp add: sample_client_defs single_shot_def one_config_def max_attempts_def list_no_notification line_ok_def
        split: prod.splits)
  moreover have "sh_out (c_stdio (snd (handleMessage expired_net ''[]'' plain_client))) = ''{}'' @ [LF]"
    using expired_session [of plain_client "''[]''" expired_net "up_answer\<lparr>hp_StatusCode := 404\<rparr>" up_answer]
    by (simp add: sample_client_defs single_shot_def one_config_def max_attempts_def list_no_notification line_ok_def
        split: prod.splits)
  ultimately show ?thesis by simp
qed

text \<open>
  A timeout ends a client without retries.  The client's own timeout of one request matches
  \<open>context.DeadlineExceeded\<close>, so \<open>Run\<close> takes it for the end of its context: it returns, with all later
  messages of standard input unsent and nothing written, although the request was merely slow.
\<close>

theorem timeout_ends_run:
  assumes "ReadMessages stdin = msg # later" and "single_shot (c_transport c)" and "\<not> c_closed c"
    and "\<not> rc_Enabled (c_retry c)" and "nt_select nt 0 = None"
    and "nt_do nt (length (tp_posts (c_transport c))) = Inl Deadline"
  shows "Run nt stdin c =
    (Some (SendingMessage (RequestFailed (max_attempts (tp_retry (c_transport c))) Deadline)),
     c\<lparr>c_transport := the_post msg (c_sessionID c) (c_transport c)\<rparr>)"
  using assms Send_deadline [OF assms(2,6)]
  by (simp add: Run_def handleMessage_def send_def handleSendError_def)

theorem timeout_ends_run_witness:
  "tp_posts (c_transport (snd (Run (down_net\<lparr>nt_do := \<lambda>_. Inl Deadline\<rparr>)
     (byte_reads (''[]'' @ [LF])) once_client))) =
   [\<lparr>po_accept = ''application/json'', po_session = ''s0'', po_body = ''[]''\<rparr>]"
  using timeout_ends_run [OF plain_input, of once_client "down_net\<lparr>nt_do := \<lambda>_. Inl Deadline\<rparr>"]
  by (simp add: sample_client_defs single_shot_def max_attempts_def the_post_def)

section \<open>A server that answers\<close>

text \<open>
  What the client promises while everything works: the \<open>k\<close>-th message is posted once, with the last
  session the server named, and the body of each answer is a line of standard output, except
  for notifications and empty bodies.
\<close>

definition framed :: "string \<Rightarrow> string" where
  "framed m = (if m = [] \<or> last m \<noteq> LF then m @ [LF] else m)"

fun exchange :: "(nat \<Rightarrow> http_response) \<Rightarrow> nat \<Rightarrow> string \<Rightarrow> string list \<Rightarrow> posted list \<times> string \<times> string" where
  "exchange answer k s [] = ([], [], s)"
| "exchange answer k s (m # ms) =
     (let r = answer k; (ps, out, s') = exchange answer (Suc k) (if hp_session r = [] then s else hp_session r) ms
      in (\<lparr>po_accept = ''application/json'', po_session = s, po_body = m\<rparr> # ps,
          (if isNotification m \<or> hp_body r = [] then [] else framed (hp_body r)) @ out, s'))"

text \<open>A network, an answering server and a standard output without faults.\<close>

definition answering :: "(nat \<Rightarrow> http_response) \<Rightarrow> net \<Rightarrow> bool" where
  "answering answer nt \<longleftrightarrow>
     (\<forall>k. nt_do nt k = Inr (answer k) \<and> is_success (hp_StatusCode (answer k)) \<and> hp_fault (answer k) = None \<and>
        nt_out nt k = (OutOk, OutOk) \<and> nt_select nt k = None)"

lemma deliver_ok:
  assumes "answering answer nt" and "\<not> sh_closed (c_stdio c)"
  shows "\<exists>w. deliver nt notif r c =
    (None, c\<lparr>c_stdio := (c_stdio c)\<lparr>sh_out := sh_out (c_stdio c) @ (if notif \<or> r = [] then [] else framed r)\<rparr>, c_writes := w\<rparr>)"
proof -
  have "nt_out nt k = (OutOk, OutOk)" for k using assms(1) by (simp add: answering_def)
  then show ?thesis
    using assms(2)
    by (intro exI [of _ "if notif \<or> r = [] then c_writes c else Suc (c_writes c)"])
      (simp add: deliver_def write_out_def stdio_WriteMessage_def put_stdout_def framed_def)
qed

lemma handleMessage_answered:
  assumes "answering answer nt" and "single_shot (c_transport c)" and "\<not> sh_closed (c_stdio c)"
  defines "r \<equiv> answer (length (tp_posts (c_transport c)))"
  shows "\<exists>w. handleMessage nt msg c =
    (None, c\<lparr>c_transport := the_post msg (c_sessionID c) (c_transport c),
        c_sessionID := (if hp_session r = [] then c_sessionID c else hp_session r),
        c_stdio := (c_stdio c)\<lparr>sh_out := sh_out (c_stdio c) @
          (if isNotification msg \<or> hp_body r = [] then [] else framed (hp_body r))\<rparr>, c_writes := w\<rparr>)"
proof -
  have "nt_do nt (length (tp_posts (c_transport c))) = Inr r" and ok: "is_success (hp_StatusCode r)" "hp_fault r = None"
    using assms(1) by (simp_all add: answering_def r_def)
  then have S: "Send nt msg (c_sessionID c) (c_transport c) =
      (Inr (hp_body r, hp_session r), the_post msg (c_sessionID c) (c_transport c))"
    using Send_answer [OF assms(2)] by simp
  define c1 where "c1 = c\<lparr>c_transport := the_post msg (c_sessionID c) (c_transport c),
      c_sessionID := (if hp_session r = [] then c_sessionID c else hp_session r)\<rparr>"
  have same: "\<And>t s. s = c_sessionID c \<Longrightarrow> c\<lparr>c_transport := t, c_sessionID := s\<rparr> = c\<lparr>c_transport := t\<rparr>"
    by (cases c) simp
  have "handleMessage nt msg c = deliver nt (isNotification msg) (hp_body r) c1"
    by (simp add: handleMessage_def send_def S c1_def set_session_def same)
  moreover have "c_stdio c1 = c_stdio c" by (simp add: c1_def)
  ultimately show ?thesis
    using deliver_ok [OF assms(1), of c1 "isNotification msg" "hp_body r"] assms(3) unfolding c1_def by metis
qed

lemma run_loop_answered:
  assumes "answering answer nt"
  shows "single_shot (c_transport c) \<Longrightarrow> \<not> sh_closed (c_stdio c) \<Longrightarrow>
    (let (err, c') = run_loop nt (handleMessage nt) k msgs c;
         (ps, out, s) = exchange answer (length (tp_posts (c_transport c))) (c_sessionID c) msgs
     in err = None \<and> tp_posts (c_transport c') = tp_posts (c_transport c) @ ps \<and>
        sh_out (c_stdio c') = sh_out (c_stdio c) @ out \<and> c_sessionID c' = s)"
proof (induction msgs arbitrary: k c)
  case Nil
  then show ?case using assms by (simp add: answering_def)
next
  case (Cons m ms)
  define r where "r = answer (length (tp_posts (c_transport c)))"
  obtain w where w: "handleMessage nt m c = (None, c\<lparr>c_transport := the_post m (c_sessionID c) (c_transport c),
        c_sessionID := (if hp_session r = [] then c_sessionID c else hp_session r),
        c_stdio := (c_stdio c)\<lparr>sh_out := sh_out (c_stdio c) @
          (if isNotification m \<or> hp_body r = [] then [] else framed (hp_body r))\<rparr>, c_writes := w\<rparr>)"
    using handleMessage_answered [OF assms Cons.prems, of m] unfolding r_def by blast
  define c1 where "c1 = snd (handleMessage nt m c)"
  have c1: "single_shot (c_transport c1)" "\<not> sh_closed (c_stdio c1)"
      "length (tp_posts (c_transport c1)) = Suc (length (tp_posts (c_transport c)))"
      "c_sessionID c1 = (if hp_session r = [] then c_sessionID c else hp_session r)"
      "tp_posts (c_transport c1) = tp_posts (c_transport c) @
         [\<lparr>po_accept = ''application/json'', po_session = c_sessionID c, po_body = m\<rparr>]"
      "sh_out (c_stdio c1) = sh_out (c_stdio c) @ (if isNotification m \<or> hp_body r = [] then [] else framed (hp_body r))"
    using Cons.prems by (simp_all add: c1_def w) (simp_all add: the_post_def)
  have "run_loop nt (handleMessage nt) k (m # ms) c = run_loop nt (handleMessage nt) (Suc k) ms c1"
    using assms by (simp add: c1_def w answering_def)
  moreover obtain ps out s where ex: "exchange answer (Suc (length (tp_posts (c_transport c))))
      (if hp_session r = [] then c_sessionID c else hp_session r) ms = (ps, out, s)"
    by (rule prod_cases3)
  moreover have "exchange answer (length (tp_posts (c_transport c))) (c_sessionID c) (m # ms) =
      (\<lparr>po_accept = ''application/json'', po_session = c_sessionID c, po_body = m\<rparr> # ps,
       (if isNotification m \<or> hp_body r = [] then [] else framed (hp_body r)) @ out, s)"
    unfolding exchange.simps Let_def r_def [symmetric] ex by simp
  moreover obtain err c' where "run_loop nt (handleMessage nt) (Suc k) ms c1 = (err, c')"
    by (rule prod.exhaust)
  ultimately show ?case
    using Cons.IH [OF c1(1,2), of "Suc k"] unfolding c1(3,4)
    by (simp add: c1(5,6) Let_def del: exchange.simps run_loop.simps)
qed



end
