(* ===== verification/Bridge_Main.thy ===== *)
theory Bridge_Main
  imports Http_Server Logging Client
begin

text \<open>
  The program (\<open>cmd/mcp-bridge/main.go\<close>): the command line as Go's \<open>flag\<close> package reads it, the way from
  the configuration to a running server or client, and the exit status.  The theorems here span the
  components: what a server that comes up is made from, and what becomes of the process when the
  subprocess has failed for good.
\<close>

section \<open>The command line\<close>

record flags =
  fl_config :: string
  fl_version :: bool
  fl_help :: bool

text \<open>\<open>strconv.ParseBool\<close>\<close>

definition ParseBool :: "string \<Rightarrow> bool option" where
  "ParseBool s =
     (if s \<in> {''1'', ''t'', ''T'', ''TRUE'', ''true'', ''True''} then Some True
      else if s \<in> {''0'', ''f'', ''F'', ''FALSE'', ''false'', ''False''} then Some False
      else None)"

text \<open>A name with its value, when it is written with one (the first equals sign is no name).\<close>

definition flag_parts :: "string \<Rightarrow> string \<times> string option" where
  "flag_parts name =
     (case cut_at CHR ''='' (tl name) of
        None \<Rightarrow> (name, None)
      | Some (a, v) \<Rightarrow> (hd name # a, Some v))"

text \<open>\<open>flag.Parse\<close>; \<open>None\<close> is a bad command line, which ends the program with status 2.\<close>

fun parse_flags :: "string list \<Rightarrow> flags \<Rightarrow> flags option" where
  "parse_flags [] f = Some f"
| "parse_flags (s # args) f =
     (if length s < 2 \<or> hd s \<noteq> CHR ''-'' then Some f
      else if s = ''--'' then Some f
      else
        let name = (if s ! 1 = CHR ''-'' then drop 2 s else drop 1 s);
            (n, v) = flag_parts name;
            bool_flag = (\<lambda>set. case v of
                None \<Rightarrow> parse_flags args (set True)
              | Some t \<Rightarrow> (case ParseBool t of None \<Rightarrow> None | Some b \<Rightarrow> parse_flags args (set b)))
        in if name = [] \<or> hd name = CHR ''-'' \<or> hd name = CHR ''='' then None
           else if n = ''config'' \<or> n = ''c'' then
             (case v of
                Some t \<Rightarrow> parse_flags args (f\<lparr>fl_config := t\<rparr>)
              | None \<Rightarrow> (case args of [] \<Rightarrow> None | t # rest \<Rightarrow> parse_flags rest (f\<lparr>fl_config := t\<rparr>)))
           else if n = ''version'' \<or> n = ''v'' then bool_flag (\<lambda>b. f\<lparr>fl_version := b\<rparr>)
           else if n = ''help'' \<or> n = ''h'' then bool_flag (\<lambda>b. f\<lparr>fl_help := b\<rparr>)
           else None)"

section \<open>Starting up\<close>

text \<open>
  The world of the program: files and their contents, the YAML decoder, the environment, which log
  files open, and what the two sides are built with.
\<close>

record main_env =
  me_stat :: "string \<Rightarrow> bool"
  me_exeDir :: "string option"
  me_read :: "string \<Rightarrow> string option"
  me_yaml :: "string \<Rightarrow> config option"
  me_sys :: sys
  me_can_open :: "string \<Rightarrow> bool"
  me_boot :: boot_env
  me_client_auth :: "client_config \<Rightarrow> (string + unit) option"
  me_client_tls :: "client_config \<Rightarrow> (string + unit) option"

datatype start_result = Exit nat | ServerUp http_server | ClientUp client

definition start_mode :: "main_env \<Rightarrow> config \<Rightarrow> start_result" where
  "start_mode env cfg =
     (if cf_Mode cfg = ''server'' then
        (case cf_Server cfg of
           None \<Rightarrow> Exit 1
         | Some s \<Rightarrow>
            (case NewServer (me_boot env) (Some s) of
               Inl BootPanic \<Rightarrow> Exit 2
             | Inl _ \<Rightarrow> Exit 1
             | Inr srv \<Rightarrow> ServerUp srv))
      else if cf_Mode cfg = ''client'' then
        (case cf_Client cfg of
           None \<Rightarrow> Exit 1
         | Some c \<Rightarrow>
            (case NewClient (me_client_auth env c) (me_client_tls env c) (Some c) of
               Inl _ \<Rightarrow> Exit 1
             | Inr cl \<Rightarrow> ClientUp cl))
      else Exit 1)"

definition startup :: "main_env \<Rightarrow> string list \<Rightarrow> log_world \<Rightarrow> start_result" where
  "startup env args w =
     (case parse_flags args \<lparr>fl_config = [], fl_version = False, fl_help = False\<rparr> of
        None \<Rightarrow> Exit 2
      | Some f \<Rightarrow>
          if fl_help f \<or> fl_version f then Exit 0
          else case (if fl_config f = [] then FindConfigFile (me_stat env) (me_exeDir env) else Some (fl_config f)) of
            None \<Rightarrow> Exit 1
          | Some path \<Rightarrow>
             (case Load (me_read env) (me_yaml env) (me_sys env) path of
                Inl _ \<Rightarrow> Exit 1
              | Inr cfg \<Rightarrow>
                 (case NewLogger (me_can_open env) (cf_Log cfg) w of
                    (None, _) \<Rightarrow> Exit 1
                  | (Some _, _) \<Rightarrow> start_mode env cfg)))"

section \<open>Ending\<close>

text \<open>
  The last \<open>select\<close>: the service returns by itself, or a signal comes and the service returns within
  the thirty seconds of the shutdown, or not.  The flag tells an error that is not the cancellation.
\<close>

datatype ending = ServiceEnds bool | SignalThenEnds bool | SignalTimesOut

definition exit_status :: "ending \<Rightarrow> nat" where
  "exit_status e =
     (case e of
        ServiceEnds failed \<Rightarrow> if failed then 1 else 0
      | SignalThenEnds failed \<Rightarrow> if failed then 1 else 0
      | SignalTimesOut \<Rightarrow> 1)"

text \<open>What \<open>srv.Start\<close> sends: none of its errors is the cancellation itself.\<close>

definition server_failed :: "server_error + unit \<Rightarrow> bool" where
  "server_failed r \<longleftrightarrow> isl r"

section \<open>From the configuration to the server\<close>

lemma settled_auth_asks: "auth_settled sys True a \<Longrightarrow> svc_Auth s = Some a \<Longrightarrow> asks_for_tokens s"
  by (auto simp: auth_settled_def asks_for_tokens_def split: if_splits)

lemma startup_server:
  assumes "startup env args w = ServerUp srv"
  shows "\<exists>s. server_settled (me_sys env) s \<and> NewServer (me_boot env) (Some s) = Inr srv"
proof -
  obtain path cfg where l: "Load (me_read env) (me_yaml env) (me_sys env) path = Inr cfg"
    and m: "start_mode env cfg = ServerUp srv"
    using assms by (auto simp: startup_def split: option.splits if_splits sum.splits prod.splits)
  obtain s where s: "cf_Mode cfg = ''server''" "cf_Server cfg = Some s" "NewServer (me_boot env) (Some s) = Inr srv"
    using m by (auto simp: start_mode_def split: if_splits option.splits sum.splits boot_error.splits)
  obtain cfg0 where c0: "cfg = applyDefaults cfg0" and v: "Validate (me_sys env) cfg = None"
    using l by (auto simp: Load_def split: option.splits)
  obtain s0 where "s = applyServerDefaults s0" using s(2) by (auto simp: c0 applyDefaults_def)
  moreover have "validateServer (me_sys env) s = None" using v s(1,2) by (simp add: Validate_def)
  ultimately show ?thesis using validated_server s(3) by blast
qed

text \<open>
  C13.  Authentication does not fail open.  Whatever the command line, the files and the environment, a
  server that comes up is made from settled settings (a listen address, a command, timeouts and session
  limits that are not zero); and when its configuration has a section on authentication, the server
  has one of the two authenticators and the middleware in front of every route but the public ones, so
  that a missing or misspelt setting ends the program instead of leaving the server open.
\<close>

theorem auth_never_fails_open:
  assumes "startup env args w = ServerUp srv"
  shows "server_settled (me_sys env) (hs_cfg srv) \<and>
    (svc_Auth (hs_cfg srv) = None \<or>
     guards (hs_auth srv) \<and>
     hs_middleware srv = Some \<lparr>am_realm = ''MCP Bridge'', am_skipPaths = public_paths (hs_oauth srv \<noteq> None)\<rparr>)"
proof -
  obtain s where s: "server_settled (me_sys env) s" "NewServer (me_boot env) (Some s) = Inr srv"
    using startup_server [OF assms] by blast
  then have cfg: "hs_cfg srv = s" by (auto simp: NewServer_def split: sum.splits)
  show ?thesis
  proof (cases "svc_Auth s")
    case None
    then show ?thesis using s cfg by simp
  next
    case (Some a)
    then have "auth_settled (me_sys env) True a" using s(1) by (simp add: server_settled_def)
    then show ?thesis using NewServer_guards [OF s(2)] settled_auth_asks Some s(1) cfg by blast
  qed
qed

text \<open>A program whose file configures the server that asks for a token.\<close>

definition token_config :: config where
  "token_config = applyDefaults
     \<lparr>cf_Mode = ''server'', cf_Server = Some guarded_bridge, cf_Client = None,
      cf_Log = \<lparr>lgc_Level = [], lgc_Format = [], lgc_Output = []\<rparr>\<rparr>"

definition token_env :: main_env where
  "token_env =
     \<lparr>me_stat = (\<lambda>_. True), me_exeDir = None, me_read = (\<lambda>_. Some []), me_yaml = (\<lambda>_. Some token_config),
      me_sys = all_there, me_can_open = (\<lambda>_. False), me_boot = plain_boot, me_client_auth = (\<lambda>_. None),
      me_client_tls = (\<lambda>_. None)\<rparr>"

definition token_bridge :: server_config where "token_bridge = applyServerDefaults guarded_bridge"

lemma token_bridge_simps:
  "svc_TLS token_bridge = None" "svc_OAuthServer token_bridge = None" "svc_Listen token_bridge = '':8080''"
  "svc_Auth token_bridge = svc_Auth guarded_bridge" "mcc_Command (svc_MCPServer token_bridge) = ''srv''"
  "svc_CORS token_bridge = map_option cors_defaults (svc_CORS guarded_bridge)"
  by (simp_all add: token_bridge_def guarded_bridge_def login_bridge_def applyServerDefaults_def auth_defaults_def
      or_empty_def)

lemma token_config_loads:
  "Load (me_read token_env) (me_yaml token_env) (me_sys token_env) path = Inr token_config"
  "cf_Mode token_config = ''server''" "cf_Server token_config = Some token_bridge"
proof -
  show m: "cf_Mode token_config = ''server''" "cf_Server token_config = Some token_bridge"
    by (simp_all add: token_config_def applyDefaults_def token_bridge_def)
  have "trim_space ''srv'' \<noteq> []" by code_simp
  then have "validateServer all_there token_bridge = None"
    by (simp add: validateServer_def when_set_def validateMCPServer_def token_bridge_simps guarded_bridge_def
        validateAuth_def validateBearerAuth_def cors_defaults_def validateCORS_def env_unset_def)
  then have "Validate all_there token_config = None" using m by (simp add: Validate_def)
  moreover have "applyDefaults token_config = token_config" by (simp add: token_config_def applyDefaults_idempotent)
  moreover have "expandEnvVars (sys_env all_there) [] = []" by simp
  ultimately show "Load (me_read token_env) (me_yaml token_env) (me_sys token_env) path = Inr token_config"
    by (simp add: Load_def token_env_def)
qed

lemma token_bridge_boots: "\<exists>srv. NewServer plain_boot (Some token_bridge) = Inr srv"
  by (simp add: NewServer_def boot_tls_def boot_oauth_def boot_auth_def token_bridge_simps guarded_bridge_def
      NewAuthenticator_def NewBearerAuthenticator_def plain_boot_def plain_setup_def sys_getenv_def all_there_def Let_def)

lemma token_startup: "\<exists>srv. startup token_env [] w = ServerUp srv"
proof -
  obtain srv where "NewServer plain_boot (Some token_bridge) = Inr srv" using token_bridge_boots by blast
  then have "start_mode token_env token_config = ServerUp srv"
    by (simp add: start_mode_def token_config_loads token_env_def)
  moreover have "cf_Log token_config = \<lparr>lgc_Level = ''info'', lgc_Format = ''text'', lgc_Output = ''stderr''\<rparr>"
    by (simp add: token_config_def applyDefaults_def or_empty_def)
  moreover have "to_lower (trim_space ''stderr'') = ''stderr''" by code_simp
  ultimately have "startup token_env [] w = ServerUp srv"
    by (simp add: startup_def token_config_loads NewLogger_def parseOutput_def FindConfigFile_def token_env_def [THEN arg_cong [of _ _ me_stat]])
  then show ?thesis by blast
qed

theorem auth_never_fails_open_witness:
  "\<exists>srv. startup token_env [] quiet_world = ServerUp srv \<and> hs_cfg srv = token_bridge \<and> guards (hs_auth srv)"
proof -
  obtain srv where s: "startup token_env [] quiet_world = ServerUp srv" using token_startup by blast
  then have "start_mode token_env token_config = ServerUp srv"
    by (auto simp: startup_def token_config_loads split: option.splits if_splits prod.splits)
  then have c: "hs_cfg srv = token_bridge"
    by (auto simp: start_mode_def token_config_loads NewServer_def split: sum.splits boot_error.splits)
  have "svc_Auth token_bridge \<noteq> None" by (simp add: token_bridge_simps guarded_bridge_def)
  then show ?thesis using auth_never_fails_open [OF s] s c by auto
qed

text \<open>
  C39.  A subprocess that has failed for good ends the program with status 0.  When the restarts are used
  up, the watcher asks for a \<open>Stop\<close>; as soon as that has shut down the HTTP server \<open>Start\<close> returns without
  an error, and the program, which waits for nothing else, exits with status 0, as after a regular
  stop: at that point the stop has closed no session yet and not closed the process manager.
\<close>

theorem failure_exits_zero:
  assumes "StartServing \<in> set (lf_starting l)" "\<not> lf_once l" "\<not> lf_done l" "0 < lf_watchers l"
    and "Events (manager_of l) = ev # evs" "ev_Type ev = EventMaxRestartsReached"
  shows "\<exists>l'. life_run l [StopWanted, Silent, StartReturns (Inr ())] l' \<and>
    exit_status (ServiceEnds (server_failed (Inr ()))) = 0 \<and>
    \<not> Done l' \<and> h_sm (handler_of l') = h_sm (handler_of l) \<and> m_closed (manager_of l') = m_closed (manager_of l)"
proof -
  obtain l1 where l1: "take_event l = (True, l1)" "lf_starting l1 = lf_starting l" "\<not> lf_once l1" "\<not> lf_done l1"
    "h_sm (handler_of l1) = h_sm (handler_of l)" "m_closed (manager_of l1) = m_closed (manager_of l)"
    using assms by (simp add: take_event_def with_manager_def on_handler_def)
  have "life_step l StopWanted l1"
    using life_step.event [OF assms(4,3) _ l1(1)] assms(5) by simp
  then have r1: "life_run l [StopWanted] l1" by (rule snoc_run [OF life_run.begins]) simp
  obtain l2 where l2: "Stop_enter l1 = Some l2" "lf_http l2 = HttpClosed" "lf_starting l2 = lf_starting l"
    "\<not> lf_done l2" "handler_of l2 = handler_of l1"
    using l1 by (simp add: Stop_enter_def set_running_def)
  have r2: "life_run l [StopWanted, Silent] l2" by (rule snoc_run [OF r1 life_step.stop_enter [OF l2(1)]]) simp
  have s: "Start_return l2 = (Inr (), l2\<lparr>lf_starting := remove1 StartServing (lf_starting l2)\<rparr>)"
    using l2 by (simp add: Start_return_def)
  have "life_step l2 (StartReturns (Inr ())) (l2\<lparr>lf_starting := remove1 StartServing (lf_starting l2)\<rparr>)"
    using life_step.start_return [OF _ s] assms(1) l2(3) by simp
  then have "life_run l [StopWanted, Silent, StartReturns (Inr ())] (l2\<lparr>lf_starting := remove1 StartServing (lf_starting l2)\<rparr>)"
    by (rule snoc_run [OF r2]) simp
  then show ?thesis
    using l1 l2
    by (intro exI [of _ "l2\<lparr>lf_starting := remove1 StartServing (lf_starting l2)\<rparr>"])
       (simp add: exit_status_def server_failed_def Done_def)
qed

definition failed_life :: life where
  "failed_life =
     (let l = new_life \<lparr>hs_cfg = token_bridge,
            hs_handler = NewMCPHandler ((NewManager sample_config)\<lparr>m_events := [plain_event EventMaxRestartsReached 0]\<rparr>)
              (NewSessionManager (svc_Session token_bridge)) 0 0,
            hs_tls = None, hs_cors = None, hs_oauth = None, hs_auth = NoAuth, hs_middleware = None,
            hs_running = True, hs_listening = True\<rparr>
      in l\<lparr>lf_starting := [StartServing], lf_http := HttpServing, lf_watchers := 1\<rparr>)"

theorem failure_exits_zero_witness:
  "\<exists>l'. life_run failed_life [StopWanted, Silent, StartReturns (Inr ())] l' \<and> \<not> Done l'"
proof -
  have "StartServing \<in> set (lf_starting failed_life)" "\<not> lf_once failed_life" "\<not> lf_done failed_life"
    "0 < lf_watchers failed_life" "Events (manager_of failed_life) = [plain_event EventMaxRestartsReached 0]"
    by (simp_all add: failed_life_def new_life_def NewMCPHandler_def Events_def Let_def)
  moreover have "ev_Type (plain_event EventMaxRestartsReached 0) = EventMaxRestartsReached" by (simp add: plain_event_def)
  ultimately show ?thesis using failure_exits_zero by blast
qed

end
