(* ===== verification/Bridge_Flow.thy ===== *)
theory Bridge_Flow
  imports Bridge_Main Oauth_Server
begin

text \<open>
  Where the client side meets the server side: the authorization code flow of the client's
  authenticator (\<open>internal/auth/oauth.go\<close>) against the authorization server of the bridge
  (\<open>internal/authserver\<close>), through the texts that cross the wire between them, and what the numeric
  settings, which nothing checks, do to sessions and retries.
\<close>

section \<open>What crosses the wire\<close>

text \<open>The bodies the token endpoint writes.\<close>

definition token_json :: "token_response \<Rightarrow> (string \<times> json) list" where
  "token_json r =
     [(''access_token'', JText (tr_AccessToken r)), (''token_type'', JText (tr_TokenType r)),
      (''expires_in'', JNum (show_int (tr_ExpiresIn r)))] @
     text_member ''refresh_token'' (tr_RefreshToken r) @ text_member ''scope'' (tr_Scope r)"

definition token_body :: "token_response \<Rightarrow> string" where
  "token_body r = show_json (JObj (token_json r)) @ [LF]"

definition error_body :: "oauth_error \<Rightarrow> string" where
  "error_body e =
     show_json (JObj ([(''error'', JText (oe_Code e))] @ text_member ''error_description'' (oe_Description e) @
       text_member ''error_uri'' (oe_URI e) @ text_member ''state'' (oe_State e))) @ [LF]"

text \<open>The call of a client, when the token endpoint gives this answer; a panic closes the connection.\<close>

definition token_call :: "oauth_answer \<Rightarrow> call_outcome" where
  "token_call a =
     (case a of
        TokenJson r \<Rightarrow> Reply 200 (Some (token_body r))
      | JsonError status e \<Rightarrow> Reply (int status) (Some (error_body e))
      | PlainError status t \<Rightarrow> Reply (int status) (Some (t @ [LF]))
      | _ \<Rightarrow> NoReply)"

text \<open>What a browser posts from the login form, filled in.\<close>

definition submitted :: "authorize_request \<Rightarrow> string \<Rightarrow> string \<Rightarrow> string \<Rightarrow> params" where
  "submitted req csrf username password =
     [(''csrf_token'', csrf), (''response_type'', ar_ResponseType req), (''client_id'', ar_ClientID req),
      (''redirect_uri'', ar_RedirectURI req), (''scope'', ar_Scope req), (''state'', ar_State req),
      (''code_challenge'', ar_CodeChallenge req), (''code_challenge_method'', ar_CodeChallengeMethod req),
      (''nonce'', ar_Nonce req), (''username'', username), (''password'', password)]"

subsection \<open>The form and the query carry the request\<close>

lemma submitted_param:
  "param (submitted req csrf u p) ''csrf_token'' = csrf" "param (submitted req csrf u p) ''username'' = u"
  "param (submitted req csrf u p) ''password'' = p" "request_of_params (submitted req csrf u p) = req"
  "param (submitted req csrf u p) ''client_id'' = ar_ClientID req"
  "param (submitted req csrf u p) ''redirect_uri'' = ar_RedirectURI req"
  "param (submitted req csrf u p) ''state'' = ar_State req"
  by (simp_all add: param_def submitted_def request_of_params_def)

text \<open>What the client asks for, and the verifier it keeps.\<close>

definition client_request :: "oauth_auth_config \<Rightarrow> char list \<Rightarrow> string \<Rightarrow> string \<Rightarrow> authorize_request" where
  "client_request c rnd state uri =
     \<lparr>ar_ResponseType = ''code'', ar_ClientID = oac_ClientID c, ar_RedirectURI = uri,
      ar_Scope = join_with '' '' (oac_Scopes c), ar_State = state,
      ar_CodeChallenge = encodeBase64URL (sha256 (encodeBase64URL rnd)), ar_CodeChallengeMethod = ''S256'',
      ar_Nonce = []\<rparr>"

lemma BuildAuthorizationURL_request:
  assumes "BuildAuthorizationURL get (Some rnd) state uri oa = (Inr (u, q), oa1)" and "oac_UsePKCE (oa_config oa)"
  shows "request_of_params q = client_request (oa_config oa) rnd state uri"
    and "oa1 = oa\<lparr>oa_pkceVerifier := encodeBase64URL rnd\<rparr>"
proof -
  define tail where "tail = [(''code_challenge'', encodeBase64URL (sha256 (encodeBase64URL rnd))), (''code_challenge_method'', ''S256'')]"
  let ?c = "oa_config oa"
  have q: "q = ([(''response_type'', ''code''), (''client_id'', oac_ClientID ?c), (''redirect_uri'', uri), (''state'', state)] @
       (if oac_Scopes ?c \<noteq> [] then [(''scope'', join_with '' '' (oac_Scopes ?c))] else []) @
       (if oac_Resource ?c \<noteq> [] then [(''resource'', oac_Resource ?c)] else [])) @ tail"
    and "oa1 = oa\<lparr>oa_pkceVerifier := encodeBase64URL rnd\<rparr>"
    using assms
    by (auto simp: BuildAuthorizationURL_def SetupPKCE_def GeneratePKCEVerifier_def GeneratePKCEChallenge_def tail_def Let_def
        simp del: encodeBase64URL.simps split: sum.splits option.splits if_splits)
  then show "oa1 = oa\<lparr>oa_pkceVerifier := encodeBase64URL rnd\<rparr>" by blast
  show "request_of_params q = client_request (oa_config oa) rnd state uri"
    unfolding q by (auto simp: request_of_params_def client_request_def param_def tail_def simp del: encodeBase64URL.simps)
qed

lemma client_request_valid:
  assumes "isAllowedRedirectURI uri allowed" "uri \<noteq> []" "oac_ClientID c \<noteq> []"
  shows "validateAuthorizeRequest (client_request c rnd state uri) allowed = (None, client_request c rnd state uri)"
proof -
  have "encodeBase64URL (sha256 v) \<noteq> []" for v
    using length_encodeBase64URL [of "sha256 v"] by fastforce
  then show ?thesis
    using assms by (simp add: validateAuthorizeRequest_def client_request_def ValidateCodeChallengeMethod_def
        ValidateCodeChallenge_def length_encodeBase64URL encodeBase64URL_chars del: encodeBase64URL.simps)
qed

text \<open>The form of the exchange.\<close>

lemma exchange_form_param:
  "param (exchange_form code uri oa) ''grant_type'' = ''authorization_code''"
  "param (exchange_form code uri oa) ''code'' = code" "param (exchange_form code uri oa) ''redirect_uri'' = uri"
  "param (exchange_form code uri oa) ''client_id'' = oac_ClientID (oa_config oa)"
  "param (exchange_form code uri oa) ''client_secret'' = oac_ClientSecret (oa_config oa)"
  "param (exchange_form code uri oa) ''code_verifier'' = oa_pkceVerifier oa"
  by (simp_all add: param_def exchange_form_def GetPKCEVerifier_def)

subsection \<open>The client reads what the server writes\<close>

lemma token_names [simp]:
  "field_name ''access_token''" "field_name ''token_type''" "field_name ''expires_in''" "field_name ''refresh_token''"
  "field_name ''scope''"
  by (simp_all add: field_name_def byte_in_def)

lemma token_json_read:
  assumes "valid_utf8 (tr_AccessToken r)" "valid_utf8 (tr_TokenType r)" "valid_utf8 (tr_RefreshToken r)" "valid_utf8 (tr_Scope r)"
    and n: "- (2 ^ 63) \<le> tr_ExpiresIn r" "tr_ExpiresIn r < 2 ^ 63"
  shows "decode_members token_reply_field (token_json r)
      \<lparr>tk_AccessToken = [], tk_TokenType = [], tk_ExpiresIn = 0, tk_RefreshToken = [], tk_Scope = []\<rparr> =
    Some \<lparr>tk_AccessToken = tr_AccessToken r, tk_TokenType = tr_TokenType r, tk_ExpiresIn = tr_ExpiresIn r,
          tk_RefreshToken = tr_RefreshToken r, tk_Scope = tr_Scope r\<rparr>"
proof -
  have "decode_int (JNum (show_int (tr_ExpiresIn r))) 0 = Some (tr_ExpiresIn r)" using n by (rule decode_int_show)
  then show ?thesis
    using assms(1-4)
    by (cases "tr_RefreshToken r = []"; cases "tr_Scope r = []")
       (simp_all add: token_json_def text_member_def token_reply_field_def del: decode_int.simps)
qed

lemma token_body_read:
  assumes "valid_utf8 (tr_AccessToken r)" "valid_utf8 (tr_TokenType r)" "valid_utf8 (tr_RefreshToken r)" "valid_utf8 (tr_Scope r)"
    and "- (2 ^ 63) \<le> tr_ExpiresIn r" "tr_ExpiresIn r < 2 ^ 63"
  shows "unmarshal token_reply_field
      \<lparr>tk_AccessToken = [], tk_TokenType = [], tk_ExpiresIn = 0, tk_RefreshToken = [], tk_Scope = []\<rparr> (token_body r) =
    Some \<lparr>tk_AccessToken = tr_AccessToken r, tk_TokenType = tr_TokenType r, tk_ExpiresIn = tr_ExpiresIn r,
          tk_RefreshToken = tr_RefreshToken r, tk_Scope = tr_Scope r\<rparr>"
proof -
  have "list_all member_ok (token_json r)"
    by (simp add: token_json_def text_member_ok) (simp add: member_ok_def)
  then show ?thesis
    using members_ok unmarshal_show(2) token_json_read [OF assms] unfolding token_body_def by metis
qed

lemma base64_utf8: "valid_utf8 (encodeBase64URL b)"
proof (rule ascii_valid)
  have "isBase64URLChar c \<Longrightarrow> byte_in 0 0x7F c" for c
    by (auto simp: isBase64URLChar_def byte_in_def)
  then show "list_all (byte_in 0 0x7F) (encodeBase64URL b)"
    using encodeBase64URL_chars [of b] by (auto simp: list_all_iff)
qed

lemma whole_seconds_fit:
  assumes "second \<le> d" "d < 2 ^ 63"
  shows "0 < whole_seconds d" "whole_seconds d < 2 ^ 63" "wrap64 (whole_seconds d * second) = d div second * second"
proof -
  have s: "whole_seconds d = d div second" using assms by (simp add: whole_seconds_def second_def)
  have le: "d div second * second \<le> d" by (simp add: second_def)
  show "0 < whole_seconds d" using assms(1) by (simp add: s second_def)
  show "whole_seconds d < 2 ^ 63" using assms by (simp add: s second_def)
  have "0 \<le> d div second * second" using assms(1) by (simp add: second_def)
  then show "wrap64 (whole_seconds d * second) = d div second * second"
    using le assms(2) by (simp add: s wrap64_def)
qed

text \<open>A client that posts for a token and is answered with one.\<close>

lemma exchange_gets_token:
  assumes url: "oac_TokenURL (oa_config oa) \<noteq> []"
    and answer: "post (oac_TokenURL (oa_config oa)) (exchange_form code uri oa) = token_call (TokenJson r)"
    and utf8: "valid_utf8 (tr_AccessToken r)" "valid_utf8 (tr_TokenType r)" "valid_utf8 (tr_RefreshToken r)" "valid_utf8 (tr_Scope r)"
    and fits: "length (token_body r) \<le> 2 ^ 20" "tr_ExpiresIn r = whole_seconds d" "second \<le> d" "d < 2 ^ 63"
  shows "ExchangeAuthorizationCode get post now code uri oa =
    (let t = \<lparr>ot_AccessToken = tr_AccessToken r, ot_TokenType = tr_TokenType r, ot_RefreshToken = tr_RefreshToken r,
              ot_Expiry = Some (now + d div second * second)\<rparr>
     in (Inr t, oa\<lparr>oa_pkceVerifier := [], oa_currentToken := Some t\<rparr>))"
proof -
  have "body_1MB (token_body r) = token_body r" using fits(1) by (simp add: body_1MB_def)
  moreover have "(if GetPKCEVerifier oa \<noteq> [] then ClearPKCEVerifier oa else oa) = oa\<lparr>oa_pkceVerifier := []\<rparr>"
    by (cases "GetPKCEVerifier oa = []") (simp_all add: GetPKCEVerifier_def ClearPKCEVerifier_def)
  ultimately show ?thesis
    using url whole_seconds_fit [OF fits(3,4)] token_body_read [OF utf8] fits(2)
    by (simp add: ExchangeAuthorizationCode_def answer token_call_def token_of_reply_def Let_def)
qed

section \<open>From the client's address to its token\<close>

text \<open>
  The tokens a server answers with, for a user and the scope the client asks for: its expiry is the
  server's.
\<close>

definition tokens_for :: "oauth_config \<Rightarrow> user_info \<Rightarrow> oauth_auth_config \<Rightarrow> string \<Rightarrow> char list \<Rightarrow> token_response" where
  "tokens_for cfg ui c access b =
     \<lparr>tr_AccessToken = access, tr_TokenType = ''Bearer'', tr_ExpiresIn = whole_seconds (oc_TokenLifetime cfg),
      tr_RefreshToken = encodeBase64URL b, tr_Scope = join_with '' '' (granted_scopes cfg ui (join_with '' '' (oac_Scopes c)))\<rparr>"

text \<open>The form that the server shows, and its state then.\<close>

lemma server_shows_form:
  assumes "isAllowedRedirectURI uri (oc_AllowedRedirectURIs cfg)" "uri \<noteq> []" "oac_ClientID c \<noteq> []"
    and "client_allows cfg st (oac_ClientID c) uri" and "ee_csrf e = Some b"
    and "request_of_params q = client_request c rnd state uri"
  shows "\<exists>tokens. authorize_ServeHTTP cfg auth e MGet q None st =
      (LoginForm (client_request c rnd state uri) [] (hex_of b), st\<lparr>os_csrf := tokens\<rparr>) \<and>
    fmlookup tokens (hex_of b) = Some (ee_later e + csrfTokenExpiry)"
proof -
  have "ar_ClientID (client_request c rnd state uri) = oac_ClientID c" "ar_RedirectURI (client_request c rnd state uri) = uri"
    by (simp_all add: client_request_def)
  moreover have "checkClient cfg st (oac_ClientID c) uri = None" using assms(4) by (simp add: checkClient_None)
  ultimately show ?thesis
    using assms(5,6) client_request_valid [OF assms(1-3), of rnd state]
    by (intro exI [of _ "fmupd (hex_of b) (ee_later e + csrfTokenExpiry) (fmdelete_if (\<lambda>_ expiry. ee_later e > expiry) (os_csrf st))"])
       (simp add: authorize_ServeHTTP_def authorize_handleGet_def showLoginForm_def generateCSRFToken_def)
qed

lemma hex_of_Nil: "hex_of b = [] \<longleftrightarrow> b = []"
  by (cases b) (simp_all add: hex_of_def)

lemma client_request_simps:
  "ar_ClientID (client_request c rnd state uri) = oac_ClientID c" "ar_RedirectURI (client_request c rnd state uri) = uri"
  "ar_State (client_request c rnd state uri) = state"
  "ar_Scope (client_request c rnd state uri) = join_with '' '' (oac_Scopes c)"
  "ar_CodeChallenge (client_request c rnd state uri) = encodeBase64URL (sha256 (encodeBase64URL rnd))"
  "ar_CodeChallengeMethod (client_request c rnd state uri) = ''S256''"
  by (simp_all add: client_request_def del: encodeBase64URL.simps)

text \<open>The form, filled in, sends the browser back with a code.\<close>

lemma form_gives_code:
  assumes known: "isAllowedRedirectURI uri (oc_AllowedRedirectURIs cfg)" "uri \<noteq> []" "oac_ClientID c \<noteq> []"
      "client_allows cfg st (oac_ClientID c) uri" "url_Parse uri \<noteq> None"
    and user: "name \<noteq> []" "password \<noteq> []" "auth name password = Some ui"
    and csrf: "fmlookup (os_csrf st) csrf = Some expiry" "csrf \<noteq> []" "ee_now e < expiry"
    and room: "fmsize (mem_authCodes (os_storage st)) < maxAuthCodes" and random: "ee_value e = Some b"
    and req: "req = client_request c rnd state uri"
  shows "authorize_ServeHTTP cfg auth e MPost [] (Some (submitted req csrf name password)) st =
    (RedirectTo uri ([(''code'', encodeBase64URL b)] @ (if state \<noteq> [] then [(''state'', state)] else [])),
     st\<lparr>os_csrf := fmdrop csrf (os_csrf st), os_storage := (os_storage st)\<lparr>mem_authCodes :=
        fmupd (encodeBase64URL b) (new_auth_code cfg e (encodeBase64URL b) req ui) (mem_authCodes (os_storage st))\<rparr>\<rparr>)"
proof -
  let ?f = "submitted req csrf name password"
  obtain pu where pu: "url_Parse uri = Some pu" using known(5) by blast
  have "validateCSRFToken (ee_now e) (param ?f ''csrf_token'') (os_csrf st) = (True, fmdrop csrf (os_csrf st))"
    using csrf by (simp add: submitted_param validateCSRFToken_def)
  then have "authorize_handlePost cfg auth e (Some ?f) st = (RedirectTo (param ?f ''redirect_uri'')
      ([(''code'', encodeBase64URL b)] @ (if param ?f ''state'' \<noteq> [] then [(''state'', param ?f ''state'')] else [])),
     st\<lparr>os_csrf := fmdrop csrf (os_csrf st), os_storage := (os_storage st)\<lparr>mem_authCodes :=
        fmupd (encodeBase64URL b) (new_auth_code cfg e (encodeBase64URL b) req ui) (mem_authCodes (os_storage st))\<rparr>\<rparr>)"
    by (rule login_succeeds [where u = pu])
       (use client_request_valid [OF known(1-3)] known(4) user random room pu in
         \<open>simp_all add: submitted_param client_request_simps req\<close>)
  then show ?thesis
    by (simp add: authorize_ServeHTTP_def submitted_param client_request_simps req del: encodeBase64URL.simps)
qed

text \<open>The client's exchange of that code is answered with the tokens.\<close>

lemma exchange_answered:
  assumes code: "fmlookup (mem_authCodes (os_storage st)) code = Some (new_auth_code cfg e code (client_request c rnd state uri) ui)"
      "code \<noteq> []" "ee_now e' \<le> ee_later e + oc_AuthCodeLifetime cfg"
    and client: "oa_config oa = c" "oa_pkceVerifier oa = encodeBase64URL rnd" "length rnd = 32" "uri \<noteq> []" "oac_ClientID c \<noteq> []"
      "validateClientAuth cfg st (oac_ClientID c) (oac_ClientSecret c) = None"
    and room: "fmsize (mem_refreshTokens (os_storage st)) < maxRefreshTokens" and random: "ee_value e' = Some b"
    and signs: "\<And>claims. sign claims = Some (token claims)"
  shows "\<exists>claims. at_Subject claims = ui_ID ui \<and> at_ClientID claims = oac_ClientID c \<and>
    fst (token_ServeHTTP cfg sign e' MPost (Some (exchange_form code uri oa)) st) = TokenJson (tokens_for cfg ui c (token claims) b)"
proof -
  let ?g = "exchange_form code uri oa"
  define ac where "ac = new_auth_code cfg e code (client_request c rnd state uri) ui"
  define claims where "claims = token_claims cfg e' (ac_UserID ac) (ac_ClientID ac) (ac_Scope ac)"
  have "isUnreservedChar x" if "isBase64URLChar x" for x
    using that by (auto simp: isUnreservedChar_def isBase64URLChar_def)
  then have v: "ValidateCodeVerifier (encodeBase64URL rnd)"
    using client(3) encodeBase64URL_chars [of rnd]
    by (auto simp: ValidateCodeVerifier_def length_encodeBase64URL list_all_iff simp del: encodeBase64URL.simps)
  have ac: "ac_ClientID ac = oac_ClientID c" "ac_RedirectURI ac = uri" "ac_UserID ac = ui_ID ui"
    "ac_Scope ac = join_with '' '' (granted_scopes cfg ui (join_with '' '' (oac_Scopes c)))"
    "ac_CodeChallenge ac = encodeBase64URL (sha256 (encodeBase64URL rnd))" "ac_CodeChallengeMethod ac = ''S256''"
    "\<not> code_IsExpired (ee_now e') ac"
    using code(3) by (simp_all add: ac_def new_auth_code_def code_IsExpired_def client_request_simps del: encodeBase64URL.simps)
  have "fst (handleAuthorizationCode cfg sign e' ?g st) = TokenJson \<lparr>tr_AccessToken = token claims, tr_TokenType = ''Bearer'',
      tr_ExpiresIn = whole_seconds (oc_TokenLifetime cfg), tr_RefreshToken = encodeBase64URL b, tr_Scope = ac_Scope ac\<rparr>"
    unfolding claims_def
    by (rule exchange_succeeds)
       (use code(1,2) v ac client room random signs in \<open>simp_all add: exchange_form_param ac_def [symmetric] del: encodeBase64URL.simps\<close>)
  then have "fst (token_ServeHTTP cfg sign e' MPost (Some ?g) st) = TokenJson (tokens_for cfg ui c (token claims) b)"
    by (simp add: token_ServeHTTP_def exchange_form_param tokens_for_def ac del: encodeBase64URL.simps)
  then show ?thesis using ac by (intro exI [of _ claims]) (simp add: claims_def token_claims_def)
qed

text \<open>
  C16.  The client and the server of the bridge understand each other.  A client that uses PKCE builds an
  authorization address; a browser follows it, gets the login form, and posts it filled in with valid
  credentials; it is sent back to the client with a code and the client's state.  The client then
  exchanges that code over HTTP, and with no other conditions than that the client and its redirect
  URI are known to the server, that form and code are used in time, that there is room and randomness,
  and that the answer fits the client's limit, it holds a token that the server signed for this user and
  this client; it takes it to expire when the server said, in whole seconds, and its verifier is used up.
\<close>

theorem client_obtains_token:
  assumes address: "BuildAuthorizationURL get (Some rnd) state uri oa = (Inr (u, q), oa1)" "oac_UsePKCE (oa_config oa)"
      "length rnd = 32" "oac_TokenURL (oa_config oa) \<noteq> []"
    and known: "isAllowedRedirectURI uri (oc_AllowedRedirectURIs cfg)" "uri \<noteq> []" "url_Parse uri \<noteq> None"
      "oac_ClientID (oa_config oa) \<noteq> []" "client_allows cfg st (oac_ClientID (oa_config oa)) uri"
      "validateClientAuth cfg st (oac_ClientID (oa_config oa)) (oac_ClientSecret (oa_config oa)) = None"
    and user: "name \<noteq> []" "password \<noteq> []" "auth name password = Some ui"
    and room: "fmsize (mem_authCodes (os_storage st)) < maxAuthCodes"
      "fmsize (mem_refreshTokens (os_storage st)) < maxRefreshTokens"
    and random: "ee_csrf e1 = Some b1" "b1 \<noteq> []" "ee_value e2 = Some b2" "b2 \<noteq> []" "ee_value e3 = Some b3"
    and time: "ee_now e2 < ee_later e1 + csrfTokenExpiry" "ee_now e3 \<le> ee_later e2 + oc_AuthCodeLifetime cfg"
    and signs: "\<And>claims. sign claims = Some (token claims)" "\<And>claims. valid_utf8 (token claims)"
    and fits: "\<And>claims. length (token_body (tokens_for cfg ui (oa_config oa) (token claims) b3)) \<le> 2 ^ 20"
      "valid_utf8 (join_with '' '' (granted_scopes cfg ui (join_with '' '' (oac_Scopes (oa_config oa)))))"
      "second \<le> oc_TokenLifetime cfg" "oc_TokenLifetime cfg < 2 ^ 63"
  shows "\<exists>req csrf st1 ps code st2 t claims.
    authorize_ServeHTTP cfg auth e1 MGet q None st = (LoginForm req [] csrf, st1) \<and>
    authorize_ServeHTTP cfg auth e2 MPost [] (Some (submitted req csrf name password)) st1 = (RedirectTo uri ps, st2) \<and>
    map_of ps ''code'' = Some code \<and> (state = [] \<or> map_of ps ''state'' = Some state) \<and>
    ExchangeAuthorizationCode get (\<lambda>url form. token_call (fst (token_ServeHTTP cfg sign e3 MPost (Some form) st2)))
      now code uri oa1 = (Inr t, oa\<lparr>oa_pkceVerifier := [], oa_currentToken := Some t\<rparr>) \<and>
    ot_AccessToken t = token claims \<and> at_Subject claims = ui_ID ui \<and> at_ClientID claims = oac_ClientID (oa_config oa) \<and>
    ot_Expiry t = Some (now + oc_TokenLifetime cfg div second * second)"
proof -
  let ?c = "oa_config oa" and ?code = "encodeBase64URL b2" and ?csrf = "hex_of b1"
  let ?req = "client_request (oa_config oa) rnd state uri"
  define ps where "ps = [(''code'', ?code)] @ (if state \<noteq> [] then [(''state'', state)] else [])"
  note q = BuildAuthorizationURL_request [OF address(1,2)]
  obtain tokens where get1: "authorize_ServeHTTP cfg auth e1 MGet q None st = (LoginForm ?req [] ?csrf, st\<lparr>os_csrf := tokens\<rparr>)"
    and csrf: "fmlookup tokens ?csrf = Some (ee_later e1 + csrfTokenExpiry)"
    using server_shows_form [OF known(1,2,4,5) random(1) q(1), of auth] by blast
  let ?st1 = "st\<lparr>os_csrf := tokens\<rparr>"
  define st2 where "st2 = ?st1\<lparr>os_csrf := fmdrop ?csrf (os_csrf ?st1), os_storage := (os_storage ?st1)\<lparr>mem_authCodes :=
      fmupd ?code (new_auth_code cfg e2 ?code ?req ui) (mem_authCodes (os_storage ?st1))\<rparr>\<rparr>"
  have post2: "authorize_ServeHTTP cfg auth e2 MPost [] (Some (submitted ?req ?csrf name password)) ?st1 = (RedirectTo uri ps, st2)"
    unfolding st2_def ps_def
    by (rule form_gives_code) (use known user csrf random time(1) room(1) in \<open>simp_all add: hex_of_Nil\<close>)
  have ne: "?code \<noteq> []" using random(4) by (cases b2 rule: encodeBase64URL.cases) (auto simp: Let_def)
  have "validateClientAuth cfg st2 (oac_ClientID ?c) (oac_ClientSecret ?c) = None"
    using known(6) by (simp add: validateClientAuth_def st2_def GetClient_def)
  then obtain claims where claims: "at_Subject claims = ui_ID ui" "at_ClientID claims = oac_ClientID ?c"
    and post3: "fst (token_ServeHTTP cfg sign e3 MPost (Some (exchange_form ?code uri oa1)) st2) =
      TokenJson (tokens_for cfg ui ?c (token claims) b3)"
    using exchange_answered [of st2 ?code cfg e2 ?c rnd state uri ui e3 oa1 b3 sign token] ne time(2) q(2) address(3) known(2,4)
      room(2) random(5) signs(1)
    by (auto simp: st2_def simp del: encodeBase64URL.simps)
  define t where "t = \<lparr>ot_AccessToken = token claims, ot_TokenType = ''Bearer'', ot_RefreshToken = encodeBase64URL b3,
      ot_Expiry = Some (now + oc_TokenLifetime cfg div second * second)\<rparr>"
  have "valid_utf8 ''Bearer''" by (rule ascii_valid) (simp add: byte_in_def)
  then have "ExchangeAuthorizationCode get (\<lambda>url form. token_call (fst (token_ServeHTTP cfg sign e3 MPost (Some form) st2)))
      now ?code uri oa1 = (Inr t, oa\<lparr>oa_pkceVerifier := [], oa_currentToken := Some t\<rparr>)"
    by (subst exchange_gets_token [where r = "tokens_for cfg ui ?c (token claims) b3" and d = "oc_TokenLifetime cfg"])
       (use address(4) q(2) post3 signs(2) fits base64_utf8 in \<open>simp_all add: tokens_for_def t_def Let_def del: encodeBase64URL.simps\<close>)
  moreover have "map_of ps ''code'' = Some ?code" "state = [] \<or> map_of ps ''state'' = Some state"
    by (auto simp: ps_def)
  ultimately show ?thesis
    using get1 post2 claims
    by (intro exI [of _ ?req] exI [of _ ?csrf] exI [of _ ?st1] exI [of _ ps] exI [of _ ?code] exI [of _ st2]
        exI [of _ t] exI [of _ claims]) (simp add: t_def)
qed

text \<open>
  C40.  A lost connection uses the verifier up.  When the request for the tokens fails on the way, the code
  stays redeemable at the server, but the client has dropped its verifier: its next exchange of the
  same code, at whatever server of this kind in whatever state, is refused as an invalid request that
  lacks the verifier, without an effect, and the verifier stays gone.
\<close>

theorem exchange_not_retriable:
  assumes "oac_TokenURL (oa_config oa) \<noteq> []" "code \<noteq> []" "uri \<noteq> []" "oac_ClientID (oa_config oa) \<noteq> []"
  shows "case ExchangeAuthorizationCode get (\<lambda>_ _. NoReply) now code uri oa of (lost, oa1) \<Rightarrow>
    isl lost \<and>
    token_ServeHTTP cfg sign e MPost (Some (exchange_form code uri oa1)) st =
      (WriteJSONError (ErrInvalidRequest ''code_verifier is required (PKCE)''), st) \<and>
    (case ExchangeAuthorizationCode get
        (\<lambda>url form. token_call (fst (token_ServeHTTP cfg sign e MPost (Some form) st))) later code uri oa1 of
       (refused, oa2) \<Rightarrow> isl refused \<and> oa2 = oa1 \<and> GetPKCEVerifier oa2 = [])"
proof -
  define oa1 where "oa1 = (if GetPKCEVerifier oa \<noteq> [] then ClearPKCEVerifier oa else oa)"
  have oa1: "GetPKCEVerifier oa1 = []" "oa_config oa1 = oa_config oa"
    by (simp_all add: oa1_def GetPKCEVerifier_def ClearPKCEVerifier_def)
  have lost: "ExchangeAuthorizationCode get (\<lambda>_ _. NoReply) now code uri oa = (Inl (OtherError ''executing token request''), oa1)"
    using assms(1) by (simp add: ExchangeAuthorizationCode_def oa1_def Let_def)
  have refused: "token_ServeHTTP cfg sign e MPost (Some (exchange_form code uri oa1)) st =
      (WriteJSONError (ErrInvalidRequest ''code_verifier is required (PKCE)''), st)"
    using assms oa1 by (simp add: token_ServeHTTP_def handleAuthorizationCode_def code_lookup_def exchange_form_param GetPKCEVerifier_def)
  have call: "token_call (WriteJSONError (ErrInvalidRequest d)) = Reply 400 (Some (error_body (ErrInvalidRequest d)))" for d
    by (simp add: token_call_def WriteJSONError_def ErrInvalidRequest_def NewOAuthError_def)
  obtain msg where again: "ExchangeAuthorizationCode get
      (\<lambda>url form. token_call (fst (token_ServeHTTP cfg sign e MPost (Some form) st))) later code uri oa1 = (Inl msg, oa1)"
    using assms(1) by (simp add: ExchangeAuthorizationCode_def Let_def refused oa1 call)
  show ?thesis using refused oa1(1) by (simp add: lost again)
qed

section \<open>Settings nobody checks\<close>

text \<open>
  Negative limits pass and disable what they limit.  Validation looks neither at the session settings
  nor at the retry settings; a server with a negative maximum of sessions refuses every session from
  its start on, whatever happens to it, and a client whose retries are on with a negative maximum
  reads its messages and posts none of them.
\<close>

theorem negative_limits_disable:
  assumes "sc_MaxSessions sc < 0" and "NewClient auth tls (Some cfg) = Inr c"
    and "rc_Enabled (cc_Retry cfg)" "rc_MaxRetries (cc_Retry cfg) < 0"
  shows "validateServer sys (s\<lparr>svc_Session := sc\<rparr>) = validateServer sys s \<and>
    validateClient sys (cl\<lparr>cc_Retry := rc\<rparr>) = validateClient sys cl \<and>
    CreateSession rnd now (sm_runs ops (NewSessionManager sc)) = (Inl MaxSessionsReached, sm_runs ops (NewSessionManager sc)) \<and>
    tp_posts (c_transport (snd (Run nt stdin c))) = []"
proof (intro conjI)
  have "sm_maxSessions (sm_runs ops (NewSessionManager sc)) < 0"
    using assms(1) by (simp add: sm_runs_max NewSessionManager_def)
  then show "CreateSession rnd now (sm_runs ops (NewSessionManager sc)) = (Inl MaxSessionsReached, sm_runs ops (NewSessionManager sc))"
    by (simp add: CreateSession_def)
  have new: "one_config c" "c_retry c = cc_Retry cfg" "tp_posts (c_transport c) = []" "\<not> c_closed c"
    using assms(2) by (auto simp: NewClient_def NewTransport_def one_config_def split: if_splits option.splits sum.splits)
  then have "rounds c = 0" using assms(3,4) by (simp add: max_attempts_def)
  then show "tp_posts (c_transport (snd (Run nt stdin c))) = []"
    using run_loop_caused [OF new(1), of "ReadMessages stdin" nt 0] new by (auto simp: Run_def caused_def grew_def)
qed (simp_all add: validateServer_def validateClient_def)

section \<open>Samples\<close>

definition sample_retry_client :: client_config where
  "sample_retry_client = plain_config\<lparr>cc_Retry := plain_retry\<lparr>rc_MaxRetries := -1\<rparr>\<rparr>"

theorem negative_limits_disable_witness:
  "\<exists>c. NewClient None None (Some sample_retry_client) = Inr c \<and>
     tp_posts (c_transport (snd (Run down_net (byte_reads (''[]'' @ [LF])) c))) = [] \<and>
     fst (CreateSession [Some [CHR ''a'']] 0 (sm_runs [OpCreate [Some [CHR ''a'']] 0]
       (NewSessionManager \<lparr>sc_Enabled = True, sc_MaxSessions = -1, sc_Timeout = 0, sc_CleanupInterval = 0\<rparr>))) =
       Inl MaxSessionsReached"
proof -
  let ?sc = "\<lparr>sc_Enabled = True, sc_MaxSessions = -1, sc_Timeout = 0, sc_CleanupInterval = 0\<rparr>"
  obtain c where c: "NewClient None None (Some sample_retry_client) = Inr c"
    by (simp add: sample_retry_client_def NewClient_def NewTransport_def plain_config_def)
  have "sc_MaxSessions ?sc < 0" "rc_Enabled (cc_Retry sample_retry_client)" "rc_MaxRetries (cc_Retry sample_retry_client) < 0"
    by (simp_all add: sample_retry_client_def plain_retry_def)
  from negative_limits_disable [OF this(1) c this(2,3), where nt = down_net and stdin = "byte_reads (''[]'' @ [LF])"
      and rnd = "[Some [CHR ''a'']]" and now = 0 and ops = "[OpCreate [Some [CHR ''a'']] 0]"]
  show ?thesis using c by simp
qed

text \<open>A client that logs in at the sample server.\<close>

definition sample_client_auth :: oauth_auth where
  "sample_client_auth = new_oauth_auth False
     \<lparr>oac_DiscoveryURL = [], oac_AuthorizationURL = ''http://localhost/a'', oac_TokenURL = ''http://localhost/t'',
      oac_ClientID = ''client'', oac_ClientSecret = [], oac_Scopes = [''mcp''], oac_IntrospectionURL = [], oac_JWKSURL = [],
      oac_Resource = [], oac_UsePKCE = True, oac_HTTPTimeout = 0\<rparr>"

theorem exchange_not_retriable_witness:
  "isl (fst (ExchangeAuthorizationCode (\<lambda>_. NoReply)
     (\<lambda>url form. token_call (fst (token_ServeHTTP sample_oauth (\<lambda>_. None) (sample_env 1 []) MPost (Some form) (sample_live fmempty))))
     0 ''c'' ''u'' (snd (ExchangeAuthorizationCode (\<lambda>_. NoReply) (\<lambda>_ _. NoReply) 0 ''c'' ''u'' sample_client_auth))))"
  using exchange_not_retriable [of sample_client_auth "''c''" "''u''", where get = "\<lambda>_. NoReply" and now = 0 and
      cfg = sample_oauth and sign = "\<lambda>_. None" and e = "sample_env 1 []" and st = "sample_live fmempty" and later = 0]
  by (simp add: sample_client_auth_def new_oauth_auth_def split_def)

lemma sample_scopes:
  "granted_scopes sample_oauth sample_user (join_with '' '' (oac_Scopes (oa_config sample_client_auth))) = [''mcp'']"
  by code_simp

lemma sample_fits:
  "length (token_body (tokens_for sample_oauth sample_user (oa_config sample_client_auth) ''t'' [CHR 0x02])) \<le> 2 ^ 20"
proof -
  have s: "show_json (JText ''t'') = [quote_char] @ ''t'' @ [quote_char]" "show_json (JText ''Bearer'') = [quote_char] @ ''Bearer'' @ [quote_char]"
    "show_json (JText ''mcp'') = [quote_char] @ ''mcp'' @ [quote_char]" "show_int 3600 = ''3600''"
    "show_json (JText (encodeBase64URL [CHR 0x02])) = [quote_char] @ ''Ag'' @ [quote_char]"
    by code_simp+
  have "whole_seconds (oc_TokenLifetime sample_oauth) = 3600" by (simp add: sample_oauth_def whole_seconds_def second_def)
  moreover have "encodeBase64URL [CHR 0x02] \<noteq> []" by (simp add: Let_def)
  ultimately show ?thesis
    by (simp add: token_body_def token_json_def text_member_def tokens_for_def sample_scopes s del: encodeBase64URL.simps)
qed

theorem client_obtains_token_witness:
  "\<exists>u q oa1 req csrf st1 ps code st2 t.
     BuildAuthorizationURL (\<lambda>_. NoReply) (Some (replicate 32 CHR ''r'')) ''xyz'' ''http://localhost/cb'' sample_client_auth = (Inr (u, q), oa1) \<and>
     authorize_ServeHTTP sample_oauth sample_auth (sample_env 1 [CHR 0x01]) MGet q None (sample_live fmempty) = (LoginForm req [] csrf, st1) \<and>
     authorize_ServeHTTP sample_oauth sample_auth (sample_env 2 [CHR 0x01]) MPost [] (Some (submitted req csrf ''alice'' ''pw'')) st1 =
       (RedirectTo ''http://localhost/cb'' ps, st2) \<and> map_of ps ''code'' = Some code \<and> map_of ps ''state'' = Some ''xyz'' \<and>
     fst (ExchangeAuthorizationCode (\<lambda>_. NoReply)
       (\<lambda>url form. token_call (fst (token_ServeHTTP sample_oauth (\<lambda>_. Some ''t'') (sample_env 3 [CHR 0x02]) MPost (Some form) st2)))
       3 code ''http://localhost/cb'' oa1) = Inr t \<and> ot_AccessToken t = ''t''"
proof -
  have c: "oac_UsePKCE (oa_config sample_client_auth)" "oac_TokenURL (oa_config sample_client_auth) \<noteq> []"
    "oac_ClientID (oa_config sample_client_auth) \<noteq> []"
    by (simp_all add: sample_client_auth_def new_oauth_auth_def)
  have "url_Parse ''http://localhost/a'' \<noteq> None" by code_simp
  then obtain u q oa1 where build: "BuildAuthorizationURL (\<lambda>_. NoReply) (Some (replicate 32 CHR ''r'')) ''xyz'' ''http://localhost/cb''
      sample_client_auth = (Inr (u, q), oa1)"
    by (auto simp: BuildAuthorizationURL_def sample_client_auth_def new_oauth_auth_def SetupPKCE_def GeneratePKCEVerifier_def Let_def
        simp del: encodeBase64URL.simps)
  have t: "valid_utf8 ''t''" "valid_utf8 ''mcp''" by (rule ascii_valid, simp add: byte_in_def)+
  have k: "isAllowedRedirectURI ''http://localhost/cb'' (oc_AllowedRedirectURIs sample_oauth)"
    by (simp add: isAllowedRedirectURI_def sample_oauth_def)
  have live: "client_allows sample_oauth (sample_live fmempty) i x" "validateClientAuth sample_oauth (sample_live fmempty) i x = None"
    "fmsize (mem_authCodes (os_storage (sample_live fmempty))) < maxAuthCodes"
    "fmsize (mem_refreshTokens (os_storage (sample_live fmempty))) < maxRefreshTokens" for i x
    by (simp_all add: sample_live_client sample_live_sizes maxAuthCodes_def maxRefreshTokens_def)
  have env: "ee_csrf (sample_env 1 [CHR 0x01]) = Some [CHR 0x01]" "ee_value (sample_env 2 [CHR 0x01]) = Some [CHR 0x01]"
    "ee_value (sample_env 3 [CHR 0x02]) = Some [CHR 0x02]" "[CHR 0x01] \<noteq> []"
    "ee_now (sample_env 2 [CHR 0x01]) < ee_later (sample_env 1 [CHR 0x01]) + csrfTokenExpiry"
    "ee_now (sample_env 3 [CHR 0x02]) \<le> ee_later (sample_env 2 [CHR 0x01]) + oc_AuthCodeLifetime sample_oauth"
    "second \<le> oc_TokenLifetime sample_oauth" "oc_TokenLifetime sample_oauth < 2 ^ 63"
    by (simp_all add: sample_env_sel csrfTokenExpiry_def sample_oauth_def second_def)
  have more: "''http://localhost/cb'' \<noteq> []" "url_Parse ''http://localhost/cb'' \<noteq> None" "''alice'' \<noteq> []" "''pw'' \<noteq> []"
    "sample_auth ''alice'' ''pw'' = Some sample_user" "length (replicate 32 CHR ''r'') = 32"
    by (simp_all add: parse_sample_uri sample_auth_def)
  have scope: "valid_utf8 (join_with '' '' (granted_scopes sample_oauth sample_user (join_with '' '' (oac_Scopes (oa_config sample_client_auth)))))"
    unfolding sample_scopes using t(2) by simp
  from client_obtains_token [where token = "\<lambda>_. ''t''" and sign = "\<lambda>_. Some ''t''" and now = 3 and auth = sample_auth and
      name = "''alice''" and password = "''pw''", OF build c(1) more(6) c(2) k more(1,2) c(3) live(1,2) more(3-5) live(3,4) env(1,4,2,4,3,5,6) refl t(1)
      sample_fits scope env(7,8)] build
  show ?thesis by fastforce
qed

end
