(* ===== verification/Spec2Isabelle.thy ===== *)
theory Spec2Isabelle
  imports Sse_Stream Stdio_Lines Codec Mcp_Handler Mcp_Types Bridge_Flow
begin

text \<open>
  The pgEdge MCP bridge.

  The program carries messages of the Model Context Protocol (JSON-RPC 2.0) between a subprocess that
  speaks them over its standard streams, one message a line, and clients that speak HTTP.  In server
  mode it runs the subprocess, restarts it, keeps sessions, answers POSTs with the responses of the
  subprocess and sends its notifications as server-sent events; it checks bearer or OAuth tokens in
  front of that and can be its own authorization server, with users of its own or with a federated
  login at an OpenID provider.  In client mode it reads messages from its standard input, posts them to
  such a server with retries, and writes the answers to its standard output.  One configuration file
  says which of the two it is.

  This development models the Go code of the program (\<open>internal/\<close> and \<open>cmd/\<close>), function by function,
  and proves what the parts promise and what they do together.  Definitions bear the names of the code
  (with a prefix where a name is taken); a struct is a record, an enumeration a datatype, a Go \<open>int\<close>
  or duration an \<open>int\<close> with the wrap-around written out where it can occur (token expiry), a string the
  list of its bytes.  An operation takes the state and returns it changed; an error is a value of a sum
  or option type; what a call meets outside (the clock, random bytes, a write that fails half way, the
  exit of a process, an HTTP answer) is an argument or an outcome.  Critical sections that the code
  runs under separate locks, and phases between which it waits, are separate definitions, and step
  relations interleave them arbitrarily.

  \<^bold>\<open>Texts and data.\<close>
  \<open>Bridge_Prelude\<close>: bytes, lines, instants, and the facts on lists and maps the components share.
  \<open>Go_Strings\<close>, \<open>Go_Url\<close>, \<open>Go_Literals\<close>, \<open>Go_Json\<close>: what the code uses of \<open>strings\<close>, \<open>net/url\<close>,
  \<open>strconv\<close>, \<open>unicode/utf8\<close> and \<open>encoding/json\<close>, as parsers and printers on bytes, with the lemma that a
  printed JSON text is read back and holds no line break.
  \<open>Jsonrpc\<close> (\<open>protocol/jsonrpc.go\<close>): identifiers, requests, responses, notifications, classification; what
  is encoded is decoded and classified as the same.
  \<open>Mcp_Types\<close> (\<open>protocol/mcp.go\<close>): contents, resources, prompts, progress tokens and their JSON.
  \<open>Codec\<close> (\<open>protocol/codec.go\<close>): framing with a size limit, batches; requests written are read back.
  \<open>Stdio_Lines\<close> (\<open>process/stdio.go\<close>, \<open>client/stdio.go\<close>): the pipes of the subprocess and the standard
  streams of the client; messages cross them intact in both directions.
  \<open>Sse_Stream\<close> (\<open>server/sse.go\<close>, \<open>client/sse_reader.go\<close>): writer and reader of server-sent events; events
  written are events read, and the client's loop yields the data of exactly the message events.

  \<^bold>\<open>The server.\<close>
  \<open>Process_Manager\<close> (\<open>process/manager.go\<close>): the critical sections of callers and of the monitor goroutine
  as one step relation; restarts are bounded, nothing starts after a close, and a closed manager winds
  down to a state without processes and goroutines.
  \<open>Sessions\<close> (\<open>server/session.go\<close>): the manager over a heap of session objects; a soundness invariant for
  all sequences of operations, and the interleavings of queueing and closing under the session's lock.
  \<open>Mcp_Handler\<close> (\<open>server/handler.go\<close>): the handler, its read loop, the pending requests, event streams; a
  posted request is forwarded as one line and answered with the bytes of its response.
  \<open>Http_Routes\<close> and \<open>Http_Server\<close> (\<open>server/server.go\<close>, \<open>cors/cors.go\<close>): construction, routes and the chain
  of middleware, then the life of the server with all interleavings of starts, stops, requests and
  goroutines.  Every step of the server is at most one step of the process manager's relation (a
  simulation), so the facts of the manager hold of the running server.

  \<^bold>\<open>Authentication.\<close>
  \<open>Auth_Requests\<close>, \<open>Auth_Middleware\<close> (\<open>auth/\<close>): both authenticators in both modes, errors, principals, the
  code flow of a client, the middleware.  \<open>Tls\<close> (\<open>tls/\<close>): the settings of both sides.

  \<^bold>\<open>The authorization server\<close> (\<open>authserver/\<close>).
  \<open>Pkce\<close>: SHA-256 and base64url are computed, so the validators are compared with what RFC 7636 demands.
  \<open>Auth_Storage\<close>: codes, refresh tokens and clients in bounded maps, as interpretations of one locale for
  a store with expiry.  \<open>Rate_Limiter\<close>: fixed windows per address.  \<open>Oauth_Authorize\<close>, \<open>Oauth_Token\<close>: the
  authorization endpoint, the token endpoint, registration and metadata.  \<open>Oauth_Server\<close>: routes and
  runs of the server; every token stems from a login and a proof of the verifier, codes are used once
  when requests run one after the other.  \<open>Oidc\<close>, \<open>Federated\<close>: discovery, key sets, identity tokens and the
  callback; every code stems from a token the provider has signed for the same request.
  \<open>Oauth_Setup\<close>: signing keys, branding and the construction of the server from its configuration.

  \<^bold>\<open>The client\<close> (\<open>client/\<close>).
  \<open>Client_Transport\<close>: requests with retries and delays against an oracle of the network.  \<open>Client\<close>: the
  loop over standard input in both modes.  While everything works a run refines an abstract exchange
  of messages; in any case requests and delays are bounded and notifications stay silent.

  \<^bold>\<open>The whole.\<close>
  \<open>Config_Types\<close>, \<open>Config\<close> (\<open>config/\<close>): the configuration, defaults, validation, expansion of variables.
  \<open>Logging\<close> (\<open>logging/logger.go\<close>): levels, both formats, fields; what a JSON log says.
  \<open>Bridge_Main\<close> (\<open>cmd/mcp-bridge/main.go\<close>): command line, start-up, exit status; authentication that is
  configured is there when the server is.  \<open>Bridge_Flow\<close>: the client's authenticator against the
  authorization server, from the address it builds to the token it holds, through the texts that
  cross the wire; and the settings that nothing checks.

  \<^bold>\<open>Properties.\<close>  Next to the properties above there are theorems that say where the code does not do what
  it means to do, each for every state in which it happens, with a concrete one as its witness: identifiers
  of different sessions collide, a stop does not cancel a restart, a code is redeemed twice by
  overlapping exchanges, retries multiply, preflights are refused, a start that is overtaken by a stop
  leaves a server that calls itself running, a subprocess that failed for good ends the program with
  status 0, an exchange that was lost cannot be repeated.

  \<^bold>\<open>Recursion and bounds.\<close>  All functions are total: loops over input recurse on the bytes that are left,
  parsers on a depth, which starts at the limit of 10000 that Go's decoder has, and retries on the number
  of attempts that are left.  No fuel is used elsewhere.  Runs of components are finite sequences of steps,
  of any length.

  \<^bold>\<open>Parameters.\<close>  Code that is not in the repository is an argument: the YAML decoder, bcrypt, RSA
  verification and the signing of tokens, the verifier and the token source of the OAuth libraries, the
  CORS library, the certificate loader, the HTTP answers of other servers.  Where a theorem relies on
  one it says so in a hypothesis (a claim is signed, a password matches its hash), and its witness gives
  a concrete one.

  \<^bold>\<open>Not modelled.\<close>  The markup and style of the login page (its fields are); the texts of usage and version;
  the package's default logger, whose functions forward to a logger; accessors that return a field and
  constructors that fill one; JSON schemas, tools and capabilities of the protocol, which the bridge does not look
  into; timeouts of connections and the buffering of Go's readers, which appear as outcomes only.
\<close>

end
